(* ===== verification/Prelude.thy ===== *)
theory Prelude
  imports Main "HOL-Library.AList"
begin

text \<open>
  The Python value layer shared by every component. The compiler in
  \<^verbatim>\<open>src/POCs/salt/statepreparation.py\<close> is dynamically typed Python 2: a step is a
  JSON-decoded dictionary whose values may be strings, integers, lists or nested
  dictionaries, and the handlers build the emitted Salt states as dictionaries and
  lists again. This theory models those values (\<open>pyval\<close>), the exceptions the code
  can raise (\<open>pyerr\<close>, an error of the sum type \<open>pyerr + 'a\<close>), Python truthiness,
  dictionary access and assignment in insertion order (an association list updated
  with \<open>AList.update\<close>), and the builtins the code calls (\<open>str\<close>, \<open>in\<close>,
  \<open>.items()\<close>, \<open>.replace\<close>, \<open>.endswith\<close>, \<open>.split\<close>, \<open>.strip\<close>).
\<close>

named_theorems py_simps "evaluation rules of the Python value layer"

section \<open>Values and exceptions\<close>

datatype pyerr = KeyError | TypeError | NameError | AttributeError | IndexError
  | ValueError | RuntimeError | IOError | OSError
  | SaltInvocationError | CommandExecutionError | GenericException
  | ManagerInvalidStatesRepoException | CalledProcessError

datatype pyval =
    PNone
  | PBool bool
  | PInt int
  | PStr string
  | PList "pyval list"
  | PDict "(string \<times> pyval) list"

type_synonym pdict = "(string \<times> pyval) list"
type_synonym 'a res = "pyerr + 'a"

text \<open>Indexing a dictionary or table held as an association list: a missing key
  raises KeyError.\<close>

definition map_lookup :: "('k \<times> 'v) list \<Rightarrow> 'k \<Rightarrow> 'v res" where
  "map_lookup m k = (case map_of m k of None \<Rightarrow> Inl KeyError | Some v \<Rightarrow> Inr v)"

text \<open>Sequencing of fallible computations: the first exception propagates.\<close>

definition rbind :: "'a res \<Rightarrow> ('a \<Rightarrow> 'b res) \<Rightarrow> 'b res" where
  "rbind m f = (case m of Inl e \<Rightarrow> Inl e | Inr x \<Rightarrow> f x)"

lemma rbind_Inl [simp, py_simps]: "rbind (Inl e) f = Inl e"
  by (simp add: rbind_def)

lemma rbind_Inr [simp, py_simps]: "rbind (Inr x) f = f x"
  by (simp add: rbind_def)

text \<open>A \<^verbatim>\<open>for\<close> loop whose body may raise: the body maps the loop state and
  one item to the next state.\<close>

fun py_for :: "('s \<Rightarrow> 'a \<Rightarrow> 's res) \<Rightarrow> 'a list \<Rightarrow> 's \<Rightarrow> 's res" where
  "py_for body [] s = Inr s"
| "py_for body (x # xs) s = rbind (body s x) (py_for body xs)"

lemma py_for_append: "py_for body (xs @ ys) s = rbind (py_for body xs s) (py_for body ys)"
  by (induction xs arbitrary: s) (auto simp: rbind_def split: sum.splits)

lemma rbind_eq_Inr: "rbind m f = Inr y \<longleftrightarrow> (\<exists>x. m = Inr x \<and> f x = Inr y)"
  by (cases m) auto

lemma rbind_eq_Inl: "rbind m f = Inl e \<longleftrightarrow> m = Inl e \<or> (\<exists>x. m = Inr x \<and> f x = Inl e)"
  by (cases m) auto

section \<open>Truthiness and type tests\<close>

text \<open>\<^verbatim>\<open>if not value: continue\<close>: the falsy values are \<open>None\<close>, \<open>False\<close>, \<open>0\<close>
  and the empty string, list and dictionary.\<close>

fun truthy :: "pyval \<Rightarrow> bool" where
  "truthy PNone = False"
| "truthy (PBool b) = b"
| "truthy (PInt i) = (i \<noteq> 0)"
| "truthy (PStr s) = (s \<noteq> [])"
| "truthy (PList xs) = (xs \<noteq> [])"
| "truthy (PDict d) = (d \<noteq> [])"

fun is_dict :: "pyval \<Rightarrow> bool" where
  "is_dict (PDict _) = True"
| "is_dict _ = False"

fun is_list :: "pyval \<Rightarrow> bool" where
  "is_list (PList _) = True"
| "is_list _ = False"

fun is_str :: "pyval \<Rightarrow> bool" where
  "is_str (PStr _) = True"
| "is_str _ = False"

text \<open>\<^verbatim>\<open>True if value == 'True' else False\<close>, the code's coercion of a flag.\<close>

definition py_flag :: "pyval \<Rightarrow> pyval" where
  "py_flag v = PBool (v = PStr ''True'')"

section \<open>Dictionaries\<close>

text \<open>\<^verbatim>\<open>d[k]\<close> raises KeyError for a missing key and TypeError on a value that is not
  a dictionary (a string, list or number indexed by a string).\<close>

definition dict_get :: "pdict \<Rightarrow> string \<Rightarrow> pyval res" where
  "dict_get d k = (case map_of d k of None \<Rightarrow> Inl KeyError | Some v \<Rightarrow> Inr v)"

fun py_getitem :: "pyval \<Rightarrow> string \<Rightarrow> pyval res" where
  "py_getitem (PDict d) k = dict_get d k"
| "py_getitem _ k = Inl TypeError"

text \<open>\<^verbatim>\<open>d[k] = v\<close>: an existing key keeps its position, a new one is appended.\<close>

abbreviation dict_set :: "pdict \<Rightarrow> string \<Rightarrow> pyval \<Rightarrow> pdict" where
  "dict_set d k v \<equiv> AList.update k v d"

text \<open>\<^verbatim>\<open>d.update(e)\<close>: every item of \<open>e\<close> assigned into \<open>d\<close> in order.\<close>

definition dict_merge :: "pdict \<Rightarrow> pdict \<Rightarrow> pdict" where
  "dict_merge d e = foldl (\<lambda>acc (k, v). AList.update k v acc) d e"

text \<open>\<^verbatim>\<open>k in v\<close> for a string \<open>k\<close>: key membership for a dictionary, element
  membership for a list, substring for a string; other values are not iterable.\<close>

definition is_infix :: "string \<Rightarrow> string \<Rightarrow> bool" where
  "is_infix k s = list_ex (\<lambda>i. take (length k) (drop i s) = k) [0..<Suc (length s)]"

fun py_contains :: "pyval \<Rightarrow> string \<Rightarrow> bool res" where
  "py_contains (PDict d) k = Inr (map_of d k \<noteq> None)"
| "py_contains (PList xs) k = Inr (PStr k \<in> set xs)"
| "py_contains (PStr s) k = Inr (is_infix k s)"
| "py_contains _ k = Inl TypeError"

text \<open>\<^verbatim>\<open>v.items()\<close>: only dictionaries have it.\<close>

fun py_items :: "pyval \<Rightarrow> pdict res" where
  "py_items (PDict d) = Inr d"
| "py_items _ = Inl AttributeError"

lemma dict_get_Inr_iff [py_simps]: "dict_get d k = Inr v \<longleftrightarrow> map_of d k = Some v"
  by (simp add: dict_get_def split: option.splits)

lemma dict_get_Inl_iff [py_simps]: "dict_get d k = Inl e \<longleftrightarrow> map_of d k = None \<and> e = KeyError"
  by (auto simp add: dict_get_def split: option.splits)

declare dict_get_def [py_simps]

text \<open>A later item of \<open>e\<close> overrides an earlier one, hence the \<open>rev\<close>.\<close>

lemma map_of_dict_merge [py_simps]:
  "map_of (dict_merge d e) = map_of d ++ map_of (rev e)"
proof (induction e arbitrary: d)
  case Nil
  then show ?case by (simp add: dict_merge_def)
next
  case (Cons p e)
  obtain k v where p: "p = (k, v)" by (cases p)
  have "map_of (dict_merge d (p # e)) = map_of (dict_merge (AList.update k v d) e)"
    by (simp add: dict_merge_def p)
  also have "\<dots> = (map_of d)(k \<mapsto> v) ++ map_of (rev e)"
    using Cons.IH by (simp add: update_conv' fun_upd_def)
  also have "\<dots> = map_of d ++ map_of (rev (p # e))"
    by (rule ext) (simp add: p map_add_def split: option.splits)
  finally show ?case .
qed

section \<open>Strings\<close>

text \<open>\<^verbatim>\<open>sep.join(ws)\<close>.\<close>

fun py_join :: "string \<Rightarrow> string list \<Rightarrow> string" where
  "py_join sep [] = []"
| "py_join sep [w] = w"
| "py_join sep (w # ws) = w @ sep @ py_join sep ws"

lemma py_join_Cons_Cons [simp]: "py_join sep ((x # w) # ws) = x # py_join sep (w # ws)"
  by (cases ws) auto

text \<open>\<^verbatim>\<open>str(n)\<close> of a non-negative integer: its decimal digits.\<close>

fun nat_str :: "nat \<Rightarrow> string" where
  "nat_str n =
     (if n < 10 then [''0123456789'' ! n] else nat_str (n div 10) @ [''0123456789'' ! (n mod 10)])"

declare nat_str.simps [simp del]

definition int_str :: "int \<Rightarrow> string" where
  "int_str i = (if i < 0 then CHR ''-'' # nat_str (nat (- i)) else nat_str (nat i))"

text \<open>
  \<^verbatim>\<open>str(v)\<close>. Strings decoded from JSON are Python 2 \<open>unicode\<close> objects, so a string
  inside a container prints with the \<open>u'...'\<close> prefix; dictionaries print in the
  order of their association list, and escapes inside quoted strings are not modelled.
\<close>

fun py_repr :: "pyval \<Rightarrow> string" where
  "py_repr PNone = ''None''"
| "py_repr (PBool b) = (if b then ''True'' else ''False'')"
| "py_repr (PInt i) = int_str i"
| "py_repr (PStr s) = ''u'' @ [CHR 0x27] @ s @ [CHR 0x27]"
| "py_repr (PList xs) = ''['' @ py_join '', '' (map py_repr xs) @ '']''"
| "py_repr (PDict d) =
     ''{'' @ py_join '', ''
        (map (\<lambda>kv. ''u'' @ [CHR 0x27] @ fst kv @ [CHR 0x27] @ '': '' @ py_repr (snd kv)) d) @ ''}''"

fun py_str :: "pyval \<Rightarrow> string" where
  "py_str (PStr s) = s"
| "py_str v = py_repr v"

text \<open>\<^verbatim>\<open>s.replace('.', '_')\<close>.\<close>

definition dots_to_underscores :: "string \<Rightarrow> string" where
  "dots_to_underscores s = map (\<lambda>c. if c = CHR ''.'' then CHR ''_'' else c) s"

text \<open>\<^verbatim>\<open>s.endswith(t)\<close>.\<close>

definition ends_with :: "string \<Rightarrow> string \<Rightarrow> bool" where
  "ends_with s t = (length t \<le> length s \<and> drop (length s - length t) s = t)"

text \<open>\<^verbatim>\<open>s.split(c)\<close> for a one-character separator: the pieces between separators,
  empty pieces included (\<open>''a-''\<close> splits into \<open>''a''\<close> and \<open>''''\<close>).\<close>

fun split_on :: "char \<Rightarrow> string \<Rightarrow> string list" where
  "split_on c [] = [[]]"
| "split_on c (x # xs) =
     (if x = c then [] # split_on c xs
      else (case split_on c xs of w # ws \<Rightarrow> (x # w) # ws | [] \<Rightarrow> [[x]]))"

text \<open>\<^verbatim>\<open>s.strip()\<close> on a unicode string: the ASCII characters for which
  \<^verbatim>\<open>isspace()\<close> holds are removed from both ends.\<close>

definition py_space :: "char \<Rightarrow> bool" where
  "py_space c = (let n = of_char c :: nat in (9 \<le> n \<and> n \<le> 13) \<or> (28 \<le> n \<and> n \<le> 32))"

definition py_strip :: "string \<Rightarrow> string" where
  "py_strip s = rev (dropWhile py_space (rev (dropWhile py_space s)))"

text \<open>\<^verbatim>\<open>xs[i]\<close> for a list and a non-negative index.\<close>

definition py_index :: "'a list \<Rightarrow> nat \<Rightarrow> 'a res" where
  "py_index xs i = (if i < length xs then Inr (xs ! i) else Inl IndexError)"

text \<open>Python 2 byte strings (\<^verbatim>\<open>str\<close>, as read from a file or a subprocess):
  \<^verbatim>\<open>str.strip()\<close> and \<^verbatim>\<open>str.split()\<close> treat as whitespace only the ASCII
  characters \<open>\t \n \v \f \r\<close> and space; \<^verbatim>\<open>s.startswith(p)\<close>.\<close>

definition nl :: char where
  "nl = CHR ''\<newline>''"

definition byte_space :: "char \<Rightarrow> bool" where
  "byte_space c = (let n = of_char c :: nat in (9 \<le> n \<and> n \<le> 13) \<or> n = 32)"

definition bstrip :: "string \<Rightarrow> string" where
  "bstrip s = rev (dropWhile byte_space (rev (dropWhile byte_space s)))"

definition starts_with :: "string \<Rightarrow> string \<Rightarrow> bool" where
  "starts_with s p = (take (length p) s = p)"

text \<open>\<^verbatim>\<open>s.split()\<close> with no separator on a byte string: the maximal runs of
  non-whitespace characters, so leading, trailing and repeated whitespace give no
  empty pieces.\<close>

fun split_when :: "('a \<Rightarrow> bool) \<Rightarrow> 'a list \<Rightarrow> 'a list list" where
  "split_when P [] = [[]]"
| "split_when P (x # xs) =
     (if P x then [] # split_when P xs
      else (case split_when P xs of w # ws \<Rightarrow> (x # w) # ws | [] \<Rightarrow> [[x]]))"

definition py_words :: "string \<Rightarrow> string list" where
  "py_words s = filter (\<lambda>w. w \<noteq> []) (split_when byte_space s)"

definition cr :: char where
  "cr = CHR 0x0D"

definition dq :: char where
  "dq = CHR 0x22"

text \<open>\<^verbatim>\<open>s.splitlines()\<close> on a byte string: lines end at \<open>\n\<close>, \<open>\r\<close> or \<open>\r\n\<close>, the
  terminators are dropped, and a final terminator gives no empty last line.\<close>

fun splitlines_from :: "string \<Rightarrow> string \<Rightarrow> string list" where
  "splitlines_from cur [] = (if cur = [] then [] else [cur])"
| "splitlines_from cur (c # s) =
     (if c = nl then cur # splitlines_from [] s
      else if c = cr then
        (case s of
           [] \<Rightarrow> [cur]
         | c2 # s' \<Rightarrow> if c2 = nl then cur # splitlines_from [] s' else cur # splitlines_from [] s)
      else splitlines_from (cur @ [c]) s)"

definition py_splitlines :: "string \<Rightarrow> string list" where
  "py_splitlines s = splitlines_from [] s"

section \<open>Shared lemmas\<close>

lemma split_on_nonempty [simp]: "split_on c s \<noteq> []"
  by (induction s) (auto split: list.splits)

lemma split_on_join: "py_join [c] (split_on c s) = s"
proof (induction s)
  case Nil
  then show ?case by simp
next
  case (Cons x xs)
  then show ?case
    by (cases "split_on c xs") (auto split: list.splits)
qed

lemma split_on_pieces: "w \<in> set (split_on c s) \<Longrightarrow> c \<notin> set w"
proof (induction s arbitrary: w)
  case Nil
  then show ?case by simp
next
  case (Cons x xs)
  then show ?case
    by (cases "split_on c xs") (auto split: if_splits)
qed

lemma split_on_append_sep:
  "c \<notin> set a \<Longrightarrow> split_on c (a @ c # b) = a # split_on c b"
  by (induction a) auto

lemma split_on_no_sep: "c \<notin> set a \<Longrightarrow> split_on c a = [a]"
  by (induction a) auto

lemma py_strip_id:
  "s = [] \<or> (\<not> py_space (hd s) \<and> \<not> py_space (last s)) \<Longrightarrow> py_strip s = s"
proof (cases s rule: rev_cases)
  case Nil
  then show ?thesis by (simp add: py_strip_def)
next
  case (snoc ys y)
  assume "s = [] \<or> (\<not> py_space (hd s) \<and> \<not> py_space (last s))"
  with snoc have h: "\<not> py_space (hd (ys @ [y]))" and l: "\<not> py_space y" by auto
  from h have "dropWhile py_space (ys @ [y]) = ys @ [y]"
    by (cases ys) auto
  with l snoc show ?thesis by (simp add: py_strip_def)
qed

lemma ends_with_append [simp]: "ends_with (s @ t) t"
  by (simp add: ends_with_def)

lemma ends_with_iff: "ends_with s t \<longleftrightarrow> (\<exists>p. s = p @ t)"
proof
  assume "ends_with s t"
  then have "s = take (length s - length t) s @ t"
    unfolding ends_with_def by (metis append_take_drop_id)
  then show "\<exists>p. s = p @ t" by blast
qed auto

text \<open>Association lists built and changed at their end, and loops that keep an invariant.\<close>

lemma update_absent: "map_of d k = None \<Longrightarrow> AList.update k v d = d @ [(k, v)]"
  by (induction d) auto

lemma update_snoc: "map_of d k = None \<Longrightarrow> AList.update k v (d @ [(k, v')]) = d @ [(k, v)]"
  by (induction d) auto

lemma delete_snoc_same: "map_of kvs k = None \<Longrightarrow> AList.delete k (kvs @ [(k, v)]) = kvs"
  by (induction kvs) auto

lemma delete_absent: "map_of d k = None \<Longrightarrow> AList.delete k d = d"
  by (simp add: map_of_eq_None_iff)

lemma set_update_cases: "x \<in> set (AList.update k v al) \<Longrightarrow> x = (k, v) \<or> x \<in> set al"
  by (induction al) (auto split: if_splits)

lemma py_for_invariant:
  assumes "\<And>s x s'. P s \<Longrightarrow> x \<in> set xs \<Longrightarrow> body s x = Inr s' \<Longrightarrow> P s'" "P s0" "py_for body xs s0 = Inr s"
  shows "P s"
  using assms
proof (induction xs arbitrary: s0)
  case Nil
  then show ?case by simp
next
  case (Cons x xs)
  show ?case
  proof (cases "body s0 x")
    case (Inl e)
    then show ?thesis using Cons.prems(3) by simp
  next
    case (Inr s1)
    have rest: "py_for body xs s1 = Inr s"
      using Cons.prems(3) Inr by simp
    have p1: "P s1"
      using Cons.prems(1) [of s0 x s1] Cons.prems(2) Inr by simp
    have step: "P t'" if "P t" "y \<in> set xs" "body t y = Inr t'" for t y t'
      using Cons.prems(1) [of t y t'] that by simp
    show ?thesis
      by (rule Cons.IH [OF step p1 rest])
  qed
qed

lemma map_of_filter_None: "map_of xs k = None \<Longrightarrow> map_of (filter P xs) k = None"
  by (induction xs) auto

end
