(* ===== verification/Tag.thy ===== *)
theory Tag
  imports Prelude
begin

text \<open>
  The three helpers of \<^verbatim>\<open>StatePreparation\<close> that every handler calls
  (\<^verbatim>\<open>src/POCs/salt/statepreparation.py\<close>): the tag generator \<^verbatim>\<open>__get_tag\<close>, the
  module-type check \<^verbatim>\<open>__state_check\<close> with its table \<^verbatim>\<open>type_map\<close>, and the
  prerequisite resolver \<^verbatim>\<open>__get_requisity\<close> with the class table
  \<^verbatim>\<open>requisity_map\<close>. Their lemmas give the exact shape of a tag, its injectivity in
  the resource name, a collision between distinct inputs, and the fact that the
  resolver raises KeyError for every package kind.
\<close>

section \<open>Tag generator\<close>

text \<open>
  \<^verbatim>\<open>__get_tag(module, uid, step, name, state)\<close>. Every argument is converted with
  \<^verbatim>\<open>str\<close> when it is not a string, except \<open>uid\<close>: the code tests
  \<^verbatim>\<open>isinstance(step, basestring)\<close> before converting \<open>uid\<close>, so a non-string
  \<open>uid\<close> next to a truthy \<open>step\<close> reaches the concatenation unconverted and raises
  TypeError.
\<close>

definition get_tag :: "pyval \<Rightarrow> pyval \<Rightarrow> pyval \<Rightarrow> pyval \<Rightarrow> pyval \<Rightarrow> string res" where
  "get_tag module uid step name state =
     (let tag0 = dots_to_underscores (py_str module);
          step' = (if truthy step then PStr (py_str step) else step);
          tag1 = (if truthy step then py_str step @ ''_'' @ tag0 else tag0);
          add_name = (\<lambda>t. if truthy name then t @ ''_'' @ py_str name else t);
          add_state = (\<lambda>t. if truthy state then t @ ''_'' @ py_str state else t)
      in if truthy uid then
           (case (if is_str step' then uid else PStr (py_str uid)) of
              PStr u \<Rightarrow> Inr (''_'' @ add_state (add_name (u @ ''_'' @ tag1)))
            | _ \<Rightarrow> Inl TypeError)
         else Inr (''_'' @ add_state (add_name tag1)))"

text \<open>The tag of string arguments, written out: a leading underscore, then the
  non-empty parts joined by underscores.\<close>

definition tag_part :: "string \<Rightarrow> string" where
  "tag_part s = (if s = [] then [] else s @ ''_'')"

definition tag_suffix :: "string \<Rightarrow> string" where
  "tag_suffix s = (if s = [] then [] else ''_'' @ s)"

definition str_tag :: "string \<Rightarrow> string \<Rightarrow> string \<Rightarrow> string \<Rightarrow> string \<Rightarrow> string" where
  "str_tag m u s n st = ''_'' @ tag_part u @ tag_part s @ dots_to_underscores m @ tag_suffix n @ tag_suffix st"

section \<open>Module-type check\<close>

text \<open>\<^verbatim>\<open>__state_check(state, type)\<close>: 0 when \<open>type\<close> is listed for the family
  \<open>state\<close> in \<^verbatim>\<open>type_map\<close>, 2 otherwise.\<close>

definition type_map :: "(string \<times> string list) list" where
  "type_map =
     [(''package'', [''pkg'', ''gem'', ''npm'', ''pecl'', ''pip'']),
      (''repository'', [''apt'', ''yum'', ''gem'', ''zypper'']),
      (''file'', [''file'', ''directory'', ''symlink'']),
      (''scm'', [''git'', ''svn'', ''hg'']),
      (''service'', [''supervisord'', ''sysvinit'', ''upstart'']),
      (''sys'', [''cmd'', ''cron'', ''group'', ''host'', ''mount'', ''ntp'', ''selinux'', ''user'',
               ''ssh_auth'', ''ssh_known_hosts''])]"

definition state_check :: "string \<Rightarrow> string \<Rightarrow> int" where
  "state_check state type =
     (case map_of type_map state of
        None \<Rightarrow> 2
      | Some types \<Rightarrow> if type \<in> set types then 0 else 2)"

section \<open>Prerequisite resolver\<close>

text \<open>\<^verbatim>\<open>requisity_map\<close>, a class attribute: the package that provides each
  language package manager. Its outer key is compared with Python equality, so it
  is a \<open>pyval\<close>.\<close>

definition requisity_map :: "(pyval \<times> (string \<times> string) list) list" where
  "requisity_map = [(PStr ''pkg'', [(''npm'', ''npm''), (''pecl'', ''php-pear''), (''pip'', ''python-pip'')])]"

text \<open>
  \<^verbatim>\<open>__get_requisity(module, type)\<close>. Both locals start as \<open>None\<close>; the lookup
  \<^verbatim>\<open>self.requisity_map[state][type]\<close> indexes the table with \<open>state\<close>, which is
  still \<open>None\<close> at that point, not with \<open>module\<close>.
\<close>

definition get_requisity :: "string \<Rightarrow> string \<Rightarrow> pyval res" where
  "get_requisity module type =
     (let name = PNone; state = PNone in
      rbind (if module = ''pkg'' then
               rbind (map_lookup requisity_map state) (\<lambda>row.
               rbind (map_lookup row type) (\<lambda>n. Inr (PStr n, PStr ''installed'')))
             else Inr (name, state))
        (\<lambda>(name, state).
           if truthy name \<and> truthy state then
             rbind (get_tag (PStr (''base.'' @ module)) PNone PNone name state) (\<lambda>tag.
               Inr (PDict [(tag, PDict [(module, PList [PDict [(''name'', name)], state])])]))
           else Inr PNone))"

section \<open>Shared handler skeleton\<close>

text \<open>
  Most handlers repeat one pattern: reject a step that is not a dictionary or has no
  \<open>parameter\<close> (code 1), check the module type (code 2), scan the parameters
  skipping falsy values and mapping each attribute through an \<open>if/elif\<close> chain,
  reject a scan that found no attribute or no identifying value (code 3), and
  return \<^verbatim>\<open>{tag: {kind: [state, addin]}}\<close>. The chain of each handler is an
  \<open>attr_action\<close> function: copy the value under a key, make it the identifying
  \<open>name\<close>, copy it as a \<^verbatim>\<open>'True'\<close> flag, ignore it, or raise.
\<close>

text \<open>The guards every handler but \<^verbatim>\<open>__package\<close> starts with:
  \<^verbatim>\<open>if not isinstance(p_state, dict) or 'parameter' not in p_state: return 1\<close>, then
  \<^verbatim>\<open>if self.__state_check(family, type) != 0: return 2\<close>.\<close>

definition checked :: "string \<Rightarrow> string \<Rightarrow> pyval \<Rightarrow> pyval res \<Rightarrow> pyval res" where
  "checked family type p_state body =
     (if \<not> is_dict p_state then Inr (PInt 1) else
      rbind (py_contains p_state ''parameter'') (\<lambda>has_param.
        if \<not> has_param then Inr (PInt 1)
        else if state_check family type \<noteq> 0 then Inr (PInt 2)
        else body))"

datatype attr_action = Skip | Set string | SetIdent | SetFlag string | Fail pyerr

definition attr_step ::
  "(string \<Rightarrow> pyval \<Rightarrow> attr_action) \<Rightarrow> pdict \<times> pyval \<Rightarrow> string \<times> pyval \<Rightarrow> (pdict \<times> pyval) res" where
  "attr_step f acc item =
     (case acc of (addin, ident) \<Rightarrow> case item of (attr, value) \<Rightarrow>
      if \<not> truthy value then Inr (addin, ident)
      else (case f attr value of
              Skip \<Rightarrow> Inr (addin, ident)
            | Set k \<Rightarrow> Inr (dict_set addin k value, ident)
            | SetIdent \<Rightarrow> Inr (dict_set addin ''name'' value, value)
            | SetFlag k \<Rightarrow> Inr (dict_set addin k (py_flag value), ident)
            | Fail e \<Rightarrow> Inl e))"

definition simple_state ::
  "string \<Rightarrow> string \<Rightarrow> (string \<Rightarrow> pyval \<Rightarrow> attr_action) \<Rightarrow> string \<Rightarrow> string
   \<Rightarrow> pyval \<Rightarrow> pyval \<Rightarrow> pyval \<Rightarrow> pyval res" where
  "simple_state family type attrs kind state p_state uid step =
     checked family type p_state
      (rbind (py_getitem p_state ''parameter'') (\<lambda>param.
       rbind (py_items param) (\<lambda>items.
       rbind (py_for (attr_step attrs) items ([], PNone)) (\<lambda>(addin, ident).
       if addin = [] \<or> \<not> truthy ident then Inr (PInt 3) else
       rbind (py_getitem p_state ''module'') (\<lambda>module.
       rbind (get_tag module uid step ident (PStr state)) (\<lambda>tag.
       Inr (PDict [(tag, PDict [(kind, PList [PStr state, PDict addin])])])))))))"

section \<open>Lemmas\<close>

lemma get_tag_strings:
  "get_tag (PStr m) (PStr u) (PStr s) (PStr n) (PStr st) = Inr (str_tag m u s n st)"
  by (simp add: get_tag_def str_tag_def tag_part_def tag_suffix_def Let_def)

lemma tag_suffix_cancel:
  assumes "x @ tag_suffix n1 @ tag_suffix st = x @ tag_suffix n2 @ tag_suffix st"
  shows "n1 = n2"
proof -
  from assms have eq: "tag_suffix n1 @ tag_suffix st = tag_suffix n2 @ tag_suffix st"
    by simp
  then have "tag_suffix n1 = tag_suffix n2" by simp
  then show ?thesis
    by (auto simp add: tag_suffix_def split: if_splits)
qed

lemma get_tag_no_step: "\<exists>t. get_tag m uid PNone n st = Inr t"
  by (simp add: get_tag_def Let_def)

text \<open>C7: for fixed module, component, step and condition, two tags are equal
  exactly when the resource names are: the tag determines the
  resource name: the two records of one package step, named \<open>pkgs\<close> with the
  conditions \<open>latest\<close> and \<open>installed\<close>, or two steps naming different resources,
  never share a tag through the name alone.\<close>

theorem get_tag_name_injective:
  "(get_tag (PStr m) (PStr u) (PStr s) (PStr n1) (PStr st) =
    get_tag (PStr m) (PStr u) (PStr s) (PStr n2) (PStr st)) = (n1 = n2)"
proof
  let ?x = "''_'' @ tag_part u @ tag_part s @ dots_to_underscores m"
  assume "get_tag (PStr m) (PStr u) (PStr s) (PStr n1) (PStr st) =
          get_tag (PStr m) (PStr u) (PStr s) (PStr n2) (PStr st)"
  then have "?x @ tag_suffix n1 @ tag_suffix st = ?x @ tag_suffix n2 @ tag_suffix st"
    by (simp add: get_tag_strings str_tag_def)
  then show "n1 = n2" by (rule tag_suffix_cancel)
qed simp

theorem get_tag_name_injective_witness:
  "get_tag (PStr ''package.apt.package'') (PStr ''web'') (PStr ''1'') (PStr ''pkgs'') (PStr ''latest'') \<noteq>
   get_tag (PStr ''package.apt.package'') (PStr ''web'') (PStr ''1'') (PStr ''pkgs_'') (PStr ''latest'')"
  using get_tag_name_injective [of "''package.apt.package''" "''web''" "''1''" "''pkgs''" "''latest''" "''pkgs_''"]
  by simp

text \<open>C8: distinct inputs share a tag, for a whole family of them: the parts are
  joined by the same underscore that may occur inside a name or a condition, so
  the name \<open>a_b\<close> with condition \<open>c\<close> and the name \<open>a\<close> with condition \<open>b_c\<close>
  give one tag whenever \<open>a\<close> and \<open>c\<close> are not empty; and a module with a dot
  gives the tag of the same module with an underscore.\<close>

theorem get_tag_collision:
  assumes "a \<noteq> []" "c \<noteq> []"
  shows "(a @ ''_'' @ b, c) \<noteq> (a, b @ ''_'' @ c) \<and>
         get_tag (PStr m) (PStr u) (PStr s) (PStr (a @ ''_'' @ b)) (PStr c) =
         get_tag (PStr m) (PStr u) (PStr s) (PStr a) (PStr (b @ ''_'' @ c)) \<and>
         x @ ''.'' @ y \<noteq> x @ ''_'' @ y \<and>
         get_tag (PStr (x @ ''.'' @ y)) (PStr u) (PStr s) (PStr n) (PStr c) =
         get_tag (PStr (x @ ''_'' @ y)) (PStr u) (PStr s) (PStr n) (PStr c)"
  using assms by (simp add: get_tag_strings str_tag_def tag_suffix_def dots_to_underscores_def)

theorem get_tag_collision_witness:
  "''sys'' \<noteq> [] \<and> ''run'' \<noteq> [] \<and>
   get_tag (PStr ''sys.cmd'') (PStr ''web'') (PStr ''1'') (PStr ''a_b'') (PStr ''run'') =
   get_tag (PStr ''sys_cmd'') (PStr ''web'') (PStr ''1'') (PStr ''a'') (PStr ''b_run'')"
proof -
  have "get_tag (PStr ''sys.cmd'') (PStr ''web'') (PStr ''1'') (PStr ''a'') (PStr ''b_run'') =
        get_tag (PStr ''sys_cmd'') (PStr ''web'') (PStr ''1'') (PStr ''a'') (PStr ''b_run'')"
    using get_tag_collision [where a = "''a''" and c = "''b_run''" and x = "''sys''" and y = "''cmd''"
            and n = "''a''" and u = "''web''" and s = "''1''"] by simp
  moreover have "get_tag (PStr ''sys.cmd'') (PStr ''web'') (PStr ''1'') (PStr ''a_b'') (PStr ''run'') =
        get_tag (PStr ''sys.cmd'') (PStr ''web'') (PStr ''1'') (PStr ''a'') (PStr ''b_run'')"
    using get_tag_collision [where a = "''a''" and b = "''b''" and c = "''run''" and m = "''sys.cmd''"
            and u = "''web''" and s = "''1''"] by simp
  ultimately show ?thesis by simp
qed

lemma get_requisity_pkg: "get_requisity ''pkg'' t = Inl KeyError"
  by (simp add: get_requisity_def requisity_map_def map_lookup_def)

lemma get_requisity_other: "module \<noteq> ''pkg'' \<Longrightarrow> get_requisity module t = Inr PNone"
  by (simp add: get_requisity_def)


text \<open>The skeleton on a step whose scan succeeds or raises.\<close>

lemma simple_state_ok:
  assumes "map_of ps ''parameter'' = Some (PDict prm)"
    and "map_of ps ''module'' = Some (PStr m)"
    and "state_check family type = 0"
    and "py_for (attr_step attrs) prm ([], PNone) = Inr (addin, PStr n)"
    and "addin \<noteq> []" and "n \<noteq> []"
  shows "simple_state family type attrs kind state (PDict ps) (PStr u) (PStr s) =
     Inr (PDict [(str_tag m u s n state, PDict [(kind, PList [PStr state, PDict addin])])])"
  using assms by (simp add: simple_state_def checked_def py_simps get_tag_strings)

lemma attr_step_no_fail:
  "(\<forall>e. f a v \<noteq> Fail e) \<Longrightarrow> \<exists>acc'. attr_step f acc (a, v) = Inr acc'"
  by (cases acc; cases "f a v") (auto simp: attr_step_def)

lemma attr_scan_fail:
  assumes "truthy v" and "f a v = Fail e"
    and "\<forall>(a', v') \<in> set pre. \<forall>e'. f a' v' \<noteq> Fail e'"
  shows "py_for (attr_step f) (pre @ (a, v) # post) acc = Inl e"
  using assms(3)
proof (induction pre arbitrary: acc)
  case Nil
  then show ?case using assms(1,2) by (cases acc) (simp add: attr_step_def)
next
  case (Cons p pre)
  obtain a' v' where p: "p = (a', v')" by (cases p)
  have "\<forall>e'. f a' v' \<noteq> Fail e'" using Cons.prems p by auto
  then obtain acc' where step: "attr_step f acc (a', v') = Inr acc'"
    using attr_step_no_fail by blast
  have "\<forall>(a', v') \<in> set pre. \<forall>e'. f a' v' \<noteq> Fail e'" using Cons.prems by auto
  then have "py_for (attr_step f) (pre @ (a, v) # post) acc' = Inl e" by (rule Cons.IH)
  then show ?case using step p by simp
qed

lemma simple_state_fail:
  assumes "map_of ps ''parameter'' = Some (PDict prm)"
    and "state_check family type = 0"
    and "py_for (attr_step attrs) prm ([], PNone) = Inl e"
  shows "simple_state family type attrs kind state (PDict ps) uid step = Inl e"
  using assms by (simp add: simple_state_def checked_def py_simps)

end
