(* ===== verification/Package.thy ===== *)
theory Package
  imports Tag
begin

text \<open>
  The package and repository handlers of \<^verbatim>\<open>StatePreparation\<close>
  (\<^verbatim>\<open>src/POCs/salt/statepreparation.py\<close>, lines 98--294): \<^verbatim>\<open>__package\<close> with its
  seven wrappers \<^verbatim>\<open>_package_<mgr>_package\<close>, and \<^verbatim>\<open>__repo\<close> with
  \<^verbatim>\<open>_package_yum_repo\<close>, \<^verbatim>\<open>_package_apt_repo\<close> and \<^verbatim>\<open>_package_gem_source\<close>.
  A handler takes the step dictionary \<open>p_state\<close>, the component id \<open>uid\<close> and
  the step id \<open>step\<close>, and returns a Python value or raises.
\<close>

section \<open>Package install\<close>

text \<open>One emitted package record: \<^verbatim>\<open>{tag: {'pkg': [pkgs, state]}}\<close>.\<close>

definition pkg_record :: "string \<Rightarrow> string \<Rightarrow> pdict \<Rightarrow> pyval" where
  "pkg_record tag state pkgs = PDict [(tag, PDict [(''pkg'', PList [PDict pkgs, PStr state])])]"

text \<open>The prerequisite block: for npm, pecl and pip the resolver's record is
  prepended and a \<^verbatim>\<open>{'pkg': tag}\<close> requisite is collected.\<close>

definition package_requisite :: "string \<Rightarrow> (pyval list \<times> pyval list) res" where
  "package_requisite type =
     (if type \<in> set [''npm'', ''pecl'', ''pip''] then
        rbind (get_requisity ''pkg'' type) (\<lambda>req_state.
          if truthy req_state then
            (case req_state of
               PDict ((req_tag, _) # _) \<Rightarrow> Inr ([PDict [(''pkg'', PStr req_tag)]], [req_state])
             | _ \<Rightarrow> Inl AttributeError)
          else Inr ([], []))
      else Inr ([], []))"

text \<open>The inner loop over \<^verbatim>\<open>value.items()\<close> of the \<open>name\<close> parameter: a pinned
  version goes to \<open>installed\<close> as \<^verbatim>\<open>{name: version}\<close>, an unpinned one to
  \<open>latest\<close> as the bare name.\<close>

fun scan_names :: "pdict \<Rightarrow> pyval list \<times> pyval list \<Rightarrow> pyval list \<times> pyval list" where
  "scan_names [] acc = acc"
| "scan_names ((name, version) # nvs) (installed, latest) =
     scan_names nvs
       (if truthy version then (installed @ [PDict [(name, version)]], latest)
        else (installed, latest @ [PStr name]))"

text \<open>The loop over the step's parameters: falsy values are skipped, \<open>name\<close> is
  scanned, every other attribute is copied into \<open>addin\<close> (\<open>verify_gpg\<close> coerced
  to a boolean).\<close>

fun scan_package_params ::
  "pdict \<Rightarrow> pyval list \<times> pyval list \<times> pdict \<Rightarrow> (pyval list \<times> pyval list \<times> pdict) res" where
  "scan_package_params [] acc = Inr acc"
| "scan_package_params ((attr, value) # ps) (installed, latest, addin) =
     (if \<not> truthy value then scan_package_params ps (installed, latest, addin)
      else if attr = ''name'' then
        rbind (py_items value) (\<lambda>nvs.
          (case scan_names nvs (installed, latest) of
             (installed', latest') \<Rightarrow> scan_package_params ps (installed', latest', addin)))
      else
        (let addin' = dict_set addin attr value;
             addin'' = (if attr = ''verify_gpg'' then dict_set addin' attr (py_flag value) else addin')
         in scan_package_params ps (installed, latest, addin'')))"

text \<open>
  The loop over \<^verbatim>\<open>state_mapping.items()\<close>. \<^verbatim>\<open>state_mapping\<close> is the literal
  \<^verbatim>\<open>{'installed': [], 'latest': []}\<close>; CPython 2 on a 64-bit host without hash
  randomisation stores \<open>installed\<close> in slot 7 and \<open>latest\<close>, after a collision, in
  slot 3, so the iteration visits \<open>latest\<close> first.
\<close>

fun package_groups ::
  "pyval \<Rightarrow> pyval \<Rightarrow> pyval \<Rightarrow> (string \<times> pyval list) list \<Rightarrow> pyval list \<Rightarrow> pdict \<Rightarrow> pyval list
   \<Rightarrow> pyval list res" where
  "package_groups p_state uid step [] requisities addin acc = Inr acc"
| "package_groups p_state uid step ((state, packages) # gs) requisities addin acc =
     (if packages = [] then package_groups p_state uid step gs requisities addin acc
      else
        (let addin' = (if requisities \<noteq> [] then dict_set addin ''require'' (PList requisities) else addin);
             pkgs = (if addin' \<noteq> [] then dict_merge [(''pkgs'', PList packages)] addin'
                     else [(''pkgs'', PList packages)])
         in rbind (py_getitem p_state ''module'') (\<lambda>module.
            rbind (get_tag module uid step (PStr ''pkgs'') (PStr state)) (\<lambda>tag.
              package_groups p_state uid step gs requisities addin'
                (acc @ [pkg_record tag state pkgs])))))"

text \<open>\<^verbatim>\<open>__package(p_state, type, uid, step)\<close>. A step without parameters or
  without a \<open>name\<close> parameter yields the empty list; a type outside the package
  family yields the error code 2.\<close>

definition package :: "pyval \<Rightarrow> string \<Rightarrow> pyval \<Rightarrow> pyval \<Rightarrow> pyval res" where
  "package p_state type uid step =
     (if \<not> is_dict p_state then Inr (PList []) else
      rbind (py_contains p_state ''parameter'') (\<lambda>has_param.
      if \<not> has_param then Inr (PList []) else
      rbind (py_getitem p_state ''parameter'') (\<lambda>param.
      rbind (py_contains param ''name'') (\<lambda>has_name.
      if \<not> has_name then Inr (PList [])
      else if state_check ''package'' type \<noteq> 0 then Inr (PInt 2)
      else
        rbind (package_requisite type) (\<lambda>(requisities, pkg_state).
        rbind (py_items param) (\<lambda>items.
        rbind (scan_package_params items ([], [], [])) (\<lambda>(installed, latest, addin).
        rbind (package_groups p_state uid step [(''latest'', latest), (''installed'', installed)]
                 requisities addin pkg_state) (\<lambda>pkg_state'.
        Inr (PList pkg_state')))))))))"

definition package_yum_package :: "pyval \<Rightarrow> pyval \<Rightarrow> pyval \<Rightarrow> pyval res" where
  "package_yum_package p_state uid step = package p_state ''pkg'' uid step"

definition package_apt_package :: "pyval \<Rightarrow> pyval \<Rightarrow> pyval \<Rightarrow> pyval res" where
  "package_apt_package p_state uid step = package p_state ''pkg'' uid step"

definition package_gem_package :: "pyval \<Rightarrow> pyval \<Rightarrow> pyval \<Rightarrow> pyval res" where
  "package_gem_package p_state uid step = package p_state ''gem'' uid step"

definition package_npm_package :: "pyval \<Rightarrow> pyval \<Rightarrow> pyval \<Rightarrow> pyval res" where
  "package_npm_package p_state uid step = package p_state ''npm'' uid step"

definition package_pecl_package :: "pyval \<Rightarrow> pyval \<Rightarrow> pyval \<Rightarrow> pyval res" where
  "package_pecl_package p_state uid step = package p_state ''pecl'' uid step"

definition package_pip_package :: "pyval \<Rightarrow> pyval \<Rightarrow> pyval \<Rightarrow> pyval res" where
  "package_pip_package p_state uid step = package p_state ''pip'' uid step"

definition package_zypper_package :: "pyval \<Rightarrow> pyval \<Rightarrow> pyval \<Rightarrow> pyval res" where
  "package_zypper_package p_state uid step = package p_state ''zypper'' uid step"

section \<open>Repository definition\<close>

text \<open>
  \<^verbatim>\<open>__repo(p_state, type, uid, step)\<close>: apt and yum repositories become a managed
  file keyed by its path; gem passes the type check and yields \<open>None\<close>. The tag is
  computed, so its failure propagates, but not used. The yum branch tests
  \<^verbatim>\<open>filename.endswith('repo')\<close> without the dot.
\<close>

definition repo_file :: "string \<Rightarrow> pyval \<Rightarrow> pyval" where
  "repo_file path content =
     PDict [(path, PDict [(''file'', PList [PStr ''managed'',
        PDict [(''user'', PStr ''root''), (''group'', PStr ''root''), (''mode'', PStr ''644''),
               (''content'', content)]])])]"

definition repo :: "pyval \<Rightarrow> string \<Rightarrow> pyval \<Rightarrow> pyval \<Rightarrow> pyval res" where
  "repo p_state type uid step =
     (if \<not> is_dict p_state then Inr (PInt 1) else
      rbind (py_contains p_state ''parameter'') (\<lambda>has_param.
      if \<not> has_param then Inr (PInt 1) else
      rbind (py_getitem p_state ''parameter'') (\<lambda>param.
      rbind (py_contains param ''name'') (\<lambda>has_name.
      if \<not> has_name then Inr (PInt 1)
      else if state_check ''repository'' type \<noteq> 0 then Inr (PInt 2)
      else if type \<in> set [''apt'', ''yum''] then
        rbind (py_getitem param ''name'') (\<lambda>filename.
        rbind (py_getitem param ''content'') (\<lambda>content.
        (case filename of
           PStr fname \<Rightarrow>
             (let path =
                (if type = ''apt'' then
                   ''/etc/apt/sources.list.d/'' @ (if ends_with fname ''.list'' then fname else fname @ ''.list'')
                 else ''/etc/yum.repos.d/'' @ (if ends_with fname ''repo'' then fname else fname @ ''.repo''))
              in rbind (get_tag (PStr ''path.file'') uid step (PStr path) (PStr ''managed'')) (\<lambda>tag.
                   Inr (repo_file path content)))
         | _ \<Rightarrow> Inl AttributeError)))
      else Inr PNone))))"

definition package_yum_repo :: "pyval \<Rightarrow> pyval \<Rightarrow> pyval \<Rightarrow> pyval res" where
  "package_yum_repo p_state uid step = repo p_state ''yum'' uid step"

text \<open>The apt and gem wrappers pass \<open>step\<close> in the position of \<open>uid\<close>.\<close>

definition package_apt_repo :: "pyval \<Rightarrow> pyval \<Rightarrow> pyval \<Rightarrow> pyval res" where
  "package_apt_repo p_state uid step = repo p_state ''apt'' step PNone"

definition package_gem_source :: "pyval \<Rightarrow> pyval \<Rightarrow> pyval \<Rightarrow> pyval res" where
  "package_gem_source p_state uid step = repo p_state ''gem'' step PNone"

section \<open>What a package step emits\<close>

text \<open>The two groups of a \<open>name\<close> mapping, in the order the loop builds them.\<close>

definition pinned :: "pdict \<Rightarrow> pyval list" where
  "pinned nvs = map (\<lambda>(n, v). PDict [(n, v)]) (filter (\<lambda>(n, v). truthy v) nvs)"

definition unpinned :: "pdict \<Rightarrow> pyval list" where
  "unpinned nvs = map (\<lambda>(n, v). PStr n) (filter (\<lambda>(n, v). \<not> truthy v) nvs)"

definition emit_group :: "string \<Rightarrow> string \<Rightarrow> pyval list \<Rightarrow> pyval list" where
  "emit_group tag state pkgs = (if pkgs = [] then [] else [pkg_record tag state [(''pkgs'', PList pkgs)]])"

definition repo_path :: "string \<Rightarrow> string \<Rightarrow> string" where
  "repo_path type n =
     (if type = ''apt'' then ''/etc/apt/sources.list.d/'' @ (if ends_with n ''.list'' then n else n @ ''.list'')
      else ''/etc/yum.repos.d/'' @ (if ends_with n ''repo'' then n else n @ ''.repo''))"

section \<open>Lemmas\<close>

lemma scan_names_eq:
  "scan_names nvs (i, l) = (i @ pinned nvs, l @ unpinned nvs)"
  by (induction nvs arbitrary: i l) (auto simp: pinned_def unpinned_def)

lemma state_check_package:
  "state_check ''package'' t = (if t \<in> set [''pkg'', ''gem'', ''npm'', ''pecl'', ''pip''] then 0 else 2)"
  by (simp add: state_check_def type_map_def)

lemma state_check_repository:
  "state_check ''repository'' t = (if t \<in> set [''apt'', ''yum'', ''gem'', ''zypper''] then 0 else 2)"
  by (simp add: state_check_def type_map_def)

lemma package_requisite_lang:
  "t \<in> set [''npm'', ''pecl'', ''pip''] \<Longrightarrow> package_requisite t = Inl KeyError"
  by (simp add: package_requisite_def get_requisity_pkg)

lemma package_groups_plain:
  assumes "map_of ps ''module'' = Some (PStr m)"
  shows "package_groups (PDict ps) (PStr u) (PStr s) [(''latest'', l), (''installed'', i)] [] [] [] =
     Inr (emit_group (str_tag m u s ''pkgs'' ''latest'') ''latest'' l @
          emit_group (str_tag m u s ''pkgs'' ''installed'') ''installed'' i)"
  using assms by (simp add: get_tag_strings emit_group_def py_simps)

lemma package_checks:
  assumes "map_of ps ''parameter'' = Some (PDict prm)" and "map_of prm ''name'' \<noteq> None"
  shows "package (PDict ps) type uid step =
     (if state_check ''package'' type \<noteq> 0 then Inr (PInt 2)
      else rbind (package_requisite type) (\<lambda>(requisities, pkg_state).
        rbind (scan_package_params prm ([], [], [])) (\<lambda>(installed, latest, addin).
        rbind (package_groups (PDict ps) uid step [(''latest'', latest), (''installed'', installed)]
                 requisities addin pkg_state) (\<lambda>pkg_state'. Inr (PList pkg_state')))))"
  using assms by (simp add: package_def py_simps)

text \<open>C5: a package step for apt, yum or gem whose only parameter is the \<open>name\<close>
  mapping emits one \<open>latest\<close> record with the unpinned names and then one
  \<open>installed\<close> record with the pinned ones, each only when its group is non-empty,
  tagged by the module, component, step and group.\<close>

theorem package_names_only:
  assumes "type \<in> {''pkg'', ''gem''}"
    and "map_of ps ''module'' = Some (PStr m)"
    and "map_of ps ''parameter'' = Some (PDict [(''name'', PDict nvs)])"
  shows "package (PDict ps) type (PStr u) (PStr s) =
     Inr (PList (emit_group (str_tag m u s ''pkgs'' ''latest'') ''latest'' (unpinned nvs) @
                 emit_group (str_tag m u s ''pkgs'' ''installed'') ''installed'' (pinned nvs)))"
proof -
  have req: "package_requisite type = Inr ([], [])"
    using assms(1) by (auto simp: package_requisite_def)
  have chk: "state_check ''package'' type = 0"
    using assms(1) by (auto simp: state_check_package)
  have scan: "scan_package_params [(''name'', PDict nvs)] ([], [], []) = Inr (pinned nvs, unpinned nvs, [])"
    by (cases nvs) (simp_all add: scan_names_eq pinned_def unpinned_def)
  show ?thesis
    using assms(2,3) req chk scan
    by (simp add: package_checks package_groups_plain del: scan_package_params.simps package_groups.simps)
qed

theorem package_names_only_witness:
  "package (PDict [(''module'', PStr ''package.apt.package''),
      (''parameter'', PDict [(''name'', PDict [(''nginx'', PStr ''1.2''), (''curl'', PStr '''')])])])
     ''pkg'' (PStr ''web'') (PStr ''1'') =
   Inr (PList [pkg_record ''_web_1_package_apt_package_pkgs_latest'' ''latest'' [(''pkgs'', PList [PStr ''curl''])],
               pkg_record ''_web_1_package_apt_package_pkgs_installed'' ''installed''
                 [(''pkgs'', PList [PDict [(''nginx'', PStr ''1.2'')]])]])"
proof -
  have "package (PDict [(''module'', PStr ''package.apt.package''),
      (''parameter'', PDict [(''name'', PDict [(''nginx'', PStr ''1.2''), (''curl'', PStr '''')])])])
     ''pkg'' (PStr ''web'') (PStr ''1'') =
     Inr (PList (emit_group (str_tag ''package.apt.package'' ''web'' ''1'' ''pkgs'' ''latest'') ''latest''
                   (unpinned [(''nginx'', PStr ''1.2''), (''curl'', PStr '''')]) @
                 emit_group (str_tag ''package.apt.package'' ''web'' ''1'' ''pkgs'' ''installed'') ''installed''
                   (pinned [(''nginx'', PStr ''1.2''), (''curl'', PStr '''')])))"
    by (rule package_names_only) simp_all
  then show ?thesis
    by (simp add: emit_group_def pinned_def unpinned_def str_tag_def tag_part_def tag_suffix_def
        dots_to_underscores_def)
qed

text \<open>C6: a well-formed npm, pecl or pip package step raises KeyError: the
  prerequisite resolver indexes \<open>requisity_map\<close> with \<open>None\<close>.\<close>

theorem package_lang_KeyError:
  assumes "type \<in> {''npm'', ''pecl'', ''pip''}"
    and "map_of ps ''parameter'' = Some (PDict prm)"
    and "map_of prm ''name'' \<noteq> None"
  shows "package (PDict ps) type uid step = Inl KeyError"
  using assms by (auto simp: package_checks state_check_package package_requisite_lang)

theorem package_lang_KeyError_witness:
  "package (PDict [(''parameter'', PDict [(''name'', PDict [(''flask'', PStr '''')])])])
     ''pip'' (PStr ''web'') (PStr ''1'') = Inl KeyError"
  by (rule package_lang_KeyError) auto

text \<open>A well-formed zypper package step is answered with the error code 2:
  \<open>zypper\<close> is not in the package family of \<open>type_map\<close>.\<close>

theorem package_zypper_rejected:
  assumes "map_of ps ''parameter'' = Some (PDict prm)"
    and "map_of prm ''name'' \<noteq> None"
  shows "package_zypper_package (PDict ps) uid step = Inr (PInt 2)"
  using assms by (simp add: package_zypper_package_def package_checks state_check_package)

theorem package_zypper_rejected_witness:
  "package_zypper_package (PDict [(''parameter'', PDict [(''name'', PDict [(''vim'', PStr '''')])])])
     (PStr ''web'') (PStr ''1'') = Inr (PInt 2)"
  by (rule package_zypper_rejected) auto

lemma repo_checks:
  assumes "type \<in> {''apt'', ''yum''}"
    and "map_of ps ''parameter'' = Some (PDict prm)"
    and "map_of prm ''name'' = Some (PStr n)"
    and "map_of prm ''content'' = Some c"
    and "get_tag (PStr ''path.file'') uid step (PStr (repo_path type n)) (PStr ''managed'') = Inr t"
  shows "repo (PDict ps) type uid step = Inr (repo_file (repo_path type n) c)"
  using assms by (auto simp: repo_def py_simps state_check_repository repo_path_def)

text \<open>C9: an apt repository step becomes a managed file under
  \<open>/etc/apt/sources.list.d/\<close> whose name gets \<open>.list\<close> appended unless it already
  ends so.\<close>

theorem apt_repo_path:
  assumes "map_of ps ''parameter'' = Some (PDict prm)"
    and "map_of prm ''name'' = Some (PStr n)"
    and "map_of prm ''content'' = Some c"
  shows "package_apt_repo (PDict ps) uid step =
     Inr (repo_file (''/etc/apt/sources.list.d/'' @ (if ends_with n ''.list'' then n else n @ ''.list'')) c)"
proof -
  obtain t where "get_tag (PStr ''path.file'') step PNone (PStr (repo_path ''apt'' n)) (PStr ''managed'') = Inr t"
    using get_tag_no_step by blast
  then show ?thesis
    using assms repo_checks [of "''apt''"] by (simp add: package_apt_repo_def repo_path_def)
qed

theorem apt_repo_path_witness:
  "package_apt_repo (PDict [(''parameter'', PDict [(''name'', PStr ''myrepo''), (''content'', PStr ''deb x'')])])
     (PStr ''web'') (PStr ''2'') = Inr (repo_file ''/etc/apt/sources.list.d/myrepo.list'' (PStr ''deb x''))"
  using apt_repo_path [of "[(''parameter'', PDict [(''name'', PStr ''myrepo''), (''content'', PStr ''deb x'')])]"
      "[(''name'', PStr ''myrepo''), (''content'', PStr ''deb x'')]" "''myrepo''" "PStr ''deb x''"
      "PStr ''web''" "PStr ''2''"]
  by (simp add: ends_with_def)

text \<open>C10: a yum repository step becomes a managed file under \<open>/etc/yum.repos.d/\<close>;
  the suffix test is \<open>endswith('repo')\<close>, so a name such as \<open>myrepo\<close> keeps no
  \<open>.repo\<close> extension.\<close>

theorem yum_repo_path:
  assumes "map_of ps ''parameter'' = Some (PDict prm)"
    and "map_of prm ''name'' = Some (PStr n)"
    and "map_of prm ''content'' = Some c"
  shows "package_yum_repo (PDict ps) (PStr u) (PStr s) =
     Inr (repo_file (''/etc/yum.repos.d/'' @ (if ends_with n ''repo'' then n else n @ ''.repo'')) c)"
  using assms repo_checks [of "''yum''"]
  by (simp add: package_yum_repo_def repo_path_def get_tag_strings)

theorem yum_repo_path_witness:
  "package_yum_repo (PDict [(''parameter'', PDict [(''name'', PStr ''myrepo''), (''content'', PStr ''[base]'')])])
     (PStr ''web'') (PStr ''2'') = Inr (repo_file ''/etc/yum.repos.d/myrepo'' (PStr ''[base]''))"
  using yum_repo_path [of "[(''parameter'', PDict [(''name'', PStr ''myrepo''), (''content'', PStr ''[base]'')])]"
      "[(''name'', PStr ''myrepo''), (''content'', PStr ''[base]'')]" "''myrepo''" "PStr ''[base]''"
      "''web''" "''2''"]
  by (simp add: ends_with_def)

end
