(* ===== verification/Path_Scm.thy ===== *)
theory Path_Scm
  imports Tag
begin

text \<open>
  The path and source-control handlers of \<^verbatim>\<open>StatePreparation\<close>
  (\<^verbatim>\<open>src/POCs/salt/statepreparation.py\<close>, lines 296--493): \<^verbatim>\<open>__file\<close> with the
  wrappers \<^verbatim>\<open>_path_file\<close>, \<^verbatim>\<open>_path_dir\<close>, \<^verbatim>\<open>_path_symlink\<close>, and \<^verbatim>\<open>__scm\<close>
  with \<^verbatim>\<open>_scm_git\<close>, \<^verbatim>\<open>_scm_svn\<close>, \<^verbatim>\<open>_scm_hg\<close>. The path handler follows the
  shared skeleton \<open>simple_state\<close>; the checkout handler has its own loop, since it
  fills two dictionaries and may emit a companion directory record.
\<close>

section \<open>File, directory, symlink\<close>

text \<open>The attribute chain of \<^verbatim>\<open>__file\<close>: \<open>path\<close> is the identifying name;
  for a symlink, \<open>source\<close> is renamed to \<open>name\<close> as well; everything else is
  copied.\<close>

definition file_attr :: "string \<Rightarrow> string \<Rightarrow> pyval \<Rightarrow> attr_action" where
  "file_attr type attr value =
     (if attr = ''path'' then SetIdent
      else if type = ''symlink'' \<and> attr = ''source'' then Set ''name''
      else Set attr)"

definition file_state :: "pyval \<Rightarrow> string \<Rightarrow> pyval \<Rightarrow> pyval \<Rightarrow> pyval res" where
  "file_state p_state type uid step =
     simple_state ''file'' type (file_attr type) ''file''
       (if type = ''file'' then ''managed'' else type) p_state uid step"

definition path_file :: "pyval \<Rightarrow> pyval \<Rightarrow> pyval \<Rightarrow> pyval res" where
  "path_file p_state uid step = file_state p_state ''file'' uid step"

definition path_dir :: "pyval \<Rightarrow> pyval \<Rightarrow> pyval \<Rightarrow> pyval res" where
  "path_dir p_state uid step = file_state p_state ''directory'' uid step"

definition path_symlink :: "pyval \<Rightarrow> pyval \<Rightarrow> pyval \<Rightarrow> pyval res" where
  "path_symlink p_state uid step = file_state p_state ''symlink'' uid step"

section \<open>Source-control checkout\<close>

text \<open>
  The parameter loop of \<^verbatim>\<open>__scm\<close>, over the checkout attributes \<open>addin\<close>, the
  directory-ownership attributes \<open>scm_dir_addin\<close> and the repository name. The name
  is \<^verbatim>\<open>value.split('-')[1].strip()\<close>: AttributeError for a value that is not a
  string, IndexError for one without a dash.
\<close>

definition scm_param :: "string \<Rightarrow> pdict \<times> pdict \<times> pyval \<Rightarrow> string \<times> pyval \<Rightarrow> (pdict \<times> pdict \<times> pyval) res" where
  "scm_param type acc item =
     (case acc of (addin, dir_addin, repo) \<Rightarrow> case item of (attr, value) \<Rightarrow>
      if \<not> truthy value then Inr (addin, dir_addin, repo)
      else if attr = ''repo'' then
        (case value of
           PStr v \<Rightarrow>
             rbind (py_index (split_on CHR ''-'' v) 1) (\<lambda>seg.
               (let r = PStr (py_strip seg) in Inr (dict_set addin ''name'' r, dir_addin, r)))
         | _ \<Rightarrow> Inl AttributeError)
      else if attr = ''branch'' then
        Inr (if type = ''git'' then dict_set addin ''rev'' value else addin, dir_addin, repo)
      else if attr = ''revision'' then Inr (dict_set addin ''rev'' value, dir_addin, repo)
      else if attr = ''path'' then Inr (dict_set addin ''target'' value, dir_addin, repo)
      else if attr = ''user'' then
        Inr (dict_set addin ''user'' value, dict_set dir_addin ''user'' value, repo)
      else if attr = ''force'' then
        Inr (dict_set addin ''force_checkout'' (py_flag value), dir_addin, repo)
      else if attr = ''group'' then Inr (addin, dict_set dir_addin ''group'' value, repo)
      else if attr = ''mode'' then Inr (addin, dict_set dir_addin ''mode'' value, repo)
      else if type = ''git'' then
        (if attr = ''version'' then Inr (dict_set addin ''rev'' value, dir_addin, repo)
         else if attr = ''ssh-key'' then Inr (dict_set addin ''identity'' value, dir_addin, repo)
         else Inr (addin, dir_addin, repo))
      else if type = ''svn'' then
        (if attr \<in> set [''username'', ''password''] then Inr (dict_set addin attr value, dir_addin, repo)
         else Inr (addin, dir_addin, repo))
      else Inr (addin, dir_addin, repo))"

text \<open>
  The companion directory record, emitted when the checkout has a target and some
  ownership attribute: \<open>recurse\<close> lists the ownership keys (in insertion order;
  CPython 2 lists them in hash order, a permutation), \<open>name\<close> is the target, and
  the checkout gets a \<^verbatim>\<open>require_in\<close> edge to it.
\<close>

definition scm_dir_record :: "pyval \<Rightarrow> pyval \<Rightarrow> pyval \<Rightarrow> pdict \<Rightarrow> (pyval list \<times> pyval list) res" where
  "scm_dir_record uid step target dir_addin =
     (let dir_addin' = dict_set (dict_set dir_addin ''recurse'' (PList (map (\<lambda>kv. PStr (fst kv)) dir_addin)))
                         ''name'' target
      in rbind (get_tag (PStr ''path.dir'') uid step target (PStr ''directory'')) (\<lambda>dir_tag.
           Inr ([PDict [(dir_tag, PDict [(''file'', PList [PStr ''directory'', PDict dir_addin'])])]],
                [PDict [(''file'', PStr dir_tag)]])))"

text \<open>\<^verbatim>\<open>__scm(p_state, type, uid, step)\<close>. The test
  \<^verbatim>\<open>if addin['target'] and scm_dir_addin\<close> reads \<open>target\<close> unguarded.\<close>

definition scm :: "pyval \<Rightarrow> string \<Rightarrow> pyval \<Rightarrow> pyval \<Rightarrow> pyval res" where
  "scm p_state type uid step =
     checked ''scm'' type p_state
     (rbind (py_getitem p_state ''parameter'') (\<lambda>param.
      rbind (py_items param) (\<lambda>items.
      rbind (py_for (scm_param type) items ([], [], PNone)) (\<lambda>(addin, dir_addin, repo).
      if addin = [] \<or> \<not> truthy repo then Inr (PInt 3) else
      rbind (dict_get addin ''target'') (\<lambda>target.
      rbind (if truthy target \<and> dir_addin \<noteq> [] then scm_dir_record uid step target dir_addin
             else Inr ([], [])) (\<lambda>(scm_states, requisities).
      (let addin' = (if requisities \<noteq> [] then dict_set addin ''require_in'' (PList requisities) else addin)
       in rbind (py_getitem p_state ''module'') (\<lambda>module.
          rbind (get_tag module uid step repo (PStr ''latest'')) (\<lambda>tag.
          Inr (PList (scm_states @ [PDict [(tag, PDict [(type, PList [PStr ''latest'', PDict addin'])])]])))))))))))"

definition scm_git :: "pyval \<Rightarrow> pyval \<Rightarrow> pyval \<Rightarrow> pyval res" where
  "scm_git p_state uid step = scm p_state ''git'' uid step"

definition scm_svn :: "pyval \<Rightarrow> pyval \<Rightarrow> pyval \<Rightarrow> pyval res" where
  "scm_svn p_state uid step = scm p_state ''svn'' uid step"

definition scm_hg :: "pyval \<Rightarrow> pyval \<Rightarrow> pyval \<Rightarrow> pyval res" where
  "scm_hg p_state uid step = scm p_state ''hg'' uid step"

section \<open>Lemmas\<close>

lemma split_repo: "CHR ''-'' \<notin> set a \<Longrightarrow> CHR ''-'' \<notin> set b \<Longrightarrow>
  py_index (split_on CHR ''-'' (a @ CHR ''-'' # b)) (Suc 0) = Inr b"
  by (simp add: split_on_append_sep split_on_no_sep py_index_def)

lemma state_check_scm: "state_check ''scm'' t = (if t \<in> set [''git'', ''svn'', ''hg''] then 0 else 2)"
  by (simp add: state_check_def type_map_def)

lemma state_check_file: "state_check ''file'' t = (if t \<in> set [''file'', ''directory'', ''symlink''] then 0 else 2)"
  by (simp add: state_check_def type_map_def)

text \<open>C12: a checkout step whose \<open>repo\<close> is \<open>prefix-name\<close>, with a target path and an
  owner, emits first a \<open>directory\<close> record over the target that recurses the ownership,
  then the checkout record named by the stripped second segment, with a
  \<open>require_in\<close> edge to the directory record's tag.\<close>

theorem scm_companion_directory:
  assumes "type \<in> {''git'', ''svn'', ''hg''}"
    and "map_of ps ''module'' = Some (PStr m)"
    and "map_of ps ''parameter'' = Some (PDict [(''repo'', PStr (a @ ''-'' @ b)), (''path'', PStr p), (''user'', PStr w)])"
    and "CHR ''-'' \<notin> set a" and "CHR ''-'' \<notin> set b" and "py_strip b \<noteq> []" and "p \<noteq> []" and "w \<noteq> []"
  shows "scm (PDict ps) type (PStr u) (PStr s) = Inr (PList
     [PDict [(str_tag ''path.dir'' u s p ''directory'', PDict [(''file'', PList [PStr ''directory'',
        PDict [(''user'', PStr w), (''recurse'', PList [PStr ''user'']), (''name'', PStr p)]])])],
      PDict [(str_tag m u s (py_strip b) ''latest'', PDict [(type, PList [PStr ''latest'',
        PDict [(''name'', PStr (py_strip b)), (''target'', PStr p), (''user'', PStr w),
               (''require_in'', PList [PDict [(''file'', PStr (str_tag ''path.dir'' u s p ''directory''))]])]])])]])"
proof -
  have "py_for (scm_param type) [(''repo'', PStr (a @ ''-'' @ b)), (''path'', PStr p), (''user'', PStr w)] ([], [], PNone) =
        Inr ([(''name'', PStr (py_strip b)), (''target'', PStr p), (''user'', PStr w)], [(''user'', PStr w)], PStr (py_strip b))"
    using assms(4,5,7,8) by (simp add: scm_param_def split_repo Let_def)
  moreover have "scm_dir_record (PStr u) (PStr s) (PStr p) [(''user'', PStr w)] =
      Inr ([PDict [(str_tag ''path.dir'' u s p ''directory'', PDict [(''file'', PList [PStr ''directory'',
        PDict [(''user'', PStr w), (''recurse'', PList [PStr ''user'']), (''name'', PStr p)]])])]],
           [PDict [(''file'', PStr (str_tag ''path.dir'' u s p ''directory''))]])"
    by (simp add: scm_dir_record_def get_tag_strings)
  ultimately show ?thesis
    using assms(1-3,6,7) by (auto simp: scm_def checked_def py_simps state_check_scm get_tag_strings)
qed

theorem scm_companion_directory_witness:
  "scm (PDict [(''module'', PStr ''scm.git''),
      (''parameter'', PDict [(''repo'', PStr ''github-myapp''), (''path'', PStr ''/srv/app''), (''user'', PStr ''www'')])])
     ''git'' (PStr ''web'') (PStr ''3'') = Inr (PList
     [PDict [(''_web_3_path_dir_/srv/app_directory'', PDict [(''file'', PList [PStr ''directory'',
        PDict [(''user'', PStr ''www''), (''recurse'', PList [PStr ''user'']), (''name'', PStr ''/srv/app'')]])])],
      PDict [(''_web_3_scm_git_myapp_latest'', PDict [(''git'', PList [PStr ''latest'',
        PDict [(''name'', PStr ''myapp''), (''target'', PStr ''/srv/app''), (''user'', PStr ''www''),
               (''require_in'', PList [PDict [(''file'', PStr ''_web_3_path_dir_/srv/app_directory'')]])]])])]])"
proof -
  have strip: "py_strip ''myapp'' = ''myapp''"
    by (simp add: py_strip_def py_space_def)
  have "scm (PDict [(''module'', PStr ''scm.git''),
      (''parameter'', PDict [(''repo'', PStr (''github'' @ ''-'' @ ''myapp'')), (''path'', PStr ''/srv/app''), (''user'', PStr ''www'')])])
     ''git'' (PStr ''web'') (PStr ''3'') = Inr (PList
     [PDict [(str_tag ''path.dir'' ''web'' ''3'' ''/srv/app'' ''directory'', PDict [(''file'', PList [PStr ''directory'',
        PDict [(''user'', PStr ''www''), (''recurse'', PList [PStr ''user'']), (''name'', PStr ''/srv/app'')]])])],
      PDict [(str_tag ''scm.git'' ''web'' ''3'' (py_strip ''myapp'') ''latest'', PDict [(''git'', PList [PStr ''latest'',
        PDict [(''name'', PStr (py_strip ''myapp'')), (''target'', PStr ''/srv/app''), (''user'', PStr ''www''),
               (''require_in'', PList [PDict [(''file'', PStr (str_tag ''path.dir'' ''web'' ''3'' ''/srv/app'' ''directory''))]])]])])]])"
    by (rule scm_companion_directory [where a = "''github''" and b = "''myapp''"]) (auto simp: strip)
  then show ?thesis
    by (simp add: strip str_tag_def tag_part_def tag_suffix_def dots_to_underscores_def)
qed

text \<open>C13: a checkout step without a \<open>path\<close> parameter raises KeyError, since the code
  reads \<open>addin['target']\<close> unguarded.\<close>

theorem scm_without_path_KeyError:
  assumes "type \<in> {''git'', ''svn'', ''hg''}"
    and "map_of ps ''parameter'' = Some (PDict [(''repo'', PStr (a @ ''-'' @ b))])"
    and "CHR ''-'' \<notin> set a" and "CHR ''-'' \<notin> set b" and "py_strip b \<noteq> []"
  shows "scm (PDict ps) type uid step = Inl KeyError"
proof -
  have "py_for (scm_param type) [(''repo'', PStr (a @ ''-'' @ b))] ([], [], PNone) =
        Inr ([(''name'', PStr (py_strip b))], [], PStr (py_strip b))"
    using assms(3,4) by (simp add: scm_param_def split_repo Let_def)
  then show ?thesis
    using assms(1,2,5) by (auto simp: scm_def checked_def py_simps state_check_scm)
qed

theorem scm_without_path_KeyError_witness:
  "scm_git (PDict [(''module'', PStr ''scm.git''), (''parameter'', PDict [(''repo'', PStr ''github-myapp'')])])
     (PStr ''web'') (PStr ''3'') = Inl KeyError"
proof -
  have "scm (PDict [(''module'', PStr ''scm.git''), (''parameter'', PDict [(''repo'', PStr (''github'' @ ''-'' @ ''myapp''))])])
     ''git'' (PStr ''web'') (PStr ''3'') = Inl KeyError"
    by (rule scm_without_path_KeyError [where a = "''github''" and b = "''myapp''"])
      (auto simp: py_strip_def py_space_def)
  then show ?thesis by (simp add: scm_git_def)
qed

text \<open>C14: a symlink step's \<open>source\<close> is stored under the same key \<open>name\<close> as its
  \<open>path\<close>, so the later one wins and the record has no link-target attribute.\<close>

theorem symlink_source_overrides_path:
  assumes "map_of ps ''module'' = Some (PStr m)"
    and "map_of ps ''parameter'' = Some (PDict [(''path'', PStr p), (''source'', PStr src)])"
    and "p \<noteq> []" and "src \<noteq> []"
  shows "path_symlink (PDict ps) (PStr u) (PStr s) =
     Inr (PDict [(str_tag m u s p ''symlink'', PDict [(''file'', PList [PStr ''symlink'', PDict [(''name'', PStr src)]])])])"
proof -
  have "py_for (attr_step (file_attr ''symlink'')) [(''path'', PStr p), (''source'', PStr src)] ([], PNone) =
        Inr ([(''name'', PStr src)], PStr p)"
    using assms(3,4) by (simp add: attr_step_def file_attr_def)
  moreover have "state_check ''file'' ''symlink'' = 0" by (simp add: state_check_file)
  ultimately show ?thesis
    using assms(1-3) by (simp add: path_symlink_def file_state_def simple_state_ok)
qed

theorem symlink_source_overrides_path_witness:
  "path_symlink (PDict [(''module'', PStr ''path.symlink''),
      (''parameter'', PDict [(''path'', PStr ''/usr/bin/python''), (''source'', PStr ''/opt/py/bin/python'')])])
     (PStr ''web'') (PStr ''4'') =
   Inr (PDict [(''_web_4_path_symlink_/usr/bin/python_symlink'',
      PDict [(''file'', PList [PStr ''symlink'', PDict [(''name'', PStr ''/opt/py/bin/python'')]])])])"
proof -
  have "path_symlink (PDict [(''module'', PStr ''path.symlink''),
      (''parameter'', PDict [(''path'', PStr ''/usr/bin/python''), (''source'', PStr ''/opt/py/bin/python'')])])
     (PStr ''web'') (PStr ''4'') =
   Inr (PDict [(str_tag ''path.symlink'' ''web'' ''4'' ''/usr/bin/python'' ''symlink'',
      PDict [(''file'', PList [PStr ''symlink'', PDict [(''name'', PStr ''/opt/py/bin/python'')]])])])"
    by (rule symlink_source_overrides_path) simp_all
  then show ?thesis
    by (simp add: str_tag_def tag_part_def tag_suffix_def dots_to_underscores_def)
qed

end
