(* ===== verification/Sys.thy ===== *)
theory Sys
  imports Tag
begin

text \<open>
  The service, system and SSH handlers of \<^verbatim>\<open>StatePreparation\<close>
  (\<^verbatim>\<open>src/POCs/salt/statepreparation.py\<close>, lines 495--1093). Cron, user, group,
  mount and the two SSH handlers follow the shared skeleton \<open>simple_state\<close> and
  differ only in their attribute chain; the command handler adds a script file and
  a requisite; hostname, hosts, ntp and selinux have their own bodies; the service
  wrappers call \<^verbatim>\<open>__service\<close> with more arguments than it takes.
\<close>

section \<open>Service\<close>

text \<open>The attribute chain of \<^verbatim>\<open>__service\<close>. For supervisord the \<open>username\<close>
  branch reads the undefined name \<open>username\<close>.\<close>

definition service_attr :: "string \<Rightarrow> string \<Rightarrow> pyval \<Rightarrow> attr_action" where
  "service_attr type attr value =
     (if attr = ''name'' then SetIdent
      else if attr = ''username'' then (if type = ''supervisord'' then Fail NameError else Skip)
      else if attr = ''config'' then Set ''conf_file''
      else if attr = ''watch'' then (if is_list value then Set ''watch'' else Skip)
      else Skip)"

text \<open>\<^verbatim>\<open>__service(self, p_state, type)\<close>: \<open>uid\<close> and \<open>step\<close> are not in
  scope, so the call of \<^verbatim>\<open>__get_tag\<close> raises NameError once \<open>p_state['module']\<close>
  has been read.\<close>

definition service :: "pyval \<Rightarrow> string \<Rightarrow> pyval res" where
  "service p_state type =
     checked ''service'' type p_state
      (let type' = (if type \<in> set [''sysvinit'', ''upstart''] then ''service'' else type) in
       rbind (py_getitem p_state ''parameter'') (\<lambda>param.
       rbind (py_items param) (\<lambda>items.
       rbind (py_for (attr_step (service_attr type')) items ([], PNone)) (\<lambda>(addin, srv_name).
       if addin = [] \<or> \<not> truthy srv_name then Inr (PInt 3)
       else rbind (py_getitem p_state ''module'') (\<lambda>module. Inl NameError)))))"

text \<open>The three wrappers pass four arguments to the two-parameter \<^verbatim>\<open>__service\<close>:
  the call raises TypeError before its body runs.\<close>

definition service_supervisord :: "pyval \<Rightarrow> pyval \<Rightarrow> pyval \<Rightarrow> pyval res" where
  "service_supervisord p_state uid step = Inl TypeError"

definition service_sysvinit :: "pyval \<Rightarrow> pyval \<Rightarrow> pyval \<Rightarrow> pyval res" where
  "service_sysvinit p_state uid step = Inl TypeError"

definition service_upstart :: "pyval \<Rightarrow> pyval \<Rightarrow> pyval \<Rightarrow> pyval res" where
  "service_upstart p_state uid step = Inl TypeError"

section \<open>Command and script\<close>

definition cmd_attr :: "string \<Rightarrow> pyval \<Rightarrow> attr_action" where
  "cmd_attr attr value =
     (if attr = ''name'' \<or> attr = ''cmd'' then SetIdent
      else if attr = ''bin'' then Set ''shell''
      else if attr \<in> set [''cwd'', ''user'', ''group'', ''env'', ''timeout''] then Set attr
      else Skip)"

text \<open>\<^verbatim>\<open>a + b\<close> where the code expects two strings.\<close>

fun py_add_str :: "pyval \<Rightarrow> pyval \<Rightarrow> pyval res" where
  "py_add_str (PStr a) (PStr b) = Inr (PStr (a @ b))"
| "py_add_str _ _ = Inl TypeError"

text \<open>The script file written before the command when the step has inline
  \<open>content\<close>: mode 0755, the command's user and group; the content itself is not
  put into the record.\<close>

definition cmd_content_file :: "pdict \<Rightarrow> pyval \<Rightarrow> pyval \<Rightarrow> pdict \<Rightarrow> pyval list res" where
  "cmd_content_file param uid step addin =
     (case map_of param ''content'' of
        Some content \<Rightarrow>
          if truthy content then
            (let fa0 = [(''mode'', PStr ''0755'')];
                 fa1 = (case map_of addin ''user'' of Some u \<Rightarrow> dict_set fa0 ''user'' u | None \<Rightarrow> fa0);
                 fa2 = (case map_of addin ''group'' of Some g \<Rightarrow> dict_set fa1 ''group'' g | None \<Rightarrow> fa1)
             in rbind (dict_get addin ''name'') (\<lambda>name.
                rbind (get_tag (PStr ''path.file'') uid step name (PStr ''managed'')) (\<lambda>file_tag.
                Inr [PDict [(file_tag, PDict [(''file'', PList [PStr ''managed'', PDict fa2])])]])))
          else Inr []
      | None \<Rightarrow> Inr [])"

text \<open>\<^verbatim>\<open>addin['name'] += ' ' + p_state['parameter']['args']\<close>.\<close>

definition cmd_args :: "pdict \<Rightarrow> pdict \<Rightarrow> pdict res" where
  "cmd_args param addin =
     (case map_of param ''args'' of
        Some args \<Rightarrow>
          if truthy args then
            rbind (dict_get addin ''name'') (\<lambda>name.
            rbind (py_add_str (PStr '' '') args) (\<lambda>suffix.
            rbind (py_add_str name suffix) (\<lambda>name'. Inr (dict_set addin ''name'' name'))))
          else Inr addin
      | None \<Rightarrow> Inr addin)"

text \<open>\<^verbatim>\<open>_sys_cmd\<close>: the command record requires \<^verbatim>\<open>{'file': addin['name']}\<close>,
  the command string, not the tag of the script file record.\<close>

definition sys_cmd :: "pyval \<Rightarrow> pyval \<Rightarrow> pyval \<Rightarrow> pyval res" where
  "sys_cmd p_state uid step =
     checked ''sys'' ''cmd'' p_state
      (rbind (py_getitem p_state ''parameter'') (\<lambda>param.
       rbind (py_items param) (\<lambda>items.
       rbind (py_for (attr_step cmd_attr) items ([], PNone)) (\<lambda>(addin, cmd).
       if addin = [] \<or> \<not> truthy cmd then Inr (PInt 3) else
       rbind (cmd_content_file items uid step addin) (\<lambda>cmd_state.
       rbind (if cmd_state \<noteq> [] then
                rbind (dict_get addin ''name'') (\<lambda>name.
                  Inr (dict_set addin ''require'' (PList [PDict [(''file'', name)]])))
              else Inr addin) (\<lambda>addin1.
       rbind (cmd_args items addin1) (\<lambda>addin2.
       rbind (py_getitem p_state ''module'') (\<lambda>module.
       rbind (get_tag module uid step cmd (PStr ''run'')) (\<lambda>tag.
       Inr (PList (cmd_state @ [PDict [(tag, PDict [(''cmd'', PList [PStr ''run'', PDict addin2])])]])))))))))))"

definition sys_script :: "pyval \<Rightarrow> pyval \<Rightarrow> pyval \<Rightarrow> pyval res" where
  "sys_script p_state uid step = sys_cmd p_state uid step"

section \<open>Cron, user, group, mount\<close>

definition cron_attr :: "string \<Rightarrow> pyval \<Rightarrow> attr_action" where
  "cron_attr attr value =
     (if attr = ''cmd'' then SetIdent
      else if attr \<in> set [''minute'', ''hour'', ''month''] then Set attr
      else if attr = ''day of month'' then Set ''daymonth''
      else if attr = ''day of week'' then Set ''dayweek''
      else if attr = ''username'' then Set ''user''
      else Skip)"

definition sys_cron :: "pyval \<Rightarrow> pyval \<Rightarrow> pyval \<Rightarrow> pyval res" where
  "sys_cron = simple_state ''sys'' ''cron'' cron_attr ''cron'' ''present''"

definition user_attr :: "string \<Rightarrow> pyval \<Rightarrow> attr_action" where
  "user_attr attr value =
     (if attr = ''username'' then SetIdent
      else if attr = ''password'' then Set ''password''
      else if attr \<in> set [''fullname'', ''uid'', ''gid'', ''shell'', ''home'', ''groups''] then Set attr
      else Skip)"

text \<open>\<^verbatim>\<open>_sys_user\<close> checks its type as \<open>('sys', 'mount')\<close>.\<close>

definition sys_user :: "pyval \<Rightarrow> pyval \<Rightarrow> pyval \<Rightarrow> pyval res" where
  "sys_user = simple_state ''sys'' ''mount'' user_attr ''user'' ''present''"

definition group_attr :: "string \<Rightarrow> pyval \<Rightarrow> attr_action" where
  "group_attr attr value =
     (if attr = ''groupname'' then SetIdent
      else if attr = ''gid'' then Set ''gid''
      else if attr = ''system group'' then SetFlag ''system''
      else Skip)"

definition sys_group :: "pyval \<Rightarrow> pyval \<Rightarrow> pyval \<Rightarrow> pyval res" where
  "sys_group = simple_state ''sys'' ''group'' group_attr ''group'' ''present''"

text \<open>\<^verbatim>\<open>_sys_mount\<close> converts \<open>dump\<close> and \<open>passno\<close> with \<open>atoi\<close>, a name
  the module never defines or imports.\<close>

definition mount_attr :: "string \<Rightarrow> pyval \<Rightarrow> attr_action" where
  "mount_attr attr value =
     (if attr = ''path'' then SetIdent
      else if attr = ''dev'' then Set ''device''
      else if attr = ''filesystem'' then Set ''fstype''
      else if attr = ''dump'' then Fail NameError
      else if attr = ''passno'' then Fail NameError
      else if attr = ''args'' then Set ''opts''
      else Skip)"

definition sys_mount :: "pyval \<Rightarrow> pyval \<Rightarrow> pyval \<Rightarrow> pyval res" where
  "sys_mount = simple_state ''sys'' ''mount'' mount_attr ''mount'' ''mounted''"

section \<open>Hostname and hosts file\<close>

text \<open>\<^verbatim>\<open>{host: ...}\<close>: a string key as it is, a list or dictionary is unhashable,
  another scalar becomes the key printed by \<^verbatim>\<open>str\<close>.\<close>

fun py_key :: "pyval \<Rightarrow> string res" where
  "py_key (PStr s) = Inr s"
| "py_key (PList _) = Inl TypeError"
| "py_key (PDict _) = Inl TypeError"
| "py_key v = Inr (py_str v)"

text \<open>\<^verbatim>\<open>_sys_hostname\<close> reads \<open>p_state['parameter']['hostname']\<close> and then
  \<open>p_state['']\<close> before its loop.\<close>

definition sys_hostname :: "pyval \<Rightarrow> pyval \<Rightarrow> pyval \<Rightarrow> pyval res" where
  "sys_hostname p_state uid step =
     checked ''sys'' ''host'' p_state
      (rbind (py_getitem p_state ''parameter'') (\<lambda>param.
       rbind (py_getitem param ''hostname'') (\<lambda>host0.
       rbind (py_getitem p_state '''') (\<lambda>ip.
       rbind (py_items param) (\<lambda>items.
       rbind (py_for (\<lambda>(addin, host) (attr, value).
                 if \<not> truthy value then Inr (addin, host)
                 else if attr = ''hostname'' then Inr (addin, value)
                 else if attr = ''ip'' then Inr (dict_set addin ''ip'' value, host)
                 else Inr (addin, host)) items ([], host0)) (\<lambda>(addin, host).
       if addin = [] \<or> \<not> truthy host then Inr (PInt 3) else
       rbind (py_key host) (\<lambda>key.
       Inr (PDict [(key, PDict [(''host'', PList [PStr ''present'', PDict addin])])]))))))))"

definition hosts_file :: "string \<Rightarrow> pyval \<Rightarrow> pyval" where
  "hosts_file tag content =
     PDict [(tag, PDict [(''file'', PList [PStr ''managed'',
       PDict [(''name'', PStr ''/etc/hosts''), (''user'', PStr ''root''), (''group'', PStr ''root''),
              (''mode'', PStr ''0644''), (''contents'', content)]])])]"

definition sys_hosts :: "pyval \<Rightarrow> pyval \<Rightarrow> pyval \<Rightarrow> pyval res" where
  "sys_hosts p_state uid step =
     checked ''sys'' ''host'' p_state
      (rbind (py_getitem p_state ''parameter'') (\<lambda>param.
       rbind (py_getitem param ''content'') (\<lambda>content.
       if \<not> truthy content then Inr (PInt 3) else
       rbind (get_tag (PStr ''path.file'') uid step (PStr ''/etc/hosts'') (PStr ''managed'')) (\<lambda>tag.
       Inr (hosts_file tag content)))))"

section \<open>NTP and SELinux\<close>

text \<open>Both validate the step and then return \<open>None\<close>: \<^verbatim>\<open>_sys_ntp\<close> ends after
  its checks, \<^verbatim>\<open>_sys_selinux\<close> tests a name it has just set to \<open>None\<close>.\<close>

definition sys_ntp :: "pyval \<Rightarrow> pyval \<Rightarrow> pyval \<Rightarrow> pyval res" where
  "sys_ntp p_state uid step = checked ''sys'' ''ntp'' p_state (Inr PNone)"

definition sys_selinux :: "pyval \<Rightarrow> pyval \<Rightarrow> pyval \<Rightarrow> pyval res" where
  "sys_selinux p_state uid step =
     checked ''sys'' ''selinux'' p_state (let selinuxname = PNone in Inr PNone)"

section \<open>SSH authorized key and known host\<close>

text \<open>Both read \<open>ssh_key_type\<close> unqualified; it is a class attribute, not a global,
  so a truthy \<open>encrypt_algorithm\<close> raises NameError.\<close>

definition ssh_auth_attr :: "string \<Rightarrow> pyval \<Rightarrow> attr_action" where
  "ssh_auth_attr attr value =
     (if attr = ''authname'' then SetIdent
      else if attr = ''username'' then Set ''user''
      else if attr = ''filename'' then Set ''config''
      else if attr = ''encrypt_algorithm'' then Fail NameError
      else Skip)"

definition system_ssh_auth :: "pyval \<Rightarrow> pyval \<Rightarrow> pyval \<Rightarrow> pyval res" where
  "system_ssh_auth = simple_state ''sys'' ''ssh_auth'' ssh_auth_attr ''ssh_auth'' ''present''"

definition ssh_known_host_attr :: "string \<Rightarrow> pyval \<Rightarrow> attr_action" where
  "ssh_known_host_attr attr value =
     (if attr = ''hostname'' then SetIdent
      else if attr = ''username'' then Set ''user''
      else if attr = ''filename'' then Set ''config''
      else if attr = ''fingerprint'' then Set ''fingerprint''
      else if attr = ''encrypt_algorithm'' then Fail NameError
      else Skip)"

definition system_ssh_known_host :: "pyval \<Rightarrow> pyval \<Rightarrow> pyval \<Rightarrow> pyval res" where
  "system_ssh_known_host =
     simple_state ''sys'' ''ssh_known_hosts'' ssh_known_host_attr ''ssh_known_hosts'' ''present''"

section \<open>Lemmas\<close>

lemma state_check_sys:
  "state_check ''sys'' t = (if t \<in> set [''cmd'', ''cron'', ''group'', ''host'', ''mount'', ''ntp'', ''selinux'', ''user'', ''ssh_auth'', ''ssh_known_hosts''] then 0 else 2)"
  by (simp add: state_check_def type_map_def)

text \<open>C15: a command step with inline \<open>content\<close> emits a managed script file record,
  mode 0755 and without the content, and then the \<open>run\<close> record, whose \<open>require\<close>
  edge names the command string, which is not the file record's tag.\<close>

theorem cmd_content_requires_name:
  assumes "map_of ps ''module'' = Some (PStr m)"
    and "map_of ps ''parameter'' = Some (PDict [(''cmd'', PStr c), (''content'', x)])"
    and "c \<noteq> []" and "truthy x"
  shows "sys_cmd (PDict ps) (PStr u) (PStr s) = Inr (PList
     [PDict [(str_tag ''path.file'' u s c ''managed'', PDict [(''file'', PList [PStr ''managed'', PDict [(''mode'', PStr ''0755'')]])])],
      PDict [(str_tag m u s c ''run'', PDict [(''cmd'', PList [PStr ''run'',
        PDict [(''name'', PStr c), (''require'', PList [PDict [(''file'', PStr c)]])]])])]])
   \<and> str_tag ''path.file'' u s c ''managed'' \<noteq> c"
proof -
  have scan: "py_for (attr_step cmd_attr) [(''cmd'', PStr c), (''content'', x)] ([], PNone) = Inr ([(''name'', PStr c)], PStr c)"
    using assms(3,4) by (simp add: attr_step_def cmd_attr_def)
  have cf: "cmd_content_file [(''cmd'', PStr c), (''content'', x)] (PStr u) (PStr s) [(''name'', PStr c)] =
      Inr [PDict [(str_tag ''path.file'' u s c ''managed'', PDict [(''file'', PList [PStr ''managed'', PDict [(''mode'', PStr ''0755'')]])])]]"
    using assms(4) by (simp add: cmd_content_file_def py_simps get_tag_strings)
  have args: "cmd_args [(''cmd'', PStr c), (''content'', x)] A = Inr A" for A
    by (simp add: cmd_args_def)
  have "length (str_tag ''path.file'' u s c ''managed'') > length c"
    by (simp add: str_tag_def tag_suffix_def)
  then have neq: "str_tag ''path.file'' u s c ''managed'' \<noteq> c" by auto
  show ?thesis
    using assms(1-3) scan cf args neq
    by (simp add: sys_cmd_def checked_def py_simps state_check_sys get_tag_strings)
qed

theorem cmd_content_requires_name_witness:
  "sys_cmd (PDict [(''module'', PStr ''sys.cmd''),
      (''parameter'', PDict [(''cmd'', PStr ''/opt/run.sh''), (''content'', PStr ''echo hi'')])])
     (PStr ''web'') (PStr ''5'') = Inr (PList
     [PDict [(''_web_5_path_file_/opt/run.sh_managed'',
        PDict [(''file'', PList [PStr ''managed'', PDict [(''mode'', PStr ''0755'')]])])],
      PDict [(''_web_5_sys_cmd_/opt/run.sh_run'', PDict [(''cmd'', PList [PStr ''run'',
        PDict [(''name'', PStr ''/opt/run.sh''), (''require'', PList [PDict [(''file'', PStr ''/opt/run.sh'')]])]])])]])"
proof -
  have "sys_cmd (PDict [(''module'', PStr ''sys.cmd''),
      (''parameter'', PDict [(''cmd'', PStr ''/opt/run.sh''), (''content'', PStr ''echo hi'')])])
     (PStr ''web'') (PStr ''5'') = Inr (PList
     [PDict [(str_tag ''path.file'' ''web'' ''5'' ''/opt/run.sh'' ''managed'',
        PDict [(''file'', PList [PStr ''managed'', PDict [(''mode'', PStr ''0755'')]])])],
      PDict [(str_tag ''sys.cmd'' ''web'' ''5'' ''/opt/run.sh'' ''run'', PDict [(''cmd'', PList [PStr ''run'',
        PDict [(''name'', PStr ''/opt/run.sh''), (''require'', PList [PDict [(''file'', PStr ''/opt/run.sh'')]])]])])]])
   \<and> str_tag ''path.file'' ''web'' ''5'' ''/opt/run.sh'' ''managed'' \<noteq> ''/opt/run.sh''"
    by (rule cmd_content_requires_name) auto
  then show ?thesis
    by (simp add: str_tag_def tag_part_def tag_suffix_def dots_to_underscores_def)
qed

text \<open>C16: a hostname step raises KeyError whenever the step has no key \<open>''\<close>,
  since the handler reads \<open>p_state['']\<close> before its loop.\<close>

theorem hostname_KeyError:
  assumes "map_of ps ''parameter'' = Some (PDict prm)" and "map_of ps '''' = None"
  shows "sys_hostname (PDict ps) uid step = Inl KeyError"
  using assms by (simp add: sys_hostname_def checked_def state_check_sys py_simps split: option.splits)

theorem hostname_KeyError_witness:
  "sys_hostname (PDict [(''module'', PStr ''sys.hostname''),
      (''parameter'', PDict [(''hostname'', PStr ''web1''), (''ip'', PStr ''10.0.0.1'')])])
     (PStr ''web'') (PStr ''6'') = Inl KeyError"
  by (rule hostname_KeyError) simp_all

text \<open>C17: a mount step with a truthy \<open>dump\<close> or \<open>passno\<close> raises NameError
  (\<open>atoi\<close> is undefined).\<close>

theorem mount_dump_NameError:
  assumes "map_of ps ''parameter'' = Some (PDict (pre @ (k, v) # post))"
    and "k \<in> {''dump'', ''passno''}" and "truthy v"
    and "\<forall>(a, w) \<in> set pre. a \<notin> {''dump'', ''passno''}"
  shows "sys_mount (PDict ps) uid step = Inl NameError"
proof -
  have "py_for (attr_step mount_attr) (pre @ (k, v) # post) ([], PNone) = Inl NameError"
    using assms(2-4) by (intro attr_scan_fail) (auto simp: mount_attr_def split: if_splits)
  then show ?thesis
    using assms(1) by (simp add: sys_mount_def simple_state_fail state_check_sys)
qed

theorem mount_dump_NameError_witness:
  "sys_mount (PDict [(''module'', PStr ''sys.mount''),
      (''parameter'', PDict [(''path'', PStr ''/mnt/data''), (''dump'', PStr ''0'')])])
     (PStr ''web'') (PStr ''7'') = Inl NameError"
  by (rule mount_dump_NameError [where pre = "[(''path'', PStr ''/mnt/data'')]" and post = "[]"]) auto

text \<open>C18: an SSH authorized-key or known-host step with a truthy
  \<open>encrypt_algorithm\<close> raises NameError (\<open>ssh_key_type\<close> is not in scope).\<close>

theorem ssh_encrypt_algorithm_NameError:
  assumes "map_of ps ''parameter'' = Some (PDict (pre @ (''encrypt_algorithm'', v) # post))"
    and "truthy v"
    and "\<forall>(a, w) \<in> set pre. a \<noteq> ''encrypt_algorithm''"
  shows "system_ssh_auth (PDict ps) uid step = Inl NameError \<and>
         system_ssh_known_host (PDict ps) uid step = Inl NameError"
proof -
  have "py_for (attr_step ssh_auth_attr) (pre @ (''encrypt_algorithm'', v) # post) ([], PNone) = Inl NameError"
    using assms(2,3) by (intro attr_scan_fail) (auto simp: ssh_auth_attr_def split: if_splits)
  moreover have "py_for (attr_step ssh_known_host_attr) (pre @ (''encrypt_algorithm'', v) # post) ([], PNone) = Inl NameError"
    using assms(2,3) by (intro attr_scan_fail) (auto simp: ssh_known_host_attr_def split: if_splits)
  ultimately show ?thesis
    using assms(1) by (simp add: system_ssh_auth_def system_ssh_known_host_def simple_state_fail state_check_sys)
qed

theorem ssh_encrypt_algorithm_NameError_witness:
  "system_ssh_auth (PDict [(''module'', PStr ''system.ssh.auth''),
      (''parameter'', PDict [(''authname'', PStr ''deploy''), (''encrypt_algorithm'', PStr ''ssh-rsa'')])])
     (PStr ''web'') (PStr ''8'') = Inl NameError \<and>
   system_ssh_known_host (PDict [(''module'', PStr ''system.ssh.auth''),
      (''parameter'', PDict [(''authname'', PStr ''deploy''), (''encrypt_algorithm'', PStr ''ssh-rsa'')])])
     (PStr ''web'') (PStr ''8'') = Inl NameError"
  by (rule ssh_encrypt_algorithm_NameError [where pre = "[(''authname'', PStr ''deploy'')]" and post = "[]"]) auto

text \<open>C19: a cron step maps \<open>cmd\<close> to the entry's name, copies \<open>minute\<close> and
  renames \<open>day of week\<close> to \<open>dayweek\<close>, with condition \<open>present\<close>.\<close>

theorem cron_record:
  assumes "map_of ps ''module'' = Some (PStr m)"
    and "map_of ps ''parameter'' = Some (PDict [(''cmd'', PStr c), (''minute'', PStr mi), (''day of week'', PStr dw)])"
    and "c \<noteq> []" and "mi \<noteq> []" and "dw \<noteq> []"
  shows "sys_cron (PDict ps) (PStr u) (PStr s) =
     Inr (PDict [(str_tag m u s c ''present'', PDict [(''cron'', PList [PStr ''present'',
        PDict [(''name'', PStr c), (''minute'', PStr mi), (''dayweek'', PStr dw)]])])])"
proof -
  have "py_for (attr_step cron_attr) [(''cmd'', PStr c), (''minute'', PStr mi), (''day of week'', PStr dw)] ([], PNone) =
        Inr ([(''name'', PStr c), (''minute'', PStr mi), (''dayweek'', PStr dw)], PStr c)"
    using assms(3-5) by (simp add: attr_step_def cron_attr_def)
  then show ?thesis
    using assms(1-3) by (simp add: sys_cron_def simple_state_ok state_check_sys)
qed

theorem cron_record_witness:
  "sys_cron (PDict [(''module'', PStr ''sys.cron''),
      (''parameter'', PDict [(''cmd'', PStr ''/usr/bin/backup''), (''minute'', PStr ''30''), (''day of week'', PStr ''1'')])])
     (PStr ''web'') (PStr ''9'') =
   Inr (PDict [(''_web_9_sys_cron_/usr/bin/backup_present'', PDict [(''cron'', PList [PStr ''present'',
      PDict [(''name'', PStr ''/usr/bin/backup''), (''minute'', PStr ''30''), (''dayweek'', PStr ''1'')]])])])"
proof -
  have "sys_cron (PDict [(''module'', PStr ''sys.cron''),
      (''parameter'', PDict [(''cmd'', PStr ''/usr/bin/backup''), (''minute'', PStr ''30''), (''day of week'', PStr ''1'')])])
     (PStr ''web'') (PStr ''9'') =
   Inr (PDict [(str_tag ''sys.cron'' ''web'' ''9'' ''/usr/bin/backup'' ''present'', PDict [(''cron'', PList [PStr ''present'',
      PDict [(''name'', PStr ''/usr/bin/backup''), (''minute'', PStr ''30''), (''dayweek'', PStr ''1'')]])])])"
    by (rule cron_record) simp_all
  then show ?thesis
    by (simp add: str_tag_def tag_part_def tag_suffix_def dots_to_underscores_def)
qed

end
