(* ===== verification/Compiler.thy ===== *)
theory Compiler
  imports Prelude
begin

text \<open>
  The compiler loop \<^verbatim>\<open>StatePreparation.transfer\<close>
  (\<^verbatim>\<open>src/POCs/salt/statepreparation.py\<close>, lines 23--96), stated over an arbitrary
  dispatch table: a handler is a function of the step, the component id and the step
  id, and the table maps a module string to a handler, as \<^verbatim>\<open>self.pre_mapping\<close>
  does. The object keeps the input document and the output list \<^verbatim>\<open>self.states\<close>,
  which \<^verbatim>\<open>transfer\<close> appends to and never resets; an exception leaves the
  appends made before it in place. The lemmas here hold for every table; the root
  theory instantiates the table with the handlers of the program.
\<close>

type_synonym handler = "pyval \<Rightarrow> pyval \<Rightarrow> pyval \<Rightarrow> pyval res"
type_synonym dispatch = "string \<Rightarrow> handler option"

record state_preparation =
  pre_states :: pyval
  states :: "pyval list"

text \<open>\<^verbatim>\<open>__init__\<close>: the document is stored, the output starts empty.\<close>

definition init_state_preparation :: "pyval \<Rightarrow> state_preparation" where
  "init_state_preparation pre = \<lparr>pre_states = pre, states = []\<rparr>"

section \<open>Python operations the loop uses\<close>

text \<open>\<^verbatim>\<open>for x in v\<close>: a list yields its items, a dictionary its keys, a string its
  characters; other values are not iterable.\<close>

fun py_iter :: "pyval \<Rightarrow> pyval list res" where
  "py_iter (PList xs) = Inr xs"
| "py_iter (PDict d) = Inr (map (\<lambda>kv. PStr (fst kv)) d)"
| "py_iter (PStr s) = Inr (map (\<lambda>c. PStr [c]) s)"
| "py_iter _ = Inl TypeError"

text \<open>\<^verbatim>\<open>m in self.pre_mapping\<close>: a list or dictionary is unhashable; a string is
  looked up; any other scalar is simply absent.\<close>

fun mapping_lookup :: "dispatch \<Rightarrow> pyval \<Rightarrow> handler option res" where
  "mapping_lookup disp (PStr m) = Inr (disp m)"
| "mapping_lookup disp (PList _) = Inl TypeError"
| "mapping_lookup disp (PDict _) = Inl TypeError"
| "mapping_lookup disp _ = Inr None"

fun hashable :: "pyval \<Rightarrow> bool" where
  "hashable (PList _) = False"
| "hashable (PDict _) = False"
| "hashable _ = True"

section \<open>The step loop of one component\<close>

text \<open>
  One iteration of \<^verbatim>\<open>for p_state in com['state']\<close>: read \<open>stateid\<close> and
  \<open>module\<close>, skip an unknown module, run the handler, and keep a truthy result
  that is a dictionary or a list under \<^verbatim>\<open>states[step]\<close>. Any other result (an
  error code, \<open>None\<close>, an empty list) is dropped.
\<close>

definition collect_step :: "dispatch \<Rightarrow> pyval \<Rightarrow> (pyval \<times> pyval) list \<Rightarrow> pyval \<Rightarrow> (pyval \<times> pyval) list res" where
  "collect_step disp uid steps p_state =
     rbind (py_getitem p_state ''stateid'') (\<lambda>step.
     rbind (py_getitem p_state ''module'') (\<lambda>module.
     rbind (mapping_lookup disp module) (\<lambda>h.
       case h of
         None \<Rightarrow> Inr steps
       | Some handler \<Rightarrow>
           rbind (handler p_state uid step) (\<lambda>state.
             if truthy state \<and> (is_dict state \<or> is_list state) then
               (if hashable step then Inr (AList.update step state steps) else Inl TypeError)
             else Inr steps))))"

text \<open>
  The ordering loop \<^verbatim>\<open>for i in range(len(states.keys())): step = str(i+1)\<close>:
  it looks up the keys \<open>'1'\<close>, \<open>'2'\<close>, \dots as strings, splices a list and appends
  a dictionary, and stops with KeyError at the first missing key, keeping what it
  has appended. The result is the exception, if any, and the output list.
\<close>

fun order_states :: "(pyval \<times> pyval) list \<Rightarrow> nat list \<Rightarrow> pyval list \<Rightarrow> pyerr option \<times> pyval list" where
  "order_states m [] acc = (None, acc)"
| "order_states m (i # is) acc =
     (case map_of m (PStr (nat_str (Suc i))) of
        None \<Rightarrow> (Some KeyError, acc)
      | Some (PDict d) \<Rightarrow> order_states m is (acc @ [PDict d])
      | Some (PList xs) \<Rightarrow> order_states m is (acc @ xs)
      | Some _ \<Rightarrow> order_states m is acc)"

section \<open>The component loop and \<^verbatim>\<open>transfer\<close>\<close>

definition component_steps :: "dispatch \<Rightarrow> string \<Rightarrow> pyval \<Rightarrow> (pyval \<times> pyval) list res" where
  "component_steps disp uid com =
     rbind (py_getitem com ''state'') (\<lambda>sts.
     rbind (py_iter sts) (\<lambda>ps.
       py_for (collect_step disp (PStr uid)) ps []))"

fun transfer_components :: "dispatch \<Rightarrow> pdict \<Rightarrow> pyval list \<Rightarrow> pyerr option \<times> pyval list" where
  "transfer_components disp [] acc = (None, acc)"
| "transfer_components disp ((uid, com) # cs) acc =
     (case component_steps disp uid com of
        Inl e \<Rightarrow> (Some e, acc)
      | Inr m \<Rightarrow>
          (case order_states m [0..<length m] acc of
             (None, acc') \<Rightarrow> transfer_components disp cs acc'
           | (Some e, acc') \<Rightarrow> (Some e, acc')))"

text \<open>\<^verbatim>\<open>transfer(self)\<close>: the new value of \<^verbatim>\<open>self.states\<close> is kept whether the
  loop returns or raises.\<close>

definition transfer :: "dispatch \<Rightarrow> state_preparation \<Rightarrow> pyval list res \<times> state_preparation" where
  "transfer disp sp =
     (case rbind (py_getitem (pre_states sp) ''component'') py_items of
        Inl e \<Rightarrow> (Inl e, sp)
      | Inr cs \<Rightarrow>
          (case transfer_components disp cs (states sp) of
             (None, acc) \<Rightarrow> (Inr acc, sp\<lparr>states := acc\<rparr>)
           | (Some e, acc) \<Rightarrow> (Inl e, sp\<lparr>states := acc\<rparr>)))"

section \<open>The output of the ordering loop\<close>

fun flat_state :: "pyval \<Rightarrow> pyval list" where
  "flat_state (PDict d) = [PDict d]"
| "flat_state (PList xs) = xs"
| "flat_state _ = []"

definition step_key :: "nat \<Rightarrow> pyval" where
  "step_key i = PStr (nat_str (Suc i))"

definition ordered_output :: "(pyval \<times> pyval) list \<Rightarrow> nat list \<Rightarrow> pyval list" where
  "ordered_output m ks = concat (map (\<lambda>i. case map_of m (step_key i) of Some v \<Rightarrow> flat_state v | None \<Rightarrow> []) ks)"

section \<open>Lemmas\<close>

lemma order_states_append:
  "order_states m ks (acc @ acc') = (fst (order_states m ks acc'), acc @ snd (order_states m ks acc'))"
proof (induction ks arbitrary: acc')
  case Nil
  then show ?case by simp
next
  case (Cons i ks)
  then show ?case
    by (cases "map_of m (PStr (nat_str (Suc i)))") (auto split: pyval.splits)
qed

lemma order_states_acc:
  "order_states m ks acc = (fst (order_states m ks []), acc @ snd (order_states m ks []))"
  using order_states_append [of m ks acc "[]"] by simp

text \<open>When every key \<open>'1'\<close> to \<open>'n'\<close> is present the ordering loop succeeds
  and appends the results in step-id order; when one is missing it raises KeyError.\<close>

lemma order_states_all:
  "\<forall>i\<in>set ks. map_of m (step_key i) \<noteq> None \<Longrightarrow>
   order_states m ks acc = (None, acc @ ordered_output m ks)"
proof (induction ks arbitrary: acc)
  case Nil
  then show ?case by (simp add: ordered_output_def)
next
  case (Cons i ks)
  then show ?case
    by (auto simp: ordered_output_def step_key_def split: option.splits pyval.splits)
qed

lemma order_states_missing:
  "\<exists>i\<in>set ks. map_of m (step_key i) = None \<Longrightarrow>
   fst (order_states m ks acc) = Some KeyError"
proof (induction ks arbitrary: acc)
  case Nil
  then show ?case by simp
next
  case (Cons i ks)
  then show ?case
    by (auto simp: step_key_def split: option.splits pyval.splits)
qed

lemma transfer_components_acc:
  "transfer_components disp cs acc =
     (fst (transfer_components disp cs []), acc @ snd (transfer_components disp cs []))"
proof (induction cs arbitrary: acc)
  case Nil
  then show ?case by simp
next
  case (Cons c cs)
  obtain uid com where c: "c = (uid, com)" by (cases c)
  show ?case
  proof (cases "component_steps disp uid com")
    case (Inl e)
    then show ?thesis by (simp add: c)
  next
    case (Inr m)
    obtain r out where o: "order_states m [0..<length m] [] = (r, out)" by fastforce
    have oacc: "order_states m [0..<length m] acc = (r, acc @ out)"
      using order_states_acc [of m "[0..<length m]" acc] o by simp
    show ?thesis
    proof (cases r)
      case None
      have "transfer_components disp cs (acc @ out) =
              (fst (transfer_components disp cs []), acc @ out @ snd (transfer_components disp cs []))"
        using Cons.IH [of "acc @ out"] by simp
      moreover have "transfer_components disp cs out =
              (fst (transfer_components disp cs []), out @ snd (transfer_components disp cs []))"
        using Cons.IH [of out] .
      ultimately show ?thesis using Inr o oacc None by (simp add: c)
    next
      case (Some e)
      then show ?thesis using Inr o oacc by (simp add: c)
    qed
  qed
qed

text \<open>C3: \<^verbatim>\<open>transfer\<close> appends to \<^verbatim>\<open>self.states\<close> without resetting it: calling it a
  second time on the same object returns the first output twice.\<close>

theorem transfer_reuse_duplicates:
  assumes "transfer disp (init_state_preparation pre) = (Inr out, sp)"
  shows "transfer disp sp = (Inr (out @ out), sp\<lparr>states := out @ out\<rparr>)"
proof -
  obtain cs where cs: "rbind (py_getitem pre ''component'') py_items = Inr cs"
    using assms by (auto simp: transfer_def init_state_preparation_def split: sum.splits)
  have run: "transfer_components disp cs [] = (None, out)" and sp: "sp = \<lparr>pre_states = pre, states = out\<rparr>"
    using assms cs by (auto simp: transfer_def init_state_preparation_def split: prod.splits option.splits)
  have "transfer_components disp cs out = (None, out @ out)"
    using transfer_components_acc [of disp cs out] run by simp
  then show ?thesis
    using cs sp by (simp add: transfer_def)
qed


text \<open>C1: a component whose kept step ids are exactly \<open>'1'\<close> to \<open>'n'\<close> contributes its
  handler results in step-id order, lists spliced, and compilation continues with
  the next component.\<close>

theorem component_in_stateid_order:
  assumes "component_steps disp uid com = Inr m"
    and "\<forall>i<length m. map_of m (step_key i) \<noteq> None"
  shows "transfer_components disp ((uid, com) # cs) acc =
           transfer_components disp cs (acc @ ordered_output m [0..<length m])"
  using assms order_states_all [of "[0..<length m]" m acc] by simp

text \<open>C2: a component in which some id among \<open>'1'\<close> to \<open>'n'\<close> is missing, for instance
  because a step in the middle was dropped as invalid, aborts the whole compilation
  with KeyError instead of skipping that step.\<close>

theorem component_gap_KeyError:
  assumes "component_steps disp uid com = Inr m"
    and "\<exists>i<length m. map_of m (step_key i) = None"
  shows "fst (transfer_components disp ((uid, com) # cs) acc) = Some KeyError"
proof -
  have "fst (order_states m [0..<length m] acc) = Some KeyError"
    using assms(2) by (intro order_states_missing) auto
  then obtain out where "order_states m [0..<length m] acc = (Some KeyError, out)"
    by (metis prod.collapse)
  then show ?thesis
    using assms(1) by simp
qed

end
