(* ===== verification/Repo_File.thy ===== *)
theory Repo_File
  imports Prelude
begin

text \<open>
  The text format of a yum repository file as \<^verbatim>\<open>src/salt/modules/yumpkg5.py\<close>
  reads and writes it: the line loop of \<^verbatim>\<open>_parse_repo_file\<close> and the writing loop
  shared by \<^verbatim>\<open>del_repo\<close> and \<^verbatim>\<open>mod_repo\<close>. A file is a header of comment
  lines followed by stanzas \<open>[name]\<close> of \<open>key=value\<close> lines and comments; the
  parsed form is an association list of stanzas, each a dictionary in insertion
  order. The main result is that the writing loop and the parser are inverse on
  clean stanzas (names and keys free of the characters the format uses).
\<close>

section \<open>Byte strings read from a file\<close>

text \<open>Iterating a file yields its lines, each with its terminating newline (the
  last one possibly without).\<close>

fun file_lines :: "string \<Rightarrow> string list" where
  "file_lines [] = []"
| "file_lines (c # s) =
     (if c = nl then [c] # file_lines s
      else (case file_lines s of [] \<Rightarrow> [[c]] | l # ls \<Rightarrow> (c # l) # ls))"

section \<open>Parsing a repository file: \<^verbatim>\<open>_parse_repo_file\<close>\<close>

type_synonym stanzas = "(string \<times> pdict) list"

text \<open>\<^verbatim>\<open>repos[repo]['comments'].append(line.strip())\<close>, creating the list first.
  A stanza whose key \<open>comments\<close> was set by a \<open>comments=\<dots>\<close> line holds a
  string, which has no \<open>append\<close>.\<close>

definition comments_append :: "pdict \<Rightarrow> string \<Rightarrow> pdict res" where
  "comments_append d s =
     (case map_of d ''comments'' of
        None \<Rightarrow> Inr (AList.update ''comments'' (PList [PStr s]) d)
      | Some (PList xs) \<Rightarrow> Inr (AList.update ''comments'' (PList (xs @ [PStr s])) d)
      | Some _ \<Rightarrow> Inl AttributeError)"

text \<open>One iteration of \<^verbatim>\<open>for line in rfile\<close>, on the state
  \<open>(header, repo, repos)\<close>. A line starting with \<open>[\<close> opens the stanza named
  by the stripped line without brackets; the same line is then also tested as a
  comment and as a \<open>key=value\<close> line. A comment before the first stanza goes into
  the header. A \<open>key=value\<close> line before the first stanza indexes
  \<open>repos['']\<close>, which does not exist.\<close>

definition parse_line :: "string \<times> string \<times> stanzas \<Rightarrow> string \<Rightarrow> (string \<times> string \<times> stanzas) res" where
  "parse_line hst line =
     (case hst of (header, repo0, repos0) \<Rightarrow>
      (let (repo, repos) =
             (if starts_with line ''['' then
                (let r = filter (\<lambda>c. c \<noteq> CHR '']'') (filter (\<lambda>c. c \<noteq> CHR ''['') (bstrip line))
                 in (r, AList.update r [] repos0))
              else (repo0, repos0));
           header' = (if line = [] \<and> repo = [] then header @ line else header)
       in if starts_with line ''#'' then
            (if repo = [] then Inr (header' @ line, repo, repos)
             else rbind (map_lookup repos repo) (\<lambda>d.
                  rbind (comments_append d (bstrip line)) (\<lambda>d'.
                  Inr (header', repo, AList.update repo d' repos))))
          else if CHR ''='' \<in> set line then
            rbind (map_lookup repos repo) (\<lambda>d.
              (let comps = split_on (CHR ''='') (bstrip line)
               in Inr (header', repo,
                       AList.update repo (AList.update (bstrip (hd comps)) (PStr (py_join ''='' (tl comps))) d)
                         repos)))
          else Inr (header', repo, repos)))"

definition parse_repo_text :: "string \<Rightarrow> (string \<times> stanzas) res" where
  "parse_repo_text text =
     rbind (py_for parse_line (file_lines text) ([], [], [])) (\<lambda>(header, repo, repos). Inr (header, repos))"

section \<open>Writing stanzas back\<close>

text \<open>\<^verbatim>\<open>'\n'.join(x)\<close>: a list of strings is joined; a string is iterated by
  character; anything else raises TypeError.\<close>

fun py_join_val :: "string \<Rightarrow> pyval \<Rightarrow> string res" where
  "py_join_val sep (PList xs) = (if list_all is_str xs then Inr (py_join sep (map py_str xs)) else Inl TypeError)"
| "py_join_val sep (PStr s) = Inr (py_join sep (map (\<lambda>c. [c]) s))"
| "py_join_val sep _ = Inl TypeError"

text \<open>The body of the writing loop shared by \<^verbatim>\<open>del_repo\<close> and \<^verbatim>\<open>mod_repo\<close>: the
  comments are joined and deleted from the stanza (the deletion is visible in the
  dictionary \<^verbatim>\<open>mod_repo\<close> returns), then \<open>[stanza]\<close>, one \<open>key=value\<close> line per
  remaining key and the comments are appended.\<close>

definition render_stanza :: "string \<Rightarrow> pdict \<Rightarrow> (string \<times> pdict) res" where
  "render_stanza stanza d =
     rbind (if map_of d ''comments'' \<noteq> None then
              rbind (map_lookup d ''comments'') (\<lambda>c.
              rbind (py_join_val [nl] c) (\<lambda>cs. Inr (cs, AList.delete ''comments'' d)))
            else Inr ([], d)) (\<lambda>(comments, d').
     Inr ([nl] @ ''['' @ stanza @ '']'' @ concat (map (\<lambda>(k, v). [nl] @ k @ ''='' @ py_str v) d') @
          [nl] @ comments @ [nl], d'))"

text \<open>The loop \<^verbatim>\<open>for stanza in filerepos.keys()\<close>, skipping the stanza
  \<open>skip\<close> (\<^verbatim>\<open>del_repo\<close>) or none (\<^verbatim>\<open>mod_repo\<close>), from \<open>content = header\<close>.\<close>

definition render_repos :: "string \<Rightarrow> string option \<Rightarrow> stanzas \<Rightarrow> (string \<times> stanzas) res" where
  "render_repos header skip repos =
     py_for (\<lambda>(content, acc) (stanza, d).
               if Some stanza = skip then Inr (content, acc @ [(stanza, d)])
               else rbind (render_stanza stanza d) (\<lambda>(text, d'). Inr (content @ text, acc @ [(stanza, d')])))
       repos (header, [])"

section \<open>Clean file contents\<close>

text \<open>The contents the writing loop writes in a form the parser reads back: a
  stanza name without newline, brackets and \<open>=\<close>; keys without newline and
  \<open>=\<close>, not starting a section or a comment, unchanged by \<open>strip\<close>; values
  without newline and trailing whitespace; comments that start with \<open>#\<close>. A
  stanza is a dictionary of such string entries, optionally ending with a
  non-empty \<open>comments\<close> list, where the parser puts it. The lines of a written
  stanza are \<open>stanza_lines\<close>, each followed by a newline in \<open>stanza_text\<close>.\<close>

definition clean_name :: "string \<Rightarrow> bool" where
  "clean_name s = (s \<noteq> [] \<and> nl \<notin> set s \<and> CHR ''['' \<notin> set s \<and> CHR '']'' \<notin> set s \<and> CHR ''='' \<notin> set s)"

definition clean_key :: "string \<Rightarrow> bool" where
  "clean_key k = (nl \<notin> set k \<and> CHR ''='' \<notin> set k \<and> bstrip k = k \<and>
                  \<not> starts_with k ''['' \<and> \<not> starts_with k ''#'' \<and> k \<noteq> ''comments'')"

definition clean_value :: "string \<Rightarrow> bool" where
  "clean_value v = (nl \<notin> set v \<and> (v = [] \<or> \<not> byte_space (last v)))"

definition clean_comment :: "string \<Rightarrow> bool" where
  "clean_comment c = (starts_with c ''#'' \<and> nl \<notin> set c \<and> \<not> byte_space (last c))"

definition clean_entry :: "string \<times> pyval \<Rightarrow> bool" where
  "clean_entry kv = (case kv of (k, PStr x) \<Rightarrow> clean_key k \<and> clean_value x | _ \<Rightarrow> False)"

definition clean_stanza :: "pdict \<Rightarrow> bool" where
  "clean_stanza d =
     (distinct (map fst d) \<and>
      (if d \<noteq> [] \<and> fst (last d) = ''comments'' then
         (case snd (last d) of
            PList cs \<Rightarrow> cs \<noteq> [] \<and> list_all (\<lambda>c. case c of PStr x \<Rightarrow> clean_comment x | _ \<Rightarrow> False) cs
          | _ \<Rightarrow> False) \<and>
         list_all clean_entry (butlast d)
       else list_all clean_entry d))"

definition clean_repos :: "stanzas \<Rightarrow> bool" where
  "clean_repos R = (distinct (map fst R) \<and> list_all (\<lambda>(s, d). clean_name s \<and> clean_stanza d) R)"

definition clean_header :: "string \<Rightarrow> bool" where
  "clean_header h = ((h = [] \<or> last h = nl) \<and> list_all (\<lambda>l. starts_with l ''#'') (file_lines h))"

definition stanza_lines :: "string \<Rightarrow> pdict \<Rightarrow> string list" where
  "stanza_lines s d =
     [] # (''['' @ s @ '']'') # map (\<lambda>(k, v). k @ ''='' @ py_str v) (AList.delete ''comments'' d) @
     (case map_of d ''comments'' of Some (PList cs) \<Rightarrow> if cs = [] then [[]] else map py_str cs | _ \<Rightarrow> [[]])"

definition stanza_text :: "string \<Rightarrow> pdict \<Rightarrow> string" where
  "stanza_text s d = concat (map (\<lambda>y. y @ [nl]) (stanza_lines s d))"

section \<open>Lemmas\<close>

lemma file_lines_append:
  "s = [] \<or> last s = nl \<Longrightarrow> file_lines (s @ t) = file_lines s @ file_lines t"
proof (induction s)
  case Nil
  then show ?case by simp
next
  case (Cons c s)
  show ?case
  proof (cases "s = []")
    case True
    with Cons.prems show ?thesis by simp
  next
    case False
    with Cons.prems have "last s = nl" by simp
    with Cons.IH False have IH: "file_lines (s @ t) = file_lines s @ file_lines t" by simp
    show ?thesis
    proof (cases "file_lines s")
      case Nil
      have "file_lines s \<noteq> []" using False by (cases s) (auto split: list.splits)
      with Nil show ?thesis by simp
    next
      case (Cons l ls)
      then show ?thesis using IH by simp
    qed
  qed
qed

lemma file_lines_line:
  "nl \<notin> set l \<Longrightarrow> file_lines (l @ [nl]) = [l @ [nl]]"
  by (induction l) auto

lemma file_lines_lines:
  "list_all (\<lambda>l. nl \<notin> set l) ls \<Longrightarrow> file_lines (concat (map (\<lambda>l. l @ [nl]) ls)) = map (\<lambda>l. l @ [nl]) ls"
proof (induction ls)
  case Nil
  then show ?case by simp
next
  case (Cons l ls)
  have "file_lines ((l @ [nl]) @ concat (map (\<lambda>l. l @ [nl]) ls)) =
        file_lines (l @ [nl]) @ file_lines (concat (map (\<lambda>l. l @ [nl]) ls))"
    by (rule file_lines_append) simp
  then show ?case
    using Cons by (simp add: file_lines_line)
qed

lemma newline_shift:
  "a @ concat (map (\<lambda>x. nl # f x) xs) @ [nl] = concat (map (\<lambda>y. y @ [nl]) (a # map f xs))"
  by (induction xs arbitrary: a) auto

lemma join_shift:
  "cs \<noteq> [] \<Longrightarrow> py_join [nl] cs @ [nl] = concat (map (\<lambda>c. c @ [nl]) cs)"
proof (induction cs)
  case Nil
  then show ?case by simp
next
  case (Cons c cs)
  then show ?case by (cases cs) auto
qed

lemma byte_space_nl [simp]: "byte_space nl"
  by (simp add: byte_space_def nl_def)

lemma nl_chars [simp]:
  "nl \<noteq> CHR ''[''" "nl \<noteq> CHR '']''" "nl \<noteq> CHR ''=''" "nl \<noteq> CHR ''#''"
  "CHR ''['' \<noteq> nl" "CHR '']'' \<noteq> nl" "CHR ''='' \<noteq> nl" "CHR ''#'' \<noteq> nl"
  by (simp_all add: nl_def)

lemma byte_space_chars [simp]:
  "\<not> byte_space CHR ''[''" "\<not> byte_space CHR '']''" "\<not> byte_space CHR ''=''" "\<not> byte_space CHR ''#''"
  by (simp_all add: byte_space_def)

lemma bstrip_trailing:
  assumes "x \<noteq> []" "\<not> byte_space (hd x)" "\<not> byte_space (last x)" "list_all byte_space ws"
  shows "bstrip (x @ ws) = x"
proof -
  have "dropWhile byte_space (x @ ws) = x @ ws"
    using assms(1,2) by (cases x) auto
  moreover have "dropWhile byte_space (rev ws @ rev x) = rev x"
    using assms(1,3,4) by (cases x rule: rev_cases) (auto simp: list_all_iff dropWhile_append)
  ultimately show ?thesis by (simp add: bstrip_def)
qed

lemma bstrip_fixed_hd:
  assumes "bstrip k = k" "k \<noteq> []"
  shows "\<not> byte_space (hd k)"
proof
  assume sp: "byte_space (hd k)"
  have "length (bstrip k) \<le> length (dropWhile byte_space k)"
    unfolding bstrip_def using length_dropWhile_le [of byte_space "rev (dropWhile byte_space k)"] by simp
  also have "\<dots> < length k"
    using sp assms(2) by (cases k) (auto simp: le_imp_less_Suc length_dropWhile_le)
  finally show False using assms(1) by simp
qed

lemma parse_blank_line:
  "parse_line (h, r, R) [nl] = Inr (h, r, R)"
  by (simp add: parse_line_def starts_with_def)

lemma parse_stanza_line:
  assumes "clean_name s"
  shows "parse_line (h, r, R) ((''['' @ s @ '']'') @ [nl]) = Inr (h, s, AList.update s [] R)"
proof -
  have strip: "bstrip ((''['' @ s @ '']'') @ [nl]) = ''['' @ s @ '']''"
    by (rule bstrip_trailing) simp_all
  have "filter (\<lambda>c. c \<noteq> CHR '']'') (filter (\<lambda>c. c \<noteq> CHR ''['') (''['' @ s @ '']'')) = s"
    using assms by (auto simp: clean_name_def filter_id_conv)
  with assms strip show ?thesis
    by (simp add: parse_line_def starts_with_def clean_name_def)
qed

lemma parse_key_line:
  assumes "clean_key k" "clean_value v" "map_of R s = Some d" "s \<noteq> []"
  shows "parse_line (h, s, R) ((k @ ''='' @ v) @ [nl]) = Inr (h, s, AList.update s (AList.update k (PStr v) d) R)"
proof -
  have hd: "\<not> byte_space (hd (k @ ''='' @ v))"
    using assms(1) bstrip_fixed_hd [of k] by (cases k) (auto simp: clean_key_def)
  have lst: "\<not> byte_space (last (k @ ''='' @ v))"
    using assms(2) by (auto simp: clean_value_def)
  have strip: "bstrip ((k @ ''='' @ v) @ [nl]) = k @ ''='' @ v"
    using hd lst by (intro bstrip_trailing) simp_all
  have split: "split_on (CHR ''='') (k @ ''='' @ v) = k # split_on (CHR ''='') v"
    using assms(1) split_on_append_sep [of "CHR ''=''" k v] by (simp add: clean_key_def)
  have join: "py_join ''='' (split_on (CHR ''='') v) = v"
    using split_on_join [of "CHR ''=''" v] by simp
  have nb: "\<not> starts_with ((k @ ''='' @ v) @ [nl]) ''[''" "\<not> starts_with ((k @ ''='' @ v) @ [nl]) ''#''"
    using assms(1) by (cases k; simp add: clean_key_def starts_with_def)+
  show ?thesis
    using assms(1,3,4) strip split join nb
    by (simp add: parse_line_def map_lookup_def clean_key_def)
qed

lemma parse_comment_line:
  assumes "clean_comment c" "map_of R s = Some d" "s \<noteq> []"
  shows "parse_line (h, s, R) (c @ [nl]) =
           rbind (comments_append d c) (\<lambda>d'. Inr (h, s, AList.update s d' R))"
proof -
  have c: "c \<noteq> []" "hd c = CHR ''#''"
    using assms(1) by (cases c; auto simp: clean_comment_def starts_with_def)+
  have strip: "bstrip (c @ [nl]) = c"
    using assms(1) c by (intro bstrip_trailing) (auto simp: clean_comment_def)
  have "\<not> starts_with (c @ [nl]) ''[''" "starts_with (c @ [nl]) ''#''"
    using c by (cases c; simp add: starts_with_def)+
  then show ?thesis
    using assms(2,3) strip by (simp add: parse_line_def map_lookup_def)
qed

lemma clean_stanza_cases:
  assumes "clean_stanza d"
  obtains "list_all clean_entry d" "distinct (map fst d)"
  | kvs cs where "d = kvs @ [(''comments'', PList (map PStr cs))]" "cs \<noteq> []" "list_all clean_comment cs"
      "list_all clean_entry kvs" "distinct (map fst kvs)" "map_of kvs ''comments'' = None"
proof (cases "d \<noteq> [] \<and> fst (last d) = ''comments''")
  case False
  then show ?thesis using assms that(1) by (simp add: clean_stanza_def)
next
  case True
  then obtain kvs c where d: "d = kvs @ [(''comments'', c)]"
    by (metis append_butlast_last_id prod.collapse)
  with assms obtain vs where c: "c = PList vs" "vs \<noteq> []"
      "list_all (\<lambda>c. case c of PStr x \<Rightarrow> clean_comment x | _ \<Rightarrow> False) vs"
      and kv: "list_all clean_entry kvs" "distinct (map fst kvs)" "''comments'' \<notin> set (map fst kvs)"
    by (auto simp: clean_stanza_def split: pyval.splits)
  have vs: "vs = map PStr (map py_str vs)" "list_all clean_comment (map py_str vs)"
    using c(3) by (induction vs) (auto split: pyval.splits)
  show ?thesis
  proof (rule that(2))
    show "d = kvs @ [(''comments'', PList (map PStr (map py_str vs)))]" using d c vs by simp
  qed (use c vs kv in \<open>auto simp: map_of_eq_None_iff\<close>)
qed

lemma clean_entry_not_comments: "clean_entry (k, v) \<Longrightarrow> k \<noteq> ''comments''"
  by (cases v) (simp_all add: clean_entry_def clean_key_def)

lemma clean_entry_key: "list_all clean_entry kvs \<Longrightarrow> map_of kvs ''comments'' = None"
  by (induction kvs) (auto dest: clean_entry_not_comments)

lemma parse_key_lines:
  assumes "list_all clean_entry kvs" "distinct (map fst kvs)" "set (map fst kvs) \<inter> set (map fst d) = {}"
    "map_of R s = Some d" "s \<noteq> []"
  shows "py_for parse_line (map (\<lambda>(k, v). (k @ ''='' @ py_str v) @ [nl]) kvs) (h, s, R) =
           Inr (h, s, AList.update s (d @ kvs) R)"
  using assms
proof (induction kvs arbitrary: d R)
  case Nil
  then show ?case by (simp add: update_triv)
next
  case (Cons kv kvs)
  obtain k x where kv: "kv = (k, PStr x)" "clean_key k" "clean_value x"
    using Cons.prems(1) by (cases kv) (auto simp: clean_entry_def split: pyval.splits)
  have new: "map_of d k = None"
    using Cons.prems(3) kv(1) by (auto simp: map_of_eq_None_iff)
  have step: "parse_line (h, s, R) ((k @ ''='' @ x) @ [nl]) = Inr (h, s, AList.update s (d @ [(k, PStr x)]) R)"
    using parse_key_line [OF kv(2,3) Cons.prems(4,5)] new by (simp add: update_absent)
  have "py_for parse_line (map (\<lambda>(k, v). (k @ ''='' @ py_str v) @ [nl]) kvs) (h, s, AList.update s (d @ [(k, PStr x)]) R) =
          Inr (h, s, AList.update s ((d @ [(k, PStr x)]) @ kvs) (AList.update s (d @ [(k, PStr x)]) R))"
    using Cons.prems kv(1) by (intro Cons.IH) (auto simp: update_conv')
  then show ?case
    using step kv(1) by simp
qed

lemma comments_append_first:
  "map_of d ''comments'' = None \<Longrightarrow> comments_append d c = Inr (d @ [(''comments'', PList [PStr c])])"
  by (simp add: comments_append_def update_absent)

lemma comments_append_snoc:
  assumes "map_of d ''comments'' = None"
  shows "comments_append (d @ [(''comments'', PList xs)]) c = Inr (d @ [(''comments'', PList (xs @ [PStr c]))])"
proof -
  have "map_of (d @ [(''comments'', PList xs)]) ''comments'' = Some (PList xs)"
    using assms by (simp add: map_add_def)
  then show ?thesis
    using assms by (simp add: comments_append_def update_snoc)
qed

lemma parse_comment_lines:
  assumes "list_all clean_comment cs" "map_of R s = Some (d @ [(''comments'', PList xs)])"
    "map_of d ''comments'' = None" "s \<noteq> []"
  shows "py_for parse_line (map (\<lambda>c. c @ [nl]) cs) (h, s, R) =
           Inr (h, s, AList.update s (d @ [(''comments'', PList (xs @ map PStr cs))]) R)"
  using assms
proof (induction cs arbitrary: xs R)
  case Nil
  then show ?case by (simp add: update_triv)
next
  case (Cons c cs)
  have step: "parse_line (h, s, R) (c @ [nl]) =
                Inr (h, s, AList.update s (d @ [(''comments'', PList (xs @ [PStr c]))]) R)"
    using parse_comment_line [of c R s _ h] Cons.prems comments_append_snoc [OF Cons.prems(3)]
    by simp
  have "py_for parse_line (map (\<lambda>c. c @ [nl]) cs) (h, s, AList.update s (d @ [(''comments'', PList (xs @ [PStr c]))]) R) =
          Inr (h, s, AList.update s (d @ [(''comments'', PList ((xs @ [PStr c]) @ map PStr cs))])
                       (AList.update s (d @ [(''comments'', PList (xs @ [PStr c]))]) R))"
    using Cons.prems by (intro Cons.IH) (auto simp: update_conv')
  then show ?case
    using step by simp
qed

lemma kv_shift:
  "a @ concat (map (\<lambda>(k, v). nl # k @ ''='' @ py_str v) d) @ nl # t =
   concat (map (\<lambda>y. y @ [nl]) (a # map (\<lambda>(k, v). k @ ''='' @ py_str v) d)) @ t"
  by (induction d arbitrary: a) auto

lemma render_stanza_clean:
  assumes "clean_stanza d"
  shows "render_stanza s d = Inr (stanza_text s d, AList.delete ''comments'' d)"
  using assms
proof (cases rule: clean_stanza_cases)
  case 1
  then have none: "map_of d ''comments'' = None" by (simp add: clean_entry_key)
  then have "AList.delete ''comments'' d = d" by (simp add: map_of_eq_None_iff)
  then show ?thesis
    using none kv_shift [of "''['' @ s @ '']''" d "[nl]"]
    by (simp add: render_stanza_def stanza_text_def stanza_lines_def)
next
  case (2 kvs cs)
  have del: "AList.delete ''comments'' d = kvs"
    using 2 by (simp add: delete_snoc_same)
  have look: "map_of d ''comments'' = Some (PList (map PStr cs))"
    using 2 by (simp add: map_add_def)
  have strs: "list_all is_str (map PStr cs)"
    by (induction cs) auto
  have "py_join [nl] (map py_str (map PStr cs)) @ [nl] = concat (map (\<lambda>c. c @ [nl]) cs)"
    using join_shift [of cs] 2(2) by (simp add: comp_def)
  then show ?thesis
    using del look strs 2(2) kv_shift [of "''['' @ s @ '']''" kvs "concat (map (\<lambda>c. c @ [nl]) cs)"]
    by (simp add: render_stanza_def stanza_text_def stanza_lines_def map_lookup_def comp_def)
qed

lemma clean_entry_no_nl:
  "clean_entry (k, v) \<Longrightarrow> nl \<notin> set (k @ ''='' @ py_str v)"
  by (cases v) (auto simp: clean_entry_def clean_key_def clean_value_def)

lemma clean_entries_no_nl:
  "list_all clean_entry d \<Longrightarrow> list_all (\<lambda>l. nl \<notin> set l) (map (\<lambda>(k, v). k @ ''='' @ py_str v) d)"
  by (induction d) (auto dest: clean_entry_no_nl)

lemma last_lines: "L \<noteq> [] \<Longrightarrow> last (concat (map (\<lambda>y. y @ [nl]) L)) = nl"
  by (induction L) auto

lemma stanza_lines_no_nl:
  assumes "clean_name s" "clean_stanza d"
  shows "list_all (\<lambda>l. nl \<notin> set l) (stanza_lines s d)"
  using assms(2)
proof (cases rule: clean_stanza_cases)
  case 1
  have "list_all (\<lambda>l. nl \<notin> set l) (map (\<lambda>(k, v). k @ ''='' @ py_str v) d)"
    using 1(1) by (rule clean_entries_no_nl)
  then show ?thesis
    using 1 assms(1) by (simp add: stanza_lines_def clean_name_def clean_entry_key delete_absent)
next
  case (2 kvs cs)
  have "list_all (\<lambda>l. nl \<notin> set l) (map (\<lambda>(k, v). k @ ''='' @ py_str v) kvs)"
    using 2(4) by (rule clean_entries_no_nl)
  moreover have "list_all (\<lambda>l. nl \<notin> set l) cs"
    using 2(3) by (induction cs) (auto simp: clean_comment_def)
  ultimately show ?thesis
    using 2 assms(1) by (simp add: stanza_lines_def clean_name_def delete_snoc_same map_add_def comp_def)
qed

lemma file_lines_stanza:
  assumes "clean_name s" "clean_stanza d"
  shows "file_lines (stanza_text s d @ t) = map (\<lambda>y. y @ [nl]) (stanza_lines s d) @ file_lines t"
proof -
  have "last (stanza_text s d) = nl"
    unfolding stanza_text_def by (rule last_lines) (simp add: stanza_lines_def)
  then have "file_lines (stanza_text s d @ t) = file_lines (stanza_text s d) @ file_lines t"
    by (intro file_lines_append) simp
  then show ?thesis
    using file_lines_lines [OF stanza_lines_no_nl [OF assms]] by (simp add: stanza_text_def)
qed

lemma parse_stanza:
  assumes "clean_name s" "clean_stanza d" "map_of R s = None"
  shows "py_for parse_line (map (\<lambda>y. y @ [nl]) (stanza_lines s d)) (h, r, R) = Inr (h, s, R @ [(s, d)])"
proof -
  have s: "s \<noteq> []" using assms(1) by (simp add: clean_name_def)
  have open_: "parse_line (h, r, R) ((''['' @ s @ '']'') @ [nl]) = Inr (h, s, R @ [(s, [])])"
    using parse_stanza_line [OF assms(1)] assms(3) by (simp add: update_absent)
  have in_R: "map_of (R @ [(s, [])]) s = Some []"
    using assms(3) by (simp add: map_add_def)
  from assms(2) show ?thesis
  proof (cases rule: clean_stanza_cases)
    case 1
    have keys: "py_for parse_line (map (\<lambda>(k, v). (k @ ''='' @ py_str v) @ [nl]) d) (h, s, R @ [(s, [])]) =
                  Inr (h, s, R @ [(s, d)])"
      using parse_key_lines [OF 1(1,2) _ in_R s, of h] assms(3) by (simp add: update_snoc)
    have lines: "map (\<lambda>y. y @ [nl]) (stanza_lines s d) =
        [nl] # ((''['' @ s @ '']'') @ [nl]) # map (\<lambda>(k, v). (k @ ''='' @ py_str v) @ [nl]) d @ [[nl]]"
    proof -
      have "map_of d ''comments'' = None" using 1(1) by (rule clean_entry_key)
      then have "AList.delete ''comments'' d = d" by (simp add: map_of_eq_None_iff)
      then show ?thesis
        using 1 by (simp add: stanza_lines_def clean_entry_key comp_def case_prod_beta)
    qed
    show ?thesis
      unfolding lines using open_ keys by (simp add: py_for_append parse_blank_line)
  next
    case (2 kvs cs)
    have keys: "py_for parse_line (map (\<lambda>(k, v). (k @ ''='' @ py_str v) @ [nl]) kvs) (h, s, R @ [(s, [])]) =
                  Inr (h, s, R @ [(s, kvs)])"
      using parse_key_lines [OF 2(4,5) _ in_R s, of h] assms(3) by (simp add: update_snoc)
    obtain c cs' where cs: "cs = c # cs'" using 2(2) by (cases cs) auto
    have kvs_in: "map_of (R @ [(s, kvs)]) s = Some kvs"
      using assms(3) by (simp add: map_add_def)
    have first: "parse_line (h, s, R @ [(s, kvs)]) (c @ [nl]) =
                   Inr (h, s, R @ [(s, kvs @ [(''comments'', PList [PStr c])])])"
      using parse_comment_line [of c "R @ [(s, kvs)]" s kvs h] 2(3) cs kvs_in s
        comments_append_first [OF 2(6), of c] assms(3) by (simp add: update_snoc)
    have rest: "py_for parse_line (map (\<lambda>c. c @ [nl]) cs') (h, s, R @ [(s, kvs @ [(''comments'', PList [PStr c])])]) =
                  Inr (h, s, R @ [(s, d)])"
      using parse_comment_lines [of cs' "R @ [(s, kvs @ [(''comments'', PList [PStr c])])]" s kvs "[PStr c]" h]
        2(1,3,6) cs assms(3) s by (simp add: map_add_def update_snoc)
    have lines: "map (\<lambda>y. y @ [nl]) (stanza_lines s d) =
        [nl] # ((''['' @ s @ '']'') @ [nl]) # map (\<lambda>(k, v). (k @ ''='' @ py_str v) @ [nl]) kvs @
        (c @ [nl]) # map (\<lambda>c. c @ [nl]) cs'"
      using 2 cs by (simp add: stanza_lines_def delete_snoc_same map_add_def comp_def case_prod_beta)
    show ?thesis
      unfolding lines using open_ keys first rest by (simp add: py_for_append parse_blank_line)
  qed
qed

lemma render_repos_acc:
  assumes "list_all (\<lambda>(s, d). clean_stanza d) R"
  shows "py_for (\<lambda>(content, acc) (stanza, d).
               if Some stanza = None then Inr (content, acc @ [(stanza, d)])
               else rbind (render_stanza stanza d) (\<lambda>(text, d'). Inr (content @ text, acc @ [(stanza, d')])))
           R (c0, acc0) =
         Inr (c0 @ concat (map (\<lambda>(s, d). stanza_text s d) R), acc0 @ map (\<lambda>(s, d). (s, AList.delete ''comments'' d)) R)"
  using assms
proof (induction R arbitrary: c0 acc0)
  case Nil
  then show ?case by simp
next
  case (Cons sd R)
  obtain s d where sd: "sd = (s, d)" by (cases sd)
  with Cons.prems have "clean_stanza d" by simp
  then show ?case
    using Cons sd by (simp add: render_stanza_clean)
qed

lemma render_repos_clean:
  "list_all (\<lambda>(s, d). clean_stanza d) R \<Longrightarrow>
   render_repos h None R =
     Inr (h @ concat (map (\<lambda>(s, d). stanza_text s d) R), map (\<lambda>(s, d). (s, AList.delete ''comments'' d)) R)"
  using render_repos_acc [of R h "[]"] by (simp add: render_repos_def)

lemma parse_stanzas:
  assumes "list_all (\<lambda>(s, d). clean_name s \<and> clean_stanza d) R" "distinct (map fst R)"
    "set (map fst R) \<inter> set (map fst Racc) = {}"
  shows "\<exists>r'. py_for parse_line (file_lines (concat (map (\<lambda>(s, d). stanza_text s d) R))) (h, r, Racc) =
              Inr (h, r', Racc @ R)"
  using assms
proof (induction R arbitrary: r Racc)
  case Nil
  then show ?case by simp
next
  case (Cons sd R)
  obtain s d where sd: "sd = (s, d)" by (cases sd)
  with Cons.prems have cl: "clean_name s" "clean_stanza d" "map_of Racc s = None"
    by (auto simp: map_of_eq_None_iff)
  have step: "py_for parse_line (map (\<lambda>y. y @ [nl]) (stanza_lines s d)) (h, r, Racc) = Inr (h, s, Racc @ [(s, d)])"
    by (rule parse_stanza [OF cl])
  obtain r' where "py_for parse_line (file_lines (concat (map (\<lambda>(s, d). stanza_text s d) R))) (h, s, Racc @ [(s, d)]) =
                     Inr (h, r', (Racc @ [(s, d)]) @ R)"
    using Cons.IH [of "Racc @ [(s, d)]" s] Cons.prems sd by auto
  then show ?case
    using step sd file_lines_stanza [OF cl(1,2)] by (simp add: py_for_append)
qed

lemma parse_header_lines:
  "list_all (\<lambda>l. starts_with l ''#'') ls \<Longrightarrow> py_for parse_line ls (h0, [], []) = Inr (h0 @ concat ls, [], [])"
proof (induction ls arbitrary: h0)
  case Nil
  then show ?case by simp
next
  case (Cons l ls)
  then obtain t where l: "l = CHR ''#'' # t"
    by (cases l) (auto simp: starts_with_def)
  have "parse_line (h0, [], []) l = Inr (h0 @ l, [], [])"
    using l by (simp add: parse_line_def starts_with_def)
  then show ?case
    using Cons by simp
qed

lemma concat_file_lines: "concat (file_lines s) = s"
  by (induction s rule: file_lines.induct) (auto split: list.splits)

lemma parse_rendered:
  assumes "clean_header h" "clean_repos R"
  shows "parse_repo_text (h @ concat (map (\<lambda>(s, d). stanza_text s d) R)) = Inr (h, R)"
proof -
  have R: "list_all (\<lambda>(s, d). clean_name s \<and> clean_stanza d) R" "distinct (map fst R)"
    using assms(2) by (simp_all add: clean_repos_def)
  have lines: "file_lines (h @ concat (map (\<lambda>(s, d). stanza_text s d) R)) =
                 file_lines h @ file_lines (concat (map (\<lambda>(s, d). stanza_text s d) R))"
    using assms(1) by (intro file_lines_append) (simp add: clean_header_def)
  have head: "py_for parse_line (file_lines h) ([], [], []) = Inr (h, [], [])"
    using parse_header_lines [of "file_lines h" "[]"] assms(1) by (simp add: clean_header_def concat_file_lines)
  obtain r' where body: "py_for parse_line (file_lines (concat (map (\<lambda>(s, d). stanza_text s d) R))) (h, [], []) =
                           Inr (h, r', R)"
    using parse_stanzas [OF R, of "[]" h "[]"] by auto
  show ?thesis
    using lines head body by (simp add: parse_repo_text_def py_for_append)
qed

lemma clean_repos_stanzas: "clean_repos R \<Longrightarrow> list_all (\<lambda>(s, d). clean_stanza d) R"
  by (simp add: clean_repos_def list_all_iff case_prod_beta)

text \<open>C21: the writing loop and the parser are inverse: rendering a clean header
  and clean stanzas with the loop of \<^verbatim>\<open>mod_repo\<close> and parsing the text with
  \<^verbatim>\<open>_parse_repo_file\<close> gives back exactly the header and the stanzas, in order.\<close>

theorem repo_file_roundtrip:
  assumes "clean_header h" "clean_repos R"
  shows "rbind (render_repos h None R) (\<lambda>(content, _). parse_repo_text content) = Inr (h, R)"
  using render_repos_clean [OF clean_repos_stanzas [OF assms(2)]] parse_rendered [OF assms] by simp

theorem repo_file_roundtrip_witness:
  "clean_header (''# main'' @ [nl]) \<and>
   clean_repos [(''base'', [(''name'', PStr ''Base''), (''baseurl'', PStr ''http://mirror/os'')])] \<and>
   rbind (render_repos (''# main'' @ [nl]) None [(''base'', [(''name'', PStr ''Base''), (''baseurl'', PStr ''http://mirror/os'')])])
     (\<lambda>(content, _). parse_repo_text content) =
   Inr (''# main'' @ [nl], [(''base'', [(''name'', PStr ''Base''), (''baseurl'', PStr ''http://mirror/os'')])])"
proof -
  have h: "clean_header (''# main'' @ [nl])"
    by (simp add: clean_header_def nl_def starts_with_def)
  have r: "clean_repos [(''base'', [(''name'', PStr ''Base''), (''baseurl'', PStr ''http://mirror/os'')])]"
    by (simp add: clean_repos_def clean_name_def clean_stanza_def clean_entry_def clean_key_def clean_value_def
        nl_def bstrip_def byte_space_def starts_with_def)
  show ?thesis using repo_file_roundtrip [OF h r] h r by simp
qed

end
