(* ===== verification/Yum_Repo.thy ===== *)
theory Yum_Repo
  imports Repo_File
begin

text \<open>
  The repository functions of \<^verbatim>\<open>src/salt/modules/yumpkg5.py\<close> that read and
  write files: \<^verbatim>\<open>list_repos\<close>, \<^verbatim>\<open>get_repo\<close>, \<^verbatim>\<open>del_repo\<close> and
  \<^verbatim>\<open>mod_repo\<close>, over an explicit store of directories and files (the part of
  the machine these functions read and write). The store has a well-formedness
  invariant that every writing operation keeps.
\<close>

section \<open>The store\<close>

text \<open>Directories map to the names they list (\<^verbatim>\<open>os.listdir\<close>, in the order it
  yields them), files map a path to their content. \<^verbatim>\<open>'{0}/{1}'.format(d, n)\<close>
  is \<open>path_join\<close>; a path splits at its last slash.\<close>

record store =
  st_dirs :: "(string \<times> string list) list"
  st_files :: "(string \<times> string) list"

definition path_join :: "string \<Rightarrow> string \<Rightarrow> string" where
  "path_join d n = d @ ''/'' @ n"

definition dir_name :: "string \<Rightarrow> string" where
  "dir_name p = rev (drop 1 (dropWhile (\<lambda>c. c \<noteq> CHR ''/'') (rev p)))"

definition base_name :: "string \<Rightarrow> string" where
  "base_name p = rev (takeWhile (\<lambda>c. c \<noteq> CHR ''/'') (rev p))"

definition listdir :: "store \<Rightarrow> string \<Rightarrow> string list res" where
  "listdir st d = (case map_of (st_dirs st) d of None \<Rightarrow> Inl OSError | Some ns \<Rightarrow> Inr ns)"

definition read_file :: "store \<Rightarrow> string \<Rightarrow> string res" where
  "read_file st p = (case map_of (st_files st) p of None \<Rightarrow> Inl IOError | Some c \<Rightarrow> Inr c)"

text \<open>\<^verbatim>\<open>fopen(p, 'w').write(c)\<close>: the directory must exist; the file is created
  (and listed) or truncated.\<close>

definition write_file :: "store \<Rightarrow> string \<Rightarrow> string \<Rightarrow> store res" where
  "write_file st p c =
     (case map_of (st_dirs st) (dir_name p) of
        None \<Rightarrow> Inl IOError
      | Some ns \<Rightarrow>
          Inr \<lparr>st_dirs = AList.update (dir_name p)
                           (if base_name p \<in> set ns then ns else ns @ [base_name p]) (st_dirs st),
               st_files = AList.update p c (st_files st)\<rparr>)"

text \<open>\<^verbatim>\<open>os.remove(p)\<close>.\<close>

definition remove_file :: "store \<Rightarrow> string \<Rightarrow> store res" where
  "remove_file st p =
     (case map_of (st_files st) p of
        None \<Rightarrow> Inl OSError
      | Some _ \<Rightarrow>
          Inr \<lparr>st_dirs = map (\<lambda>(d, ns). if d = dir_name p then (d, removeAll (base_name p) ns) else (d, ns))
                           (st_dirs st),
               st_files = AList.delete p (st_files st)\<rparr>)"

text \<open>The store is well formed when the directory and file tables have one
  entry per key, every listed name is a plain name whose file exists, and every
  file path has a directory part and is listed when its directory is.\<close>

definition store_wf :: "store \<Rightarrow> bool" where
  "store_wf st =
     (distinct (map fst (st_dirs st)) \<and> distinct (map fst (st_files st)) \<and>
      list_all (\<lambda>(d, ns). distinct ns \<and>
                  list_all (\<lambda>n. n \<noteq> [] \<and> CHR ''/'' \<notin> set n \<and> map_of (st_files st) (path_join d n) \<noteq> None) ns)
        (st_dirs st) \<and>
      list_all (\<lambda>(p, _). CHR ''/'' \<in> set p \<and>
                  (case map_of (st_dirs st) (dir_name p) of None \<Rightarrow> True | Some ns \<Rightarrow> base_name p \<in> set ns))
        (st_files st))"

definition parse_repo_file :: "store \<Rightarrow> string \<Rightarrow> (string \<times> stanzas) res" where
  "parse_repo_file st filename = rbind (read_file st filename) parse_repo_text"

section \<open>\<^verbatim>\<open>list_repos\<close>, \<^verbatim>\<open>get_repo\<close>, \<^verbatim>\<open>del_repo\<close>\<close>

definition default_basedir :: string where
  "default_basedir = ''/etc/yum.repos.d''"

text \<open>Every file of the directory whose name ends with \<open>.repo\<close> is parsed; each
  of its stanzas, with the key \<open>file\<close> set to the file's path, is stored under
  its name, a later file overriding an earlier one.\<close>

definition list_repos :: "store \<Rightarrow> string \<Rightarrow> stanzas res" where
  "list_repos st basedir =
     rbind (listdir st basedir) (\<lambda>names.
     py_for (\<lambda>repos repofile.
               (let repopath = path_join basedir repofile in
                if \<not> ends_with repofile ''.repo'' then Inr repos
                else rbind (parse_repo_file st repopath) (\<lambda>(header, filerepos).
                     Inr (foldl (\<lambda>rs (reponame, r). AList.update reponame (AList.update ''file'' (PStr repopath) r) rs)
                            repos filerepos))))
       names [])"

text \<open>The path recorded for a repository: \<^verbatim>\<open>repos[arepo]['file']\<close> of the last
  matching entry, \<open>''\<close> when none matches.\<close>

definition repo_file_of :: "stanzas \<Rightarrow> string \<Rightarrow> string res" where
  "repo_file_of repos repo =
     py_for (\<lambda>repofile (arepo, r). if arepo = repo then rbind (dict_get r ''file'') (\<lambda>f. Inr (py_str f)) else Inr repofile)
       repos []"

definition get_repo :: "store \<Rightarrow> string \<Rightarrow> string \<Rightarrow> pdict res" where
  "get_repo st repo basedir =
     rbind (list_repos st basedir) (\<lambda>repos.
     rbind (repo_file_of repos repo) (\<lambda>repofile.
     if repofile = [] then Inl GenericException
     else rbind (parse_repo_file st repofile) (\<lambda>(header, filerepos). map_lookup filerepos repo)))"

text \<open>\<^verbatim>\<open>onlyrepo\<close>: no other repository records the same file.\<close>

definition only_repo :: "stanzas \<Rightarrow> string \<Rightarrow> string \<Rightarrow> bool res" where
  "only_repo repos repo repofile =
     py_for (\<lambda>onlyrepo (arepo, r).
               if arepo = repo then Inr onlyrepo
               else rbind (dict_get r ''file'') (\<lambda>f. Inr (if f = PStr repofile then False else onlyrepo)))
       repos True"

text \<open>\<^verbatim>\<open>del_repo\<close> returns a message. When no other repository lives in the same
  file the file is removed; otherwise the file is written again without the
  stanza.\<close>

definition del_repo :: "store \<Rightarrow> string \<Rightarrow> string \<Rightarrow> string res \<times> store" where
  "del_repo st repo basedir =
     (case list_repos st basedir of
        Inl e \<Rightarrow> (Inl e, st)
      | Inr repos \<Rightarrow>
        if map_of repos repo = None then
          (Inr (''Error: the '' @ repo @ '' repo does not exist in '' @ basedir), st)
        else (case repo_file_of repos repo of
          Inl e \<Rightarrow> (Inl e, st)
        | Inr repofile \<Rightarrow>
          (case only_repo repos repo repofile of
             Inl e \<Rightarrow> (Inl e, st)
           | Inr onlyrepo \<Rightarrow>
              if onlyrepo then
                (case remove_file st repofile of
                   Inl e \<Rightarrow> (Inl e, st)
                 | Inr st' \<Rightarrow> (Inr (''File '' @ repofile @ '' containing repo '' @ repo @ '' has been removed''), st'))
              else
                (case rbind (parse_repo_file st repofile) (\<lambda>(header, filerepos).
                        render_repos header (Some repo) filerepos) of
                   Inl e \<Rightarrow> (Inl e, st)
                 | Inr (content, _) \<Rightarrow>
                     (case write_file st repofile content of
                        Inl e \<Rightarrow> (Inl e, st)
                      | Inr st' \<Rightarrow> (Inr (''Repo '' @ repo @ '' has been removed from '' @ repofile), st'))))))"

section \<open>\<^verbatim>\<open>mod_repo\<close>\<close>

text \<open>A value counts as blank when it is falsy and not equal to \<open>0\<close> (in Python
  \<open>False == 0\<close>).\<close>

definition blank :: "pyval \<Rightarrow> bool" where
  "blank v = (v \<noteq> PInt 0 \<and> v \<noteq> PBool False \<and> \<not> truthy v)"

text \<open>The loop \<^verbatim>\<open>for key in repo_opts: if <blank>: del repo_opts[key];
  todelete.append(key)\<close> deletes from the dictionary it iterates over. Python 2's
  dictionary iterator checks the size at every step and raises RuntimeError at the
  step after a deletion, so the loop either meets no blank value and leaves
  \<open>todelete\<close> empty, or raises.\<close>

definition scan_blank :: "pdict \<Rightarrow> string list res" where
  "scan_blank repo_opts =
     py_for (\<lambda>todelete (key, v). if blank v then Inl RuntimeError else Inr todelete) repo_opts []"

text \<open>Where \<^verbatim>\<open>mod_repo\<close> writes: a repository that is not listed is created in
  the new file \<open><basedir>/<repo>.repo\<close>, which needs a name and a baseurl or
  mirrorlist; a listed one is rewritten in the file it was read from.\<close>

definition repo_target :: "store \<Rightarrow> stanzas \<Rightarrow> string \<Rightarrow> string \<Rightarrow> pdict \<Rightarrow> (string \<times> string \<times> stanzas) res" where
  "repo_target st repos repo basedir repo_opts =
     (if map_of repos repo = None then
        (if map_of repo_opts ''name'' = None then Inl SaltInvocationError
         else if map_of repo_opts ''baseurl'' = None \<and> map_of repo_opts ''mirrorlist'' = None
         then Inl SaltInvocationError
         else Inr (path_join basedir (repo @ ''.repo''), [], [(repo, [])]))
      else rbind (map_lookup repos repo) (\<lambda>r. rbind (dict_get r ''file'') (\<lambda>f.
           rbind (parse_repo_file st (py_str f)) (\<lambda>(header, filerepos). Inr (py_str f, header, filerepos)))))"

text \<open>The checks on deleting baseurl or mirrorlist, the deletion of the keys in
  \<open>todelete\<close> and \<^verbatim>\<open>filerepos[repo].update(repo_opts)\<close>.\<close>

definition repo_update :: "stanzas \<Rightarrow> string \<Rightarrow> string list \<Rightarrow> pdict \<Rightarrow> stanzas res" where
  "repo_update filerepos repo todelete repo_opts =
     rbind (map_lookup filerepos repo) (\<lambda>d.
       if ''baseurl'' \<in> set todelete \<and> map_of repo_opts ''mirrorlist'' = None \<and> map_of d ''mirrorlist'' = None
       then Inl SaltInvocationError
       else if ''mirrorlist'' \<in> set todelete \<and> map_of repo_opts ''baseurl'' = None \<and> map_of d ''baseurl'' = None
       then Inl SaltInvocationError
       else Inr (AList.update repo (dict_merge (foldl (\<lambda>d k. AList.delete k d) d todelete) repo_opts) filerepos))"

text \<open>The part of \<^verbatim>\<open>mod_repo\<close> after the scan for blank values: the
  implied deletion of baseurl or mirrorlist, the choice of the directory, the file,
  the update, the writing loop and the write. An empty \<open>basedir\<close> stands for
  \<open>None\<close>. The result is \<^verbatim>\<open>{repofile: filerepos}\<close> and the store after the
  write.\<close>

definition mod_repo_write :: "store \<Rightarrow> string \<Rightarrow> string \<Rightarrow> pdict \<Rightarrow> string list \<Rightarrow> (string \<times> stanzas) res \<times> store" where
  "mod_repo_write st repo basedir repo_opts todelete0 =
     (let todelete = todelete0 @
            (if map_of repo_opts ''mirrorlist'' \<noteq> None then [''baseurl'']
             else if map_of repo_opts ''baseurl'' \<noteq> None then [''mirrorlist''] else []);
          basedir' = (if basedir = [] then default_basedir else basedir)
      in if ''name'' \<in> set todelete then (Inl SaltInvocationError, st)
      else case rbind (list_repos st basedir') (\<lambda>repos.
                rbind (repo_target st repos repo basedir' repo_opts) (\<lambda>(repofile, header, filerepos).
                rbind (repo_update filerepos repo todelete repo_opts) (\<lambda>filerepos1.
                rbind (render_repos header None filerepos1) (\<lambda>(content, filerepos2).
                Inr (repofile, content, filerepos2))))) of
        Inl e \<Rightarrow> (Inl e, st)
      | Inr (repofile, content, filerepos2) \<Rightarrow>
          (case write_file st repofile content of
             Inl e \<Rightarrow> (Inl e, st)
           | Inr st' \<Rightarrow> (Inr (repofile, filerepos2), st')))"

text \<open>\<^verbatim>\<open>mod_repo(repo, basedir, **kwargs)\<close>: the arguments whose name starts
  with \<open>__\<close> are dropped, baseurl and mirrorlist exclude each other, and the
  blank values are scanned before anything is read.\<close>

definition mod_repo :: "store \<Rightarrow> string \<Rightarrow> string \<Rightarrow> pdict \<Rightarrow> (string \<times> stanzas) res \<times> store" where
  "mod_repo st repo basedir kwargs =
     (let repo_opts = filter (\<lambda>(k, v). \<not> starts_with k ''__'') kwargs in
      if map_of repo_opts ''mirrorlist'' \<noteq> None \<and> map_of repo_opts ''baseurl'' \<noteq> None
      then (Inl SaltInvocationError, st)
      else case scan_blank repo_opts of
        Inl e \<Rightarrow> (Inl e, st)
      | Inr todelete \<Rightarrow> mod_repo_write st repo basedir repo_opts todelete)"

text \<open>Every listed repository records a \<open>.repo\<close> file of the directory.\<close>

definition files_in :: "string \<Rightarrow> stanzas \<Rightarrow> bool" where
  "files_in bd repos =
     (\<forall>(r, d) \<in> set repos. \<exists>n. map_of d ''file'' = Some (PStr (path_join bd n)) \<and> ends_with n ''.repo'')"

section \<open>Lemmas\<close>

lemma base_name_no_slash: "CHR ''/'' \<notin> set (base_name p)"
  by (auto simp: base_name_def dest: set_takeWhileD)

lemma path_split:
  assumes "CHR ''/'' \<in> set p"
  shows "path_join (dir_name p) (base_name p) = p"
proof -
  let ?T = "takeWhile (\<lambda>c. c \<noteq> CHR ''/'') (rev p)"
  let ?D = "dropWhile (\<lambda>c. c \<noteq> CHR ''/'') (rev p)"
  have split: "rev p = ?T @ ?D" by simp
  have "?D \<noteq> []" using assms by (simp add: dropWhile_eq_Nil_conv)
  moreover have "?D \<noteq> [] \<Longrightarrow> hd ?D = CHR ''/''"
    using hd_dropWhile [of "\<lambda>c. c \<noteq> CHR ''/''" "rev p"] by simp
  ultimately obtain D' where D: "?D = CHR ''/'' # D'" by (cases ?D) auto
  have "rev p = ?T @ CHR ''/'' # D'"
    using split D by simp
  then have "p = rev D' @ CHR ''/'' # rev ?T"
    by (metis rev_rev_ident rev_append rev.simps(2) append_assoc append_Cons append_Nil)
  then show ?thesis
    using D by (simp add: path_join_def dir_name_def base_name_def)
qed

lemma path_join_parts:
  assumes "CHR ''/'' \<notin> set n"
  shows "dir_name (path_join d n) = d" "base_name (path_join d n) = n"
proof -
  have "dropWhile (\<lambda>c. c \<noteq> CHR ''/'') (rev n @ CHR ''/'' # rev d) = CHR ''/'' # rev d"
    using assms by (subst dropWhile_append2) auto
  moreover have "takeWhile (\<lambda>c. c \<noteq> CHR ''/'') (rev n @ CHR ''/'' # rev d) = rev n"
    using assms by (subst takeWhile_append2) auto
  ultimately show "dir_name (path_join d n) = d" "base_name (path_join d n) = n"
    by (simp_all add: dir_name_def base_name_def path_join_def)
qed

lemma base_name_nonempty: "p \<noteq> [] \<Longrightarrow> last p \<noteq> CHR ''/'' \<Longrightarrow> base_name p \<noteq> []"
  by (cases p rule: rev_cases) (auto simp: base_name_def)

lemma path_join_slash [simp]: "CHR ''/'' \<in> set (path_join d n)"
  by (simp add: path_join_def)

lemma map_of_map_keyed:
  "map_of (map (\<lambda>(d, ns). if d = d0 then (d, f ns) else (d, ns)) al) k =
   map_option (\<lambda>ns. if k = d0 then f ns else ns) (map_of al k)"
  by (induction al) auto

lemma fst_map_keyed:
  "map fst (map (\<lambda>(d, ns). if d = d0 then (d, f ns) else (d, ns)) al) = map fst al"
  by (induction al) auto

lemma write_file_wf:
  assumes wf: "store_wf st" and p: "CHR ''/'' \<in> set p" "base_name p \<noteq> []"
    and w: "write_file st p c = Inr st'"
  shows "store_wf st'"
proof -
  obtain ns where ns: "map_of (st_dirs st) (dir_name p) = Some ns"
    using w by (cases "map_of (st_dirs st) (dir_name p)") (auto simp: write_file_def)
  define ns' where "ns' = (if base_name p \<in> set ns then ns else ns @ [base_name p])"
  have st': "st' = \<lparr>st_dirs = AList.update (dir_name p) ns' (st_dirs st), st_files = AList.update p c (st_files st)\<rparr>"
    using w ns by (simp add: write_file_def ns'_def)
  have ns_sub: "set ns \<subseteq> set ns'" "base_name p \<in> set ns'"
    by (auto simp: ns'_def)
  have files_grow: "map_of (st_files st) q \<noteq> None \<Longrightarrow> map_of (st_files st') q \<noteq> None" for q
    by (simp add: st' update_conv')
  have old_dirs: "(d, ms) \<in> set (st_dirs st) \<Longrightarrow> distinct ms \<and>
      (\<forall>n\<in>set ms. n \<noteq> [] \<and> CHR ''/'' \<notin> set n \<and> map_of (st_files st) (path_join d n) \<noteq> None)" for d ms
    using wf by (auto simp: store_wf_def list_all_iff)
  have ns_in: "(dir_name p, ns) \<in> set (st_dirs st)"
    using ns by (rule map_of_SomeD)
  have dirs_ok: "list_all (\<lambda>(d, ms). distinct ms \<and>
      list_all (\<lambda>n. n \<noteq> [] \<and> CHR ''/'' \<notin> set n \<and> map_of (st_files st') (path_join d n) \<noteq> None) ms)
      (st_dirs st')"
  proof (clarsimp simp: list_all_iff st'[symmetric])
    fix d ms assume "(d, ms) \<in> set (st_dirs st')"
    then consider "d = dir_name p" "ms = ns'" | "(d, ms) \<in> set (st_dirs st)"
      by (auto simp: st' dest: set_update_cases)
    then show "distinct ms \<and> (\<forall>n\<in>set ms. n \<noteq> [] \<and> CHR ''/'' \<notin> set n \<and> (\<exists>y. map_of (st_files st') (path_join d n) = Some y))"
    proof cases
      case 1
      have "distinct ns'" using old_dirs [OF ns_in] by (auto simp: ns'_def)
      moreover have "n \<noteq> [] \<and> CHR ''/'' \<notin> set n \<and> map_of (st_files st') (path_join d n) \<noteq> None" if "n \<in> set ns'" for n
      proof (cases "n \<in> set ns")
        case True
        then show ?thesis using old_dirs [OF ns_in] files_grow 1 by auto
      next
        case False
        then have "n = base_name p" using that by (auto simp: ns'_def split: if_splits)
        then show ?thesis
          using 1 p path_split [OF p(1)] base_name_no_slash [of p] by (simp add: st' update_conv')
      qed
      ultimately show ?thesis using 1 by auto
    next
      case 2
      then show ?thesis using old_dirs [OF 2] files_grow by auto
    qed
  qed
  have files_pt: "CHR ''/'' \<in> set q \<and>
      (case map_of (st_dirs st') (dir_name q) of None \<Rightarrow> True | Some ms \<Rightarrow> base_name q \<in> set ms)"
    if qv: "(q, v) \<in> set (st_files st')" for q v
  proof -
    from qv consider "q = p" | "(q, v) \<in> set (st_files st)"
      by (auto simp: st' dest: set_update_cases)
    then show ?thesis
    proof cases
      case 1
      then show ?thesis using p ns_sub by (simp add: st' update_conv')
    next
      case 2
      then have "CHR ''/'' \<in> set q \<and> (case map_of (st_dirs st) (dir_name q) of None \<Rightarrow> True | Some ms \<Rightarrow> base_name q \<in> set ms)"
        using wf by (auto simp: store_wf_def list_all_iff)
      then show ?thesis using ns ns_sub by (auto simp: st' update_conv' split: option.splits if_splits)
    qed
  qed
  then have files_ok: "list_all (\<lambda>(q, _). CHR ''/'' \<in> set q \<and>
      (case map_of (st_dirs st') (dir_name q) of None \<Rightarrow> True | Some ms \<Rightarrow> base_name q \<in> set ms)) (st_files st')"
    by (auto simp: list_all_iff)
  show ?thesis
    using wf dirs_ok files_ok by (simp add: store_wf_def st' distinct_update)
qed

lemma remove_file_wf:
  assumes wf: "store_wf st" and r: "remove_file st p = Inr st'"
  shows "store_wf st'"
proof -
  have pin: "map_of (st_files st) p \<noteq> None"
    using r by (auto simp: remove_file_def split: option.splits)
  let ?f = "\<lambda>(d, ns). if d = dir_name p then (d, removeAll (base_name p) ns) else (d, ns)"
  have st': "st' = \<lparr>st_dirs = map ?f (st_dirs st), st_files = AList.delete p (st_files st)\<rparr>"
    using r pin by (auto simp: remove_file_def split: option.splits)
  have slash: "CHR ''/'' \<in> set q" if nn: "map_of (st_files st) q \<noteq> None" for q
  proof -
    obtain v where "(q, v) \<in> set (st_files st)" using nn by (auto dest: map_of_SomeD)
    then show ?thesis using wf by (auto simp: store_wf_def list_all_iff)
  qed
  have same_path: "q = p" if q: "CHR ''/'' \<in> set q" "dir_name q = dir_name p" "base_name q = base_name p" for q
  proof -
    have "q = path_join (dir_name q) (base_name q)" by (rule path_split [OF q(1), symmetric])
    also have "\<dots> = path_join (dir_name p) (base_name p)" using q(2,3) by (simp only:)
    also have "\<dots> = p" by (rule path_split [OF slash [OF pin]])
    finally show ?thesis .
  qed
  have dirs_pt: "distinct ms \<and> list_all (\<lambda>n. n \<noteq> [] \<and> CHR ''/'' \<notin> set n \<and> map_of (st_files st') (path_join d n) \<noteq> None) ms"
    if dm: "(d, ms) \<in> set (st_dirs st')" for d ms
  proof -
    obtain ms0 where old: "(d, ms0) \<in> set (st_dirs st)" and ms: "ms = (if d = dir_name p then removeAll (base_name p) ms0 else ms0)"
      using dm by (auto simp: st' split: if_splits)
    have o: "distinct ms0" "\<forall>n\<in>set ms0. n \<noteq> [] \<and> CHR ''/'' \<notin> set n \<and> map_of (st_files st) (path_join d n) \<noteq> None"
      using wf old by (auto simp: store_wf_def list_all_iff)
    have "path_join d n \<noteq> p" if "n \<in> set ms" for n
    proof
      assume eq: "path_join d n = p"
      have "CHR ''/'' \<notin> set n" using o(2) that ms by (auto split: if_splits)
      then have "dir_name p = d" "base_name p = n" using path_join_parts eq by metis+
      then show False using that ms by simp
    qed
    then show ?thesis
      using o ms by (auto simp: st' list_all_iff distinct_removeAll split: if_splits)
  qed
  have files_pt: "CHR ''/'' \<in> set q \<and>
      (case map_of (st_dirs st') (dir_name q) of None \<Rightarrow> True | Some ms \<Rightarrow> base_name q \<in> set ms)"
    if qv: "(q, v) \<in> set (st_files st')" for q v
  proof -
    have old: "(q, v) \<in> set (st_files st)" "q \<noteq> p"
      using qv by (auto simp: st' AList.delete_eq)
    have o: "CHR ''/'' \<in> set q \<and> (case map_of (st_dirs st) (dir_name q) of None \<Rightarrow> True | Some ms \<Rightarrow> base_name q \<in> set ms)"
      using wf old(1) by (auto simp: store_wf_def list_all_iff)
    have "dir_name q = dir_name p \<Longrightarrow> base_name q \<noteq> base_name p"
      using same_path o old(2) by blast
    then show ?thesis
      using o by (auto simp: st' map_of_map_keyed split: option.splits)
  qed
  have keys: "map fst (st_dirs st') = map fst (st_dirs st)"
    by (simp only: st' store.select_convs fst_map_keyed)
  have "distinct (map fst (st_dirs st'))"
    unfolding keys using wf by (simp add: store_wf_def)
  moreover have "distinct (map fst (st_files st'))"
    using wf by (simp add: store_wf_def st' distinct_delete)
  ultimately show ?thesis
    using dirs_pt files_pt unfolding store_wf_def list_all_iff by fast
qed

lemma files_in_update:
  assumes "files_in bd rs" "map_of v ''file'' = Some (PStr (path_join bd n))" "ends_with n ''.repo''"
  shows "files_in bd (AList.update a v rs)"
  unfolding files_in_def
proof
  fix x assume "x \<in> set (AList.update a v rs)"
  then consider "x = (a, v)" | "x \<in> set rs" by (blast dest: set_update_cases)
  then show "case x of (r, d) \<Rightarrow> \<exists>n. map_of d ''file'' = Some (PStr (path_join bd n)) \<and> ends_with n ''.repo''"
  proof cases
    case 1
    then show ?thesis using assms(2,3) by auto
  next
    case 2
    then show ?thesis using assms(1) by (auto simp: files_in_def)
  qed
qed

lemma files_in_fold:
  assumes "files_in bd rs" "ends_with n ''.repo''"
  shows "files_in bd (foldl (\<lambda>rs (reponame, r). AList.update reponame (AList.update ''file'' (PStr (path_join bd n)) r) rs) rs fr)"
  using assms
proof (induction fr arbitrary: rs)
  case Nil
  then show ?case by simp
next
  case (Cons x fr)
  obtain a r where x: "x = (a, r)" by (cases x)
  have "files_in bd (AList.update a (AList.update ''file'' (PStr (path_join bd n)) r) rs)"
    using Cons.prems by (intro files_in_update) (simp_all add: update_conv')
  then show ?case using Cons.IH Cons.prems(2) x by simp
qed

lemma list_repos_files:
  assumes "list_repos st bd = Inr repos"
  shows "files_in bd repos"
proof -
  obtain names where names: "listdir st bd = Inr names"
    "py_for (\<lambda>repos repofile.
               (let repopath = path_join bd repofile in
                if \<not> ends_with repofile ''.repo'' then Inr repos
                else rbind (parse_repo_file st repopath) (\<lambda>(header, filerepos).
                     Inr (foldl (\<lambda>rs (reponame, r). AList.update reponame (AList.update ''file'' (PStr repopath) r) rs)
                            repos filerepos))))
       names [] = Inr repos"
    using assms by (auto simp: list_repos_def rbind_eq_Inr)
  show ?thesis
  proof (rule py_for_invariant [OF _ _ names(2)])
    show "files_in bd []" by (simp add: files_in_def)
  next
    fix s x s' assume inv: "files_in bd s" and "x \<in> set names" and step:
      "(let repopath = path_join bd x in
        if \<not> ends_with x ''.repo'' then Inr s
        else rbind (parse_repo_file st repopath) (\<lambda>(header, filerepos).
             Inr (foldl (\<lambda>rs (reponame, r). AList.update reponame (AList.update ''file'' (PStr repopath) r) rs)
                    s filerepos))) = Inr s'"
    then show "files_in bd s'"
    proof (cases "ends_with x ''.repo''")
      case True
      obtain h fr where "s' = foldl (\<lambda>rs (reponame, r). AList.update reponame (AList.update ''file'' (PStr (path_join bd x)) r) rs) s fr"
      proof (cases "parse_repo_file st (path_join bd x)")
        case (Inr hf)
        then show ?thesis using that step True by (cases hf) (simp add: Let_def, metis)
      qed (use step True in \<open>simp add: Let_def\<close>)
      then show ?thesis using True inv by (simp add: files_in_fold)
    qed (use step inv in \<open>simp add: Let_def\<close>)
  qed
qed

lemma scan_blank_loop:
  "py_for (\<lambda>todelete (key, v). if blank v then Inl RuntimeError else Inr todelete) opts td =
   (if list_ex (\<lambda>(k, v). blank v) opts then Inl RuntimeError else Inr td)"
  by (induction opts) auto

lemma scan_blank_eq:
  "scan_blank opts = (if list_ex (\<lambda>(k, v). blank v) opts then Inl RuntimeError else Inr [])"
  by (simp add: scan_blank_def scan_blank_loop)

lemma repo_write_wf:
  assumes "store_wf st" "ends_with n ''.repo''" "write_file st (path_join d n) c = Inr st'"
  shows "store_wf st'"
proof -
  obtain q where n: "n = q @ ''.repo''" using assms(2) by (auto simp: ends_with_iff)
  have "base_name (path_join d n) \<noteq> []"
    by (rule base_name_nonempty) (simp_all add: path_join_def n)
  then show ?thesis
    using write_file_wf [OF assms(1) path_join_slash _ assms(3)] by simp
qed

lemma repo_target_path:
  assumes "files_in bd repos" "repo_target st repos repo bd opts = Inr (p, h, fr)"
  shows "\<exists>n. ends_with n ''.repo'' \<and> p = path_join bd n"
proof (cases "map_of repos repo")
  case None
  then have "p = path_join bd (repo @ ''.repo'')"
    using assms(2) by (auto simp: repo_target_def split: if_splits)
  then show ?thesis by (intro exI [of _ "repo @ ''.repo''"]) simp
next
  case (Some r)
  have "(repo, r) \<in> set repos" using Some by (rule map_of_SomeD)
  then obtain n where n: "map_of r ''file'' = Some (PStr (path_join bd n))" "ends_with n ''.repo''"
    using assms(1) unfolding files_in_def by blast
  have "rbind (parse_repo_file st (path_join bd n)) (\<lambda>(header, filerepos). Inr (path_join bd n, header, filerepos)) =
          Inr (p, h, fr)"
    using assms(2) Some n(1) by (simp add: repo_target_def map_lookup_def dict_get_def)
  then have "p = path_join bd n"
    by (cases "parse_repo_file st (path_join bd n)") auto
  then show ?thesis using n(2) by blast
qed

lemma mod_repo_write_wf:
  assumes "store_wf st" "mod_repo_write st repo basedir opts td = (r, st')"
  shows "store_wf st'"
proof -
  let ?bd = "if basedir = [] then default_basedir else basedir"
  have "st' = st \<or> (\<exists>repos p h fr c. list_repos st ?bd = Inr repos \<and>
           repo_target st repos repo ?bd opts = Inr (p, h, fr) \<and> write_file st p c = Inr st')"
    using assms(2) unfolding mod_repo_write_def Let_def
    by (auto simp: rbind_eq_Inr split: if_splits sum.splits prod.splits)
  then show ?thesis
  proof
    assume "st' = st" then show ?thesis using assms(1) by simp
  next
    assume "\<exists>repos p h fr c. list_repos st ?bd = Inr repos \<and>
           repo_target st repos repo ?bd opts = Inr (p, h, fr) \<and> write_file st p c = Inr st'"
    then obtain repos p h fr c where w: "list_repos st ?bd = Inr repos"
        "repo_target st repos repo ?bd opts = Inr (p, h, fr)"
        "write_file st p c = Inr st'" by (elim exE conjE)
    obtain n where n: "ends_with n ''.repo''" "p = path_join ?bd n"
      using repo_target_path [OF list_repos_files [OF w(1)] w(2)] by blast
    have "write_file st (path_join ?bd n) c = Inr st'" using w(3) n(2) by simp
    then show ?thesis by (rule repo_write_wf [OF assms(1) n(1)])
  qed
qed

lemma mod_repo_write_cases:
  assumes "mod_repo_write st repo basedir opts td = (r, st')"
  shows "(\<exists>e. r = Inl e \<and> st' = st) \<or>
         (\<exists>repos p h fr c fr2. r = Inr (p, fr2) \<and>
            list_repos st (if basedir = [] then default_basedir else basedir) = Inr repos \<and>
            repo_target st repos repo (if basedir = [] then default_basedir else basedir) opts = Inr (p, h, fr) \<and>
            write_file st p c = Inr st')"
  using assms unfolding mod_repo_write_def Let_def
  by (auto simp: rbind_eq_Inr split: if_splits sum.splits prod.splits)

lemma write_file_frame:
  "write_file st p c = Inr st' \<Longrightarrow> q \<noteq> p \<Longrightarrow> map_of (st_files st') q = map_of (st_files st) q"
  by (auto simp: write_file_def update_conv' split: option.splits)

lemma mod_repo_cases:
  "mod_repo st repo basedir kwargs = (r, st') \<Longrightarrow>
   (\<exists>e. r = Inl e \<and> st' = st) \<or>
   (\<exists>opts td. mod_repo_write st repo basedir opts td = (r, st'))"
  unfolding mod_repo_def Let_def by (auto split: if_splits sum.splits)

lemma mod_repo_scan_error:
  assumes "\<not> (map_of (filter (\<lambda>(k, v). \<not> starts_with k ''__'') kwargs) ''mirrorlist'' \<noteq> None \<and>
              map_of (filter (\<lambda>(k, v). \<not> starts_with k ''__'') kwargs) ''baseurl'' \<noteq> None)"
    "scan_blank (filter (\<lambda>(k, v). \<not> starts_with k ''__'') kwargs) = Inl e"
  shows "mod_repo st repo basedir kwargs = (Inl e, st)"
  using assms unfolding mod_repo_def Let_def by (simp only: if_False sum.case)

lemma dict_merge_fresh:
  "distinct (map fst e) \<Longrightarrow> set (map fst e) \<inter> set (map fst d) = {} \<Longrightarrow> dict_merge d e = d @ e"
proof (induction e arbitrary: d)
  case Nil
  then show ?case by (simp add: dict_merge_def)
next
  case (Cons kv e)
  obtain k v where kv: "kv = (k, v)" by (cases kv)
  have "dict_merge (AList.update k v d) e = AList.update k v d @ e"
    using Cons by (intro Cons.IH) (auto simp: kv dom_update update_absent map_of_eq_None_iff)
  then show ?case
    using Cons.prems kv by (simp add: dict_merge_def update_absent map_of_eq_None_iff)
qed

lemma write_read: "write_file st p c = Inr st' \<Longrightarrow> read_file st' p = Inr c"
  by (auto simp: write_file_def read_file_def update_conv' split: option.splits)

lemma list_repos_dir: "list_repos st bd = Inr repos \<Longrightarrow> map_of (st_dirs st) bd \<noteq> None"
  by (auto simp: list_repos_def listdir_def split: option.splits)

lemma truthy_not_blank: "truthy v \<Longrightarrow> \<not> blank v"
  by (simp add: blank_def)

lemma mod_repo_scan_ok:
  assumes "\<not> (map_of (filter (\<lambda>(k, v). \<not> starts_with k ''__'') kwargs) ''mirrorlist'' \<noteq> None \<and>
              map_of (filter (\<lambda>(k, v). \<not> starts_with k ''__'') kwargs) ''baseurl'' \<noteq> None)"
    "scan_blank (filter (\<lambda>(k, v). \<not> starts_with k ''__'') kwargs) = Inr td"
  shows "mod_repo st repo basedir kwargs =
           mod_repo_write st repo basedir (filter (\<lambda>(k, v). \<not> starts_with k ''__'') kwargs) td"
  using assms unfolding mod_repo_def Let_def by (simp only: if_False sum.case)

text \<open>C22: \<^verbatim>\<open>mod_repo\<close> touches only the file it reports: on an error the
  store is unchanged; on success the returned path is a \<open>.repo\<close> file of the
  base directory, every other file keeps its content, and the store stays well
  formed.\<close>

theorem mod_repo_frame:
  assumes "store_wf st" "mod_repo st repo basedir kwargs = (r, st')"
  shows "store_wf st' \<and>
         (case r of
            Inl e \<Rightarrow> st' = st
          | Inr (p, filerepos) \<Rightarrow>
              (\<exists>n. ends_with n ''.repo'' \<and> p = path_join (if basedir = [] then default_basedir else basedir) n) \<and>
              (\<forall>q. q \<noteq> p \<longrightarrow> map_of (st_files st') q = map_of (st_files st) q))"
  using mod_repo_cases [OF assms(2)]
proof
  assume "\<exists>e. r = Inl e \<and> st' = st"
  then show ?thesis using assms(1) by auto
next
  let ?bd = "if basedir = [] then default_basedir else basedir"
  assume "\<exists>opts td. mod_repo_write st repo basedir opts td = (r, st')"
  then obtain opts td where w: "mod_repo_write st repo basedir opts td = (r, st')" by blast
  have wf: "store_wf st'" by (rule mod_repo_write_wf [OF assms(1) w])
  from mod_repo_write_cases [OF w] show ?thesis
  proof
    assume "\<exists>e. r = Inl e \<and> st' = st"
    then show ?thesis using assms(1) by auto
  next
    assume "\<exists>repos p h fr c fr2. r = Inr (p, fr2) \<and> list_repos st ?bd = Inr repos \<and>
              repo_target st repos repo ?bd opts = Inr (p, h, fr) \<and> write_file st p c = Inr st'"
    then obtain repos p h fr c fr2 where r: "r = Inr (p, fr2)" and l: "list_repos st ?bd = Inr repos"
        and t: "repo_target st repos repo ?bd opts = Inr (p, h, fr)" and wr: "write_file st p c = Inr st'"
      by blast
    have "\<exists>n. ends_with n ''.repo'' \<and> p = path_join ?bd n"
      by (rule repo_target_path [OF list_repos_files [OF l] t])
    then show ?thesis using wf r write_file_frame [OF wr] by auto
  qed
qed

theorem mod_repo_frame_witness:
  "store_wf \<lparr>st_dirs = [(''/etc/yum.repos.d'', [''base.repo''])],
      st_files = [(''/etc/yum.repos.d/base.repo'', ''[base]'' @ [nl] @ ''name=Base'' @ [nl])]\<rparr> \<and>
   fst (mod_repo \<lparr>st_dirs = [(''/etc/yum.repos.d'', [''base.repo''])],
      st_files = [(''/etc/yum.repos.d/base.repo'', ''[base]'' @ [nl] @ ''name=Base'' @ [nl])]\<rparr> ''epel'' [] [(''name'', PStr ''EPEL''), (''baseurl'', PStr ''http://e'')]) = Inr (''/etc/yum.repos.d/epel.repo'', [(''epel'', [(''name'', PStr ''EPEL''), (''baseurl'', PStr ''http://e'')])]) \<and>
   store_wf (snd (mod_repo \<lparr>st_dirs = [(''/etc/yum.repos.d'', [''base.repo''])],
      st_files = [(''/etc/yum.repos.d/base.repo'', ''[base]'' @ [nl] @ ''name=Base'' @ [nl])]\<rparr> ''epel'' [] [(''name'', PStr ''EPEL''), (''baseurl'', PStr ''http://e'')])) \<and>
   map_of (st_files (snd (mod_repo \<lparr>st_dirs = [(''/etc/yum.repos.d'', [''base.repo''])],
      st_files = [(''/etc/yum.repos.d/base.repo'', ''[base]'' @ [nl] @ ''name=Base'' @ [nl])]\<rparr> ''epel'' [] [(''name'', PStr ''EPEL''), (''baseurl'', PStr ''http://e'')])))
       ''/etc/yum.repos.d/base.repo'' =
     map_of (st_files \<lparr>st_dirs = [(''/etc/yum.repos.d'', [''base.repo''])],
      st_files = [(''/etc/yum.repos.d/base.repo'', ''[base]'' @ [nl] @ ''name=Base'' @ [nl])]\<rparr>) ''/etc/yum.repos.d/base.repo''"
proof -
  have wf: "store_wf \<lparr>st_dirs = [(''/etc/yum.repos.d'', [''base.repo''])],
      st_files = [(''/etc/yum.repos.d/base.repo'', ''[base]'' @ [nl] @ ''name=Base'' @ [nl])]\<rparr>"
    by (simp add: store_wf_def path_join_def dir_name_def base_name_def)
  have f: "fst (mod_repo \<lparr>st_dirs = [(''/etc/yum.repos.d'', [''base.repo''])],
      st_files = [(''/etc/yum.repos.d/base.repo'', ''[base]'' @ [nl] @ ''name=Base'' @ [nl])]\<rparr> ''epel'' [] [(''name'', PStr ''EPEL''), (''baseurl'', PStr ''http://e'')]) = Inr (''/etc/yum.repos.d/epel.repo'', [(''epel'', [(''name'', PStr ''EPEL''), (''baseurl'', PStr ''http://e'')])])"
    by code_simp
  show ?thesis
    using wf f mod_repo_frame [OF wf prod.collapse [symmetric], where repo = "''epel''" and basedir = "[]"
        and kwargs = "[(''name'', PStr ''EPEL''), (''baseurl'', PStr ''http://e'')]"]
    by simp
qed

text \<open>C23: an option given with a blank value, the documented way to delete a key,
  makes \<^verbatim>\<open>mod_repo\<close> raise RuntimeError before anything is read or written:
  the loop deletes from the dictionary it iterates over. Only giving both baseurl
  and mirrorlist fails earlier.\<close>

theorem mod_repo_blank_RuntimeError:
  assumes "(k, v) \<in> set kwargs" "\<not> starts_with k ''__''" "blank v"
    "map_of kwargs ''mirrorlist'' = None \<or> map_of kwargs ''baseurl'' = None"
  shows "mod_repo st repo basedir kwargs = (Inl RuntimeError, st)"
proof (rule mod_repo_scan_error)
  let ?opts = "filter (\<lambda>(k, v). \<not> starts_with k ''__'') kwargs"
  have "(k, v) \<in> set ?opts"
    using assms(1,2) by simp
  then have "list_ex (\<lambda>(k, v). blank v) ?opts"
    using assms(3) unfolding list_ex_iff by (intro bexI [of _ "(k, v)"]) simp_all
  then show "scan_blank ?opts = Inl RuntimeError"
    by (simp add: scan_blank_eq)
  show "\<not> (map_of ?opts ''mirrorlist'' \<noteq> None \<and> map_of ?opts ''baseurl'' \<noteq> None)"
    using assms(4) map_of_filter_None [of kwargs _ "\<lambda>(k, v). \<not> starts_with k ''__''"] by auto
qed

theorem mod_repo_blank_RuntimeError_witness:
  "(''enabled'', PStr '''') \<in> set [(''name'', PStr ''EPEL''), (''enabled'', PStr '''')] \<and>
   \<not> starts_with ''enabled'' ''__'' \<and> blank (PStr '''') \<and>
   mod_repo \<lparr>st_dirs = [(''/etc/yum.repos.d'', [])], st_files = []\<rparr> ''epel'' []
     [(''name'', PStr ''EPEL''), (''enabled'', PStr '''')] =
   (Inl RuntimeError, \<lparr>st_dirs = [(''/etc/yum.repos.d'', [])], st_files = []\<rparr>)"
  using mod_repo_blank_RuntimeError [of "''enabled''" "PStr ''''" "[(''name'', PStr ''EPEL''), (''enabled'', PStr '''')]"]
  by (simp add: starts_with_def blank_def)

text \<open>C24: \<^verbatim>\<open>mod_repo\<close> on a repository that is not listed yet, with clean
  options that are all truthy, a name, and exactly one of baseurl and mirrorlist, succeeds:
  it writes \<open><basedir>/<repo>.repo\<close>, returns that path with the new stanza, and reading
  the written file back gives exactly that one stanza with the options as given.\<close>

theorem mod_repo_new_repo:
  assumes repos: "list_repos st bd = Inr repos" "map_of repos repo = None" "bd \<noteq> []"
    and name: "clean_name repo" "CHR ''/'' \<notin> set repo"
    and opts: "clean_stanza kwargs" "list_all (\<lambda>(k, v). \<not> starts_with k ''__'' \<and> truthy v) kwargs"
    and req: "map_of kwargs ''name'' \<noteq> None" "(map_of kwargs ''baseurl'' = None) = (map_of kwargs ''mirrorlist'' \<noteq> None)"
  shows "\<exists>st'. mod_repo st repo bd kwargs =
                 (Inr (path_join bd (repo @ ''.repo''), [(repo, AList.delete ''comments'' kwargs)]), st') \<and>
               parse_repo_file st' (path_join bd (repo @ ''.repo'')) = Inr ([], [(repo, kwargs)])"
proof -
  let ?p = "path_join bd (repo @ ''.repo'')"
  have filt: "filter (\<lambda>(k, v). \<not> starts_with k ''__'') kwargs = kwargs"
    using opts(2) by (induction kwargs) auto
  have "\<not> list_ex (\<lambda>(k, v). blank v) kwargs"
    using opts(2) truthy_not_blank by (induction kwargs) auto
  then have via_write: "mod_repo st repo bd kwargs = mod_repo_write st repo bd kwargs []"
    using mod_repo_scan_ok [of kwargs "[]" st repo bd] req(2) filt by (auto simp: scan_blank_eq)
  have target: "repo_target st repos repo bd kwargs = Inr (?p, [], [(repo, [])])"
    using repos(2) req by (auto simp: repo_target_def)
  have merge: "dict_merge [] kwargs = kwargs"
    using opts(1) dict_merge_fresh [of kwargs "[]"] by (simp add: clean_stanza_def)
  have upd1: "repo_update [(repo, [])] repo [''baseurl''] kwargs = Inr [(repo, kwargs)]"
    if "map_of kwargs ''mirrorlist'' \<noteq> None"
    using that merge by (auto simp: repo_update_def map_lookup_def)
  have upd2: "repo_update [(repo, [])] repo [''mirrorlist''] kwargs = Inr [(repo, kwargs)]"
    if "map_of kwargs ''mirrorlist'' = None"
    using that req(2) merge by (auto simp: repo_update_def map_lookup_def)
  have clean: "clean_repos [(repo, kwargs)]"
    using name(1) opts(1) by (simp add: clean_repos_def)
  have render: "render_repos [] None [(repo, kwargs)] =
      Inr (stanza_text repo kwargs, [(repo, AList.delete ''comments'' kwargs)])"
    using render_repos_clean [OF clean_repos_stanzas [OF clean], of "[]"] by simp
  obtain ns where ns: "map_of (st_dirs st) bd = Some ns"
    using list_repos_dir [OF repos(1)] by auto
  have "CHR ''/'' \<notin> set (repo @ ''.repo'')" using name(2) by simp
  then have dir: "dir_name ?p = bd" by (rule path_join_parts)
  obtain st' where st': "write_file st ?p (stanza_text repo kwargs) = Inr st'"
    using ns dir by (simp add: write_file_def)
  have "mod_repo_write st repo bd kwargs [] = (Inr (?p, [(repo, AList.delete ''comments'' kwargs)]), st')"
    using repos(1,3) target upd1 upd2 render st' req(2)
    by (simp add: mod_repo_write_def Let_def)
  moreover have "parse_repo_file st' ?p = Inr ([], [(repo, kwargs)])"
    using write_read [OF st'] parse_rendered [OF _ clean, of "[]"]
    by (simp add: parse_repo_file_def clean_header_def)
  ultimately show ?thesis using via_write by auto
qed

theorem mod_repo_new_repo_witness:
  "\<exists>st'. mod_repo \<lparr>st_dirs = [(''/etc/yum.repos.d'', [''base.repo''])],
                   st_files = [(''/etc/yum.repos.d/base.repo'', ''[base]'' @ [nl] @ ''name=Base'' @ [nl])]\<rparr>
            ''epel'' ''/etc/yum.repos.d'' [(''name'', PStr ''EPEL''), (''baseurl'', PStr ''http://e'')] =
          (Inr (''/etc/yum.repos.d/epel.repo'', [(''epel'', [(''name'', PStr ''EPEL''), (''baseurl'', PStr ''http://e'')])]), st') \<and>
          parse_repo_file st' ''/etc/yum.repos.d/epel.repo'' =
            Inr ([], [(''epel'', [(''name'', PStr ''EPEL''), (''baseurl'', PStr ''http://e'')])])"
proof -
  have l: "list_repos \<lparr>st_dirs = [(''/etc/yum.repos.d'', [''base.repo''])],
                   st_files = [(''/etc/yum.repos.d/base.repo'', ''[base]'' @ [nl] @ ''name=Base'' @ [nl])]\<rparr>
             ''/etc/yum.repos.d'' = Inr [(''base'', [(''name'', PStr ''Base''), (''file'', PStr ''/etc/yum.repos.d/base.repo'')])]"
    by code_simp
  have c: "clean_name ''epel''" "clean_stanza [(''name'', PStr ''EPEL''), (''baseurl'', PStr ''http://e'')]"
    by (simp_all add: clean_name_def clean_stanza_def clean_entry_def clean_key_def clean_value_def
        nl_def bstrip_def byte_space_def starts_with_def)
  show ?thesis
    using mod_repo_new_repo [OF l _ _ c(1) _ c(2)]
    by (simp add: starts_with_def path_join_def)
qed

end
