(* ===== verification/Agent_Utils.thy ===== *)
theory Agent_Utils
  imports Prelude
begin

text \<open>
  The OpsAgent utilities of \<^verbatim>\<open>src/sources/opsagent/utils.py\<close>: the coloured
  logger \<^verbatim>\<open>log\<close>, \<^verbatim>\<open>clone_repo\<close>, which replaces the local clone of the states
  repository and relinks the Salt module and adaptor into the package path, and
  \<^verbatim>\<open>checkout_repo\<close>, which updates the clone to a tag and, when a git command
  fails, re-clones and retries once. The operating system is an interface: a
  world carries an abstract OS state and the logger's state, and every filesystem
  or subprocess call goes through an executor \<open>ex\<close> given as a parameter. Each call
  is recorded in the world with its outcome, so that properties speak about the
  sequence of commands the code issues. Exceptions carry their message, since the
  code prints it (\<^verbatim>\<open>"%s" % e\<close>).
\<close>

section \<open>The world, exceptions and the action monad\<close>

type_synonym 'a exc = "(pyerr \<times> string) + 'a"

text \<open>The calls the utilities make: \<^verbatim>\<open>shutil.rmtree\<close>, \<^verbatim>\<open>os.unlink\<close>,
  \<^verbatim>\<open>os.symlink(src, dst)\<close> and \<^verbatim>\<open>subprocess.check_output(argv, cwd=dir)\<close>.\<close>

datatype os_op =
    Rmtree string
  | Unlink string
  | Symlink string string
  | Check_output "string list" string

text \<open>The root logger's effective level and the records it has emitted, the calls
  made so far with whether they returned normally, and the OS state.\<close>

record 'os world =
  w_level :: nat
  w_log :: "(nat \<times> string) list"
  w_ops :: "(os_op \<times> bool) list"
  w_os :: 'os

type_synonym 'os os_exec = "os_op \<Rightarrow> 'os \<Rightarrow> string exc \<times> 'os"
type_synonym ('a, 'os) act = "'os world \<Rightarrow> 'a exc \<times> 'os world"

definition areturn :: "'a \<Rightarrow> ('a, 'os) act" where
  "areturn x w = (Inr x, w)"

definition araise :: "pyerr \<Rightarrow> string \<Rightarrow> ('a, 'os) act" where
  "araise e m w = (Inl (e, m), w)"

definition abind :: "('a, 'os) act \<Rightarrow> ('a \<Rightarrow> ('b, 'os) act) \<Rightarrow> ('b, 'os) act" where
  "abind m f w = (case m w of (Inl e, w') \<Rightarrow> (Inl e, w') | (Inr x, w') \<Rightarrow> f x w')"

text \<open>\<^verbatim>\<open>try: m except Exception as e: h(e)\<close>: every modelled exception is an
  \<^verbatim>\<open>Exception\<close>.\<close>

definition atry :: "('a, 'os) act \<Rightarrow> (pyerr \<times> string \<Rightarrow> ('a, 'os) act) \<Rightarrow> ('a, 'os) act" where
  "atry m h w = (case m w of (Inl e, w') \<Rightarrow> h e w' | (Inr x, w') \<Rightarrow> (Inr x, w'))"

definition os_call :: "'os os_exec \<Rightarrow> os_op \<Rightarrow> (string, 'os) act" where
  "os_call ex op w =
     (case ex op (w_os w) of
        (r, o') \<Rightarrow> (r, w\<lparr>w_os := o', w_ops := w_ops w @ [(op, \<not> isl r)]\<rparr>))"

text \<open>The configuration is a dictionary of sections; \<^verbatim>\<open>config[s][k]\<close> raises
  KeyError, whose message is the quoted key.\<close>

type_synonym config = "(string \<times> (string \<times> string) list) list"

definition key_error :: "string \<Rightarrow> pyerr \<times> string" where
  "key_error k = (KeyError, [CHR 0x27] @ k @ [CHR 0x27])"

definition cfg_get :: "config \<Rightarrow> string \<Rightarrow> string \<Rightarrow> (string, 'os) act" where
  "cfg_get config s k w =
     (case map_of config s of
        None \<Rightarrow> (Inl (key_error s), w)
      | Some sec \<Rightarrow> (case map_of sec k of None \<Rightarrow> (Inl (key_error k), w) | Some v \<Rightarrow> (Inr v, w)))"

text \<open>\<^verbatim>\<open>os.path.normpath\<close> (posixpath): empty and \<open>.\<close> components are dropped, a
  \<open>..\<close> removes the component before it unless there is none (then it is kept
  in a relative path and dropped in an absolute one), one or two leading slashes
  are kept (three or more become one), and an empty result is \<open>.\<close>.\<close>

definition norm_step :: "bool \<Rightarrow> string list \<Rightarrow> string \<Rightarrow> string list" where
  "norm_step absolute acc part =
     (if part = [] \<or> part = ''.'' then acc
      else if part \<noteq> ''..'' \<or> (\<not> absolute \<and> acc = []) \<or> (acc \<noteq> [] \<and> last acc = ''..'')
      then acc @ [part]
      else butlast acc)"

definition normpath :: "string \<Rightarrow> string" where
  "normpath p =
     (if p = [] then ''.''
      else let sl = (if starts_with p ''/''
                     then (if starts_with p ''//'' \<and> \<not> starts_with p ''///'' then 2 else 1)
                     else 0 :: nat);
               r = replicate sl (CHR ''/'') @ py_join ''/'' (foldl (norm_step (sl \<noteq> 0)) [] (split_on (CHR ''/'') p))
           in if r = [] then ''.'' else r)"

section \<open>\<^verbatim>\<open>log\<close>\<close>

definition DEBUG :: nat where
  "DEBUG = 10"

definition COLOR :: bool where
  "COLOR = True"

text \<open>\<^verbatim>\<open>LOGGING_EQ\<close> maps an action to the logging function of that level; the
  model keeps the level's number.\<close>

definition LOGGING_EQ :: "(string \<times> nat) list" where
  "LOGGING_EQ = [(''DEBUG'', 10), (''INFO'', 20), (''WARNING'', 30), (''ERROR'', 40), (''CRITICAL'', 50)]"

definition esc :: string where
  "esc = [CHR 0x1B]"

definition COLORS_EQ :: "(string \<times> string \<times> string) list" where
  "COLORS_EQ =
     [(''DEBUG'', esc @ ''[38;5;6m'', esc @ ''[0m''),
      (''INFO'', esc @ ''[38;5;15m'', esc @ ''[0m''),
      (''WARNING'', esc @ ''[38;5;3m'', esc @ ''[0m''),
      (''ERROR'', esc @ ''[38;5;1m'', esc @ ''[0m''),
      (''CRITICAL'', esc @ ''[38;5;1m'', esc @ ''[0m'')]"

text \<open>\<^verbatim>\<open>log(action, content, fc)\<close>. At DEBUG level the message is prefixed with
  the caller \<open>c.f(): \<close> taken from \<open>fc = (f, c)\<close> (every caller passes a string
  \<open>c\<close>; the branch printing the class name of a non-string \<open>c\<close> is not modelled).
  The root logger emits the record when its level is at least the effective
  level; the DEBUG-level \<^verbatim>\<open>time.sleep\<close> has no modelled effect. An unknown
  action raises KeyError.\<close>

definition log :: "string \<Rightarrow> string \<Rightarrow> (string \<times> string) option \<Rightarrow> (unit, 'os) act" where
  "log action content fc w =
     (let out = (case fc of
                   Some (f, c) \<Rightarrow>
                     if w_level w = DEBUG then (if c \<noteq> [] then c @ ''.'' @ f @ ''(): '' else f @ ''(): '')
                     else []
                 | None \<Rightarrow> []);
          pt = (if \<not> COLOR then Inr (out @ content)
                else case map_of COLORS_EQ action of
                       None \<Rightarrow> Inl (key_error action)
                     | Some (pre, post) \<Rightarrow> Inr (pre @ out @ content @ post))
      in case pt of
           Inl e \<Rightarrow> (Inl e, w)
         | Inr msg \<Rightarrow>
             (case map_of LOGGING_EQ action of
                None \<Rightarrow> (Inl (key_error action), w)
              | Some lvl \<Rightarrow> (Inr (), if w_level w \<le> lvl then w\<lparr>w_log := w_log w @ [(lvl, msg)]\<rparr> else w)))"

section \<open>\<^verbatim>\<open>clone_repo\<close>\<close>

text \<open>Lines 67 to 71 and 72 to 76 of \<^verbatim>\<open>clone_repo\<close>, one call each: remove the link
  \<open>package_path/module[dst]\<close>, logging the error if there is none, then link it to
  \<open>path/name/module[src]\<close>. The configuration is read in the order of the source.\<close>

definition relink :: "'os os_exec \<Rightarrow> config \<Rightarrow> string \<Rightarrow> string \<Rightarrow> string \<Rightarrow> string \<Rightarrow> (unit, 'os) act" where
  "relink ex config dst src path name =
     abind (atry
       (abind (cfg_get config ''global'' ''package_path'') (\<lambda>pp.
        abind (cfg_get config ''module'' dst) (\<lambda>d.
        abind (os_call ex (Unlink (normpath (pp @ ''/'' @ d)))) (\<lambda>_. areturn ()))))
       (\<lambda>e. abind (cfg_get config ''global'' ''package_path'') (\<lambda>pp.
            abind (cfg_get config ''module'' dst) (\<lambda>d.
            log ''DEBUG'' (''Exception while unlinking '' @ normpath (pp @ ''/'' @ d) @ '': '' @ snd e)
              (Some (''clone_repo'', ''utils''))))))
     (\<lambda>_. abind (cfg_get config ''module'' src) (\<lambda>s.
          abind (cfg_get config ''global'' ''package_path'') (\<lambda>pp.
          abind (cfg_get config ''module'' dst) (\<lambda>d.
          abind (os_call ex (Symlink (normpath (path @ ''/'' @ name @ ''/'' @ s)) (normpath (pp @ ''/'' @ d))))
            (\<lambda>_. areturn ())))))"

text \<open>\<^verbatim>\<open>clone_repo(config, path, name, uri)\<close>: remove \<open>path/name\<close> (an error is
  only logged), run \<^verbatim>\<open>git clone uri name\<close> in \<open>path\<close>, and relink the Salt module
  and the adaptor. Any exception of the body is logged and turned into
  ManagerInvalidStatesRepoException; otherwise the result is True.\<close>

definition clone_repo :: "'os os_exec \<Rightarrow> config \<Rightarrow> string \<Rightarrow> string \<Rightarrow> string \<Rightarrow> (bool, 'os) act" where
  "clone_repo ex config path name uri =
     abind (atry
       (abind (atry (abind (os_call ex (Rmtree (normpath (path @ ''/'' @ name)))) (\<lambda>_. areturn ()))
                 (\<lambda>e. log ''DEBUG'' (''Exception while removing directory '' @ normpath (path @ ''/'' @ name) @
                                     '': '' @ snd e) (Some (''clone_repo'', ''utils'')))) (\<lambda>_.
        abind (os_call ex (Check_output (py_words (''git clone '' @ uri @ '' '' @ name)) path)) (\<lambda>r.
        abind (log ''INFO'' (''repo '' @ name @ '' from '' @ uri @ '' successfully cloned in '' @ path @ '': '' @ r)
                 (Some (''clone_repo'', ''utils''))) (\<lambda>_.
        abind (relink ex config ''name'' ''src_salt'' path name) (\<lambda>_.
        relink ex config ''dst_adaptor'' ''src_adaptor'' path name)))))
       (\<lambda>e. abind (log ''ERROR'' (''Can'' @ [CHR 0x27] @ ''t clone '' @ name @ '' repo from '' @ uri @ '': '' @ snd e)
                     (Some (''clone_repo'', ''utils'')))
            (\<lambda>_. araise ManagerInvalidStatesRepoException [])))
     (\<lambda>_. areturn True)"

section \<open>\<^verbatim>\<open>checkout_repo\<close>\<close>

definition checkout_commands :: "string \<Rightarrow> string list" where
  "checkout_commands tag = [''git checkout master'', ''git pull'', ''git checkout '' @ tag]"

text \<open>\<^verbatim>\<open>checkout_repo(config, path, name, tag, uri, n)\<close> and its \<^verbatim>\<open>for\<close> loop over
  the commands, run in \<open>spath = normpath(path/name)\<close>. A command that fails is
  logged, the repository is cloned again, and at \<open>n = 0\<close> the whole checkout is
  retried with \<open>n + 1\<close>; at \<open>n > 0\<close> the code logs and raises
  ManagerInvalidStatesRepoException. Either way the loop then stops
  (\<^verbatim>\<open>break\<close>); an exception of \<^verbatim>\<open>clone_repo\<close> or of the retry propagates. The
  body of the \<^verbatim>\<open>try\<close> yields whether the loop goes on. The recursion is at most
  one level deep, which the termination measure states.\<close>

function checkout_repo :: "'os os_exec \<Rightarrow> config \<Rightarrow> string \<Rightarrow> string \<Rightarrow> string \<Rightarrow> string \<Rightarrow> nat \<Rightarrow> (unit, 'os) act"
  and checkout_loop :: "'os os_exec \<Rightarrow> config \<Rightarrow> string \<Rightarrow> string \<Rightarrow> string \<Rightarrow> string \<Rightarrow> nat \<Rightarrow> string list \<Rightarrow> (unit, 'os) act"
where
  "checkout_repo ex config path name tag uri n =
     abind (checkout_loop ex config path name tag uri n (checkout_commands tag)) (\<lambda>_.
       if n = 0
       then log ''INFO'' (''Repo '' @ name @ '' in '' @ normpath (path @ ''/'' @ name) @
                          '' successfully checkout at '' @ tag @ '' tag.'') (Some (''checkout_repo'', ''utils''))
       else areturn ())"
| "checkout_loop ex config path name tag uri n [] = areturn ()"
| "checkout_loop ex config path name tag uri n (cmd # cmds) =
     abind (atry
       (abind (os_call ex (Check_output (py_words cmd) (normpath (path @ ''/'' @ name)))) (\<lambda>r.
        abind (log ''INFO'' (''Command succeed '' @ cmd @ '': '' @ r) (Some (''checkout_repo'', ''utils'')))
          (\<lambda>_. areturn True)))
       (\<lambda>e. abind (log ''WARNING'' (''Can'' @ [CHR 0x27] @ ''t update '' @ name @ '' repo on '' @ tag @ '' tag: '' @ snd e)
                     (Some (''checkout_repo'', ''utils''))) (\<lambda>_.
            abind (clone_repo ex config path name uri) (\<lambda>_.
            abind (if n = 0 then checkout_repo ex config path name tag uri (n + 1)
                   else abind (log ''ERROR'' (''Can'' @ [CHR 0x27] @
                                 ''t switch to requested tag after cloning clean repo, aborting.'')
                                 (Some (''checkout_repo'', ''utils'')))
                          (\<lambda>_. araise ManagerInvalidStatesRepoException [])) (\<lambda>_.
            areturn False)))))
     (\<lambda>go_on. if go_on then checkout_loop ex config path name tag uri n cmds else areturn ())"
  by pat_completeness auto
termination
  by (relation "measure (case_sum (\<lambda>(ex, config, path, name, tag, uri, n). if n = 0 then 15 else 5)
                                  (\<lambda>(ex, config, path, name, tag, uri, n, cmds).
                                      (if n = 0 then 10 else 0) + length cmds))")
     (auto simp: checkout_commands_def)

section \<open>Vocabulary of the properties\<close>

text \<open>Clones counted in the recorded calls; an action that adds at most \<open>k\<close>
  clones, or raises only the exception \<open>x\<close>; the three successful checkout
  commands; and, for the liveness property, a git that works on an intact clone
  (the OS state is whether the working copy is intact) and a configuration with
  the keys \<^verbatim>\<open>clone_repo\<close> reads.\<close>

definition is_clone :: "os_op \<Rightarrow> bool" where
  "is_clone op = (case op of Check_output argv d \<Rightarrow> take 2 argv = [''git'', ''clone''] | _ \<Rightarrow> False)"

definition ops_count :: "(os_op \<Rightarrow> bool) \<Rightarrow> 'os world \<Rightarrow> nat" where
  "ops_count P w = length (filter (\<lambda>(op, ok). P op) (w_ops w))"

definition clones :: "'os world \<Rightarrow> nat" where
  "clones w = ops_count is_clone w"

definition adds_at_most :: "(os_op \<Rightarrow> bool) \<Rightarrow> nat \<Rightarrow> ('a, 'os) act \<Rightarrow> bool" where
  "adds_at_most P k m = (\<forall>w. ops_count P (snd (m w)) \<le> ops_count P w + k)"

definition checkout_ok_ops :: "string \<Rightarrow> string \<Rightarrow> string \<Rightarrow> (os_op \<times> bool) list" where
  "checkout_ok_ops path name tag =
     map (\<lambda>c. (Check_output (py_words c) (normpath (path @ ''/'' @ name)), True)) (checkout_commands tag)"

definition raises_only :: "pyerr \<Rightarrow> ('a, 'os) act \<Rightarrow> bool" where
  "raises_only x m = (\<forall>w e w'. m w = (Inl e, w') \<longrightarrow> fst e = x)"

definition git_env :: "bool os_exec" where
  "git_env op intact =
     (case op of
        Rmtree p \<Rightarrow> (Inr [], False)
      | Check_output argv d \<Rightarrow>
          if take 2 argv = [''git'', ''clone''] then (Inr [], True)
          else if intact then (Inr [], True) else (Inl (CalledProcessError, ''returned non-zero exit status 1''), False)
      | Unlink p \<Rightarrow> (Inr [], intact)
      | Symlink p q \<Rightarrow> (Inr [], intact))"

definition cfg_has :: "config \<Rightarrow> string \<Rightarrow> string \<Rightarrow> bool" where
  "cfg_has config s k = (case map_of config s of Some sec \<Rightarrow> map_of sec k \<noteq> None | None \<Rightarrow> False)"

definition clone_config_ok :: "config \<Rightarrow> bool" where
  "clone_config_ok config =
     (cfg_has config ''global'' ''package_path'' \<and>
      list_all (cfg_has config ''module'') [''name'', ''src_salt'', ''dst_adaptor'', ''src_adaptor''])"

definition sample_config :: config where
  "sample_config = [(''global'', [(''package_path'', ''/opt/pkg'')]),
           (''module'', [(''name'', ''opsagent''), (''src_salt'', ''salt''), (''dst_adaptor'', ''adaptor''),
                         (''src_adaptor'', ''adaptor'')])]"

section \<open>Lemmas\<close>

lemma split_when_prefix:
  "list_all (\<lambda>x. \<not> P x) u \<Longrightarrow> P c \<Longrightarrow> split_when P (u @ c # s) = u # split_when P s"
  by (induction u) auto

lemma py_words_prefix:
  "u \<noteq> [] \<Longrightarrow> list_all (\<lambda>x. \<not> byte_space x) u \<Longrightarrow> byte_space c \<Longrightarrow>
   py_words (u @ c # s) = u # py_words s"
  by (simp add: py_words_def split_when_prefix)

lemma am_return [simp]: "adds_at_most P 0 (areturn x)"
  by (simp add: adds_at_most_def areturn_def)

lemma am_raise [simp]: "adds_at_most P 0 (araise e m)"
  by (simp add: adds_at_most_def araise_def)

lemma am_step:
  "adds_at_most P k m \<Longrightarrow> m w = (r, w1) \<Longrightarrow> ops_count P w1 \<le> ops_count P w + k"
  by (metis adds_at_most_def snd_conv)

lemma am_bind:
  assumes "adds_at_most P k m" "\<And>x. adds_at_most P j (f x)"
  shows "adds_at_most P (k + j) (abind m f)"
  unfolding adds_at_most_def
proof
  fix w
  obtain r w1 where mw: "m w = (r, w1)" by (cases "m w")
  have h1: "ops_count P w1 \<le> ops_count P w + k" using am_step [OF assms(1) mw] .
  show "ops_count P (snd (abind m f w)) \<le> ops_count P w + (k + j)"
  proof (cases r)
    case (Inl e)
    then show ?thesis using mw h1 by (simp add: abind_def)
  next
    case (Inr x)
    have "ops_count P (snd (f x w1)) \<le> ops_count P w1 + j" using assms(2) by (simp add: adds_at_most_def)
    then show ?thesis using mw h1 Inr by (simp add: abind_def)
  qed
qed

lemma am_try:
  assumes "adds_at_most P k m" "\<And>e. adds_at_most P j (h e)"
  shows "adds_at_most P (k + j) (atry m h)"
  unfolding adds_at_most_def
proof
  fix w
  obtain r w1 where mw: "m w = (r, w1)" by (cases "m w")
  have h1: "ops_count P w1 \<le> ops_count P w + k" using am_step [OF assms(1) mw] .
  show "ops_count P (snd (atry m h w)) \<le> ops_count P w + (k + j)"
  proof (cases r)
    case (Inl e)
    have "ops_count P (snd (h e w1)) \<le> ops_count P w1 + j" using assms(2) by (simp add: adds_at_most_def)
    then show ?thesis using mw h1 Inl by (simp add: atry_def)
  next
    case (Inr x)
    then show ?thesis using mw h1 by (simp add: atry_def)
  qed
qed

lemma am_bind0: "adds_at_most P 0 m \<Longrightarrow> (\<And>x. adds_at_most P 0 (f x)) \<Longrightarrow> adds_at_most P 0 (abind m f)"
  using am_bind [of P 0 m 0 f] by simp

lemma am_try0: "adds_at_most P 0 m \<Longrightarrow> (\<And>e. adds_at_most P 0 (h e)) \<Longrightarrow> adds_at_most P 0 (atry m h)"
  using am_try [of P 0 m 0 h] by simp

lemma am_mono: "adds_at_most P k m \<Longrightarrow> k \<le> j \<Longrightarrow> adds_at_most P j m"
  unfolding adds_at_most_def by (meson add_left_mono order_trans)

lemma am_os_call: "adds_at_most P (if P op then 1 else 0) (os_call ex op)"
  by (auto simp: adds_at_most_def os_call_def ops_count_def split: prod.splits)

lemma am_log [simp]: "adds_at_most P 0 (log a c fc)"
  by (auto simp: adds_at_most_def log_def ops_count_def Let_def split: option.splits sum.splits prod.splits)

lemma am_cfg_get [simp]: "adds_at_most P 0 (cfg_get config s k)"
  by (auto simp: adds_at_most_def cfg_get_def split: option.splits)

lemma am_if: "adds_at_most P k m1 \<Longrightarrow> adds_at_most P k m2 \<Longrightarrow> adds_at_most P k (if b then m1 else m2)"
  by simp

lemma am_relink: "adds_at_most is_clone 0 (relink ex config dst src path name)"
proof -
  have u: "adds_at_most is_clone 0 (os_call ex (Unlink p))" and s: "adds_at_most is_clone 0 (os_call ex (Symlink p q))" for p q
    using am_os_call [of is_clone "Unlink p" ex] am_os_call [of is_clone "Symlink p q" ex] by (simp_all add: is_clone_def)
  show ?thesis unfolding relink_def
    by (intro am_bind0 am_try0 am_return am_log am_cfg_get u s)
qed

lemma am_bind_le:
  "adds_at_most P k m \<Longrightarrow> (\<And>x. adds_at_most P j (f x)) \<Longrightarrow> k + j \<le> l \<Longrightarrow> adds_at_most P l (abind m f)"
  by (rule am_mono [OF am_bind])

lemma am_try_le:
  "adds_at_most P k m \<Longrightarrow> (\<And>e. adds_at_most P j (h e)) \<Longrightarrow> k + j \<le> l \<Longrightarrow> adds_at_most P l (atry m h)"
  by (rule am_mono [OF am_try])

lemma am_no_clone: "\<not> is_clone op \<Longrightarrow> adds_at_most is_clone 0 (os_call ex op)"
  using am_os_call [of is_clone op ex] by simp

lemma am_clone_repo: "adds_at_most is_clone 1 (clone_repo ex config path name uri)"
  unfolding clone_repo_def
  by (rule am_mono, (rule am_bind am_try am_os_call am_log am_return am_raise am_relink)+, simp add: is_clone_def)

lemma abind_never:
  "(\<And>x w w'. f x w \<noteq> (Inr v, w')) \<Longrightarrow> abind m f w \<noteq> (Inr v, w')"
  by (auto simp: abind_def split: prod.splits sum.splits)

lemma am_loop_step:
  assumes "adds_at_most P a m" "\<And>e. adds_at_most P b (h e)" "\<And>e w w'. h e w \<noteq> (Inr True, w')"
    "adds_at_most P c k"
  shows "adds_at_most P (a + max b c) (abind (atry m h) (\<lambda>go. if go then k else areturn ()))"
  unfolding adds_at_most_def
proof
  fix w
  obtain r w1 where mw: "m w = (r, w1)" by (cases "m w")
  have h1: "ops_count P w1 \<le> ops_count P w + a" using am_step [OF assms(1) mw] .
  show "ops_count P (snd (abind (atry m h) (\<lambda>go. if go then k else areturn ()) w)) \<le> ops_count P w + (a + max b c)"
  proof (cases r)
    case (Inl e)
    obtain r2 w2 where hw: "h e w1 = (r2, w2)" by (cases "h e w1")
    have "ops_count P w2 \<le> ops_count P w1 + b" using am_step [OF assms(2) hw] .
    moreover have "r2 \<noteq> Inr True" using assms(3) hw by blast
    ultimately show ?thesis using mw h1 Inl hw
      by (cases r2) (auto simp: abind_def atry_def areturn_def)
  next
    case (Inr go)
    obtain r2 w2 where kw: "k w1 = (r2, w2)" by (cases "k w1")
    have "ops_count P w2 \<le> ops_count P w1 + c" using am_step [OF assms(4) kw] .
    then show ?thesis using mw h1 Inr kw
      by (cases go) (auto simp: abind_def atry_def areturn_def)
  qed
qed

lemma py_words_checkout_commands:
  "map py_words (checkout_commands tag) =
     [[''git'', ''checkout'', ''master''], [''git'', ''pull''], ''git'' # ''checkout'' # py_words tag]"
  by (simp add: checkout_commands_def py_words_def byte_space_def)

lemma checkout_commands_no_clone:
  "c \<in> set (checkout_commands tag) \<Longrightarrow> \<not> is_clone (Check_output (py_words c) d)"
  using py_words_checkout_commands [of tag] by (auto simp: is_clone_def checkout_commands_def)

lemma handler_never_True:
  "abind m1 (\<lambda>_. abind m2 (\<lambda>_. abind m3 (\<lambda>_. areturn False))) w \<noteq> (Inr True, w')"
  by (rule abind_never)+ (simp add: areturn_def)

lemma am_checkout_loop_retry:
  assumes "n \<noteq> 0" "set cmds \<subseteq> set (checkout_commands tag)"
  shows "adds_at_most is_clone 1 (checkout_loop ex config path name tag uri n cmds)"
  using assms(2)
proof (induction cmds)
  case Nil
  show ?case by (simp add: am_mono [OF am_return])
next
  case (Cons cmd cmds)
  then have nc: "\<not> is_clone (Check_output (py_words cmd) d)" for d
    using checkout_commands_no_clone by auto
  show ?case
    unfolding checkout_loop.simps(2) if_not_P [OF assms(1)]
    by (rule am_mono [OF am_loop_step [OF _ _ handler_never_True Cons.IH]],
        (rule am_bind am_try am_no_clone nc am_log am_return am_raise am_clone_repo)+,
        use Cons.prems in simp_all)
qed

lemma am_checkout_repo_retry:
  "n \<noteq> 0 \<Longrightarrow> adds_at_most is_clone 1 (checkout_repo ex config path name tag uri n)"
  unfolding checkout_repo.simps
  by (rule am_mono [OF am_bind [OF am_checkout_loop_retry]]) (simp_all add: am_return)

lemma am_checkout_loop_first:
  assumes "set cmds \<subseteq> set (checkout_commands tag)"
  shows "adds_at_most is_clone 2 (checkout_loop ex config path name tag uri 0 cmds)"
  using assms
proof (induction cmds)
  case Nil
  show ?case by (simp add: am_mono [OF am_return])
next
  case (Cons cmd cmds)
  then have nc: "\<not> is_clone (Check_output (py_words cmd) d)" for d
    using checkout_commands_no_clone by auto
  have retry: "adds_at_most is_clone 1 (checkout_repo ex config path name tag uri (0 + 1))"
    by (rule am_checkout_repo_retry) simp
  show ?case
    unfolding checkout_loop.simps(2) if_P [OF refl]
    by (rule am_mono [OF am_loop_step [OF _ _ handler_never_True Cons.IH]],
        (rule am_bind am_try am_no_clone nc am_log am_return am_clone_repo retry)+,
        use Cons.prems in simp_all)
qed

lemma am_os_call_any: "adds_at_most P 1 (os_call ex op)"
  by (rule am_mono [OF am_os_call]) simp

lemma am_relink_steps: "adds_at_most P 2 (relink ex config dst src path name)"
  unfolding relink_def
  by (rule am_mono, (rule am_bind am_try am_os_call_any am_log am_cfg_get am_return)+, simp)

lemma am_clone_repo_steps: "adds_at_most P 6 (clone_repo ex config path name uri)"
  unfolding clone_repo_def
  by (rule am_mono, (rule am_bind am_try am_os_call_any am_log am_return am_raise am_relink_steps)+, simp)

lemma am_checkout_loop_retry_steps:
  "n \<noteq> 0 \<Longrightarrow> adds_at_most P (length cmds + 6) (checkout_loop ex config path name tag uri n cmds)"
proof (induction cmds)
  case Nil
  show ?case by (simp add: am_mono [OF am_return])
next
  case (Cons cmd cmds)
  show ?case
    unfolding checkout_loop.simps(2) if_not_P [OF Cons.prems]
    by (rule am_mono [OF am_loop_step [OF _ _ handler_never_True Cons.IH [OF Cons.prems]]],
        (rule am_bind am_try am_os_call_any am_log am_return am_raise am_clone_repo_steps)+, simp_all)
qed

lemma am_checkout_repo_retry_steps:
  "n \<noteq> 0 \<Longrightarrow> adds_at_most P 9 (checkout_repo ex config path name tag uri n)"
  unfolding checkout_repo.simps
  by (rule am_mono [OF am_bind [OF am_checkout_loop_retry_steps]]) (simp_all add: checkout_commands_def)

lemma am_checkout_loop_first_steps:
  "adds_at_most P (length cmds + 15) (checkout_loop ex config path name tag uri 0 cmds)"
proof (induction cmds)
  case Nil
  show ?case by (simp add: am_mono [OF am_return])
next
  case (Cons cmd cmds)
  have retry: "adds_at_most P 9 (checkout_repo ex config path name tag uri (0 + 1))"
    by (rule am_checkout_repo_retry_steps) simp
  show ?case
    unfolding checkout_loop.simps(2) if_P [OF refl]
    by (rule am_mono [OF am_loop_step [OF _ _ handler_never_True Cons.IH]],
        (rule am_bind am_try am_os_call_any am_log am_return am_clone_repo_steps retry)+, simp_all)
qed

text \<open>C25: whatever the executor does, one call of \<^verbatim>\<open>checkout_repo\<close> (with the
  default \<open>n = 0\<close>) runs \<^verbatim>\<open>git clone\<close> at most twice: once before the retry and
  once more when a command fails in the retry, which then aborts.\<close>

theorem checkout_repo_clone_bound:
  "clones (snd (checkout_repo ex config path name tag uri 0 w)) \<le> clones w + 2"
proof -
  have "adds_at_most is_clone 2 (checkout_repo ex config path name tag uri 0)"
    unfolding checkout_repo.simps
    by (rule am_mono [OF am_bind [OF am_checkout_loop_first]]) (simp_all add: am_log)
  then show ?thesis by (simp add: adds_at_most_def clones_def)
qed

text \<open>C11: \<^verbatim>\<open>checkout_repo\<close> terminates, and in bounded time: whatever git and
  the filesystem do, one call (with the default \<open>n = 0\<close>) makes at most 18 OS
  calls, because the retry recursion is at most one level deep: three commands
  and a clone of six calls (\<open>rmtree\<close>, \<open>git clone\<close>, two unlinks and two
  symlinks) at each of the two levels.\<close>

theorem checkout_repo_terminates:
  "length (w_ops (snd (checkout_repo ex config path name tag uri 0 w))) \<le> length (w_ops w) + 18"
proof -
  have "adds_at_most (\<lambda>_. True) 18 (checkout_repo ex config path name tag uri 0)"
    unfolding checkout_repo.simps
    by (rule am_mono [OF am_bind [OF am_checkout_loop_first_steps]]) (simp_all add: checkout_commands_def)
  then show ?thesis by (simp add: adds_at_most_def ops_count_def)
qed

lemma abind_Inr: "abind m f w = (Inr y, w') \<longleftrightarrow> (\<exists>x w1. m w = (Inr x, w1) \<and> f x w1 = (Inr y, w'))"
  by (auto simp: abind_def split: prod.splits sum.splits)

lemma atry_Inr:
  "atry m h w = (Inr y, w') \<longleftrightarrow> m w = (Inr y, w') \<or> (\<exists>e w1. m w = (Inl e, w1) \<and> h e w1 = (Inr y, w'))"
  by (auto simp: atry_def split: prod.splits sum.splits)

lemma areturn_eq [simp]: "areturn x w = (r, w') \<longleftrightarrow> r = Inr x \<and> w' = w"
  by (auto simp: areturn_def)

lemma araise_eq [simp]: "araise e m w = (r, w') \<longleftrightarrow> r = Inl (e, m) \<and> w' = w"
  by (auto simp: araise_def)

lemma os_call_ops: "os_call ex op w = (r, w') \<Longrightarrow> w_ops w' = w_ops w @ [(op, \<not> isl r)]"
  by (auto simp: os_call_def split: prod.splits)

lemma log_ops: "log a c fc w = (r, w') \<Longrightarrow> w_ops w' = w_ops w"
  by (auto simp: log_def Let_def split: option.splits sum.splits if_splits prod.splits)

lemma raise_tail_never_Inr:
  "abind m1 (\<lambda>_. abind m2 (\<lambda>_. abind (abind m3 (\<lambda>_. araise e s)) (\<lambda>_. areturn False))) w \<noteq> (Inr y, w')"
  by (auto simp: abind_Inr)

lemma loop_step_cases:
  assumes "abind (atry (abind (os_call ex op) (\<lambda>r. abind (log a (msg r) fc) (\<lambda>_. areturn True))) h)
             (\<lambda>go. if go then k else areturn ()) w = (Inr (), w')"
    and "\<And>e w w'. h e w \<noteq> (Inr True, w')"
  shows "(\<exists>w1. w_ops w1 = w_ops w @ [(op, True)] \<and> k w1 = (Inr (), w')) \<or> (\<exists>e w0. h e w0 = (Inr False, w'))"
proof -
  from assms obtain go w1 where
    t: "atry (abind (os_call ex op) (\<lambda>r. abind (log a (msg r) fc) (\<lambda>_. areturn True))) h w = (Inr go, w1)"
    and k: "(if go then k else areturn ()) w1 = (Inr (), w')"
    unfolding abind_Inr by blast
  from t have "(go \<and> w_ops w1 = w_ops w @ [(op, True)]) \<or> (\<exists>e w0. h e w0 = (Inr go, w1))"
    by (auto simp: atry_Inr abind_Inr dest!: os_call_ops log_ops)
  with k assms(2) show ?thesis by (cases go) auto
qed

lemma checkout_loop_retry_Inr:
  assumes "n \<noteq> 0" "checkout_loop ex config path name tag uri n cmds w = (Inr (), w')"
  shows "w_ops w' = w_ops w @ map (\<lambda>c. (Check_output (py_words c) (normpath (path @ ''/'' @ name)), True)) cmds"
  using assms(2)
proof (induction cmds arbitrary: w)
  case Nil
  then show ?case by simp
next
  case (Cons cmd cmds)
  from loop_step_cases [OF Cons.prems [unfolded checkout_loop.simps(2) if_not_P [OF assms(1)]]
      handler_never_True]
  show ?case using Cons.IH raise_tail_never_Inr by fastforce
qed

lemma checkout_repo_retry_Inr:
  assumes "n \<noteq> 0" "checkout_repo ex config path name tag uri n w = (Inr (), w')"
  shows "w_ops w' = w_ops w @ checkout_ok_ops path name tag"
proof -
  from assms(2) obtain w1 where "checkout_loop ex config path name tag uri n (checkout_commands tag) w = (Inr (), w1)"
    and "w' = w1"
    unfolding checkout_repo.simps abind_Inr if_not_P [OF assms(1)] by auto
  then show ?thesis using checkout_loop_retry_Inr [OF assms(1)] by (simp add: checkout_ok_ops_def)
qed

lemma checkout_loop_first_Inr:
  assumes "checkout_loop ex config path name tag uri 0 cmds w = (Inr (), w')"
  shows "w_ops w' = w_ops w @ map (\<lambda>c. (Check_output (py_words c) (normpath (path @ ''/'' @ name)), True)) cmds
         \<or> (\<exists>pre. w_ops w' = pre @ checkout_ok_ops path name tag)"
  using assms
proof (induction cmds arbitrary: w)
  case Nil
  then show ?case by simp
next
  case (Cons cmd cmds)
  have retry: "\<exists>pre. w_ops w' = pre @ checkout_ok_ops path name tag"
    if h: "abind m1 (\<lambda>_. abind m2 (\<lambda>_. abind (checkout_repo ex config path name tag uri (0 + 1))
          (\<lambda>_. areturn False))) w0 = (Inr False, w')"
    for m1 :: "(unit, 'a) act" and m2 :: "(bool, 'a) act" and w0
  proof -
    from h obtain w2 where "checkout_repo ex config path name tag uri (0 + 1) w2 = (Inr (), w')"
      unfolding abind_Inr by (auto simp del: checkout_repo.simps)
    from checkout_repo_retry_Inr [OF _ this] show ?thesis by auto
  qed
  from loop_step_cases [OF Cons.prems [unfolded checkout_loop.simps(2) if_P [OF refl]] handler_never_True]
  show ?case using Cons.IH retry by fastforce
qed

text \<open>C26: when \<^verbatim>\<open>checkout_repo\<close> returns normally, the last three calls it made
  were \<^verbatim>\<open>git checkout master\<close>, \<^verbatim>\<open>git pull\<close> and \<^verbatim>\<open>git checkout <tag>\<close> in the
  repository directory, in this order, and all three succeeded.\<close>

theorem checkout_repo_success_ops:
  assumes "fst (checkout_repo ex config path name tag uri 0 w) = Inr ()"
  shows "\<exists>pre. w_ops (snd (checkout_repo ex config path name tag uri 0 w)) = pre @ checkout_ok_ops path name tag"
proof -
  obtain w' where run: "checkout_repo ex config path name tag uri 0 w = (Inr (), w')"
    using assms by (cases "checkout_repo ex config path name tag uri 0 w") auto
  then obtain w1 where loop: "checkout_loop ex config path name tag uri 0 (checkout_commands tag) w = (Inr (), w1)"
    and lg: "log ''INFO'' (''Repo '' @ name @ '' in '' @ normpath (path @ ''/'' @ name) @
                 '' successfully checkout at '' @ tag @ '' tag.'') (Some (''checkout_repo'', ''utils'')) w1 = (Inr (), w')"
    unfolding checkout_repo.simps abind_Inr by auto
  have "w_ops w' = w_ops w1" using log_ops [OF lg] .
  then show ?thesis using checkout_loop_first_Inr [OF loop] run by (auto simp: checkout_ok_ops_def)
qed

theorem checkout_repo_success_ops_witness:
  "\<exists>pre. w_ops (snd (checkout_repo git_env [] ''/srv'' ''states'' ''v1'' ''git://h/r'' 0
          \<lparr>w_level = 20, w_log = [], w_ops = [], w_os = True\<rparr>)) = pre @ checkout_ok_ops ''/srv'' ''states'' ''v1''"
  by (rule checkout_repo_success_ops) code_simp

lemma ro_return [simp]: "raises_only x (areturn v)"
  by (simp add: raises_only_def)

lemma ro_raise [simp]: "raises_only x (araise x s)"
  by (simp add: raises_only_def)

lemma ro_bind: "raises_only x m \<Longrightarrow> (\<And>v. raises_only x (f v)) \<Longrightarrow> raises_only x (abind m f)"
  unfolding raises_only_def abind_def by (fastforce split: prod.splits sum.splits)

lemma ro_try: "(\<And>e. raises_only x (h e)) \<Longrightarrow> raises_only x (atry m h)"
  unfolding raises_only_def atry_def by (fastforce split: prod.splits sum.splits)

lemma ro_if: "raises_only x m1 \<Longrightarrow> raises_only x m2 \<Longrightarrow> raises_only x (if b then m1 else m2)"
  by simp

text \<open>The actions the utilities log with are keys of both tables, so \<^verbatim>\<open>log\<close> does not raise.\<close>

lemma log_Inr: "a \<in> {''DEBUG'', ''INFO'', ''WARNING'', ''ERROR''} \<Longrightarrow> fst (log a c fc w) = Inr ()"
  by (auto simp: log_def Let_def COLOR_def COLORS_EQ_def LOGGING_EQ_def)

lemma ro_log: "a \<in> {''DEBUG'', ''INFO'', ''WARNING'', ''ERROR''} \<Longrightarrow> raises_only x (log a c fc)"
  unfolding raises_only_def using log_Inr by (metis fst_conv sum.distinct(1))

lemmas ro_rules = ro_bind ro_try ro_if ro_return ro_raise ro_log

lemma ro_clone_repo: "raises_only ManagerInvalidStatesRepoException (clone_repo ex config path name uri)"
  unfolding clone_repo_def by (intro ro_rules) simp_all

lemma ro_checkout_loop_retry:
  "n \<noteq> 0 \<Longrightarrow> raises_only ManagerInvalidStatesRepoException (checkout_loop ex config path name tag uri n cmds)"
  by (induction cmds) (simp_all del: checkout_repo.simps add: ro_rules ro_clone_repo)

lemma ro_checkout_repo_retry:
  "n \<noteq> 0 \<Longrightarrow> raises_only ManagerInvalidStatesRepoException (checkout_repo ex config path name tag uri n)"
  unfolding checkout_repo.simps by (intro ro_bind ro_checkout_loop_retry) simp_all

lemma ro_checkout_loop_first:
  "raises_only ManagerInvalidStatesRepoException (checkout_loop ex config path name tag uri 0 cmds)"
proof (induction cmds)
  case Nil
  then show ?case by simp
next
  case (Cons cmd cmds)
  have "raises_only ManagerInvalidStatesRepoException (checkout_repo ex config path name tag uri (0 + 1))"
    by (rule ro_checkout_repo_retry) simp
  with Cons.IH show ?case
    unfolding checkout_loop.simps(2) if_P [OF refl] by (intro ro_rules ro_clone_repo) simp_all
qed

text \<open>C27: the only exception that escapes \<^verbatim>\<open>checkout_repo\<close> is
  ManagerInvalidStatesRepoException: failing git commands, a failing clone,
  filesystem errors and missing configuration keys are all caught and turned
  into it.\<close>

theorem checkout_repo_raises_only:
  assumes "fst (checkout_repo ex config path name tag uri 0 w) = Inl e"
  shows "fst e = ManagerInvalidStatesRepoException"
proof -
  have "raises_only ManagerInvalidStatesRepoException (checkout_repo ex config path name tag uri 0)"
    unfolding checkout_repo.simps by (intro ro_rules ro_checkout_loop_first) simp_all
  with assms show ?thesis unfolding raises_only_def by (metis prod.collapse)
qed

theorem checkout_repo_raises_only_witness:
  "fst (checkout_repo git_env [] ''/srv'' ''states'' ''v1'' ''git://h/r'' 0
          \<lparr>w_level = 20, w_log = [], w_ops = [], w_os = False\<rparr>) = Inl (ManagerInvalidStatesRepoException, [])
   \<and> fst (ManagerInvalidStatesRepoException, [] :: string) = ManagerInvalidStatesRepoException"
  using checkout_repo_raises_only [of git_env "[]" "''/srv''" "''states''" "''v1''" "''git://h/r''"
      "\<lparr>w_level = 20, w_log = [], w_ops = [], w_os = False\<rparr>" "(ManagerInvalidStatesRepoException, [])"]
  by code_simp

lemma log_os: "log a c fc w = (r, w') \<Longrightarrow> w_os w' = w_os w"
  by (auto simp: log_def Let_def split: option.splits sum.splits if_splits prod.splits)

lemma log_run: "a \<in> {''DEBUG'', ''INFO'', ''WARNING'', ''ERROR''} \<Longrightarrow>
  \<exists>w'. log a c fc w = (Inr (), w') \<and> w_os w' = w_os w"
  using log_Inr [of a c fc w] log_os [of a c fc w] by (cases "log a c fc w") auto

lemma cfg_get_run: "cfg_has config s k \<Longrightarrow> \<exists>v. cfg_get config s k w = (Inr v, w)"
  by (auto simp: cfg_has_def cfg_get_def split: option.splits)

lemma clone_repo_run:
  assumes "clone_config_ok config"
  shows "\<exists>w'. clone_repo git_env config path name uri w = (Inr True, w') \<and> w_os w'"
proof -
  obtain g m where g: "map_of config ''global'' = Some g" and m: "map_of config ''module'' = Some m"
    using assms by (auto simp: clone_config_ok_def cfg_has_def split: option.splits)
  obtain pp nm ss da sa where cfg: "map_of g ''package_path'' = Some pp" "map_of m ''name'' = Some nm"
    "map_of m ''src_salt'' = Some ss" "map_of m ''dst_adaptor'' = Some da" "map_of m ''src_adaptor'' = Some sa"
    using assms g m by (auto simp: clone_config_ok_def cfg_has_def)
  have words: "take 2 (py_words (''git clone '' @ uri @ '' '' @ name)) = [''git'', ''clone'']"
    by (simp add: py_words_def byte_space_def)
  show ?thesis
    using words
    by (simp add: clone_repo_def relink_def abind_def atry_def os_call_def git_env_def areturn_def
        log_def Let_def COLOR_def COLORS_EQ_def LOGGING_EQ_def cfg_get_def g m cfg)
qed

lemma abind_step: "m w = (Inr x, w1) \<Longrightarrow> abind m f w = f x w1"
  by (simp add: abind_def)

lemma checkout_loop_intact:
  "w_os w \<Longrightarrow> \<exists>w'. checkout_loop git_env config path name tag uri n cmds w = (Inr (), w') \<and> w_os w'"
proof (induction cmds arbitrary: w)
  case Nil
  then show ?case by simp
next
  case (Cons cmd cmds)
  let ?op = "Check_output (py_words cmd) (normpath (path @ ''/'' @ name))"
  let ?w0 = "w\<lparr>w_os := True, w_ops := w_ops w @ [(?op, True)]\<rparr>"
  have os: "os_call git_env ?op w = (Inr [], ?w0)"
    using Cons.prems by (simp add: os_call_def git_env_def)
  obtain w1 where l: "log ''INFO'' (''Command succeed '' @ cmd @ '': '' @ []) (Some (''checkout_repo'', ''utils'')) ?w0
      = (Inr (), w1)" "w_os w1"
    using log_run [of "''INFO''"] by fastforce
  obtain w2 where "checkout_loop git_env config path name tag uri n cmds w1 = (Inr (), w2)" "w_os w2"
    using Cons.IH l(2) by blast
  note loop = this
  have "atry (abind (os_call git_env ?op) (\<lambda>r. abind (log ''INFO'' (''Command succeed '' @ cmd @ '': '' @ r)
          (Some (''checkout_repo'', ''utils''))) (\<lambda>_. areturn True))) h w = (Inr True, w1)" for h
    by (simp add: atry_def abind_def os [simplified] l(1) [simplified] areturn_def)
  then show ?case
    unfolding checkout_loop.simps(2) using loop by (simp add: abind_step del: checkout_loop.simps)
qed

lemma checkout_repo_intact:
  "w_os w \<Longrightarrow> \<exists>w'. checkout_repo git_env config path name tag uri n w = (Inr (), w') \<and> w_os w'"
proof -
  assume "w_os w"
  then obtain w1 where loop: "checkout_loop git_env config path name tag uri n (checkout_commands tag) w = (Inr (), w1)"
    "w_os w1" using checkout_loop_intact by blast
  show ?thesis
  proof (cases "n = 0")
    case True
    obtain w2 where "log ''INFO'' (''Repo '' @ name @ '' in '' @ normpath (path @ ''/'' @ name) @
        '' successfully checkout at '' @ tag @ '' tag.'') (Some (''checkout_repo'', ''utils'')) w1 = (Inr (), w2)"
      "w_os w2 = w_os w1"
      using log_run [of "''INFO''"] by blast
    with True loop(2) show ?thesis
      unfolding checkout_repo.simps abind_step [of "checkout_loop git_env config path name tag uri n (checkout_commands tag)", OF loop(1)]
      by auto
  next
    case False
    then show ?thesis unfolding checkout_repo.simps abind_step [of "checkout_loop git_env config path name tag uri n (checkout_commands tag)", OF loop(1)] using loop(2) by simp
  qed
qed

lemma handler_run:
  assumes "a \<in> {''DEBUG'', ''INFO'', ''WARNING'', ''ERROR''}" "clone_config_ok config"
  shows "\<exists>w'. abind (log a c fc) (\<lambda>_. abind (clone_repo git_env config path name uri)
           (\<lambda>_. abind (checkout_repo git_env config path name tag uri n) (\<lambda>_. areturn False))) w = (Inr False, w')"
proof -
  obtain w1 where l: "log a c fc w = (Inr (), w1)" using log_run [OF assms(1)] by blast
  obtain w2 where c: "clone_repo git_env config path name uri w1 = (Inr True, w2)" "w_os w2"
    using clone_repo_run [OF assms(2)] by blast
  obtain w3 where r: "checkout_repo git_env config path name tag uri n w2 = (Inr (), w3)"
    using checkout_repo_intact [OF c(2)] by blast
  show ?thesis by (simp add: abind_def l c(1) r del: checkout_repo.simps)
qed

lemma loop_head_fails:
  assumes "os_call ex op w = (Inl e, w0)" "h e w0 = (Inr False, w')"
  shows "abind (atry (abind (os_call ex op) f) h) (\<lambda>go. if go then k else areturn ()) w = (Inr (), w')"
  by (simp add: abind_def atry_def assms)

text \<open>C28: the retry recovers a broken clone. With a configuration that has the
  keys \<^verbatim>\<open>clone_repo\<close> reads, and a git that fails on a damaged working copy
  and always clones afresh, \<^verbatim>\<open>checkout_repo\<close> returns normally from any state.\<close>

theorem checkout_repo_recovers:
  assumes "clone_config_ok config"
  shows "fst (checkout_repo git_env config path name tag uri 0 w) = Inr ()"
proof (cases "w_os w")
  case True
  then show ?thesis using checkout_repo_intact by (metis fst_conv)
next
  case False
  let ?op = "Check_output (py_words ''git checkout master'') (normpath (path @ ''/'' @ name))"
  let ?e = "(CalledProcessError, ''returned non-zero exit status 1'')"
  let ?w0 = "w\<lparr>w_os := False, w_ops := w_ops w @ [(?op, False)]\<rparr>"
  have os: "os_call git_env ?op w = (Inl ?e, ?w0)"
    using False by (simp add: os_call_def git_env_def py_words_def byte_space_def)
  obtain w3 where h: "abind (log ''WARNING'' (''Can'' @ [CHR 0x27] @ ''t update '' @ name @ '' repo on '' @ tag @
        '' tag: '' @ snd ?e) (Some (''checkout_repo'', ''utils''))) (\<lambda>_. abind (clone_repo git_env config path name uri)
        (\<lambda>_. abind (checkout_repo git_env config path name tag uri (0 + 1)) (\<lambda>_. areturn False))) ?w0 = (Inr False, w3)"
    using handler_run [OF _ assms] by blast
  have loop: "checkout_loop git_env config path name tag uri 0 (checkout_commands tag) w = (Inr (), w3)"
    unfolding checkout_commands_def checkout_loop.simps(2) if_P [OF refl]
    by (rule loop_head_fails [OF os]) (use h in simp)
  obtain w4 where "log ''INFO'' (''Repo '' @ name @ '' in '' @ normpath (path @ ''/'' @ name) @
        '' successfully checkout at '' @ tag @ '' tag.'') (Some (''checkout_repo'', ''utils'')) w3 = (Inr (), w4)"
    using log_run [of "''INFO''"] by blast
  then show ?thesis
    unfolding checkout_repo.simps [of git_env config path name tag uri 0]
      abind_step [of "checkout_loop git_env config path name tag uri 0 (checkout_commands tag)", OF loop]
    by simp
qed

theorem checkout_repo_recovers_witness:
  "clone_config_ok sample_config \<and>
   fst (checkout_repo git_env sample_config ''/srv'' ''states'' ''v1'' ''git://h/r'' 0
          \<lparr>w_level = 20, w_log = [], w_ops = [], w_os = False\<rparr>) = Inr ()"
proof -
  have c: "clone_config_ok sample_config" by (simp add: clone_config_ok_def cfg_has_def sample_config_def)
  show ?thesis
    using c checkout_repo_recovers [OF c, of "''/srv''" "''states''" "''v1''" "''git://h/r''"
        "\<lparr>w_level = 20, w_log = [], w_ops = [], w_os = False\<rparr>"] by blast
qed

end
