(* ===== verification/Requests.thy ===== *)
theory Requests
  imports Prelude
begin

text \<open>
  The request builders of \<^verbatim>\<open>src/opsagent/opsagent/objects/send.py\<close>:
  \<^verbatim>\<open>handshake\<close> and \<^verbatim>\<open>statelog\<close> build the dictionaries the agent sends to the
  server. The protocol constants come from a \<^verbatim>\<open>codes\<close> module that is not part of
  the repository, so they are a parameter of the builders (the record \<open>codes\<close>);
  the properties hold whatever their values.
\<close>

record codes =
  HANDSHAKE :: pyval
  STATELOG :: pyval
  PROTOCOL_VERSION :: pyval

text \<open>\<^verbatim>\<open>d.get(k)\<close>: \<open>None\<close> for a missing key; a value that is not a dictionary
  has no \<^verbatim>\<open>get\<close> method.\<close>

fun py_dict_get :: "pyval \<Rightarrow> string \<Rightarrow> pyval res" where
  "py_dict_get (PDict d) k = Inr (case map_of d k of Some v \<Rightarrow> v | None \<Rightarrow> PNone)"
| "py_dict_get v k = Inl AttributeError"

text \<open>\<^verbatim>\<open>handshake(init, errors)\<close>: a non-dictionary \<open>init\<close> is replaced by \<open>{}\<close>;
  the \<open>init_errors\<close> entry is the literal \<open>None\<close> (the expression using \<open>errors\<close> is
  commented out in the source).\<close>

definition handshake :: "codes \<Rightarrow> pyval \<Rightarrow> pyval \<Rightarrow> pdict res" where
  "handshake codes init errors =
     (let init = (if is_dict init then init else PDict []) in
      rbind (py_dict_get init ''instance_id'') (\<lambda>iid.
      rbind (py_dict_get init ''app_id'') (\<lambda>aid.
      rbind (py_dict_get init ''instance_token'') (\<lambda>tok.
        Inr [(''code'', HANDSHAKE codes), (''instance_id'', iid), (''app_id'', aid),
             (''protocol_version'', PROTOCOL_VERSION codes), (''instance_token'', tok),
             (''init_errors'', PNone)]))))"

text \<open>\<^verbatim>\<open>statelog(init, version, id, result, err_log, out_log)\<close>: \<open>init\<close> is used
  as given.\<close>

definition statelog :: "codes \<Rightarrow> pyval \<Rightarrow> pyval \<Rightarrow> pyval \<Rightarrow> pyval \<Rightarrow> pyval \<Rightarrow> pyval \<Rightarrow> pdict res" where
  "statelog codes init version sid result err_log out_log =
     rbind (py_dict_get init ''instance_id'') (\<lambda>iid.
     rbind (py_dict_get init ''app_id'') (\<lambda>aid.
       Inr [(''code'', STATELOG codes), (''instance_id'', iid), (''app_id'', aid),
            (''recipe_version'', version), (''stateid'', sid), (''state_result'', result),
            (''state_stderr'', err_log), (''state_stdout'', out_log)]))"

definition handshake_keys :: "string list" where
  "handshake_keys = [''code'', ''instance_id'', ''app_id'', ''protocol_version'', ''instance_token'', ''init_errors'']"

definition init_field :: "pyval \<Rightarrow> string \<Rightarrow> pyval" where
  "init_field init k = (case init of PDict d \<Rightarrow> (case map_of d k of Some v \<Rightarrow> v | None \<Rightarrow> PNone) | _ \<Rightarrow> PNone)"

text \<open>C29: \<^verbatim>\<open>handshake\<close> never raises, whatever \<open>init\<close> and \<open>errors\<close> are: the request
  has exactly the six protocol keys, in order and each once; the identifiers are
  those of \<open>init\<close> when it is a dictionary (None otherwise or when missing), and
  \<open>init_errors\<close> is None even when there are errors.\<close>

theorem handshake_shape:
  "handshake codes init errors =
     Inr (zip handshake_keys
            [HANDSHAKE codes, init_field init ''instance_id'', init_field init ''app_id'',
             PROTOCOL_VERSION codes, init_field init ''instance_token'', PNone])"
  by (cases init) (simp_all add: handshake_def handshake_keys_def init_field_def)

text \<open>C30: \<^verbatim>\<open>statelog\<close> has no such guard: it raises AttributeError exactly when
  \<open>init\<close> is not a dictionary, and otherwise builds the eight-key request.\<close>

theorem statelog_AttributeError:
  "(statelog codes init version sid result err_log out_log = Inl AttributeError) = (\<not> is_dict init) \<and>
   (is_dict init \<longrightarrow> map fst (projr (statelog codes init version sid result err_log out_log)) =
      [''code'', ''instance_id'', ''app_id'', ''recipe_version'', ''stateid'', ''state_result'',
       ''state_stderr'', ''state_stdout''])"
  by (cases init) (simp_all add: statelog_def)

theorem statelog_AttributeError_witness:
  "statelog \<lparr>HANDSHAKE = PInt 1, STATELOG = PInt 2, PROTOCOL_VERSION = PStr ''1.0''\<rparr> (PStr ''x'')
      (PStr ''v1'') (PStr ''s1'') (PBool True) (PStr []) (PStr []) = Inl AttributeError \<and>
   map fst (projr (statelog \<lparr>HANDSHAKE = PInt 1, STATELOG = PInt 2, PROTOCOL_VERSION = PStr ''1.0''\<rparr>
      (PDict []) (PStr ''v1'') (PStr ''s1'') (PBool True) (PStr []) (PStr []))) =
      [''code'', ''instance_id'', ''app_id'', ''recipe_version'', ''stateid'', ''state_result'',
       ''state_stderr'', ''state_stdout'']"
  using statelog_AttributeError [of "\<lparr>HANDSHAKE = PInt 1, STATELOG = PInt 2, PROTOCOL_VERSION = PStr ''1.0''\<rparr>"
      "PStr ''x''" "PStr ''v1''" "PStr ''s1''" "PBool True" "PStr []" "PStr []"]
    statelog_AttributeError [of "\<lparr>HANDSHAKE = PInt 1, STATELOG = PInt 2, PROTOCOL_VERSION = PStr ''1.0''\<rparr>"
      "PDict []" "PStr ''v1''" "PStr ''s1''" "PBool True" "PStr []" "PStr []"]
  by simp

end
