(* ===== verification/Locale.thy ===== *)
theory Locale
  imports Prelude
begin

text \<open>
  The Salt locale module \<^verbatim>\<open>src/salt/modules/localemod.py\<close>. It reads and sets the
  system locale through shell commands: \<^verbatim>\<open>localectl\<close> on Arch, a \<^verbatim>\<open>LANG=\<close>
  line of \<^verbatim>\<open>/etc/sysconfig/i18n\<close> (RedHat) or \<^verbatim>\<open>/etc/default/locale\<close> (Debian),
  and \<^verbatim>\<open>eselect\<close> on Gentoo. The Salt execution functions it calls
  (\<^verbatim>\<open>cmd.run\<close>, \<^verbatim>\<open>cmd.run_all\<close>, \<^verbatim>\<open>file.sed\<close>) are an interface over an abstract
  system state \<open>'s\<close>, and the OS family grain is a parameter. The output parser
  \<^verbatim>\<open>_parse_localectl\<close> is modelled with Python 2 byte-string semantics.
\<close>

section \<open>\<^verbatim>\<open>__virtual__\<close>\<close>

text \<open>\<^verbatim>\<open>__virtual__()\<close>: the module loads as \<open>locale\<close> except on Windows
  (\<^verbatim>\<open>salt.utils.is_windows()\<close>, the argument here).\<close>

definition locale_virtual :: "bool \<Rightarrow> pyval" where
  "locale_virtual is_windows = (if is_windows then PBool False else PStr ''locale'')"

section \<open>Strings\<close>

text \<open>\<^verbatim>\<open>s.split(c, 1)\<close>: at most one split, at the first \<open>c\<close>.\<close>

definition split_once :: "char \<Rightarrow> string \<Rightarrow> string list" where
  "split_once c s =
     (if c \<in> set s then [takeWhile (\<lambda>x. x \<noteq> c) s, tl (dropWhile (\<lambda>x. x \<noteq> c) s)] else [s])"

text \<open>\<^verbatim>\<open>re.match('^([A-Z_]+)=(.*)$', s)\<close>: the longest prefix of capitals and
  underscores, if non-empty and followed by \<open>=\<close>, is the key; the rest is the value,
  which \<open>.\<close> and \<open>$\<close> allow to contain no newline except a final one, which is
  not part of the group.\<close>

definition key_char :: "char \<Rightarrow> bool" where
  "key_char c = (let n = of_char c :: nat in (65 \<le> n \<and> n \<le> 90) \<or> n = 95)"

definition locale_match :: "string \<Rightarrow> (string \<times> string) option" where
  "locale_match s =
     (case dropWhile key_char s of
        [] \<Rightarrow> None
      | c # v \<Rightarrow>
          if c = CHR ''='' \<and> takeWhile key_char s \<noteq> [] then
            (if nl \<notin> set v then Some (takeWhile key_char s, v)
             else if nl \<notin> set (butlast v) \<and> last v = nl then Some (takeWhile key_char s, butlast v)
             else None)
          else None)"

text \<open>\<^verbatim>\<open>val.replace('"', '')\<close>.\<close>

definition remove_quotes :: "string \<Rightarrow> string" where
  "remove_quotes s = filter (\<lambda>c. c \<noteq> dq) s"

section \<open>The Salt interface\<close>

record run_result =
  retcode :: int
  stdout :: string
  stderr :: string

record 's salt_mod =
  cmd_run :: "string \<Rightarrow> 's \<Rightarrow> string"
  cmd_run_all :: "string \<Rightarrow> 's \<Rightarrow> run_result \<times> 's"
  file_sed :: "string \<Rightarrow> string \<Rightarrow> string \<Rightarrow> 's \<Rightarrow> 's"

section \<open>\<^verbatim>\<open>_parse_localectl\<close>, \<^verbatim>\<open>_localectl_get\<close>, \<^verbatim>\<open>_localectl_set\<close>\<close>

text \<open>One iteration of the loop of \<^verbatim>\<open>_parse_localectl\<close>. The state is \<open>cur_param\<close>
  (None while the local variable is unbound) and the result dictionary. A line with
  a colon sets \<open>cur_param\<close> to its stripped head; a line without one continues the
  current parameter. Reading \<open>cur_param\<close> before any line had a colon raises
  NameError (\<^verbatim>\<open>UnboundLocalError\<close>). Under \<open>System Locale\<close> an entry that does
  not match is logged and skipped (the logging is not modelled).\<close>

type_synonym lc_state = "string option \<times> (string \<times> string) list"

definition localectl_line :: "lc_state \<Rightarrow> string \<Rightarrow> lc_state res" where
  "localectl_line st line =
     (let cols = map bstrip (split_once CHR '':'' line);
          cur = (if 1 < length cols then Some (hd cols) else fst st);
          cols = (if 1 < length cols then tl cols else cols)
      in case cur of
           None \<Rightarrow> Inl NameError
         | Some p \<Rightarrow>
             if p = ''System Locale'' then
               (case locale_match (hd cols) of
                  None \<Rightarrow> Inr (cur, snd st)
                | Some (k, v) \<Rightarrow> Inr (cur, AList.update k (remove_quotes v) (snd st)))
             else Inr (cur, snd st))"

definition parse_localectl :: "string \<Rightarrow> (string \<times> string) list res" where
  "parse_localectl out = rbind (py_for localectl_line (py_splitlines out) (None, [])) (\<lambda>st. Inr (snd st))"

definition localectl_get :: "'s salt_mod \<Rightarrow> 's \<Rightarrow> string res" where
  "localectl_get salt s =
     rbind (parse_localectl (cmd_run salt ''localectl'' s))
       (\<lambda>ret. Inr (case map_of ret ''LANG'' of Some v \<Rightarrow> v | None \<Rightarrow> []))"

text \<open>\<^verbatim>\<open>_localectl_set\<close>: the arguments \<open>k="v"\<close> are joined in the iteration order of
  the dictionary, which Python 2 leaves unspecified; the model uses insertion order,
  and the properties below do not depend on it. \<^verbatim>\<open>state_std\<close>, which copies the
  output into the caller's keyword arguments, is defined outside the repository
  and not modelled.\<close>

definition set_locale_args :: "(string \<times> string) list \<Rightarrow> string" where
  "set_locale_args params = py_join '' '' (map (\<lambda>(k, v). k @ ''='' @ [dq] @ v @ [dq]) params)"

definition localectl_set :: "'s salt_mod \<Rightarrow> string \<Rightarrow> 's \<Rightarrow> bool res \<times> 's" where
  "localectl_set salt locale s =
     (case parse_localectl (cmd_run salt ''localectl'' s) of
        Inl e \<Rightarrow> (Inl e, s)
      | Inr params \<Rightarrow>
          (let params = AList.update ''LANG'' locale params;
               cmd = ''localectl set-locale '' @ set_locale_args params;
               (result, s') = cmd_run_all salt cmd s
           in (Inr (retcode result = 0), s')))"

section \<open>\<^verbatim>\<open>list_avail\<close>, \<^verbatim>\<open>get_locale\<close>, \<^verbatim>\<open>set_locale\<close>\<close>

definition list_avail :: "'s salt_mod \<Rightarrow> 's \<Rightarrow> string list" where
  "list_avail salt s = split_on nl (cmd_run salt ''locale -a'' s)"

text \<open>\<^verbatim>\<open>get_locale\<close>: the family tests are substring tests on the grain, in the
  order of the source; Gentoo returns early; otherwise the text after the first
  \<open>=\<close> (up to the next one) of the command's output, without quotes, or the empty
  string when there is no \<open>=\<close> (IndexError caught).\<close>

definition get_locale :: "'s salt_mod \<Rightarrow> string \<Rightarrow> 's \<Rightarrow> string res" where
  "get_locale salt os_family s =
     (if is_infix ''Arch'' os_family then localectl_get salt s
      else if \<not> is_infix ''RedHat'' os_family \<and> \<not> is_infix ''Debian'' os_family \<and> is_infix ''Gentoo'' os_family
      then Inr (bstrip (cmd_run salt ''eselect --brief locale show'' s))
      else
        (let cmd = (if is_infix ''RedHat'' os_family then ''grep '' @ [dq] @ ''^LANG='' @ [dq] @ '' /etc/sysconfig/i18n''
                    else if is_infix ''Debian'' os_family then ''grep '' @ [dq] @ ''^LANG='' @ [dq] @ '' /etc/default/locale''
                    else [])
         in case py_index (split_on CHR ''='' (cmd_run salt cmd s)) 1 of
              Inl e \<Rightarrow> Inr []
            | Inr v \<Rightarrow> Inr (remove_quotes v)))"

text \<open>\<^verbatim>\<open>set_locale\<close>: on RedHat and Debian, \<^verbatim>\<open>file.sed\<close> rewrites the \<open>LANG=\<close>
  lines, then a shell command appends \<open>LANG=<locale>\<close> when there is none (the
  Python literal \<open>\n\<close> puts a newline before it); the result is True whatever the
  command returned. On Arch and Gentoo it is whether the command succeeded.\<close>

definition set_locale :: "'s salt_mod \<Rightarrow> string \<Rightarrow> string \<Rightarrow> 's \<Rightarrow> bool res \<times> 's" where
  "set_locale salt os_family locale s =
     (if is_infix ''Arch'' os_family then localectl_set salt locale s
      else if is_infix ''RedHat'' os_family then
        (let s1 = file_sed salt ''/etc/sysconfig/i18n'' ''^LANG=.*'' (''LANG='' @ [dq] @ locale @ [dq]) s;
             (result, s2) = cmd_run_all salt (''grep '' @ [dq] @ ''^LANG='' @ [dq] @ '' /etc/sysconfig/i18n || echo '' @
                               [dq] @ [nl] @ ''LANG='' @ locale @ [dq] @ '' >> /etc/sysconfig/i18n'') s1
         in (Inr True, s2))
      else if is_infix ''Debian'' os_family then
        (let s1 = file_sed salt ''/etc/default/locale'' ''^LANG=.*'' (''LANG='' @ [dq] @ locale @ [dq]) s;
             (result, s2) = cmd_run_all salt (''grep '' @ [dq] @ ''^LANG='' @ [dq] @ '' /etc/default/locale || '' @
                               ''echo '' @ [dq] @ [nl] @ ''LANG='' @ locale @ [dq] @ '' >> /etc/default/locale'') s1
         in (Inr True, s2))
      else if is_infix ''Gentoo'' os_family then
        (let (result, s1) = cmd_run_all salt (''eselect --brief locale set '' @ locale) s
         in (Inr (retcode result = 0), s1))
      else (Inr True, s))"

section \<open>Environment and vocabulary of the properties\<close>

text \<open>The text \<^verbatim>\<open>localectl\<close> prints for a list of System Locale parameters and
  further status lines, and the conditions under which it is unambiguous. For the
  RedHat and Debian paths, \<open>sh_salt\<close> implements the Salt interface on a table of
  files (each a list of lines): \<^verbatim>\<open>cmd.run\<close> of \<^verbatim>\<open>grep "^LANG=" f\<close> returns the
  \<open>LANG=\<close> lines, \<^verbatim>\<open>cmd.run_all\<close> of the guarded \<^verbatim>\<open>echo\<close> appends an empty line and
  \<open>LANG=l\<close> when there is none, and \<^verbatim>\<open>file.sed\<close> with \<open>^LANG=.*\<close> replaces every
  \<open>LANG=\<close> line; other commands are not understood.\<close>

definition lc_param_lines :: "(string \<times> string) list \<Rightarrow> string list" where
  "lc_param_lines params =
     (case params of
        [] \<Rightarrow> []
      | (k, v) # rest \<Rightarrow>
          (''   System Locale: '' @ k @ ''='' @ v) # map (\<lambda>(k, v). replicate 18 (CHR '' '') @ k @ ''='' @ v) rest)"

definition lc_other_lines :: "(string \<times> string) list \<Rightarrow> string list" where
  "lc_other_lines others = map (\<lambda>(lbl, v). ''       '' @ lbl @ '': '' @ v) others"

definition render_localectl :: "(string \<times> string) list \<Rightarrow> (string \<times> string) list \<Rightarrow> string" where
  "render_localectl params others = concat (map (\<lambda>l. l @ [nl]) (lc_param_lines params @ lc_other_lines others))"

definition clean_lc_value :: "string \<Rightarrow> bool" where
  "clean_lc_value v = (nl \<notin> set v \<and> cr \<notin> set v \<and> dq \<notin> set v \<and> (v = [] \<or> \<not> byte_space (last v)))"

definition clean_lc_params :: "(string \<times> string) list \<Rightarrow> bool" where
  "clean_lc_params params =
     (params \<noteq> [] \<and> distinct (map fst params) \<and>
      list_all (\<lambda>(k, v). k \<noteq> [] \<and> list_all key_char k \<and> clean_lc_value v) params \<and>
      list_all (\<lambda>(k, v). CHR '':'' \<notin> set v) (tl params))"

definition clean_lc_other :: "string \<times> string \<Rightarrow> bool" where
  "clean_lc_other e =
     (case e of (lbl, v) \<Rightarrow> bstrip lbl = lbl \<and> lbl \<noteq> ''System Locale'' \<and> CHR '':'' \<notin> set lbl \<and>
        nl \<notin> set lbl \<and> cr \<notin> set lbl \<and> nl \<notin> set v \<and> cr \<notin> set v)"

definition sl_free_line :: "string \<Rightarrow> bool" where
  "sl_free_line line =
     (CHR '':'' \<in> set line \<longrightarrow> bstrip (takeWhile (\<lambda>x. x \<noteq> CHR '':'') line) \<noteq> ''System Locale'')"

type_synonym lfiles = "(string \<times> string list) list"

definition is_lang_line :: "string \<Rightarrow> bool" where
  "is_lang_line l = starts_with l ''LANG=''"

definition grep_prefix :: string where
  "grep_prefix = ''grep '' @ [dq] @ ''^LANG='' @ [dq] @ '' ''"

definition echo_infix :: string where
  "echo_infix = '' || echo '' @ [dq] @ [nl] @ ''LANG=''"

definition grep_out :: "string list \<Rightarrow> string" where
  "grep_out ls = py_join [nl] (filter is_lang_line ls)"

definition sh_run :: "string \<Rightarrow> lfiles \<Rightarrow> string" where
  "sh_run cmd fs =
     (if starts_with cmd grep_prefix then
        (case map_of fs (drop (length grep_prefix) cmd) of Some ls \<Rightarrow> grep_out ls | None \<Rightarrow> [])
      else [])"

definition sh_run_all :: "string \<Rightarrow> lfiles \<Rightarrow> run_result \<times> lfiles" where
  "sh_run_all cmd fs =
     (let r = drop (length grep_prefix) cmd;
          f = takeWhile (\<lambda>c. c \<noteq> CHR '' '') r;
          r3 = drop (length echo_infix) (dropWhile (\<lambda>c. c \<noteq> CHR '' '') r);
          l = takeWhile (\<lambda>c. c \<noteq> dq) r3
      in if starts_with cmd grep_prefix \<and> starts_with (dropWhile (\<lambda>c. c \<noteq> CHR '' '') r) echo_infix \<and>
            r3 = l @ [dq] @ '' >> '' @ f
         then (case map_of fs f of
                 Some ls \<Rightarrow>
                   if list_ex is_lang_line ls then (\<lparr>retcode = 0, stdout = grep_out ls, stderr = []\<rparr>, fs)
                   else (\<lparr>retcode = 0, stdout = [], stderr = []\<rparr>, AList.update f (ls @ [[], ''LANG='' @ l]) fs)
               | None \<Rightarrow> (\<lparr>retcode = 1, stdout = [], stderr = ''No such file or directory''\<rparr>, fs))
         else (\<lparr>retcode = 127, stdout = [], stderr = ''command not found''\<rparr>, fs))"

definition sh_sed :: "string \<Rightarrow> string \<Rightarrow> string \<Rightarrow> lfiles \<Rightarrow> lfiles" where
  "sh_sed f before after fs =
     (if before = ''^LANG=.*'' then
        (case map_of fs f of
           Some ls \<Rightarrow> AList.update f (map (\<lambda>x. if is_lang_line x then after else x) ls) fs
         | None \<Rightarrow> fs)
      else fs)"

definition sh_salt :: "lfiles salt_mod" where
  "sh_salt = \<lparr>cmd_run = sh_run, cmd_run_all = sh_run_all, file_sed = sh_sed\<rparr>"

definition locale_file :: "string \<Rightarrow> string" where
  "locale_file os_family = (if os_family = ''RedHat'' then ''/etc/sysconfig/i18n'' else ''/etc/default/locale'')"

section \<open>Lemmas\<close>

lemma splitlines_line:
  "nl \<notin> set l \<Longrightarrow> cr \<notin> set l \<Longrightarrow> splitlines_from cur (l @ nl # rest) = (cur @ l) # splitlines_from [] rest"
  by (induction l arbitrary: cur) (auto simp: nl_def cr_def)

lemma splitlines_lines:
  "list_all (\<lambda>l. nl \<notin> set l \<and> cr \<notin> set l) ls \<Longrightarrow> py_splitlines (concat (map (\<lambda>l. l @ [nl]) ls)) = ls"
proof (induction ls)
  case Nil
  then show ?case by (simp add: py_splitlines_def)
next
  case (Cons l ls)
  then show ?case using splitlines_line [of l "[]"] by (simp add: py_splitlines_def)
qed

lemma key_char_chars [simp]: "\<not> key_char CHR ''=''" "\<not> key_char CHR '':''" "\<not> key_char CHR '' ''"
  by (simp_all add: key_char_def)

lemma key_not_space: "key_char c \<Longrightarrow> \<not> byte_space c"
  by (auto simp: key_char_def byte_space_def Let_def)

lemma bstrip_spaces: "list_all byte_space u \<Longrightarrow> bstrip (u @ s) = bstrip s"
  by (simp add: bstrip_def dropWhile_append2 list_all_iff)

lemma bstrip_id: "s = [] \<or> (\<not> byte_space (hd s) \<and> \<not> byte_space (last s)) \<Longrightarrow> bstrip s = s"
proof (cases s rule: rev_cases)
  case (snoc ys y)
  assume a: "s = [] \<or> (\<not> byte_space (hd s) \<and> \<not> byte_space (last s))"
  then have "dropWhile byte_space s = s" using snoc by (cases ys) auto
  moreover have "dropWhile byte_space (rev s) = rev s" using a snoc by simp
  ultimately show ?thesis by (simp add: bstrip_def)
qed (simp add: bstrip_def)

lemma locale_match_entry:
  "k \<noteq> [] \<Longrightarrow> list_all key_char k \<Longrightarrow> nl \<notin> set v \<Longrightarrow> locale_match (k @ ''='' @ v) = Some (k, v)"
  by (simp add: locale_match_def dropWhile_append takeWhile_append list_all_iff)

lemma remove_quotes_id: "dq \<notin> set v \<Longrightarrow> remove_quotes v = v"
  by (induction v) (auto simp: remove_quotes_def)

lemma entry_stripped:
  assumes "k \<noteq> []" "list_all key_char k" "clean_lc_value v"
  shows "bstrip (k @ ''='' @ v) = k @ ''='' @ v"
proof (rule bstrip_id)
  have "\<not> byte_space (hd k)" using assms(1,2) key_not_space by (cases k) auto
  moreover have "\<not> byte_space (last (k @ ''='' @ v))"
    using assms(3) by (cases "v = []") (auto simp: clean_lc_value_def byte_space_def)
  ultimately show "k @ ''='' @ v = [] \<or> \<not> byte_space (hd (k @ ''='' @ v)) \<and> \<not> byte_space (last (k @ ''='' @ v))"
    using assms(1) by simp
qed

lemma key_chars_not: "list_all key_char k \<Longrightarrow> c \<in> set k \<Longrightarrow> \<not> key_char c' \<Longrightarrow> c \<noteq> c'"
  by (auto simp: list_all_iff)

lemma key_no_special:
  "list_all key_char k \<Longrightarrow> CHR '':'' \<notin> set k \<and> nl \<notin> set k \<and> cr \<notin> set k"
  by (auto simp: list_all_iff key_char_def nl_def cr_def Let_def)

lemma lc_first_line:
  assumes "k \<noteq> []" "list_all key_char k" "clean_lc_value v"
  shows "localectl_line st (''   System Locale: '' @ k @ ''='' @ v) = Inr (Some ''System Locale'', AList.update k v (snd st))"
proof -
  have sp: "split_once CHR '':'' (''   System Locale: '' @ k @ ''='' @ v) = [''   System Locale'', '' '' @ k @ ''='' @ v]"
    by (simp add: split_once_def)
  have b1: "bstrip ''   System Locale'' = ''System Locale''"
    by (simp add: bstrip_def byte_space_def)
  have b2: "bstrip ('' '' @ k @ ''='' @ v) = k @ ''='' @ v"
    using bstrip_spaces [of "'' ''" "k @ ''='' @ v"] entry_stripped [OF assms] by (simp add: byte_space_def)
  have "nl \<notin> set v" "dq \<notin> set v" using assms(3) by (auto simp: clean_lc_value_def)
  then show ?thesis
    unfolding localectl_line_def Let_def sp list.map b1 b2
    by (simp add: locale_match_entry [OF assms(1,2), simplified] remove_quotes_id)
qed

lemma lc_cont_line:
  assumes "k \<noteq> []" "list_all key_char k" "clean_lc_value v" "CHR '':'' \<notin> set v"
  shows "localectl_line (Some ''System Locale'', d) (replicate 18 (CHR '' '') @ k @ ''='' @ v) =
           Inr (Some ''System Locale'', AList.update k v d)"
proof -
  have "CHR '':'' \<notin> set (replicate 18 (CHR '' '') @ k @ ''='' @ v)"
    using key_no_special [OF assms(2)] assms(4) by simp
  then have sp: "split_once CHR '':'' (replicate 18 (CHR '' '') @ k @ ''='' @ v) = [replicate 18 (CHR '' '') @ k @ ''='' @ v]"
    by (simp add: split_once_def)
  have b: "bstrip (replicate 18 (CHR '' '') @ k @ ''='' @ v) = k @ ''='' @ v"
    using bstrip_spaces [of "replicate 18 (CHR '' '')" "k @ ''='' @ v"] entry_stripped [OF assms(1-3)]
    by (simp add: byte_space_def list_all_iff)
  have "nl \<notin> set v" "dq \<notin> set v" using assms(3) by (auto simp: clean_lc_value_def)
  then show ?thesis
    unfolding localectl_line_def Let_def sp list.map b
    by (simp add: locale_match_entry [OF assms(1,2), simplified] remove_quotes_id)
qed

lemma lc_other_line:
  assumes "clean_lc_other (lbl, v)"
  shows "localectl_line st (''       '' @ lbl @ '': '' @ v) = Inr (Some lbl, snd st)"
proof -
  have nc: "CHR '':'' \<notin> set lbl" and ns: "bstrip lbl = lbl" and ne: "lbl \<noteq> ''System Locale''"
    using assms by (auto simp: clean_lc_other_def)
  have "takeWhile (\<lambda>x. x \<noteq> CHR '':'') (''       '' @ lbl @ '': '' @ v) = ''       '' @ lbl"
    using nc by (simp add: takeWhile_append)
  moreover have "tl (dropWhile (\<lambda>x. x \<noteq> CHR '':'') (''       '' @ lbl @ '': '' @ v)) = '' '' @ v"
    using nc by (simp add: dropWhile_append)
  ultimately have sp: "split_once CHR '':'' (''       '' @ lbl @ '': '' @ v) = [''       '' @ lbl, '' '' @ v]"
    by (simp add: split_once_def)
  have b: "bstrip (''       '' @ lbl) = lbl"
    using bstrip_spaces [of "''       ''" lbl] ns by (simp add: byte_space_def)
  show ?thesis
    unfolding localectl_line_def Let_def sp list.map b using ne by simp
qed

lemma lc_conts:
  "list_all (\<lambda>(k, v). k \<noteq> [] \<and> list_all key_char k \<and> clean_lc_value v \<and> CHR '':'' \<notin> set v) rest \<Longrightarrow>
   py_for localectl_line (map (\<lambda>(k, v). replicate 18 (CHR '' '') @ k @ ''='' @ v) rest) (Some ''System Locale'', d) =
     Inr (Some ''System Locale'', foldl (\<lambda>d (k, v). AList.update k v d) d rest)"
  by (induction rest arbitrary: d) (auto simp: lc_cont_line [simplified])

lemma lc_others:
  "list_all clean_lc_other others \<Longrightarrow>
   \<exists>c'. py_for localectl_line (map (\<lambda>(lbl, v). ''       '' @ lbl @ '': '' @ v) others) (c, d) = Inr (c', d)"
  by (induction others arbitrary: c) (auto simp: lc_other_line [simplified])

lemma foldl_update_fresh:
  "distinct (map fst (d @ rest)) \<Longrightarrow> foldl (\<lambda>d (k, v). AList.update k v d) d rest = d @ rest"
proof (induction rest arbitrary: d)
  case Nil
  then show ?case by simp
next
  case (Cons kv rest)
  obtain k v where kv: "kv = (k, v)" by (cases kv)
  have "map_of d k = None" using Cons.prems kv by (auto simp: map_of_eq_None_iff)
  then have "AList.update k v d = d @ [(k, v)]" by (rule update_absent)
  then show ?case using Cons kv by simp
qed

lemma lc_param_lines_parse:
  assumes "clean_lc_params P"
  shows "py_for localectl_line (lc_param_lines P) (None, []) = Inr (Some ''System Locale'', P)"
proof -
  obtain k v rest where P: "P = (k, v) # rest"
    using assms by (cases P) (auto simp: clean_lc_params_def)
  have kv: "k \<noteq> []" "list_all key_char k" "clean_lc_value v"
    and rs: "list_all (\<lambda>(k, v). k \<noteq> [] \<and> list_all key_char k \<and> clean_lc_value v \<and> CHR '':'' \<notin> set v) rest"
    and ds: "distinct (map fst P)"
    using assms by (auto simp: clean_lc_params_def P list_all_iff)
  have step1: "localectl_line (None, []) (''   System Locale: '' @ k @ ''='' @ v) = Inr (Some ''System Locale'', [(k, v)])"
    using lc_first_line [OF kv, of "(None, [])"] by simp
  have "foldl (\<lambda>d (k, v). AList.update k v d) [(k, v)] rest = (k, v) # rest"
    using foldl_update_fresh [of "[(k, v)]" rest] ds P by simp
  then show ?thesis
    unfolding lc_param_lines_def P list.case prod.case
    using step1 lc_conts [OF rs, of "[(k, v)]"] by simp
qed

lemma entry_no_break:
  "list_all key_char k \<Longrightarrow> nl \<notin> set v \<Longrightarrow> cr \<notin> set v \<Longrightarrow>
   nl \<notin> set (k @ ''='' @ v) \<and> cr \<notin> set (k @ ''='' @ v)"
  using key_no_special [of k] by (simp add: nl_def cr_def)

lemma lc_param_lines_clean:
  assumes "clean_lc_params P"
  shows "list_all (\<lambda>l. nl \<notin> set l \<and> cr \<notin> set l) (lc_param_lines P)"
proof -
  obtain k v rest where P: "P = (k, v) # rest"
    using assms by (cases P) (auto simp: clean_lc_params_def)
  have e: "nl \<notin> set (k' @ ''='' @ v') \<and> cr \<notin> set (k' @ ''='' @ v')" if "(k', v') \<in> set P" for k' v'
    using assms that entry_no_break [of k' v'] by (auto simp: clean_lc_params_def list_all_iff clean_lc_value_def)
  have "nl \<notin> set (''   System Locale: '' @ k @ ''='' @ v) \<and> cr \<notin> set (''   System Locale: '' @ k @ ''='' @ v)"
    using e [of k v] P by (simp add: nl_def cr_def)
  moreover have "nl \<notin> set (replicate 18 (CHR '' '') @ k' @ ''='' @ v') \<and> cr \<notin> set (replicate 18 (CHR '' '') @ k' @ ''='' @ v')"
    if "(k', v') \<in> set rest" for k' v'
    using e [of k' v'] that P by (simp add: nl_def cr_def)
  ultimately show ?thesis
    unfolding lc_param_lines_def P list.case prod.case by (auto simp: list_all_iff)
qed

lemma lc_other_lines_clean:
  "list_all clean_lc_other others \<Longrightarrow> list_all (\<lambda>l. nl \<notin> set l \<and> cr \<notin> set l) (lc_other_lines others)"
  by (induction others) (auto simp: lc_other_lines_def clean_lc_other_def nl_def cr_def)

lemma lc_lines_clean:
  "clean_lc_params P \<Longrightarrow> list_all clean_lc_other others \<Longrightarrow>
   list_all (\<lambda>l. nl \<notin> set l \<and> cr \<notin> set l) (lc_param_lines P @ lc_other_lines others)"
  using lc_param_lines_clean lc_other_lines_clean by simp

text \<open>C31: \<^verbatim>\<open>_parse_localectl\<close> reads back what \<^verbatim>\<open>localectl\<close> prints: for
  clean parameters (capital keys, values free of newlines, quotes and trailing
  blanks, distinct keys, no colon in a continuation entry) and any further status
  lines, the parsed dictionary is exactly the list of System Locale parameters.\<close>

theorem parse_localectl_roundtrip:
  assumes "clean_lc_params P" "list_all clean_lc_other others"
  shows "parse_localectl (render_localectl P others) = Inr P"
proof -
  obtain c' where "py_for localectl_line (lc_other_lines others) (Some ''System Locale'', P) = Inr (c', P)"
    using lc_others [OF assms(2)] unfolding lc_other_lines_def by blast
  then show ?thesis
    unfolding parse_localectl_def render_localectl_def splitlines_lines [OF lc_lines_clean [OF assms]]
    using lc_param_lines_parse [OF assms(1)] by (simp add: py_for_append)
qed

theorem parse_localectl_roundtrip_witness:
  "clean_lc_params [(''LANG'', ''en_US.UTF-8''), (''LC_TIME'', ''C'')] \<and>
   list_all clean_lc_other [(''VC Keymap'', ''us''), (''X11 Layout'', ''us'')] \<and>
   parse_localectl (render_localectl [(''LANG'', ''en_US.UTF-8''), (''LC_TIME'', ''C'')]
                      [(''VC Keymap'', ''us''), (''X11 Layout'', ''us'')]) =
     Inr [(''LANG'', ''en_US.UTF-8''), (''LC_TIME'', ''C'')]"
  using parse_localectl_roundtrip [of "[(''LANG'', ''en_US.UTF-8''), (''LC_TIME'', ''C'')]"
      "[(''VC Keymap'', ''us''), (''X11 Layout'', ''us'')]"]
  by code_simp

lemma mem_dropWhile: "c \<in> set s \<Longrightarrow> \<not> P c \<Longrightarrow> c \<in> set (dropWhile P s)"
  by (induction s) auto

lemma mem_bstrip:
  assumes "c \<in> set s" "\<not> byte_space c"
  shows "c \<in> set (bstrip s)"
proof -
  have "c \<in> set (dropWhile byte_space s)" using assms by (rule mem_dropWhile)
  then have "c \<in> set (dropWhile byte_space (rev (dropWhile byte_space s)))"
    using assms(2) by (intro mem_dropWhile) simp_all
  then show ?thesis by (simp add: bstrip_def)
qed

lemma lc_ignored_line:
  assumes "c \<noteq> ''System Locale''" "sl_free_line line"
  shows "\<exists>c'. c' \<noteq> ''System Locale'' \<and> localectl_line (Some c, d) line = Inr (Some c', d)"
proof (cases "CHR '':'' \<in> set line")
  case True
  let ?h = "bstrip (takeWhile (\<lambda>x. x \<noteq> CHR '':'') line)"
  let ?t = "bstrip (tl (dropWhile (\<lambda>x. x \<noteq> CHR '':'') line))"
  have h: "?h \<noteq> ''System Locale''" using assms(2) True by (simp add: sl_free_line_def)
  have "map bstrip (split_once CHR '':'' line) = [?h, ?t]"
    using True by (simp add: split_once_def)
  then have "localectl_line (Some c, d) line = Inr (Some ?h, d)"
    unfolding localectl_line_def Let_def using h by simp
  then show ?thesis using h by blast
next
  case False
  then have "map bstrip (split_once CHR '':'' line) = [bstrip line]"
    by (simp add: split_once_def)
  then have "localectl_line (Some c, d) line = Inr (Some c, d)"
    unfolding localectl_line_def Let_def using assms(1) by simp
  then show ?thesis using assms(1) by blast
qed

lemma lc_ignored_lines:
  "c \<noteq> ''System Locale'' \<Longrightarrow> list_all sl_free_line ls \<Longrightarrow>
   \<exists>c'. py_for localectl_line ls (Some c, d) = Inr (Some c', d)"
proof (induction ls arbitrary: c)
  case Nil
  then show ?case by simp
next
  case (Cons l ls)
  have "sl_free_line l" "list_all sl_free_line ls" using Cons.prems(2) by simp_all
  then obtain c' where c': "c' \<noteq> ''System Locale''" "localectl_line (Some c, d) l = Inr (Some c', d)"
    using lc_ignored_line [OF Cons.prems(1)] by blast
  obtain c'' where "py_for localectl_line ls (Some c', d) = Inr (Some c'', d)"
    using Cons.IH [OF c'(1) \<open>list_all sl_free_line ls\<close>] by blast
  then show ?case using c'(2) by simp
qed

lemma eq_not_sl: "CHR ''='' \<in> set x \<Longrightarrow> x \<noteq> ''System Locale''"
  by auto

lemma lc_colon_line:
  assumes "CHR '':'' \<in> set line" "bstrip (takeWhile (\<lambda>x. x \<noteq> CHR '':'') line) \<noteq> ''System Locale''"
  shows "localectl_line (c, d) line = Inr (Some (bstrip (takeWhile (\<lambda>x. x \<noteq> CHR '':'') line)), d)"
proof -
  have "map bstrip (split_once CHR '':'' line) =
          [bstrip (takeWhile (\<lambda>x. x \<noteq> CHR '':'') line), bstrip (tl (dropWhile (\<lambda>x. x \<noteq> CHR '':'') line))]"
    using assms(1) by (simp add: split_once_def)
  then show ?thesis unfolding localectl_line_def Let_def using assms(2) by simp
qed

lemma entry_line_head:
  assumes "list_all key_char k"
  shows "CHR ''='' \<in> set (bstrip (takeWhile (\<lambda>x. x \<noteq> CHR '':'') (replicate 18 (CHR '' '') @ k @ ''='' @ v)))"
proof -
  have "CHR '':'' \<notin> set k" using key_no_special [OF assms] by simp
  then have "takeWhile (\<lambda>x. x \<noteq> CHR '':'') (replicate 18 (CHR '' '') @ k @ ''='' @ v) =
               replicate 18 (CHR '' '') @ k @ CHR ''='' # takeWhile (\<lambda>x. x \<noteq> CHR '':'') v"
    by (simp add: takeWhile_append)
  then show ?thesis by (simp add: mem_bstrip byte_space_def)
qed

lemma entry_lines_sl_free:
  "list_all (\<lambda>(k, v). list_all key_char k) P2 \<Longrightarrow>
   list_all sl_free_line (map (\<lambda>(k, v). replicate 18 (CHR '' '') @ k @ ''='' @ v) P2)"
proof (induction P2)
  case (Cons e P2)
  obtain k v where e: "e = (k, v)" by (cases e)
  have "list_all key_char k" using Cons.prems e by simp
  then have "sl_free_line (replicate 18 (CHR '' '') @ k @ ''='' @ v)"
    unfolding sl_free_line_def using entry_line_head eq_not_sl by blast
  then show ?case using Cons e by simp
qed simp

lemma other_lines_sl_free:
  "list_all clean_lc_other others \<Longrightarrow> list_all sl_free_line (map (\<lambda>(lbl, v). ''       '' @ lbl @ '': '' @ v) others)"
proof (induction others)
  case (Cons e others)
  obtain lbl v where e: "e = (lbl, v)" by (cases e)
  have "CHR '':'' \<notin> set lbl" "bstrip lbl = lbl" "lbl \<noteq> ''System Locale''"
    using Cons.prems e by (auto simp: clean_lc_other_def)
  then have "sl_free_line (''       '' @ lbl @ '': '' @ v)"
    using bstrip_spaces [of "''       ''" lbl] by (simp add: sl_free_line_def takeWhile_append byte_space_def)
  then show ?case using Cons e by simp
qed simp

lemma lc_param_lines_append:
  "P1 \<noteq> [] \<Longrightarrow> lc_param_lines (P1 @ P2) =
     lc_param_lines P1 @ map (\<lambda>(k, v). replicate 18 (CHR '' '') @ k @ ''='' @ v) P2"
  by (cases P1) (auto simp: lc_param_lines_def)

text \<open>C32: a continuation entry of System Locale whose value contains a colon
  (such as \<open>LANGUAGE=en_GB:en\<close>) is split at the colon and taken as a new
  parameter heading, so that entry and every entry after it are dropped: only the
  parameters before it are returned.\<close>

theorem parse_localectl_colon_drops:
  assumes P1: "clean_lc_params P1"
    and kv: "CHR '':'' \<in> set v" "list_all (\<lambda>(k, v). list_all key_char k \<and> nl \<notin> set v \<and> cr \<notin> set v) ((k, v) # P2)"
    and others: "list_all clean_lc_other others"
  shows "parse_localectl (render_localectl (P1 @ (k, v) # P2) others) = Inr P1"
proof -
  let ?cont = "\<lambda>(k, v). replicate 18 (CHR '' '') @ k @ ''='' @ v"
  let ?line = "replicate 18 (CHR '' '') @ k @ ''='' @ v"
  let ?h = "bstrip (takeWhile (\<lambda>x. x \<noteq> CHR '':'') ?line)"
  have ne: "P1 \<noteq> []" using P1 by (simp add: clean_lc_params_def)
  have conts_clean: "list_all (\<lambda>l. nl \<notin> set l \<and> cr \<notin> set l) (map ?cont ((k, v) # P2))"
    using kv(2) entry_no_break by (auto simp: list_all_iff nl_def cr_def)
  have cl: "list_all (\<lambda>l. nl \<notin> set l \<and> cr \<notin> set l) (lc_param_lines P1 @ ?line # map ?cont P2 @ lc_other_lines others)"
    using lc_param_lines_clean [OF P1] conts_clean lc_other_lines_clean [OF others] by simp
  have "render_localectl (P1 @ (k, v) # P2) others =
          concat (map (\<lambda>l. l @ [nl]) (lc_param_lines P1 @ ?line # map ?cont P2 @ lc_other_lines others))"
    unfolding render_localectl_def lc_param_lines_append [OF ne] by simp
  then have lines: "py_splitlines (render_localectl (P1 @ (k, v) # P2) others) =
                 lc_param_lines P1 @ ?line # map ?cont P2 @ lc_other_lines others"
    using splitlines_lines [OF cl] by simp
  have h: "?h \<noteq> ''System Locale''"
    using entry_line_head [of k v] kv(2) eq_not_sl by simp
  have colon: "CHR '':'' \<in> set ?line" using kv(1) by simp
  have rest: "list_all sl_free_line (map ?cont P2 @ lc_other_lines others)"
  proof -
    have "list_all (\<lambda>(k, v). list_all key_char k) P2" using kv(2) by (auto simp: list_all_iff)
    then show ?thesis
      unfolding list_all_append lc_other_lines_def
      using entry_lines_sl_free other_lines_sl_free [OF others] by blast
  qed
  obtain c' where "py_for localectl_line (map ?cont P2 @ lc_other_lines others) (Some ?h, P1) = Inr (Some c', P1)"
    using lc_ignored_lines [OF h rest] by blast
  then show ?thesis
    unfolding parse_localectl_def lines
    using lc_param_lines_parse [OF P1] lc_colon_line [OF colon h, of "Some ''System Locale''" P1]
    by (simp add: py_for_append)
qed

theorem parse_localectl_colon_drops_witness:
  "clean_lc_params [(''LANG'', ''en_GB.UTF-8'')] \<and> CHR '':'' \<in> set ''en_GB:en'' \<and>
   list_all (\<lambda>(k, v). list_all key_char k \<and> nl \<notin> set v \<and> cr \<notin> set v)
     [(''LANGUAGE'', ''en_GB:en''), (''LC_TIME'', ''C'')] \<and>
   list_all clean_lc_other [(''VC Keymap'', ''gb'')] \<and>
   parse_localectl (render_localectl ([(''LANG'', ''en_GB.UTF-8'')] @ [(''LANGUAGE'', ''en_GB:en''), (''LC_TIME'', ''C'')])
                      [(''VC Keymap'', ''gb'')]) = Inr [(''LANG'', ''en_GB.UTF-8'')]"
  using parse_localectl_colon_drops [of "[(''LANG'', ''en_GB.UTF-8'')]" "''en_GB:en''" "''LANGUAGE''"
      "[(''LC_TIME'', ''C'')]" "[(''VC Keymap'', ''gb'')]"]
  by code_simp

lemma grep_literal:
  "''grep '' @ [dq] @ ''^LANG='' @ [dq] @ '' '' @ f = grep_prefix @ f"
  by (simp add: grep_prefix_def)

lemma sh_run_grep: "sh_run (grep_prefix @ f) fs = (case map_of fs f of Some ls \<Rightarrow> grep_out ls | None \<Rightarrow> [])"
  by (simp add: sh_run_def starts_with_def)

lemma sh_sed_lang:
  "map_of fs f = Some ls \<Longrightarrow>
   sh_sed f ''^LANG=.*'' a fs = AList.update f (map (\<lambda>x. if is_lang_line x then a else x) ls) fs"
  by (simp add: sh_sed_def)

lemma takeWhile_upto: "c \<notin> set f \<Longrightarrow> takeWhile (\<lambda>x. x \<noteq> c) (f @ c # y) = f"
  by (induction f) auto

lemma dropWhile_upto: "c \<notin> set f \<Longrightarrow> dropWhile (\<lambda>x. x \<noteq> c) (f @ c # y) = c # y"
  by (induction f) auto

lemma sh_run_all_append:
  assumes "CHR '' '' \<notin> set f" "dq \<notin> set l" "map_of fs f = Some ls"
  shows "sh_run_all (grep_prefix @ f @ echo_infix @ l @ [dq] @ '' >> '' @ f) fs =
           (if list_ex is_lang_line ls then (\<lparr>retcode = 0, stdout = grep_out ls, stderr = []\<rparr>, fs)
            else (\<lparr>retcode = 0, stdout = [], stderr = []\<rparr>, AList.update f (ls @ [[], ''LANG='' @ l]) fs))"
proof -
  let ?x = "l @ [dq] @ '' >> '' @ f"
  have ei: "echo_infix = CHR '' '' # tl echo_infix" by (simp add: echo_infix_def)
  have r: "drop (length grep_prefix) (grep_prefix @ f @ echo_infix @ ?x) = f @ echo_infix @ ?x" by simp
  have s1: "starts_with (grep_prefix @ f @ echo_infix @ ?x) grep_prefix" by (simp add: starts_with_def)
  have tw: "takeWhile (\<lambda>c. c \<noteq> CHR '' '') (f @ echo_infix @ ?x) = f"
    by (subst ei, simp only: append_Cons, rule takeWhile_upto, rule assms(1))
  have dw: "dropWhile (\<lambda>c. c \<noteq> CHR '' '') (f @ echo_infix @ ?x) = echo_infix @ ?x"
    by (subst (1 2) ei, simp only: append_Cons, rule dropWhile_upto, rule assms(1))
  have s2: "starts_with (echo_infix @ ?x) echo_infix" by (simp add: starts_with_def)
  have r3: "drop (length echo_infix) (echo_infix @ ?x) = ?x" by simp
  have tl: "takeWhile (\<lambda>c. c \<noteq> dq) ?x = l"
    by (simp only: append_Cons append_Nil, rule takeWhile_upto, rule assms(2))
  show ?thesis
    unfolding sh_run_all_def Let_def r tw dw r3 tl using s1 s2 assms(3) by simp
qed

lemma split_on_absent: "c \<notin> set q \<Longrightarrow> split_on c q = [q]"
  by (induction q) auto

lemma split_on_first: "c \<notin> set u \<Longrightarrow> split_on c (u @ c # q) = u # split_on c q"
  by (induction u) auto

lemma lang_value:
  assumes "CHR ''='' \<notin> set q"
  shows "(case py_index (split_on CHR ''='' (''LANG='' @ q)) 1 of Inl e \<Rightarrow> Inr [] | Inr v \<Rightarrow> Inr (remove_quotes v))
           = (Inr (remove_quotes q) :: string res)"
proof -
  have "split_on CHR ''='' (''LANG='' @ q) = [''LANG'', q]"
    using split_on_first [of "CHR ''=''" "''LANG''" q] split_on_absent [OF assms] by simp
  then show ?thesis by (simp add: py_index_def)
qed

lemma filter_lang_sed:
  "is_lang_line a \<Longrightarrow>
   filter is_lang_line (map (\<lambda>x. if is_lang_line x then a else x) ls) = map (\<lambda>_. a) (filter is_lang_line ls)"
  by (induction ls) auto

lemma set_get_file:
  assumes "CHR '' '' \<notin> set f" "map_of fs f = Some ls" "length (filter is_lang_line ls) \<le> 1"
    "CHR ''='' \<notin> set l" "dq \<notin> set l"
  shows "(case py_index (split_on CHR ''='' (sh_run (grep_prefix @ f)
             (snd (sh_run_all (grep_prefix @ f @ echo_infix @ l @ [dq] @ '' >> '' @ f)
                    (sh_sed f ''^LANG=.*'' (''LANG='' @ [dq] @ l @ [dq]) fs))))) 1 of
            Inl e \<Rightarrow> Inr [] | Inr v \<Rightarrow> Inr (remove_quotes v)) = (Inr l :: string res)"
proof -
  let ?a = "''LANG='' @ [dq] @ l @ [dq]"
  let ?ls1 = "map (\<lambda>x. if is_lang_line x then ?a else x) ls"
  have la: "is_lang_line ?a" by (simp add: is_lang_line_def starts_with_def)
  have sed: "sh_sed f ''^LANG=.*'' ?a fs = AList.update f ?ls1 fs" using sh_sed_lang [OF assms(2)] .
  have m1: "map_of (AList.update f ?ls1 fs) f = Some ?ls1" by (simp add: update_conv')
  have rq: "remove_quotes ([dq] @ l @ [dq]) = l" "remove_quotes l = l"
    using assms(5) remove_quotes_id by (simp_all add: remove_quotes_def)
  have nq: "CHR ''='' \<notin> set ([dq] @ l @ [dq])" using assms(4) by (simp add: dq_def)
  show ?thesis
  proof (cases "list_ex is_lang_line ls")
    case True
    then have "filter is_lang_line ls \<noteq> []" by (simp add: filter_empty_conv list_ex_iff)
    then obtain x where one: "filter is_lang_line ls = [x]"
      using assms(3) by (cases "filter is_lang_line ls") auto
    have ex1: "list_ex is_lang_line ?ls1" using True la by (auto simp: list_ex_iff)
    have g: "grep_out ?ls1 = ?a" using filter_lang_sed [OF la, of ls] one by (simp add: grep_out_def)
    have fs2: "snd (sh_run_all (grep_prefix @ f @ echo_infix @ l @ [dq] @ '' >> '' @ f) (AList.update f ?ls1 fs))
                 = AList.update f ?ls1 fs"
      unfolding sh_run_all_append [OF assms(1,5) m1] using ex1 by simp
    show ?thesis
      unfolding sed fs2 sh_run_grep m1 option.case g lang_value [OF nq] rq(1) ..
  next
    case False
    have ls1: "?ls1 = ls" using False by (induction ls) auto
    let ?ls2 = "ls @ [[], ''LANG='' @ l]"
    have fs2: "snd (sh_run_all (grep_prefix @ f @ echo_infix @ l @ [dq] @ '' >> '' @ f) (AList.update f ?ls1 fs))
                 = AList.update f ?ls2 (AList.update f ?ls1 fs)"
      unfolding sh_run_all_append [OF assms(1,5) m1] using False ls1 by simp
    have m2: "map_of (AList.update f ?ls2 (AList.update f ?ls1 fs)) f = Some ?ls2" by (simp add: update_conv')
    have g: "grep_out ?ls2 = ''LANG='' @ l"
      using False by (simp add: grep_out_def is_lang_line_def starts_with_def filter_empty_conv list_ex_iff)
    show ?thesis
      unfolding sed fs2 sh_run_grep m2 option.case g lang_value [OF assms(4)] rq(2) ..
  qed
qed

lemma family_tests:
  "\<not> is_infix ''Arch'' ''RedHat''" "is_infix ''RedHat'' ''RedHat''"
  "\<not> is_infix ''Arch'' ''Debian''" "\<not> is_infix ''RedHat'' ''Debian''" "is_infix ''Debian'' ''Debian''"
  by code_simp+

lemma set_locale_file:
  assumes "os_family \<in> {''RedHat'', ''Debian''}"
  shows "set_locale sh_salt os_family l fs =
     (Inr True, snd (sh_run_all (grep_prefix @ locale_file os_family @ echo_infix @ l @ [dq] @ '' >> '' @ locale_file os_family)
                      (sh_sed (locale_file os_family) ''^LANG=.*'' (''LANG='' @ [dq] @ l @ [dq]) fs)))"
proof -
  have rh: "set_locale sh_salt ''RedHat'' l fs =
     (Inr True, snd (sh_run_all (''grep '' @ [dq] @ ''^LANG='' @ [dq] @ '' /etc/sysconfig/i18n || echo '' @
                               [dq] @ [nl] @ ''LANG='' @ l @ [dq] @ '' >> /etc/sysconfig/i18n'')
                      (sh_sed ''/etc/sysconfig/i18n'' ''^LANG=.*'' (''LANG='' @ [dq] @ l @ [dq]) fs)))"
    unfolding set_locale_def sh_salt_def salt_mod.simps Let_def
    by (simp only: family_tests if_False if_True prod.case_eq_if)
  have db: "set_locale sh_salt ''Debian'' l fs =
     (Inr True, snd (sh_run_all (''grep '' @ [dq] @ ''^LANG='' @ [dq] @ '' /etc/default/locale || '' @
                               ''echo '' @ [dq] @ [nl] @ ''LANG='' @ l @ [dq] @ '' >> /etc/default/locale'')
                      (sh_sed ''/etc/default/locale'' ''^LANG=.*'' (''LANG='' @ [dq] @ l @ [dq]) fs)))"
    unfolding set_locale_def sh_salt_def salt_mod.simps Let_def
    by (simp only: family_tests if_False if_True prod.case_eq_if)
  show ?thesis
    using assms rh db by (auto simp: locale_file_def grep_prefix_def echo_infix_def)
qed

lemma get_locale_file:
  assumes "os_family \<in> {''RedHat'', ''Debian''}"
  shows "get_locale sh_salt os_family fs =
     (case py_index (split_on CHR ''='' (sh_run (grep_prefix @ locale_file os_family) fs)) 1 of
        Inl e \<Rightarrow> Inr [] | Inr v \<Rightarrow> Inr (remove_quotes v))"
proof -
  have "get_locale sh_salt ''RedHat'' fs =
     (case py_index (split_on CHR ''='' (sh_run (''grep '' @ [dq] @ ''^LANG='' @ [dq] @ '' /etc/sysconfig/i18n'') fs)) 1 of
        Inl e \<Rightarrow> Inr [] | Inr v \<Rightarrow> Inr (remove_quotes v))"
       "get_locale sh_salt ''Debian'' fs =
     (case py_index (split_on CHR ''='' (sh_run (''grep '' @ [dq] @ ''^LANG='' @ [dq] @ '' /etc/default/locale'') fs)) 1 of
        Inl e \<Rightarrow> Inr [] | Inr v \<Rightarrow> Inr (remove_quotes v))"
    unfolding get_locale_def sh_salt_def salt_mod.simps Let_def
    by (simp_all only: family_tests if_False if_True not_True_eq_False not_False_eq_True
        simp_thms(21) simp_thms(22) simp_thms(23) simp_thms(24))
  then show ?thesis
    using assms by (auto simp: locale_file_def grep_prefix_def)
qed

text \<open>C33: on RedHat and Debian, after \<^verbatim>\<open>set_locale(l)\<close> the next \<^verbatim>\<open>get_locale()\<close>
  returns \<open>l\<close>, for a locale without \<open>=\<close> or quotes, when the locale file holds at
  most one \<open>LANG=\<close> line (the file contents, \<^verbatim>\<open>grep\<close>, the guarded \<^verbatim>\<open>echo >>\<close> and
  \<^verbatim>\<open>file.sed\<close> are modelled by \<open>sh_salt\<close>).\<close>

theorem set_then_get_locale:
  assumes "os_family \<in> {''RedHat'', ''Debian''}" "map_of fs (locale_file os_family) = Some ls"
    "length (filter is_lang_line ls) \<le> 1" "CHR ''='' \<notin> set l" "dq \<notin> set l"
  shows "\<exists>fs'. set_locale sh_salt os_family l fs = (Inr True, fs') \<and> get_locale sh_salt os_family fs' = Inr l"
proof -
  have "CHR '' '' \<notin> set (locale_file os_family)" by (simp add: locale_file_def)
  from set_get_file [OF this assms(2-5)] show ?thesis
    using set_locale_file [OF assms(1)] get_locale_file [OF assms(1)] by simp
qed

theorem set_then_get_locale_witness:
  "''RedHat'' \<in> {''RedHat'', ''Debian''} \<and>
   map_of [(''/etc/sysconfig/i18n'', [''SYSFONT=latarcyrheb-sun16'', ''LANG=C''])] (locale_file ''RedHat'') =
     Some [''SYSFONT=latarcyrheb-sun16'', ''LANG=C''] \<and>
   length (filter is_lang_line [''SYSFONT=latarcyrheb-sun16'', ''LANG=C'']) \<le> 1 \<and>
   CHR ''='' \<notin> set ''en_US.UTF-8'' \<and> dq \<notin> set ''en_US.UTF-8'' \<and>
   fst (set_locale sh_salt ''RedHat'' ''en_US.UTF-8'' [(''/etc/sysconfig/i18n'', [''SYSFONT=latarcyrheb-sun16'', ''LANG=C''])])
     = Inr True \<and>
   get_locale sh_salt ''RedHat''
     (snd (set_locale sh_salt ''RedHat'' ''en_US.UTF-8'' [(''/etc/sysconfig/i18n'', [''SYSFONT=latarcyrheb-sun16'', ''LANG=C''])]))
     = Inr ''en_US.UTF-8''"
proof -
  have h: "''RedHat'' \<in> {''RedHat'', ''Debian''}"
    "map_of [(''/etc/sysconfig/i18n'', [''SYSFONT=latarcyrheb-sun16'', ''LANG=C''])] (locale_file ''RedHat'') =
       Some [''SYSFONT=latarcyrheb-sun16'', ''LANG=C'']"
    "length (filter is_lang_line [''SYSFONT=latarcyrheb-sun16'', ''LANG=C'']) \<le> 1"
    "CHR ''='' \<notin> set ''en_US.UTF-8''" "dq \<notin> set ''en_US.UTF-8''"
    by code_simp+
  from set_then_get_locale [OF h] obtain fs' where
    "set_locale sh_salt ''RedHat'' ''en_US.UTF-8'' [(''/etc/sysconfig/i18n'', [''SYSFONT=latarcyrheb-sun16'', ''LANG=C''])]
       = (Inr True, fs')" "get_locale sh_salt ''RedHat'' fs' = Inr ''en_US.UTF-8''"
    by blast
  with h show ?thesis by simp
qed

lemma set_then_get_two_lang_lines:
  "get_locale sh_salt ''RedHat'' (snd (set_locale sh_salt ''RedHat'' ''en_US.UTF-8''
      [(''/etc/sysconfig/i18n'', [''LANG=C'', ''LANG=C''])])) = Inr (''en_US.UTF-8'' @ [nl] @ ''LANG'')"
  by code_simp

end
