(* ===== verification/Yum_Pkg.thy ===== *)
theory Yum_Pkg
  imports Yum_Repo "HOL-Library.Char_ord" "HOL-Library.List_Lexorder" "HOL-Library.Product_Lexorder"
begin

text \<open>
  The package functions of the Salt yum module \<^verbatim>\<open>src/salt/modules/yumpkg5.py\<close>:
  \<^verbatim>\<open>__virtual__\<close>, the repoquery helpers \<^verbatim>\<open>_parse_pkginfo\<close>,
  \<^verbatim>\<open>_repoquery\<close> and \<^verbatim>\<open>_get_repo_options\<close>, the queries
  \<^verbatim>\<open>latest_version\<close>, \<^verbatim>\<open>upgrade_available\<close>, \<^verbatim>\<open>list_pkgs\<close>,
  \<^verbatim>\<open>list_repo_pkgs\<close>, \<^verbatim>\<open>list_upgrades\<close> and \<^verbatim>\<open>check_db\<close>, the commands
  \<^verbatim>\<open>refresh_db\<close>, \<^verbatim>\<open>install\<close>, \<^verbatim>\<open>upgrade\<close>, \<^verbatim>\<open>remove\<close> and \<^verbatim>\<open>purge\<close>,
  and \<^verbatim>\<open>expand_repo_def\<close>. The Salt functions they call (\<^verbatim>\<open>cmd.run\<close>,
  \<^verbatim>\<open>cmd.run_stdout\<close>, \<^verbatim>\<open>cmd.run_stdall\<close>, \<^verbatim>\<open>pkg_resource.parse_targets\<close>,
  \<^verbatim>\<open>salt.utils.compare_versions\<close>), the \<open>osarch\<close> grain and the repository
  files that \<^verbatim>\<open>list_repos\<close> of \<open>Yum_Repo\<close> reads form the interface
  \<open>yum_salt\<close> over an abstract system state; the module's state is that system
  state, the \<^verbatim>\<open>__context__\<close> cache of \<^verbatim>\<open>list_pkgs\<close>, and the commands run so
  far, in order. The operations are also collected in the datatype \<open>yum_op\<close>,
  over which \<^verbatim>\<open>list_pkgs\<close> is shown to refine the uncached query.
\<close>

section \<open>Query format, architectures and string helpers\<close>

definition QUERYFORMAT :: string where
  "QUERYFORMAT = ''%{NAME}_|-%{VERSION}_|-%{RELEASE}_|-%{ARCH}_|-%{REPOID}''"

definition qsep :: string where
  "qsep = ''_|-''"

definition ARCHES :: "string list" where
  "ARCHES =
     [''x86_64'', ''athlon'', ''amd64'', ''ia32e'', ''ia64'', ''geode'',
      ''i386'', ''i486'', ''i586'', ''i686'',
      ''ppc'', ''ppc64'', ''ppc64iseries'', ''ppc64pseries'',
      ''s390'', ''s390x'',
      ''sparc'', ''sparcv8'', ''sparcv9'', ''sparcv9v'', ''sparc64'', ''sparc64v'',
      ''alpha'', ''alphaev4'', ''alphaev45'', ''alphaev5'', ''alphaev56'',
      ''alphapca56'', ''alphaev6'', ''alphaev67'', ''alphaev68'', ''alphaev7'',
      ''armv5tel'', ''armv5tejl'', ''armv6l'', ''armv7l'',
      ''sh3'', ''sh4'', ''sh4a'']"

text \<open>\<^verbatim>\<open>s.split(sep)\<close> for a non-empty separator: the pieces between the
  occurrences of \<open>sep\<close> found from left to right without overlap.\<close>

function split_str_from :: "string \<Rightarrow> string \<Rightarrow> string \<Rightarrow> string list" where
  "split_str_from sep cur [] = [cur]"
| "split_str_from sep cur (c # s) =
     (if sep \<noteq> [] \<and> starts_with (c # s) sep then cur # split_str_from sep [] (drop (length sep) (c # s))
      else split_str_from sep (cur @ [c]) s)"
  by pat_completeness auto
termination
  by (relation "measure (\<lambda>(sep, cur, s). length s)") auto

definition split_str :: "string \<Rightarrow> string \<Rightarrow> string list" where
  "split_str sep s = split_str_from sep [] s"

text \<open>\<^verbatim>\<open>s.rsplit('.', 1)[-1]\<close>: the text after the last dot, or all of \<open>s\<close>.\<close>

definition after_last_dot :: "string \<Rightarrow> string" where
  "after_last_dot s = rev (takeWhile (\<lambda>c. c \<noteq> CHR ''.'') (rev s))"

text \<open>\<^verbatim>\<open>repr\<close> of a byte string as the code formats it with \<^verbatim>\<open>{0!r}\<close>: in single
  quotes, or double quotes when it contains a single quote and no double quote
  (backslash escapes are not modelled).\<close>

definition bytes_repr :: "string \<Rightarrow> string" where
  "bytes_repr s =
     (if CHR 0x27 \<in> set s \<and> dq \<notin> set s then [dq] @ s @ [dq] else [CHR 0x27] @ s @ [CHR 0x27])"

text \<open>\<^verbatim>\<open>salt.utils.is_true\<close>: booleans, positive numbers, and the strings
  \<open>true\<close> (any case of the letters is not modelled) and \<open>1\<close>.\<close>

fun is_true :: "pyval \<Rightarrow> bool" where
  "is_true (PBool b) = b"
| "is_true (PInt i) = (0 < i)"
| "is_true (PStr s) = (s = ''true'' \<or> s = ''True'' \<or> s = ''1'')"
| "is_true v = truthy v"

definition kw_get :: "pdict \<Rightarrow> string \<Rightarrow> pyval \<Rightarrow> pyval" where
  "kw_get kwargs k d = (case map_of kwargs k of Some v \<Rightarrow> v | None \<Rightarrow> d)"

section \<open>\<^verbatim>\<open>__virtual__\<close>\<close>

text \<open>Python 2 byte-string \<^verbatim>\<open>lower()\<close> (ASCII letters only) and whether
  \<^verbatim>\<open>int(s)\<close> succeeds on a byte string: surrounding whitespace, an optional sign
  and at least one decimal digit.\<close>

definition ascii_lower :: "string \<Rightarrow> string" where
  "ascii_lower s = map (\<lambda>c. if CHR ''A'' \<le> c \<and> c \<le> CHR ''Z'' then char_of (of_char c + (32::nat)) else c) s"

definition py_int_ok :: "string \<Rightarrow> bool" where
  "py_int_ok s =
     (let t = bstrip s;
          d = (case t of c # r \<Rightarrow> if c = CHR ''+'' \<or> c = CHR ''-'' then r else t | [] \<Rightarrow> [])
      in d \<noteq> [] \<and> list_all (\<lambda>c. CHR ''0'' \<le> c \<and> c \<le> CHR ''9'') d)"

text \<open>\<^verbatim>\<open>__virtual__()\<close> over the grains: any exception while reading \<open>os\<close>,
  \<open>os_family\<close> and the major release (a missing grain, a non-string, a release
  whose first component is not an integer) gives False; otherwise the module
  loads as \<open>pkg\<close> on the RedHat family and on Amazon, XCP and XenServer.\<close>

definition yum_virtual :: "pdict \<Rightarrow> pyval" where
  "yum_virtual grains =
     (case (map_of grains ''os'', map_of grains ''os_family'', map_of grains ''osrelease'') of
        (Some (PStr os), Some (PStr family), Some (PStr release)) \<Rightarrow>
          if \<not> py_int_ok (hd (split_on CHR ''.'' release)) then PBool False
          else if ascii_lower family = ''redhat'' \<or> ascii_lower os \<in> set [''amazon'', ''xcp'', ''xenserver'']
          then PStr ''pkg'' else PBool False
      | _ \<Rightarrow> PBool False)"

section \<open>The Salt interface and the module state\<close>

record 's yum_salt =
  osarch :: string
  run_out :: "string \<Rightarrow> 's \<Rightarrow> string"
  run_stdout :: "string \<Rightarrow> 's \<Rightarrow> string"
  run_stdall :: "string \<Rightarrow> 's \<Rightarrow> 's"
  parse_targets :: "string option \<Rightarrow> pyval \<Rightarrow> pyval \<Rightarrow> pdict \<Rightarrow> (pdict \<times> string) option"
  compare_ge :: "string \<Rightarrow> string \<Rightarrow> bool"
  repo_files :: "'s \<Rightarrow> store"

record 's yum_state =
  y_context :: "(string \<times> string list) list option"
  y_calls :: "string list"
  y_sys :: 's

definition call_out :: "'s yum_salt \<Rightarrow> string \<Rightarrow> 's yum_state \<Rightarrow> string \<times> 's yum_state" where
  "call_out env cmd st = (run_out env cmd (y_sys st), st\<lparr>y_calls := y_calls st @ [cmd]\<rparr>)"

definition call_stdout :: "'s yum_salt \<Rightarrow> string \<Rightarrow> 's yum_state \<Rightarrow> string \<times> 's yum_state" where
  "call_stdout env cmd st = (run_stdout env cmd (y_sys st), st\<lparr>y_calls := y_calls st @ [cmd]\<rparr>)"

definition call_stdall :: "'s yum_salt \<Rightarrow> string \<Rightarrow> 's yum_state \<Rightarrow> 's yum_state" where
  "call_stdall env cmd st = st\<lparr>y_sys := run_stdall env cmd (y_sys st), y_calls := y_calls st @ [cmd]\<rparr>"

section \<open>\<^verbatim>\<open>_parse_pkginfo\<close>, \<^verbatim>\<open>_repoquery\<close>, \<^verbatim>\<open>_get_repo_options\<close>\<close>

record pkginfo =
  pi_name :: string
  pi_version :: string
  pi_arch :: string
  pi_repoid :: string

definition parse_pkginfo :: "string \<Rightarrow> string \<Rightarrow> pkginfo option" where
  "parse_pkginfo os_arch line =
     (case split_str qsep line of
        [name, pkg_version, release, arch, repoid] \<Rightarrow>
          Some \<lparr>pi_name = (if arch \<noteq> ''noarch'' \<and> arch \<noteq> os_arch then name @ ''.'' @ arch else name),
                pi_version = (if release \<noteq> [] then pkg_version @ ''-'' @ release else pkg_version),
                pi_arch = arch, pi_repoid = repoid\<rparr>
      | _ \<Rightarrow> None)"

definition repoquery :: "'s yum_salt \<Rightarrow> string \<Rightarrow> 's yum_state \<Rightarrow> pkginfo list \<times> 's yum_state" where
  "repoquery env args st =
     (let (out, st') = call_stdout env (''repoquery --queryformat='' @ [dq] @ QUERYFORMAT @ [dq] @ '' '' @ args) st
      in (List.map_filter (parse_pkginfo (osarch env)) (py_splitlines out), st'))"

definition get_repo_options :: "pdict \<Rightarrow> string" where
  "get_repo_options kwargs =
     (let fromrepo = kw_get kwargs ''fromrepo'' (PStr []);
          repo = kw_get kwargs ''repo'' (PStr []);
          disablerepo = kw_get kwargs ''disablerepo'' (PStr []);
          enablerepo = kw_get kwargs ''enablerepo'' (PStr []);
          fromrepo = (if truthy repo \<and> \<not> truthy fromrepo then repo else fromrepo)
      in if truthy fromrepo then ''--disablerepo='' @ bytes_repr ''*'' @ '' --enablerepo='' @ bytes_repr (py_str fromrepo)
         else (if truthy disablerepo then ''--disablerepo='' @ bytes_repr (py_str disablerepo) @ '' '' else []) @
              (if truthy enablerepo then ''--enablerepo='' @ bytes_repr (py_str enablerepo) @ '' '' else []))"

section \<open>Helpers of \<^verbatim>\<open>pkg_resource\<close> and \<^verbatim>\<open>salt.utils\<close>\<close>

text \<open>These Salt functions are not part of the repository; they are modelled from
  Salt's source of the same period. \<^verbatim>\<open>add_pkg\<close> appends a version under the
  name, \<^verbatim>\<open>sort_pkglist\<close> sorts each version list (byte order) and
  \<^verbatim>\<open>stringify\<close> joins it with commas. \<^verbatim>\<open>compare_dicts\<close> reports every key
  whose value differs, with \<open>''\<close> for a missing side; it iterates a set, so the
  order of its result is unspecified (here: new keys, then old ones).\<close>

definition add_pkg :: "(string \<times> string list) list \<Rightarrow> string \<Rightarrow> string \<Rightarrow> (string \<times> string list) list" where
  "add_pkg pkgs name v =
     (case map_of pkgs name of Some vs \<Rightarrow> AList.update name (vs @ [v]) pkgs | None \<Rightarrow> AList.update name [v] pkgs)"

definition sort_pkglist :: "(string \<times> string list) list \<Rightarrow> (string \<times> string list) list" where
  "sort_pkglist pkgs = map (\<lambda>(k, vs). (k, sort vs)) pkgs"

definition stringify :: "(string \<times> string list) list \<Rightarrow> pdict" where
  "stringify pkgs = map (\<lambda>(k, vs). (k, PStr (py_join '','' vs))) pkgs"

definition versions_dict :: "(string \<times> string list) list \<Rightarrow> pdict" where
  "versions_dict pkgs = map (\<lambda>(k, vs). (k, PList (map PStr vs))) pkgs"

definition compare_dicts :: "pdict \<Rightarrow> pdict \<Rightarrow> pdict" where
  "compare_dicts old new =
     List.map_filter
       (\<lambda>key. case (map_of old key, map_of new key) of
                (None, Some nv) \<Rightarrow> Some (key, PDict [(''old'', PStr []), (''new'', nv)])
              | (Some ov, None) \<Rightarrow> Some (key, PDict [(''new'', PStr []), (''old'', ov)])
              | (Some ov, Some nv) \<Rightarrow> if nv \<noteq> ov then Some (key, PDict [(''old'', ov), (''new'', nv)]) else None
              | (None, None) \<Rightarrow> None)
       (remdups (map fst new @ map fst old))"

section \<open>The queries\<close>

definition refresh_db :: "'s yum_salt \<Rightarrow> pdict \<Rightarrow> 's yum_state \<Rightarrow> bool \<times> 's yum_state" where
  "refresh_db env kwargs st = (True, call_stdall env ''yum -q clean dbcache'' st)"

text \<open>\<^verbatim>\<open>list_pkgs(versions_as_list, **kwargs)\<close>: the \<^verbatim>\<open>__context__\<close> cache is
  returned when present; otherwise the installed packages are queried, collected,
  sorted and cached. Version lists are \<open>PList\<close>s, joined versions \<open>PStr\<close>s.\<close>

definition list_pkgs :: "'s yum_salt \<Rightarrow> pyval \<Rightarrow> pdict \<Rightarrow> 's yum_state \<Rightarrow> pdict \<times> 's yum_state" where
  "list_pkgs env versions_as_list kwargs st =
     (let versions_as_list = is_true versions_as_list in
      if is_true (kw_get kwargs ''removed'' PNone) then ([], st)
      else case y_context st of
        Some cached \<Rightarrow> (if versions_as_list then versions_dict cached else stringify cached, st)
      | None \<Rightarrow>
          (let (infos, st') = repoquery env ''--all --pkgnarrow=installed'' st;
               ret = sort_pkglist (foldl (\<lambda>r p. add_pkg r (pi_name p) (pi_version p)) [] infos)
           in (if versions_as_list then versions_dict ret else stringify ret, st'\<lparr>y_context := Some ret\<rparr>)))"

text \<open>The loop over the repoquery results of \<^verbatim>\<open>latest_version\<close> for one name:
  the first result with that name whose architecture is \<open>noarch\<close> or the name's
  architecture (\<^verbatim>\<open>break\<close>).\<close>

fun first_match :: "string \<Rightarrow> string \<Rightarrow> pkginfo list \<Rightarrow> string option" where
  "first_match name arch [] = None"
| "first_match name arch (p # ps) =
     (if pi_name p = name \<and> (pi_arch p = ''noarch'' \<or> pi_arch p = arch) then Some (pi_version p)
      else first_match name arch ps)"

definition name_arch :: "string \<Rightarrow> string \<Rightarrow> string" where
  "name_arch os_arch name = (let arch = after_last_dot name in if arch \<in> set ARCHES then arch else os_arch)"

text \<open>The two loops of \<^verbatim>\<open>latest_version\<close> that build its result: the first
  (before the query) sets every name to \<open>''\<close> and records its architecture, the
  second fills in the first matching update of each name.\<close>

definition latest_init :: "string \<Rightarrow> string list \<Rightarrow> (string \<times> string) list \<times> (string \<times> string) list" where
  "latest_init os_arch names =
     (foldl (\<lambda>r name. AList.update name [] r) [] names,
      foldl (\<lambda>m name. AList.update name (name_arch os_arch name) m) [] names)"

definition latest_fill ::
  "(string \<times> string) list \<Rightarrow> string list \<Rightarrow> pkginfo list \<Rightarrow> (string \<times> string) list \<Rightarrow> (string \<times> string) list" where
  "latest_fill namearch_map names updates ret =
     foldl (\<lambda>r name.
              case first_match name (the (map_of namearch_map name)) updates of
                Some v \<Rightarrow> AList.update name v r
              | None \<Rightarrow> r) ret names"

definition latest_version :: "'s yum_salt \<Rightarrow> string list \<Rightarrow> pdict \<Rightarrow> 's yum_state \<Rightarrow> pyval \<times> 's yum_state" where
  "latest_version env names kwargs st =
     (let refresh = is_true (kw_get kwargs ''refresh'' (PBool True));
          kwargs = AList.delete ''refresh'' kwargs
      in if names = [] then (PStr [], st)
         else
           (let (ret, namearch_map) = latest_init (osarch env) names;
                st1 = (if refresh then snd (refresh_db env kwargs st) else st);
                repo_arg = get_repo_options kwargs;
                (updates, st2) = repoquery env (repo_arg @ '' --pkgnarrow=available '' @ py_join '' '' names) st1;
                ret = latest_fill namearch_map names updates ret
            in (if length names = 1 then PStr (the (map_of ret (hd names))) else PDict (map (\<lambda>(k, v). (k, PStr v)) ret),
                st2)))"

definition upgrade_available :: "'s yum_salt \<Rightarrow> string \<Rightarrow> 's yum_state \<Rightarrow> bool \<times> 's yum_state" where
  "upgrade_available env name st =
     (let (v, st') = latest_version env [name] [] st in (v \<noteq> PStr [], st'))"

definition list_upgrades :: "'s yum_salt \<Rightarrow> pyval \<Rightarrow> pdict \<Rightarrow> 's yum_state \<Rightarrow> pdict \<times> 's yum_state" where
  "list_upgrades env refresh kwargs st =
     (let st1 = (if is_true refresh then snd (refresh_db env [] st) else st);
          repo_arg = get_repo_options kwargs;
          (updates, st2) = repoquery env (repo_arg @ '' --all --pkgnarrow=updates'') st1
      in (foldl (\<lambda>r p. AList.update (pi_name p) (PStr (pi_version p)) r) [] updates, st2))"

text \<open>\<^verbatim>\<open>check_db\<close>: a name is found when \<^verbatim>\<open>yum deplist\<close> prints anything; otherwise
  the suggestions are the names of the packages that provide it (a set in the
  source, here in the order repoquery lists them).\<close>

definition check_db :: "'s yum_salt \<Rightarrow> string list \<Rightarrow> pdict \<Rightarrow> 's yum_state \<Rightarrow> pdict \<times> 's yum_state" where
  "check_db env names kwargs st =
     (let repo_arg = get_repo_options kwargs;
          deplist_base = ''yum '' @ repo_arg @ '' deplist --quiet'';
          repoquery_base = repo_arg @ '' --all --quiet --whatprovides''
      in foldl (\<lambda>(ret, st) name.
           let (out, st1) = call_out env (deplist_base @ '' '' @ bytes_repr name) st;
               entry = (case map_of ret name of Some (PDict e) \<Rightarrow> e | _ \<Rightarrow> []);
               entry = AList.update ''found'' (PBool (out \<noteq> [])) entry
           in if out = [] then
                (let (infos, st2) = repoquery env (repoquery_base @ '' '' @ bytes_repr name) st1;
                     provides = remdups (map pi_name infos)
                 in (AList.update name (PDict (AList.update ''suggestions'' (PList (map PStr provides)) entry)) ret, st2))
              else (AList.update name (PDict entry) ret, st1))
         ([], st) names)"

text \<open>\<^verbatim>\<open>list_repo_pkgs(*args, **kwargs)\<close>: the repositories are the stripped
  comma-separated parts of \<open>fromrepo\<close> when it is a string, and otherwise (the
  \<^verbatim>\<open>AttributeError\<close> of \<open>None.split\<close>) the repositories of \<^verbatim>\<open>list_repos()\<close>
  whose \<open>enabled\<close> option reads \<open>1\<close> (an error of \<^verbatim>\<open>list_repos\<close> propagates).
  Each repository is queried in turn and every result is appended, as a one-entry
  dictionary \<open>{name: version}\<close>, under the repository id that repoquery reports;
  each list is then sorted. Python 2 orders two one-entry dictionaries by their
  keys and then by their values, so a list is sorted as pairs
  \<open>(name, version)\<close>.\<close>

definition repo_pkgs_cmd :: "string \<Rightarrow> string list \<Rightarrow> string" where
  "repo_pkgs_cmd repo args =
     foldl (\<lambda>cmd arg. cmd @ '' '' @ [dq] @ arg @ [dq]) (''--all --repoid='' @ [dq] @ repo @ [dq]) args"

definition setdefault_append :: "('k \<times> 'v list) list \<Rightarrow> 'k \<Rightarrow> 'v \<Rightarrow> ('k \<times> 'v list) list" where
  "setdefault_append ret k v =
     (case map_of ret k of Some l \<Rightarrow> AList.update k (l @ [v]) ret | None \<Rightarrow> AList.update k [v] ret)"

definition repo_pkgs_step ::
  "'s yum_salt \<Rightarrow> string list \<Rightarrow> (string \<times> (string \<times> string) list) list \<times> 's yum_state \<Rightarrow> string \<Rightarrow>
     (string \<times> (string \<times> string) list) list \<times> 's yum_state" where
  "repo_pkgs_step env args acc repo =
     (case acc of (ret, st) \<Rightarrow>
        let (all_pkgs, st1) = repoquery env (repo_pkgs_cmd repo args) st
        in (foldl (\<lambda>r pkg. setdefault_append r (pi_repoid pkg) (pi_name pkg, pi_version pkg)) ret all_pkgs, st1))"

definition list_repo_pkgs ::
  "'s yum_salt \<Rightarrow> string list \<Rightarrow> pdict \<Rightarrow> 's yum_state \<Rightarrow>
     (string \<times> (string \<times> string) list) list res \<times> 's yum_state" where
  "list_repo_pkgs env args kwargs st =
     (let repos = (case map_of kwargs ''fromrepo'' of
                     Some (PStr fromrepo) \<Rightarrow> Inr (map bstrip (split_on CHR '','' fromrepo))
                   | _ \<Rightarrow> rbind (list_repos (repo_files env (y_sys st)) default_basedir) (\<lambda>rs.
                            Inr (map fst (filter (\<lambda>(x, y). py_str (kw_get y ''enabled'' (PStr ''1'')) = ''1'') rs))))
      in case repos of
           Inl e \<Rightarrow> (Inl e, st)
         | Inr repos \<Rightarrow>
             (let (ret, st') = foldl (repo_pkgs_step env args) ([], st) repos
              in (Inr (map (\<lambda>(reponame, l). (reponame, sort l)) ret), st')))"

text \<open>\<^verbatim>\<open>expand_repo_def(repokwargs)\<close>: yum needs no change to a repository
  definition.\<close>

definition expand_repo_def :: "pdict \<Rightarrow> pdict" where
  "expand_repo_def repokwargs = repokwargs"

section \<open>The commands\<close>

text \<open>\<^verbatim>\<open>pkgname.rsplit('.', 1)\<close> unpacked into two parts, or None when there is no
  dot (the ValueError the code catches).\<close>

definition rsplit_dot :: "string \<Rightarrow> (string \<times> string) option" where
  "rsplit_dot s =
     (if CHR ''.'' \<in> set s then Some (rev (tl (dropWhile (\<lambda>c. c \<noteq> CHR ''.'') (rev s))), after_last_dot s)
      else None)"

text \<open>The target string of a versioned package: \<open>"name-version"\<close>, with a known
  architecture suffix moved after the version.\<close>

definition pkg_string :: "string \<Rightarrow> pyval \<Rightarrow> string" where
  "pkg_string pkgname version_num =
     (let (pkgname, arch) = (case rsplit_dot pkgname of
                               Some (namepart, archpart) \<Rightarrow>
                                 if archpart \<in> set ARCHES then (namepart, ''.'' @ archpart) else (pkgname, [])
                             | None \<Rightarrow> (pkgname, []))
      in [dq] @ pkgname @ ''-'' @ py_str version_num @ arch @ [dq])"

text \<open>The loop of \<^verbatim>\<open>install\<close> over \<^verbatim>\<open>pkg_params.iteritems()\<close> for repository
  targets: a package without a version is installed by name; one with a version
  becomes \<open>"name-version.arch"\<close> and is installed when it is not installed yet or
  its version is at least the installed one, and downgraded otherwise.\<close>

definition install_target ::
  "'s yum_salt \<Rightarrow> pdict \<Rightarrow> string list \<times> string list \<Rightarrow> string \<times> pyval \<Rightarrow> string list \<times> string list" where
  "install_target env old acc kv =
     (case (acc, kv) of ((targets, downgrade), (pkgname, version_num)) \<Rightarrow>
        if version_num = PNone then (targets @ [pkgname], downgrade)
        else
          (let cver = (case map_of old pkgname of Some v \<Rightarrow> v | None \<Rightarrow> PStr []);
               pkgstr = pkg_string pkgname version_num
           in if \<not> truthy cver \<or> compare_ge env (py_str version_num) (py_str cver)
              then (targets @ [pkgstr], downgrade) else (targets, downgrade @ [pkgstr])))"

definition install_targets :: "'s yum_salt \<Rightarrow> pdict \<Rightarrow> pdict \<Rightarrow> string list \<times> string list" where
  "install_targets env old pkg_params = foldl (install_target env old) ([], []) pkg_params"

definition yum_cmd :: "string \<Rightarrow> string \<Rightarrow> bool \<Rightarrow> string list \<Rightarrow> string" where
  "yum_cmd verb repo_arg skip_verify pkgs =
     ''yum -y '' @ repo_arg @ '' '' @ (if skip_verify then ''--nogpgcheck'' else []) @ '' '' @ verb @ '' '' @ py_join '' '' pkgs"

text \<open>\<^verbatim>\<open>install(name, refresh, fromrepo, skip_verify, pkgs, sources, **kwargs)\<close>.
  A \<open>version\<close> keyword applies to a single \<open>name\<close> target; with \<open>name\<close> None that
  dictionary has the key None, whose \<open>rsplit\<close> raises AttributeError.\<close>

definition install ::
  "'s yum_salt \<Rightarrow> string option \<Rightarrow> pyval \<Rightarrow> pyval \<Rightarrow> pyval \<Rightarrow> pyval \<Rightarrow> pyval \<Rightarrow> pdict \<Rightarrow> 's yum_state \<Rightarrow>
     pdict res \<times> 's yum_state" where
  "install env name refresh fromrepo skip_verify pkgs sources kwargs st =
     (let st1 = (if is_true refresh then snd (refresh_db env kwargs st) else st)
      in case parse_targets env name pkgs sources kwargs of
           None \<Rightarrow> (Inl CommandExecutionError, st1)
         | Some (pkg_params, pkg_type) \<Rightarrow>
             if pkg_params = [] then (Inr [], st1)
             else
               (let version_num = kw_get kwargs ''version'' PNone;
                    single = (truthy version_num \<and> pkgs = PNone \<and> sources = PNone)
                in if single \<and> name = None then (Inl AttributeError, st1)
                   else
                     (let pkg_params = (if single then [(the name, version_num)] else pkg_params);
                          repo_arg = get_repo_options (AList.update ''fromrepo'' fromrepo kwargs);
                          (old, st2) = list_pkgs env (PBool False) [] st1;
                          (targets, downgrade) =
                            (if pkg_type = ''repository'' then install_targets env old pkg_params
                             else (map fst pkg_params, []));
                          st3 = (if targets \<noteq> [] then call_stdall env (yum_cmd ''install'' repo_arg (truthy skip_verify) targets) st2
                                 else st2);
                          st4 = (if downgrade \<noteq> [] then call_stdall env (yum_cmd ''downgrade'' repo_arg (truthy skip_verify) downgrade) st3
                                 else st3);
                          (new, st5) = list_pkgs env (PBool False) [] (st4\<lparr>y_context := None\<rparr>)
                      in (Inr (compare_dicts old new), st5))))"

definition upgrade :: "'s yum_salt \<Rightarrow> pyval \<Rightarrow> pdict \<Rightarrow> 's yum_state \<Rightarrow> pdict \<times> 's yum_state" where
  "upgrade env refresh kwargs st =
     (let st1 = (if is_true refresh then snd (refresh_db env kwargs st) else st);
          (old, st2) = list_pkgs env (PBool False) [] st1;
          st3 = call_stdall env ''yum -q -y upgrade'' st2;
          (new, st4) = list_pkgs env (PBool False) [] (st3\<lparr>y_context := None\<rparr>)
      in (compare_dicts old new, st4))"

definition remove :: "'s yum_salt \<Rightarrow> string option \<Rightarrow> pyval \<Rightarrow> pdict \<Rightarrow> 's yum_state \<Rightarrow> pdict res \<times> 's yum_state" where
  "remove env name pkgs kwargs st =
     (case parse_targets env name pkgs PNone [] of
        None \<Rightarrow> (Inl CommandExecutionError, st)
      | Some (pkg_params, _) \<Rightarrow>
          (let (old, st1) = list_pkgs env (PBool False) [] st;
               targets = filter (\<lambda>x. map_of old x \<noteq> None) (map fst pkg_params)
           in if targets = [] then (Inr [], st1)
              else
                (let st2 = call_stdall env (''yum -q -y remove '' @ [dq] @ py_join ([dq] @ '' '' @ [dq]) targets @ [dq]) st1;
                     (new, st3) = list_pkgs env (PBool False) [] (st2\<lparr>y_context := None\<rparr>)
                 in (Inr (compare_dicts old new), st3))))"

definition purge :: "'s yum_salt \<Rightarrow> string option \<Rightarrow> pyval \<Rightarrow> pdict \<Rightarrow> 's yum_state \<Rightarrow> pdict res \<times> 's yum_state" where
  "purge env name pkgs kwargs st = remove env name pkgs kwargs st"

section \<open>Vocabulary of the properties\<close>

text \<open>A line of \<^verbatim>\<open>repoquery\<close> output in the format \<open>QUERYFORMAT\<close>.\<close>

definition query_line :: "string \<Rightarrow> string \<Rightarrow> string \<Rightarrow> string \<Rightarrow> string \<Rightarrow> string" where
  "query_line n v r a repo = n @ qsep @ v @ qsep @ r @ qsep @ a @ qsep @ repo"

text \<open>Reference for the result of \<^verbatim>\<open>latest_version\<close>: one entry per distinct
  name, in the order of first occurrence, holding the version of the first update of
  that name whose architecture is \<open>noarch\<close> or the name's, and \<open>''\<close> when there is none.\<close>

definition latest_ref :: "string \<Rightarrow> string list \<Rightarrow> pkginfo list \<Rightarrow> (string \<times> string) list" where
  "latest_ref os_arch names updates =
     map (\<lambda>n. (n, case find (\<lambda>p. pi_name p = n \<and> (pi_arch p = ''noarch'' \<or> pi_arch p = name_arch os_arch n)) updates of
                   Some p \<Rightarrow> pi_version p
                 | None \<Rightarrow> [])) (rev (remdups (rev names)))"

text \<open>A requested version is a downgrade when the package is installed and
  \<^verbatim>\<open>compare_versions\<close> does not place the request at or above the installed version.\<close>

definition is_downgrade :: "'s yum_salt \<Rightarrow> pdict \<Rightarrow> string \<Rightarrow> pyval \<Rightarrow> bool" where
  "is_downgrade env old n v =
     (let cver = (case map_of old n of Some c \<Rightarrow> c | None \<Rightarrow> PStr [])
      in v \<noteq> PNone \<and> truthy cver \<and> \<not> compare_ge env (py_str v) (py_str cver))"

text \<open>The commands of the model that run yum itself (not repoquery).\<close>

definition yum_call :: "string \<Rightarrow> bool" where
  "yum_call c = starts_with c ''yum ''"

text \<open>The refinement of \<^verbatim>\<open>list_pkgs\<close>: the abstract specification
  \<open>list_pkgs_spec\<close> reads the installed packages of the current system afresh
  (\<open>fresh_pkgs\<close>); the invariant \<open>cache_ok\<close> says the \<^verbatim>\<open>__context__\<close> cache is
  empty or holds exactly those packages; \<open>clean_keeps_installed\<close> is the one
  assumption on the system, that \<^verbatim>\<open>yum clean dbcache\<close> installs and removes
  nothing. The operations of the module are the datatype \<open>yum_op\<close>, run in
  sequence by \<open>yum_run\<close>.\<close>

definition installed_cmd :: string where
  "installed_cmd = ''repoquery --queryformat='' @ [dq] @ QUERYFORMAT @ [dq] @ '' '' @ ''--all --pkgnarrow=installed''"

definition fresh_pkgs :: "'s yum_salt \<Rightarrow> 's \<Rightarrow> (string \<times> string list) list" where
  "fresh_pkgs env s =
     sort_pkglist (foldl (\<lambda>r p. add_pkg r (pi_name p) (pi_version p)) []
       (List.map_filter (parse_pkginfo (osarch env)) (py_splitlines (run_stdout env installed_cmd s))))"

definition list_pkgs_spec :: "'s yum_salt \<Rightarrow> pyval \<Rightarrow> pdict \<Rightarrow> 's \<Rightarrow> pdict" where
  "list_pkgs_spec env versions_as_list kwargs s =
     (if is_true (kw_get kwargs ''removed'' PNone) then []
      else if is_true versions_as_list then versions_dict (fresh_pkgs env s) else stringify (fresh_pkgs env s))"

definition cache_ok :: "'s yum_salt \<Rightarrow> 's yum_state \<Rightarrow> bool" where
  "cache_ok env st = (case y_context st of None \<Rightarrow> True | Some c \<Rightarrow> c = fresh_pkgs env (y_sys st))"

definition clean_keeps_installed :: "'s yum_salt \<Rightarrow> bool" where
  "clean_keeps_installed env =
     (\<forall>s. run_stdout env installed_cmd (run_stdall env ''yum -q clean dbcache'' s) = run_stdout env installed_cmd s)"

datatype yum_op =
    Op_latest_version "string list" pdict
  | Op_upgrade_available string
  | Op_list_pkgs pyval pdict
  | Op_list_repo_pkgs "string list" pdict
  | Op_list_upgrades pyval pdict
  | Op_check_db "string list" pdict
  | Op_refresh_db pdict
  | Op_install "string option" pyval pyval pyval pyval pyval pdict
  | Op_upgrade pyval pdict
  | Op_remove "string option" pyval pdict
  | Op_purge "string option" pyval pdict

fun yum_step :: "'s yum_salt \<Rightarrow> 's yum_state \<Rightarrow> yum_op \<Rightarrow> 's yum_state" where
  "yum_step env st (Op_latest_version names kw) = snd (latest_version env names kw st)"
| "yum_step env st (Op_upgrade_available name) = snd (upgrade_available env name st)"
| "yum_step env st (Op_list_pkgs v kw) = snd (list_pkgs env v kw st)"
| "yum_step env st (Op_list_repo_pkgs args kw) = snd (list_repo_pkgs env args kw st)"
| "yum_step env st (Op_list_upgrades r kw) = snd (list_upgrades env r kw st)"
| "yum_step env st (Op_check_db names kw) = snd (check_db env names kw st)"
| "yum_step env st (Op_refresh_db kw) = snd (refresh_db env kw st)"
| "yum_step env st (Op_install name r fr sv pkgs srcs kw) = snd (install env name r fr sv pkgs srcs kw st)"
| "yum_step env st (Op_upgrade r kw) = snd (upgrade env r kw st)"
| "yum_step env st (Op_remove name pkgs kw) = snd (remove env name pkgs kw st)"
| "yum_step env st (Op_purge name pkgs kw) = snd (purge env name pkgs kw st)"

definition yum_run :: "'s yum_salt \<Rightarrow> yum_op list \<Rightarrow> 's yum_state \<Rightarrow> 's yum_state" where
  "yum_run env ops st = foldl (yum_step env) st ops"

text \<open>A concrete system for the examples: glibc 2.12-1.el6 installed on \<open>x86_64\<close>.\<close>

definition demo_yum :: "unit yum_salt" where
  "demo_yum =
     \<lparr>osarch = ''x86_64'',
      run_out = (\<lambda>_ _. []),
      run_stdout = (\<lambda>c _. if c = ''repoquery --queryformat='' @ [dq] @ QUERYFORMAT @ [dq] @ '' --all --pkgnarrow=installed''
                          then query_line ''glibc'' ''2.12'' ''1.el6'' ''x86_64'' ''installed'' @ [nl] else []),
      run_stdall = (\<lambda>_ _. ()),
      parse_targets = (\<lambda>name pkgs sources kw. Some (map (\<lambda>n. (n, PNone)) [''glibc'', ''vim''], ''repository'')),
      compare_ge = (\<lambda>a b. b \<le> a),
      repo_files = (\<lambda>_. \<lparr>st_dirs = [(''/etc/yum.repos.d'', [])], st_files = []\<rparr>)\<rparr>"

definition demo_st :: "unit yum_state" where
  "demo_st = \<lparr>y_context = None, y_calls = [], y_sys = ()\<rparr>"

definition demo_updates :: "pkginfo list" where
  "demo_updates =
     [\<lparr>pi_name = ''vim'', pi_version = ''7.4'', pi_arch = ''i686'', pi_repoid = ''base''\<rparr>,
      \<lparr>pi_name = ''vim'', pi_version = ''8.0'', pi_arch = ''noarch'', pi_repoid = ''base''\<rparr>,
      \<lparr>pi_name = ''glibc'', pi_version = ''2.17'', pi_arch = ''x86_64'', pi_repoid = ''updates''\<rparr>,
      \<lparr>pi_name = ''glibc'', pi_version = ''2.18'', pi_arch = ''x86_64'', pi_repoid = ''updates''\<rparr>]"

section \<open>Lemmas\<close>

lemma is_infix_at: "take (length k) (drop i s) = k \<Longrightarrow> i \<le> length s \<Longrightarrow> is_infix k s"
  unfolding is_infix_def list_ex_iff by (rule bexI [of _ i]) auto

lemma is_infix_tl:
  assumes "is_infix k s"
  shows "is_infix k (c # s)"
proof -
  from assms obtain i where "i \<in> set [0..<Suc (length s)]" "take (length k) (drop i s) = k"
    unfolding is_infix_def list_ex_iff by blast
  then show ?thesis by (intro is_infix_at [of k "Suc i"]) auto
qed

lemma qsep_not_start:
  assumes "\<not> is_infix qsep (c # f)" "x = [] \<or> hd x = CHR ''_''"
  shows "\<not> starts_with ((c # f) @ x) qsep"
proof
  assume st: "starts_with ((c # f) @ x) qsep"
  show False
  proof (cases "length f \<ge> 2")
    case True
    have "length qsep \<le> length (c # f)" using True by (simp add: qsep_def)
    then have "take (length qsep) ((c # f) @ x) = take (length qsep) (c # f)" by (simp only: take_append) simp
    with st have "take (length qsep) (c # f) = qsep" by (simp only: starts_with_def)
    then have "is_infix qsep (c # f)" by (intro is_infix_at [of _ 0]) simp_all
    then show False using assms by simp
  next
    case False
    then consider "f = []" | y where "f = [y]" by (cases f; cases "tl f") auto
    then show False
    proof cases
      case 1
      then show False using st assms(2) by (cases x) (auto simp: starts_with_def qsep_def)
    next
      case 2
      then show False using st assms(2) by (cases x) (auto simp: starts_with_def qsep_def)
    qed
  qed
qed

lemma split_field:
  "\<not> is_infix qsep f \<Longrightarrow> split_str_from qsep cur (f @ qsep @ rest) = (cur @ f) # split_str_from qsep [] rest"
proof (induction f arbitrary: cur)
  case Nil
  have "starts_with (qsep @ rest) qsep" by (simp add: starts_with_def)
  then show ?case by (simp add: qsep_def)
next
  case (Cons c f)
  have "\<not> starts_with ((c # f) @ qsep @ rest) qsep"
    using Cons.prems by (rule qsep_not_start) (simp add: qsep_def)
  moreover have "\<not> is_infix qsep f" using Cons.prems is_infix_tl by blast
  ultimately show ?case using Cons.IH [of "cur @ [c]"] by simp
qed

lemma split_last_field:
  "\<not> is_infix qsep f \<Longrightarrow> split_str_from qsep cur f = [cur @ f]"
proof (induction f arbitrary: cur)
  case (Cons c f)
  have "\<not> starts_with ((c # f) @ []) qsep"
    using Cons.prems by (rule qsep_not_start) simp
  moreover have "\<not> is_infix qsep f" using Cons.prems is_infix_tl by blast
  ultimately show ?case using Cons.IH [of "cur @ [c]"] by simp
qed simp

lemma update_map_keys:
  "AList.update k (f k) (map (\<lambda>n. (n, f n)) ks) =
     (if k \<in> set ks then map (\<lambda>n. (n, f n)) ks else map (\<lambda>n. (n, f n)) ks @ [(k, f k)])"
  by (induction ks) auto

lemma update_map_fun:
  "distinct ks \<Longrightarrow> k \<in> set ks \<Longrightarrow> AList.update k v (map (\<lambda>n. (n, g n)) ks) = map (\<lambda>n. (n, (g(k := v)) n)) ks"
  by (induction ks) auto

lemma foldl_update_first_occ:
  "foldl (\<lambda>r n. AList.update n (f n) r) [] names = map (\<lambda>n. (n, f n)) (rev (remdups (rev names)))"
  by (induction names rule: rev_induct) (auto simp: update_map_keys)

lemma foldl_update_some:
  assumes "distinct ks" "set names \<subseteq> set ks"
  shows "foldl (\<lambda>r n. case h n of Some v \<Rightarrow> AList.update n v r | None \<Rightarrow> r) (map (\<lambda>n. (n, g n)) ks) names =
           map (\<lambda>n. (n, if n \<in> set names then (case h n of Some v \<Rightarrow> v | None \<Rightarrow> g n) else g n)) ks"
  using assms
proof (induction names arbitrary: g)
  case Nil
  then show ?case by simp
next
  case (Cons x xs)
  let ?F = "\<lambda>r n. case h n of Some v \<Rightarrow> AList.update n v r | None \<Rightarrow> r"
  let ?g = "case h x of Some v \<Rightarrow> g(x := v) | None \<Rightarrow> g"
  have "?F (map (\<lambda>n. (n, g n)) ks) x = map (\<lambda>n. (n, ?g n)) ks"
    using Cons.prems by (cases "h x") (simp_all add: update_map_fun)
  then have "foldl ?F (map (\<lambda>n. (n, g n)) ks) (x # xs) = foldl ?F (map (\<lambda>n. (n, ?g n)) ks) xs"
    by simp
  also have "\<dots> = map (\<lambda>n. (n, if n \<in> set xs then (case h n of Some v \<Rightarrow> v | None \<Rightarrow> ?g n) else ?g n)) ks"
    using Cons.IH [of ?g] Cons.prems by simp
  also have "\<dots> = map (\<lambda>n. (n, if n \<in> set (x # xs) then (case h n of Some v \<Rightarrow> v | None \<Rightarrow> g n) else g n)) ks"
    by (rule map_cong) (auto split: option.split)
  finally show ?case .
qed

lemma first_match_find:
  "first_match n a ups = map_option pi_version (find (\<lambda>p. pi_name p = n \<and> (pi_arch p = ''noarch'' \<or> pi_arch p = a)) ups)"
  by (induction ups) auto

lemma install_targets_foldl:
  "foldl (install_target env old) (t, d) params =
     (t @ map (\<lambda>(n, v). if v = PNone then n else pkg_string n v) (filter (\<lambda>(n, v). \<not> is_downgrade env old n v) params),
      d @ map (\<lambda>(n, v). pkg_string n v) (filter (\<lambda>(n, v). is_downgrade env old n v) params))"
  by (induction params arbitrary: t d) (auto simp: install_target_def is_downgrade_def Let_def)

lemma repoquery_calls:
  "y_calls (snd (repoquery env args st)) = y_calls st @ [''repoquery --queryformat='' @ [dq] @ QUERYFORMAT @ [dq] @ '' '' @ args]"
  by (simp add: repoquery_def call_stdout_def split: prod.split)

lemma list_pkgs_yum_calls:
  "filter yum_call (y_calls (snd (list_pkgs env v kw st))) = filter yum_call (y_calls st)"
proof -
  have "\<not> yum_call (''repoquery --queryformat='' @ s)" for s
    by (simp add: yum_call_def starts_with_def)
  then show ?thesis
    using repoquery_calls [of env "''--all --pkgnarrow=installed''" st]
    by (auto simp: list_pkgs_def Let_def split: option.split prod.split)
qed

lemma list_pkgs_yum_calls_eq:
  "list_pkgs env v kw st = (r, st') \<Longrightarrow> filter yum_call (y_calls st') = filter yum_call (y_calls st)"
  using list_pkgs_yum_calls [of env v kw st] by simp

lemma yum_cmd_call: "yum_call (yum_cmd verb r sv pkgs)"
  by (simp add: yum_call_def yum_cmd_def starts_with_def)

lemma repoquery_frame:
  "y_sys (snd (repoquery env args st)) = y_sys st \<and> y_context (snd (repoquery env args st)) = y_context st"
  by (simp add: repoquery_def call_stdout_def split: prod.split)

lemma call_out_frame:
  "y_sys (snd (call_out env c st)) = y_sys st \<and> y_context (snd (call_out env c st)) = y_context st"
  by (simp add: call_out_def)

lemma cache_ok_frame:
  "y_sys st' = y_sys st \<Longrightarrow> y_context st' = y_context st \<Longrightarrow> cache_ok env st' = cache_ok env st"
  unfolding cache_ok_def by (simp split: option.split)

lemma repoquery_installed:
  "fst (repoquery env ''--all --pkgnarrow=installed'' st) =
     List.map_filter (parse_pkginfo (osarch env)) (py_splitlines (run_stdout env installed_cmd (y_sys st)))"
  by (simp add: repoquery_def call_stdout_def installed_cmd_def split: prod.split)

lemma list_pkgs_refines_step:
  assumes "cache_ok env st"
  shows "fst (list_pkgs env v kw st) = list_pkgs_spec env v kw (y_sys st) \<and>
         cache_ok env (snd (list_pkgs env v kw st)) \<and> y_sys (snd (list_pkgs env v kw st)) = y_sys st"
proof (cases "y_context st")
  case None
  obtain infos st' where q: "repoquery env ''--all --pkgnarrow=installed'' st = (infos, st')" by fastforce
  have "infos = List.map_filter (parse_pkginfo (osarch env)) (py_splitlines (run_stdout env installed_cmd (y_sys st)))"
    using repoquery_installed [of env st] q by simp
  moreover have "y_sys st' = y_sys st" using repoquery_frame [of env _ st] q by (metis snd_conv)
  ultimately show ?thesis
    using None q by (simp add: list_pkgs_def list_pkgs_spec_def cache_ok_def fresh_pkgs_def Let_def)
next
  case (Some c)
  then show ?thesis
    using assms by (simp add: list_pkgs_def list_pkgs_spec_def cache_ok_def)
qed

lemma list_pkgs_fresh: "cache_ok env (snd (list_pkgs env v kw (st\<lparr>y_context := None\<rparr>)))"
  using list_pkgs_refines_step [of env "st\<lparr>y_context := None\<rparr>"] by (simp add: cache_ok_def)

lemma fresh_pkgs_clean:
  "clean_keeps_installed env \<Longrightarrow> fresh_pkgs env (run_stdall env ''yum -q clean dbcache'' s) = fresh_pkgs env s"
  unfolding clean_keeps_installed_def fresh_pkgs_def by (drule spec [of _ s]) simp

lemma refresh_db_ok:
  "clean_keeps_installed env \<Longrightarrow> cache_ok env st \<Longrightarrow> cache_ok env (snd (refresh_db env kw st))"
  unfolding refresh_db_def call_stdall_def cache_ok_def
  by (drule fresh_pkgs_clean [of env "y_sys st"]) (auto split: option.splits)

lemma refresh_if_ok:
  "clean_keeps_installed env \<Longrightarrow> cache_ok env st \<Longrightarrow>
   cache_ok env (if b then snd (refresh_db env kw st) else st)"
  by (cases b) (simp_all add: refresh_db_ok)

lemma repoquery_ok: "repoquery env a st = (x, st') \<Longrightarrow> cache_ok env st' = cache_ok env st"
  using repoquery_frame [of env a st] by (intro cache_ok_frame) auto

lemma list_pkgs_ok: "cache_ok env st \<Longrightarrow> list_pkgs env v kw st = (r, st') \<Longrightarrow> cache_ok env st'"
  using list_pkgs_refines_step [of env st v kw] by simp

lemma list_pkgs_fresh_eq: "list_pkgs env v kw (st\<lparr>y_context := None\<rparr>) = (r, st') \<Longrightarrow> cache_ok env st'"
  using list_pkgs_fresh [of env v kw st] by simp

lemma foldl_frame:
  "(\<And>a s x. g (snd (f (a, s) x)) = g s) \<Longrightarrow> g (snd (foldl f (a, s) xs)) = g s"
proof (induction xs arbitrary: a s)
  case (Cons x xs)
  obtain a' s' where "f (a, s) x = (a', s')" by fastforce
  with Cons show ?case by (metis foldl_Cons snd_conv)
qed simp

lemma frame_ok:
  "(y_sys st', y_context st') = (y_sys st, y_context st) \<Longrightarrow> cache_ok env st' = cache_ok env st"
  by (rule cache_ok_frame) auto

lemma latest_version_ok:
  "clean_keeps_installed env \<Longrightarrow> cache_ok env st \<Longrightarrow> cache_ok env (snd (latest_version env names kw st))"
  by (auto simp: latest_version_def Let_def refresh_db_ok dest!: repoquery_ok split: prod.split)

lemma list_upgrades_ok:
  "clean_keeps_installed env \<Longrightarrow> cache_ok env st \<Longrightarrow> cache_ok env (snd (list_upgrades env r kw st))"
  by (auto simp: list_upgrades_def Let_def refresh_db_ok dest!: repoquery_ok split: prod.split)

lemma check_db_ok: "cache_ok env (snd (check_db env names kw st)) = cache_ok env st"
proof (rule frame_ok)
  show "(y_sys (snd (check_db env names kw st)), y_context (snd (check_db env names kw st))) = (y_sys st, y_context st)"
    unfolding check_db_def Let_def
    by (rule foldl_frame [where g = "\<lambda>st. (y_sys st, y_context st)"])
       (simp add: call_out_def repoquery_def call_stdout_def split: prod.split)
qed

lemma list_repo_pkgs_ok: "cache_ok env (snd (list_repo_pkgs env args kw st)) = cache_ok env st"
proof -
  have fr: "(y_sys (snd (foldl (repo_pkgs_step env args) ([], st) repos)),
         y_context (snd (foldl (repo_pkgs_step env args) ([], st) repos))) = (y_sys st, y_context st)" for repos
    by (rule foldl_frame [where g = "\<lambda>st. (y_sys st, y_context st)"])
       (simp add: repo_pkgs_step_def repoquery_def call_stdout_def split: prod.split)
  then show ?thesis
    unfolding list_repo_pkgs_def Let_def case_prod_unfold by (simp add: frame_ok [OF fr] split: sum.split)
qed

lemma upgrade_ok: "cache_ok env (snd (upgrade env r kw st))"
  by (auto simp: upgrade_def Let_def dest!: list_pkgs_fresh_eq split: prod.split)

lemma remove_ok: "cache_ok env st \<Longrightarrow> cache_ok env (snd (remove env name pkgs kw st))"
  by (auto simp: remove_def Let_def dest: list_pkgs_ok dest!: list_pkgs_fresh_eq split: option.split prod.split)

lemma install_ok:
  "clean_keeps_installed env \<Longrightarrow> cache_ok env st \<Longrightarrow>
   cache_ok env (snd (install env name r fr sv pkgs srcs kw st))"
  unfolding install_def Let_def case_prod_unfold
  by (simp add: list_pkgs_fresh refresh_db_ok split: option.split if_split)

lemma yum_step_ok:
  assumes "clean_keeps_installed env" "cache_ok env st"
  shows "cache_ok env (yum_step env st op)"
  using assms
proof (cases op)
  case (Op_list_pkgs v kw)
  then show ?thesis using list_pkgs_refines_step [OF assms(2), of v kw] by simp
next
  case (Op_upgrade_available name)
  then show ?thesis using latest_version_ok [OF assms] by (simp add: upgrade_available_def case_prod_unfold Let_def)
next
  case (Op_purge name pkgs kw)
  then show ?thesis using remove_ok [OF assms(2)] by (simp add: purge_def)
qed (simp_all only: yum_step.simps latest_version_ok list_upgrades_ok check_db_ok list_repo_pkgs_ok
       refresh_db_ok install_ok upgrade_ok remove_ok)

lemma yum_run_ok:
  "clean_keeps_installed env \<Longrightarrow> cache_ok env st \<Longrightarrow> cache_ok env (yum_run env ops st)"
  unfolding yum_run_def by (induction ops arbitrary: st) (simp_all add: yum_step_ok)

section \<open>Properties of the package functions\<close>

text \<open>C34: \<^verbatim>\<open>_parse_pkginfo\<close> inverts the query format: a line built from five fields
  that do not contain the separator parses back to those fields, with the name
  suffixed by a foreign architecture and the release appended to the version.\<close>

theorem parse_pkginfo_query_line:
  assumes "list_all (\<lambda>f. \<not> is_infix qsep f) [n, v, r, a, repo]"
  shows "parse_pkginfo os_arch (query_line n v r a repo) =
           Some \<lparr>pi_name = (if a \<noteq> ''noarch'' \<and> a \<noteq> os_arch then n @ ''.'' @ a else n),
                 pi_version = (if r \<noteq> [] then v @ ''-'' @ r else v), pi_arch = a, pi_repoid = repo\<rparr>"
proof -
  have "split_str qsep (query_line n v r a repo) = [n, v, r, a, repo]"
    using assms by (simp add: split_str_def query_line_def split_field split_last_field)
  then show ?thesis by (simp add: parse_pkginfo_def)
qed

theorem parse_pkginfo_query_line_witness:
  "list_all (\<lambda>f. \<not> is_infix qsep f) [''glibc'', ''2.12'', ''1.el6'', ''i686'', ''base''] \<and>
   parse_pkginfo ''x86_64'' (query_line ''glibc'' ''2.12'' ''1.el6'' ''i686'' ''base'') =
     Some \<lparr>pi_name = ''glibc.i686'', pi_version = ''2.12-1.el6'', pi_arch = ''i686'', pi_repoid = ''base''\<rparr>"
proof -
  have h: "list_all (\<lambda>f. \<not> is_infix qsep f) [''glibc'', ''2.12'', ''1.el6'', ''i686'', ''base'']"
    by code_simp
  show ?thesis using parse_pkginfo_query_line [OF h, of "''x86_64''"] h by simp
qed

text \<open>C35: The two dictionary loops of \<^verbatim>\<open>latest_version\<close> compute the reference
  \<open>latest_ref\<close>: one entry per distinct requested name, in first-occurrence order,
  holding the version of the first available update with that name and a matching
  architecture, and the empty string when there is none.\<close>

theorem latest_versions_ref:
  "(case latest_init os_arch names of (ret, namearch_map) \<Rightarrow> latest_fill namearch_map names updates ret) =
     latest_ref os_arch names updates"
proof -
  let ?ks = "rev (remdups (rev names))"
  have "latest_init os_arch names = (map (\<lambda>n. (n, [])) ?ks, map (\<lambda>n. (n, name_arch os_arch n)) ?ks)"
    by (simp add: latest_init_def foldl_update_first_occ [of "\<lambda>_. []", simplified] foldl_update_first_occ)
  moreover have "map_of (map (\<lambda>n. (n, name_arch os_arch n)) ?ks) n = Some (name_arch os_arch n)" if "n \<in> set names" for n
    using that by (simp add: map_of_map_restrict)
  moreover have "latest_fill NA names updates (map (\<lambda>n. (n, [])) ?ks) =
      map (\<lambda>n. (n, if n \<in> set names then (case first_match n (the (map_of NA n)) updates of Some v \<Rightarrow> v | None \<Rightarrow> [])
                    else [])) ?ks" for NA
    unfolding latest_fill_def by (rule foldl_update_some) auto
  ultimately show ?thesis
    unfolding latest_ref_def by (simp add: first_match_find split: option.split)
qed

theorem latest_versions_ref_witness:
  "(case latest_init ''x86_64'' [''glibc'', ''vim'', ''glibc''] of
      (ret, namearch_map) \<Rightarrow> latest_fill namearch_map [''glibc'', ''vim'', ''glibc''] demo_updates ret) =
     [(''glibc'', ''2.17''), (''vim'', ''8.0'')]"
proof -
  have "latest_ref ''x86_64'' [''glibc'', ''vim'', ''glibc''] demo_updates = [(''glibc'', ''2.17''), (''vim'', ''8.0'')]"
    by code_simp
  then show ?thesis using latest_versions_ref [where os_arch = "''x86_64''" and names = "[''glibc'', ''vim'', ''glibc'']" and updates = demo_updates] by simp
qed

text \<open>C36: The target loop of \<^verbatim>\<open>install\<close> partitions the requested packages, in
  order: a request is sent to \<^verbatim>\<open>yum downgrade\<close> exactly when it names a version
  below the installed one, and every other request to \<^verbatim>\<open>yum install\<close>, unversioned
  requests by bare name.\<close>

theorem install_targets_partition:
  "install_targets env old params =
     (map (\<lambda>(n, v). if v = PNone then n else pkg_string n v) (filter (\<lambda>(n, v). \<not> is_downgrade env old n v) params),
      map (\<lambda>(n, v). pkg_string n v) (filter (\<lambda>(n, v). is_downgrade env old n v) params))"
  using install_targets_foldl [of env old "[]" "[]" params] by (simp add: install_targets_def)

theorem install_targets_partition_witness:
  "install_targets demo_yum [(''glibc'', PStr ''2.12-1.el6'')]
     [(''glibc'', PStr ''2.11''), (''vim'', PNone), (''zsh.i686'', PStr ''5.0'')] =
   ([''vim'', [dq] @ ''zsh-5.0.i686'' @ [dq]], [[dq] @ ''glibc-2.11'' @ [dq]])"
proof -
  have "(map (\<lambda>(n, v). if v = PNone then n else pkg_string n v)
           (filter (\<lambda>(n, v). \<not> is_downgrade demo_yum [(''glibc'', PStr ''2.12-1.el6'')] n v)
              [(''glibc'', PStr ''2.11''), (''vim'', PNone), (''zsh.i686'', PStr ''5.0'')]),
         map (\<lambda>(n, v). pkg_string n v)
           (filter (\<lambda>(n, v). is_downgrade demo_yum [(''glibc'', PStr ''2.12-1.el6'')] n v)
              [(''glibc'', PStr ''2.11''), (''vim'', PNone), (''zsh.i686'', PStr ''5.0'')])) =
        ([''vim'', [dq] @ ''zsh-5.0.i686'' @ [dq]], [[dq] @ ''glibc-2.11'' @ [dq]])"
    by code_simp
  then show ?thesis
    using install_targets_partition [of demo_yum "[(''glibc'', PStr ''2.12-1.el6'')]"
            "[(''glibc'', PStr ''2.11''), (''vim'', PNone), (''zsh.i686'', PStr ''5.0'')]"] by simp
qed

text \<open>C37: \<^verbatim>\<open>remove\<close> runs exactly one yum command, \<^verbatim>\<open>yum -q -y remove\<close> on the
  requested packages that \<^verbatim>\<open>list_pkgs\<close> reports installed, in request order, and no
  yum command at all when none of them is installed.\<close>

theorem remove_yum_calls:
  assumes "parse_targets env name pkgs PNone [] = Some (params, t)"
  shows "filter yum_call (y_calls (snd (remove env name pkgs kwargs st))) =
           filter yum_call (y_calls st) @
           (let targets = filter (\<lambda>x. map_of (fst (list_pkgs env (PBool False) [] st)) x \<noteq> None) (map fst params)
            in if targets = [] then []
               else [''yum -q -y remove '' @ [dq] @ py_join ([dq] @ '' '' @ [dq]) targets @ [dq]])"
proof -
  obtain old st1 where l: "list_pkgs env (PBool False) [] st = (old, st1)" by fastforce
  have c1: "filter yum_call (y_calls st1) = filter yum_call (y_calls st)"
    using list_pkgs_yum_calls [of env "PBool False" "[]" st] l by simp
  have "yum_call (''yum -q -y remove '' @ s)" for s
    by (simp add: yum_call_def starts_with_def)
  then show ?thesis
    using assms l c1
    by (auto simp: remove_def Let_def call_stdall_def split: prod.split dest!: list_pkgs_yum_calls_eq)
qed

theorem remove_yum_calls_witness:
  "parse_targets demo_yum (Some ''glibc'') PNone PNone [] = Some ([(''glibc'', PNone), (''vim'', PNone)], ''repository'') \<and>
   filter yum_call (y_calls (snd (remove demo_yum (Some ''glibc'') PNone [] demo_st))) =
     [''yum -q -y remove '' @ [dq] @ ''glibc'' @ [dq]]"
proof -
  have p: "parse_targets demo_yum (Some ''glibc'') PNone PNone [] = Some ([(''glibc'', PNone), (''vim'', PNone)], ''repository'')"
    by (simp add: demo_yum_def)
  have "fst (list_pkgs demo_yum (PBool False) [] demo_st) = [(''glibc'', PStr ''2.12-1.el6'')]"
    by code_simp
  then show ?thesis
    using remove_yum_calls [OF p, of "[]" demo_st] p by (simp add: demo_st_def)
qed

text \<open>C38: \<^verbatim>\<open>list_pkgs\<close> with its \<^verbatim>\<open>__context__\<close> cache refines the
  uncached query: after any sequence of the module's operations (queries,
  refresh, install, upgrade, remove, purge), started with a coherent cache,
  \<^verbatim>\<open>list_pkgs\<close> returns exactly the packages installed on the current system.
  Every operation that changes the system pops the cache after its yum command.\<close>

theorem list_pkgs_refines:
  assumes "clean_keeps_installed env" "cache_ok env st"
  shows "fst (list_pkgs env v kw (yum_run env ops st)) = list_pkgs_spec env v kw (y_sys (yum_run env ops st))"
  using list_pkgs_refines_step [OF yum_run_ok [OF assms]] by simp

theorem list_pkgs_refines_witness:
  "clean_keeps_installed demo_yum \<and> cache_ok demo_yum demo_st \<and>
   fst (list_pkgs demo_yum (PBool False) []
          (yum_run demo_yum [Op_list_pkgs (PBool True) [], Op_remove (Some ''glibc'') PNone [],
                             Op_refresh_db []] demo_st)) = [(''glibc'', PStr ''2.12-1.el6'')]"
proof -
  have c: "clean_keeps_installed demo_yum" "cache_ok demo_yum demo_st"
    by (simp_all add: clean_keeps_installed_def demo_yum_def cache_ok_def demo_st_def)
  have "list_pkgs_spec demo_yum (PBool False) [] () = [(''glibc'', PStr ''2.12-1.el6'')]"
    by code_simp
  then show ?thesis
    using list_pkgs_refines [OF c, of "PBool False" "[]"
            "[Op_list_pkgs (PBool True) [], Op_remove (Some ''glibc'') PNone [], Op_refresh_db []]"] c
    by simp
qed

text \<open>C39: \<^verbatim>\<open>install\<close> of repository packages without refresh runs at most two yum
  commands, in this order: \<^verbatim>\<open>yum install\<close> on the install targets of the target loop,
  then \<^verbatim>\<open>yum downgrade\<close> on its downgrade targets, each only when its list is non-empty.\<close>

theorem install_yum_calls:
  assumes "parse_targets env name pkgs sources kwargs = Some (params, ''repository'')" "params \<noteq> []"
    "\<not> is_true refresh" "\<not> truthy (kw_get kwargs ''version'' PNone)"
  shows "filter yum_call (y_calls (snd (install env name refresh fromrepo skip_verify pkgs sources kwargs st))) =
           filter yum_call (y_calls st) @
           (let repo_arg = get_repo_options (AList.update ''fromrepo'' fromrepo kwargs);
                (targets, downgrade) = install_targets env (fst (list_pkgs env (PBool False) [] st)) params
            in (if targets \<noteq> [] then [yum_cmd ''install'' repo_arg (truthy skip_verify) targets] else []) @
               (if downgrade \<noteq> [] then [yum_cmd ''downgrade'' repo_arg (truthy skip_verify) downgrade] else []))"
proof -
  obtain old st1 where l: "list_pkgs env (PBool False) [] st = (old, st1)" by fastforce
  have c1: "filter yum_call (y_calls st1) = filter yum_call (y_calls st)"
    using list_pkgs_yum_calls_eq [OF l] .
  obtain t d where td: "install_targets env old params = (t, d)" by fastforce
  show ?thesis
    using assms l c1 td
    by (auto simp: install_def Let_def call_stdall_def yum_cmd_call split: prod.split dest!: list_pkgs_yum_calls_eq)
qed

theorem install_yum_calls_witness:
  "parse_targets demo_yum (Some ''glibc'') PNone PNone [] = Some ([(''glibc'', PNone), (''vim'', PNone)], ''repository'') \<and>
   [(''glibc'', PNone), (''vim'', PNone)] \<noteq> [] \<and> \<not> is_true (PBool False) \<and> \<not> truthy (kw_get [] ''version'' PNone) \<and>
   filter yum_call (y_calls (snd (install demo_yum (Some ''glibc'') (PBool False) PNone PNone PNone PNone [] demo_st))) =
     [yum_cmd ''install'' [] False [''glibc'', ''vim'']]"
proof -
  have p: "parse_targets demo_yum (Some ''glibc'') PNone PNone [] = Some ([(''glibc'', PNone), (''vim'', PNone)], ''repository'')"
    by (simp add: demo_yum_def)
  have h: "\<not> is_true (PBool False)" "\<not> truthy (kw_get [] ''version'' PNone)" "get_repo_options [(''fromrepo'', PNone)] = []"
    by code_simp+
  have "fst (list_pkgs demo_yum (PBool False) [] demo_st) = [(''glibc'', PStr ''2.12-1.el6'')]"
    by code_simp
  moreover have "install_targets demo_yum [(''glibc'', PStr ''2.12-1.el6'')] [(''glibc'', PNone), (''vim'', PNone)] =
                   ([''glibc'', ''vim''], [])"
    by code_simp
  ultimately show ?thesis
    using install_yum_calls [OF p _ h(1) h(2), of PNone PNone demo_st] p h by (simp add: demo_st_def)
qed

end
