(* ===== verification/Spec2Isabelle.thy ===== *)
theory Spec2Isabelle
  imports Package Path_Scm Sys Compiler Yum_Repo Agent_Utils Requests Locale Yum_Pkg
begin

text \<open>
  \<^bold>\<open>A verification development of OpsAgent: the state preparation compiler, the
  agent's helpers and the Salt modules it ships.\<close>

  \<^emph>\<open>The program.\<close> \<^verbatim>\<open>src/POCs/salt/statepreparation.py\<close> defines the class
  \<^verbatim>\<open>StatePreparation\<close>, which lowers a JSON recipe (a dictionary of components,
  each a list of steps with a \<open>stateid\<close>, a \<open>module\<close> and a \<open>parameter\<close>
  dictionary) into a list of Salt state records. \<^verbatim>\<open>transfer\<close> walks the
  components, dispatches each step through the table \<^verbatim>\<open>pre_mapping\<close> to one of 31
  handlers, keeps each handler's dictionary or list under the step id, and then
  appends the kept results to \<^verbatim>\<open>self.states\<close> in the order of the ids
  \<open>'1'\<close>, \<open>'2'\<close>, \dots. The handlers share three helpers: the tag generator
  \<^verbatim>\<open>__get_tag\<close>, the type check \<^verbatim>\<open>__state_check\<close> and the prerequisite
  resolver \<^verbatim>\<open>__get_requisity\<close>. The states it emits are run by Salt, whose
  execution modules for yum packages and repositories
  (\<^verbatim>\<open>src/salt/modules/yumpkg5.py\<close>) and
  locales (\<^verbatim>\<open>src/salt/modules/localemod.py\<close>) are part of the repository. The
  agent keeps its states repository up to date with \<^verbatim>\<open>clone_repo\<close> and
  \<^verbatim>\<open>checkout_repo\<close> (\<^verbatim>\<open>src/sources/opsagent/utils.py\<close>, with the logger
  \<^verbatim>\<open>log\<close>) and talks to its server with the requests built by
  \<^verbatim>\<open>src/opsagent/opsagent/objects/send.py\<close>.

  \<^emph>\<open>The theories.\<close>
  \<^item> \<open>Prelude\<close>: Python 2 values (\<open>pyval\<close>), exceptions as the left side of
    \<open>pyerr + 'a\<close>, truthiness, dictionary reads and writes in insertion order, the
    builtins the code calls (\<open>str\<close>, \<open>in\<close>, \<open>items\<close>, \<open>replace\<close>,
    \<open>endswith\<close>, \<open>split\<close>, \<open>strip\<close>, indexing, byte-string \<open>strip\<close> and
    \<open>split()\<close>) and the loop combinator \<open>py_for\<close>.
  \<^item> \<open>Tag\<close>: \<open>get_tag\<close>, \<open>state_check\<close> with \<open>type_map\<close>,
    \<open>get_requisity\<close> with \<open>requisity_map\<close>, and the skeleton \<open>simple_state\<close>
    that six handlers share.
  \<^item> \<open>Package\<close>, \<open>Path_Scm\<close>, \<open>Sys\<close>: one definition per handler of
    \<^verbatim>\<open>statepreparation.py\<close> (\<open>package\<close>, \<open>repo\<close>, \<open>file_state\<close>, \<open>scm\<close>,
    \<open>service\<close>, \<open>sys_cmd\<close>, \dots, \<open>system_ssh_known_host\<close>) and the wrappers.
  \<^item> \<open>Compiler\<close>: the object as the record \<open>state_preparation\<close>, the loops
    \<open>collect_step\<close>, \<open>order_states\<close>, \<open>transfer_components\<close> and
    \<open>transfer\<close>, over an arbitrary dispatch table (the interface: a handler maps
    the step, the component id and the step id to a value or an exception).
  \<^item> \<open>Repo_File\<close>: the yum repository file format of \<^verbatim>\<open>yumpkg5.py\<close>: the
    parser \<open>parse_repo_text\<close> (\<^verbatim>\<open>_parse_repo_file\<close>, one \<open>parse_line\<close> per
    line) and the writer \<open>render_repos\<close> (the loop at the end of
    \<^verbatim>\<open>mod_repo\<close>).
  \<^item> \<open>Yum_Repo\<close>: an explicit store of directories and files (\<open>listdir\<close>,
    \<open>read_file\<close>, \<open>write_file\<close>, \<open>remove_file\<close>, invariant \<open>store_wf\<close>) and over
    it \<open>list_repos\<close>, \<open>get_repo\<close>, \<open>del_repo\<close> and \<open>mod_repo\<close> (split into the
    option scan \<open>scan_blank\<close>, \<open>repo_target\<close>, \<open>repo_update\<close> and the write
    \<open>mod_repo_write\<close>); each returns its result with the new store.
  \<^item> \<open>Yum_Pkg\<close>: the package functions of \<^verbatim>\<open>yumpkg5.py\<close>:
    \<open>yum_virtual\<close> (\<^verbatim>\<open>__virtual__\<close>), \<open>parse_pkginfo\<close>, \<open>repoquery\<close>,
    \<open>get_repo_options\<close>, \<open>latest_version\<close>
    (its result loops \<open>latest_init\<close> and \<open>latest_fill\<close> with \<open>first_match\<close>),
    \<open>upgrade_available\<close>, \<open>list_pkgs\<close>, \<open>list_repo_pkgs\<close> (which reads the
    repository files through \<open>list_repos\<close> of \<open>Yum_Repo\<close>), \<open>list_upgrades\<close>,
    \<open>check_db\<close>,
    \<open>refresh_db\<close>, \<open>install\<close> (its target loop \<open>install_targets\<close>),
    \<open>upgrade\<close>, \<open>remove\<close>, \<open>purge\<close> and \<open>expand_repo_def\<close>, and the datatype
    \<open>yum_op\<close> of these operations with its step function \<open>yum_step\<close>. The Salt
    calls they make
    (\<^verbatim>\<open>cmd.run*\<close>, \<^verbatim>\<open>pkg_resource.parse_targets\<close>,
    \<^verbatim>\<open>compare_versions\<close>, the \<open>osarch\<close> grain) are the interface record
    \<open>yum_salt\<close> over an abstract system; the state \<open>yum_state\<close> holds that system,
    the \<^verbatim>\<open>__context__\<close> cache of \<open>list_pkgs\<close> and the commands run, in order.
    The \<^verbatim>\<open>pkg_resource\<close> helpers and \<^verbatim>\<open>compare_dicts\<close>, which are Salt's and not
    the repository's, are modelled from Salt's source.
  \<^item> \<open>Agent_Utils\<close>: \<open>log\<close>, \<open>clone_repo\<close> (with \<open>relink\<close>) and the mutually
    recursive \<open>checkout_repo\<close>/\<open>checkout_loop\<close> as actions on a world (logger
    level and records, the OS calls made with their outcome, an abstract OS state),
    with \<open>abind\<close>/\<open>atry\<close> for sequencing and \<^verbatim>\<open>try/except\<close>; the OS is an
    executor parameter (\<open>os_exec\<close>), so the lemmas hold for any behaviour of git and
    the filesystem.
  \<^item> \<open>Requests\<close>: \<open>handshake\<close> and \<open>statelog\<close>, with the constants of the
    absent \<^verbatim>\<open>codes\<close> module as a record parameter.
  \<^item> \<open>Locale\<close>: \<open>parse_localectl\<close> (with \<open>localectl_line\<close>), \<open>localectl_get\<close>,
    \<open>localectl_set\<close>, \<open>list_avail\<close>, \<open>get_locale\<close> and \<open>set_locale\<close> over the
    Salt interface \<open>salt_mod\<close> (\<^verbatim>\<open>cmd.run\<close>, \<^verbatim>\<open>cmd.run_all\<close>, \<^verbatim>\<open>file.sed\<close>),
    and \<open>locale_virtual\<close> (\<^verbatim>\<open>__virtual__\<close>);
    \<open>sh_salt\<close> implements the interface on a table of files for the RedHat/Debian lemmas.
  \<^item> This theory: the program's table \<open>pre_mapping\<close> and \<open>dispatch_table\<close>, and
    the properties of whole recipe documents.

  \<^emph>\<open>How the model follows the code.\<close> Every function is one definition whose
  guards, loops and early returns are those of the source, in the source's order; an
  error code returned by the code is a value, an exception it raises is \<open>Inl\<close>
  (with its message in \<open>Agent_Utils\<close>, where the code prints it). A loop over
  \<^verbatim>\<open>.items()\<close> or a dictionary is \<open>py_for\<close> over the association list in its
  iteration order, so the lemmas hold for whatever order the interpreter yields
  unless a lemma says otherwise; two orders of CPython 2 are fixed by the code and
  computed from its string hash (the package groups are visited \<open>latest\<close> before
  \<open>installed\<close>). Every loop is a structural recursion over a finite list, except
  \<open>checkout_repo\<close>, whose single retry is a recursion on \<open>n\<close> with the measure
  \<open>if n = 0 then 15 else 5\<close> for the function and \<open>(if n = 0 then 10 else 0) +
  length cmds\<close> for its loop, enough because the retry is only taken at \<open>n = 0\<close>;
  C11 turns this into a bound on the Python run (18 OS calls). No fuel is used;
  every definition is total and executable.

  \<^emph>\<open>What the lemmas show.\<close> The compiler (C1 to C4, C20): a component whose kept
  ids are exactly \<open>'1'\<close> to \<open>'n'\<close> contributes its results in id order; a gap
  in the ids aborts the whole run with KeyError; a second call of \<open>transfer\<close>
  duplicates the output; a service step aborts the run with TypeError; a
  well-formed ntp or selinux step passes validation (its handler returns None)
  and is dropped. The handlers (C5 to C10, C12 to C19): the exact records of
  package, repository, checkout, symlink, command and cron steps, the tag's
  injectivity in the name and a family of collisions, and the exceptions for
  language package managers, missing checkout paths, hostnames, mount options and
  SSH key types. The yum module (C21 to C24): the repository writer and parser
  are inverse on clean stanzas; \<open>mod_repo\<close> changes only the \<open>.repo\<close> file it
  reports (nothing on an error) and keeps the store well formed; deleting an option by a blank
  value raises RuntimeError (the dictionary changes size during iteration); a new
  repository is written to \<open><basedir>/<repo>.repo\<close> and reads back as given. The
  utilities (C11, C25 to C28): \<open>checkout_repo\<close> terminates within 18 OS
  calls, whatever git and the filesystem do; at most two clones per
  \<open>checkout_repo\<close>; a normal return
  means the last three calls were the successful checkout, pull and tag checkout;
  only ManagerInvalidStatesRepoException escapes; the retry recovers a damaged
  clone. The requests (C29, C30): \<open>handshake\<close> never raises and never sends the
  initialisation errors, \<open>statelog\<close> raises AttributeError on a non-dictionary.
  The locale module (C31 to C33): \<^verbatim>\<open>_parse_localectl\<close> reads back clean
  \<^verbatim>\<open>localectl\<close> output, drops every entry from the first continuation value with
  a colon, and \<open>get_locale\<close> returns what \<open>set_locale\<close> set when the file has at
  most one \<open>LANG=\<close> line. The yum package functions (C34 to C37, C39):
  \<^verbatim>\<open>_parse_pkginfo\<close> inverts the query format; the result loops of
  \<open>latest_version\<close> equal a declarative reference (first matching update per
  distinct name); the target loop of \<open>install\<close> sends exactly the versioned
  requests below the installed version to \<^verbatim>\<open>yum downgrade\<close> and all others to
  \<^verbatim>\<open>yum install\<close>, and \<open>install\<close> runs just these two commands in that order;
  \<open>remove\<close> runs \<^verbatim>\<open>yum remove\<close> once on the installed requested packages and
  not at all when none is installed. Finally (C38):
  \<open>list_pkgs\<close> with its \<^verbatim>\<open>__context__\<close> cache refines the uncached query: after
  any sequence of \<open>yum_op\<close> operations it returns the packages installed on the
  current system, provided \<^verbatim>\<open>yum clean dbcache\<close> installs and removes nothing.

  \<^emph>\<open>Not modelled.\<close> \<^verbatim>\<open>main\<close> and \<^verbatim>\<open>StateRunner\<close> (file I/O and the Salt
  engine); \<^verbatim>\<open>print\<close> and the module loggers; CPython's equality of \<open>True\<close> and
  \<open>1\<close> as dictionary keys, floats in JSON input, escapes inside \<open>repr\<close>; in
  \<^verbatim>\<open>log\<close> the DEBUG-level \<^verbatim>\<open>time.sleep\<close> and the class-name branch for a caller
  that is not a string; \<^verbatim>\<open>state_std\<close> (Salt's, used by both Salt modules).
  In \<^verbatim>\<open>yumpkg5.py\<close>: \<^verbatim>\<open>version\<close>, a one-line call of Salt's
  \<^verbatim>\<open>pkg_resource.version\<close>, which is not part of the repository; the aliasing
  of the cached dictionary that
  \<open>list_pkgs\<close> returns with \<open>versions_as_list\<close>; the iteration order of the
  Python 2 dictionaries \<open>pkg_params\<close> and \<open>ret\<close>, which the model takes to be
  the order of the association list.
\<close>

definition pre_mapping :: "(string \<times> handler) list" where
  "pre_mapping =
     [(''package.apt.package'', package_apt_package),
      (''package.yum.package'', package_yum_package),
      (''package.gem.package'', package_gem_package),
      (''package.npm.package'', package_npm_package),
      (''package.pecl.package'', package_pecl_package),
      (''package.pip.package'', package_pip_package),
      (''package.zypper.package'', package_zypper_package),
      (''package.yum.repo'', package_yum_repo),
      (''package.apt.repo'', package_apt_repo),
      (''package.gem.source'', package_gem_source),
      (''path.file'', path_file),
      (''path.dir'', path_dir),
      (''path.symlink'', path_symlink),
      (''scm.git'', scm_git),
      (''scm.svn'', scm_svn),
      (''scm.hg'', scm_hg),
      (''service.supervisord'', service_supervisord),
      (''service.sysvinit'', service_sysvinit),
      (''service.upstart'', service_upstart),
      (''sys.cmd'', sys_cmd),
      (''sys.script'', sys_script),
      (''sys.cron'', sys_cron),
      (''sys.user'', sys_user),
      (''sys.group'', sys_group),
      (''sys.hostname'', sys_hostname),
      (''sys.hosts'', sys_hosts),
      (''sys.mount'', sys_mount),
      (''sys.ntp'', sys_ntp),
      (''sys.selinux'', sys_selinux),
      (''system.ssh.auth'', system_ssh_auth),
      (''system.ssh.known.host'', system_ssh_known_host)]"

text \<open>\<^verbatim>\<open>self.pre_mapping\<close>, in the source's order.\<close>

definition dispatch_table :: dispatch where
  "dispatch_table m = map_of pre_mapping m"

text \<open>Concrete steps and records for the witnesses.\<close>

definition apt_step :: "string \<Rightarrow> string \<Rightarrow> pyval" where
  "apt_step sid pkg = PDict [(''stateid'', PStr sid), (''module'', PStr ''package.apt.package''),
     (''parameter'', PDict [(''name'', PDict [(pkg, PStr '''')])])]"

definition latest_record :: "string \<Rightarrow> string \<Rightarrow> pyval" where
  "latest_record sid pkg =
     pkg_record (''_web_'' @ sid @ ''_package_apt_package_pkgs_latest'') ''latest'' [(''pkgs'', PList [PStr pkg])]"

text \<open>The facts that evaluate the program on concrete package documents.\<close>

lemmas program_simps = dispatch_table_def pre_mapping_def component_steps_def collect_step_def
  package_apt_package_def package_def state_check_def type_map_def package_requisite_def
  get_tag_def Let_def dots_to_underscores_def apt_step_def latest_record_def

lemma apt_component:
  "component_steps dispatch_table ''web'' (PDict [(''state'', PList [apt_step ''2'' ''curl'', apt_step ''1'' ''nginx''])]) =
   Inr [(PStr ''2'', PList [latest_record ''2'' ''curl'']), (PStr ''1'', PList [latest_record ''1'' ''nginx''])]"
  by (simp add: program_simps py_simps)

theorem component_in_stateid_order_witness:
  "transfer_components dispatch_table
     [(''web'', PDict [(''state'', PList [apt_step ''2'' ''curl'', apt_step ''1'' ''nginx''])])] [] =
   (None, [latest_record ''1'' ''nginx'', latest_record ''2'' ''curl''])"
proof -
  have "transfer_components dispatch_table
     [(''web'', PDict [(''state'', PList [apt_step ''2'' ''curl'', apt_step ''1'' ''nginx''])])] [] =
   transfer_components dispatch_table [] ([] @ ordered_output
      [(PStr ''2'', PList [latest_record ''2'' ''curl'']), (PStr ''1'', PList [latest_record ''1'' ''nginx''])]
      [0..<length [(PStr ''2'', PList [latest_record ''2'' ''curl'']), (PStr ''1'', PList [latest_record ''1'' ''nginx''])]])"
    by (rule component_in_stateid_order [OF apt_component]) (simp add: step_key_def nat_str.simps less_Suc_eq)
  then show ?thesis
    by (simp add: ordered_output_def step_key_def nat_str.simps upt_rec)
qed

theorem component_gap_KeyError_witness:
  "fst (transfer_components dispatch_table
     [(''web'', PDict [(''state'', PList
        [apt_step ''1'' ''nginx'',
         PDict [(''stateid'', PStr ''2''), (''module'', PStr ''package.apt.package'')],
         apt_step ''3'' ''curl''])])] []) = Some KeyError"
proof (rule component_gap_KeyError)
  show "component_steps dispatch_table ''web'' (PDict [(''state'', PList
        [apt_step ''1'' ''nginx'',
         PDict [(''stateid'', PStr ''2''), (''module'', PStr ''package.apt.package'')],
         apt_step ''3'' ''curl''])]) =
    Inr [(PStr ''1'', PList [latest_record ''1'' ''nginx'']), (PStr ''3'', PList [latest_record ''3'' ''curl''])]"
    by (simp add: program_simps py_simps)
  show "\<exists>i<length [(PStr ''1'', PList [latest_record ''1'' ''nginx'']), (PStr ''3'', PList [latest_record ''3'' ''curl''])].
          map_of [(PStr ''1'', PList [latest_record ''1'' ''nginx'']), (PStr ''3'', PList [latest_record ''3'' ''curl''])]
            (step_key i) = None"
    by (rule exI [of _ 1]) (simp add: step_key_def nat_str.simps)
qed

lemma apt_document:
  "transfer dispatch_table (init_state_preparation
     (PDict [(''component'', PDict [(''web'', PDict [(''state'', PList [apt_step ''1'' ''nginx''])])])])) =
   (Inr [latest_record ''1'' ''nginx''],
    \<lparr>pre_states = PDict [(''component'', PDict [(''web'', PDict [(''state'', PList [apt_step ''1'' ''nginx''])])])],
     states = [latest_record ''1'' ''nginx'']\<rparr>)"
  by (simp add: transfer_def init_state_preparation_def program_simps py_simps nat_str.simps)

theorem transfer_reuse_duplicates_witness:
  "transfer dispatch_table
     \<lparr>pre_states = PDict [(''component'', PDict [(''web'', PDict [(''state'', PList [apt_step ''1'' ''nginx''])])])],
      states = [latest_record ''1'' ''nginx'']\<rparr> =
   (Inr [latest_record ''1'' ''nginx'', latest_record ''1'' ''nginx''],
    \<lparr>pre_states = PDict [(''component'', PDict [(''web'', PDict [(''state'', PList [apt_step ''1'' ''nginx''])])])],
     states = [latest_record ''1'' ''nginx'', latest_record ''1'' ''nginx'']\<rparr>)"
  using transfer_reuse_duplicates [OF apt_document] by simp

lemma dispatch_service:
  assumes "m \<in> {''service.supervisord'', ''service.sysvinit'', ''service.upstart''}"
  shows "\<exists>h. dispatch_table m = Some h \<and> (\<forall>p u s. h p u s = Inl TypeError)"
proof -
  have "dispatch_table ''service.supervisord'' = Some service_supervisord"
      "dispatch_table ''service.sysvinit'' = Some service_sysvinit"
      "dispatch_table ''service.upstart'' = Some service_upstart"
    by (simp_all add: dispatch_table_def pre_mapping_def)
  then show "\<exists>h. dispatch_table m = Some h \<and> (\<forall>p u s. h p u s = Inl TypeError)"
    using assms by (auto simp: service_supervisord_def service_sysvinit_def service_upstart_def)
qed

lemma dispatch_validate_only:
  assumes "m \<in> {''sys.ntp'', ''sys.selinux''}"
  shows "\<exists>h. dispatch_table m = Some h \<and>
           (\<forall>ps u s. map_of ps ''parameter'' \<noteq> None \<longrightarrow> h (PDict ps) u s = Inr PNone)"
proof -
  have "dispatch_table ''sys.ntp'' = Some sys_ntp" "dispatch_table ''sys.selinux'' = Some sys_selinux"
    by (simp_all add: dispatch_table_def pre_mapping_def)
  moreover have "state_check ''sys'' ''ntp'' = 0" "state_check ''sys'' ''selinux'' = 0"
    by (simp_all add: state_check_def type_map_def)
  ultimately show ?thesis
    using assms by (auto simp: sys_ntp_def sys_selinux_def checked_def)
qed

text \<open>C4: a service step of any of the three kinds aborts the compilation of its
  component, and of the whole document, with TypeError.\<close>

theorem service_step_aborts:
  assumes "m \<in> {''service.supervisord'', ''service.sysvinit'', ''service.upstart''}"
    and "map_of ps ''stateid'' = Some st"
    and "map_of ps ''module'' = Some (PStr m)"
    and "py_for (collect_step dispatch_table (PStr uid)) pre [] = Inr steps"
  shows "fst (transfer_components dispatch_table
            ((uid, PDict [(''state'', PList (pre @ PDict ps # post))]) # cs) acc) = Some TypeError"
proof -
  obtain h where h: "dispatch_table m = Some h" "\<And>p u s. h p u s = Inl TypeError"
    using dispatch_service [OF assms(1)] by blast
  have "collect_step dispatch_table (PStr uid) steps (PDict ps) = Inl TypeError"
    using assms(2,3) h by (simp add: collect_step_def py_simps)
  then have "component_steps dispatch_table uid (PDict [(''state'', PList (pre @ PDict ps # post))]) = Inl TypeError"
    using assms(4) by (simp add: component_steps_def py_for_append py_simps)
  then show ?thesis by simp
qed

theorem service_step_aborts_witness:
  "fst (transfer_components dispatch_table
     [(''web'', PDict [(''state'', PList
        [apt_step ''1'' ''nginx'',
         PDict [(''stateid'', PStr ''2''), (''module'', PStr ''service.upstart''),
                (''parameter'', PDict [(''name'', PStr ''nginx'')])]])])] []) = Some TypeError"
proof -
  have "py_for (collect_step dispatch_table (PStr ''web'')) [apt_step ''1'' ''nginx''] [] =
        Inr [(PStr ''1'', PList [latest_record ''1'' ''nginx''])]"
    by (simp add: program_simps py_simps)
  then show ?thesis
    using service_step_aborts [where pre = "[apt_step ''1'' ''nginx'']" and post = "[]" and cs = "[]" and acc = "[]"
      and m = "''service.upstart''" and uid = "''web''"]
    by simp
qed

text \<open>C20: a well-formed ntp or selinux step passes validation and contributes
  nothing: its handler returns None (neither an error code nor a record) for every
  component and step id, and the step table is left unchanged.\<close>

theorem validate_only_steps_dropped:
  assumes "m \<in> {''sys.ntp'', ''sys.selinux''}"
    and "map_of ps ''stateid'' = Some st"
    and "map_of ps ''module'' = Some (PStr m)"
    and "map_of ps ''parameter'' \<noteq> None"
  shows "(\<exists>h. dispatch_table m = Some h \<and> (\<forall>u s. h (PDict ps) u s = Inr PNone)) \<and>
         collect_step dispatch_table uid steps (PDict ps) = Inr steps"
proof -
  obtain h where h: "dispatch_table m = Some h"
      "\<And>ps u s. map_of ps ''parameter'' \<noteq> None \<Longrightarrow> h (PDict ps) u s = Inr PNone"
    using dispatch_validate_only [OF assms(1)] by blast
  then show ?thesis
    using assms(2-4) by (simp add: collect_step_def py_simps)
qed

theorem validate_only_steps_dropped_witness:
  "(\<exists>h. dispatch_table ''sys.ntp'' = Some h \<and>
        (\<forall>u s. h (PDict [(''stateid'', PStr ''2''), (''module'', PStr ''sys.ntp''),
                         (''parameter'', PDict [(''server'', PStr ''pool.ntp.org'')])]) u s = Inr PNone)) \<and>
   collect_step dispatch_table (PStr ''web'') [(PStr ''1'', PList [latest_record ''1'' ''nginx''])]
     (PDict [(''stateid'', PStr ''2''), (''module'', PStr ''sys.ntp''),
             (''parameter'', PDict [(''server'', PStr ''pool.ntp.org'')])]) =
   Inr [(PStr ''1'', PList [latest_record ''1'' ''nginx''])]"
  by (rule validate_only_steps_dropped) auto

end
